(* ===== verification/Prelude.thy ===== *)
theory Prelude
  imports Main
begin

text \<open>
  What every component of the model shares: the result type that carries the C++ exceptions and
  the undefined behaviour of the source as values, the sequencing of fallible steps, the reads of
  \<open>std::string\<close> and \<open>std::vector\<close> (with their out of range cases written out), the
  C conversions between \<open>char\<close>, \<open>unsigned char\<close> and \<open>int\<close>, and the number
  printing of \<open>std::to_string\<close> and \<open>sprintf\<close>.  A string is a list of bytes.  Lengths
  and indices are natural numbers: the source keeps them in an \<open>int\<close>, so the model describes it
  on strings shorter than 2 GiB.
\<close>

named_theorems res_simps \<open>computation rules of the result type and of sequences of steps\<close>
named_theorems text_simps \<open>facts about the text produced by the printers\<close>

section \<open>Results: exceptions and undefined behaviour as values\<close>

text \<open>
  \<open>Out_of_range\<close>, \<open>Length_error\<close> and \<open>Logic_error\<close> are the exceptions of the
  standard library, \<open>Thrown\<close> is a \<open>throw\<close> of a C string, \<open>Undefined_behaviour\<close>
  is a read outside of an object or of an indeterminate scalar.
\<close>

datatype cpp_error =
    Out_of_range
  | Length_error
  | Logic_error
  | Thrown string
  | Undefined_behaviour

type_synonym 'a result = "cpp_error + 'a"

definition bindR :: "'a result \<Rightarrow> ('a \<Rightarrow> 'b result) \<Rightarrow> 'b result" where
  "bindR r f = (case r of Inl e \<Rightarrow> Inl e | Inr x \<Rightarrow> f x)"

lemma bindR_simps [simp, res_simps]:
  "bindR (Inl e) f = Inl e"
  "bindR (Inr x) f = f x"
  by (simp_all add: bindR_def)

lemma bindR_assoc [res_simps]: "bindR (bindR r f) g = bindR r (\<lambda>x. bindR (f x) g)"
  by (cases r) simp_all

lemma bindR_Inr_right [simp]: "bindR r Inr = r"
  by (cases r) simp_all

lemma bindR_eq_Inr: "bindR r f = Inr y \<longleftrightarrow> (\<exists>x. r = Inr x \<and> f x = Inr y)"
  by (cases r) simp_all

lemma bindR_eq_Inl: "bindR r f = Inl e \<longleftrightarrow> r = Inl e \<or> (\<exists>x. r = Inr x \<and> f x = Inl e)"
  by (cases r) simp_all

lemma bindR_cong [fundef_cong]:
  "r = r' \<Longrightarrow> (\<And>x. r' = Inr x \<Longrightarrow> f x = g x) \<Longrightarrow> bindR r f = bindR r' g"
  by (cases r') simp_all

primrec mapR :: "('a \<Rightarrow> 'b result) \<Rightarrow> 'a list \<Rightarrow> 'b list result" where
  "mapR f [] = Inr []"
| "mapR f (x # xs) = bindR (f x) (\<lambda>y. bindR (mapR f xs) (\<lambda>ys. Inr (y # ys)))"

lemma mapR_cong [fundef_cong]:
  "xs = ys \<Longrightarrow> (\<And>x. x \<in> set ys \<Longrightarrow> f x = g x) \<Longrightarrow> mapR f xs = mapR g ys"
  by (induction ys arbitrary: xs) auto

lemma mapR_append:
  "mapR f (xs @ ys) = bindR (mapR f xs) (\<lambda>us. bindR (mapR f ys) (\<lambda>vs. Inr (us @ vs)))"
  by (induction xs) (auto simp: bindR_assoc bindR_def split: sum.splits)

lemma mapR_total: "(\<And>x. x \<in> set xs \<Longrightarrow> f x = Inr (g x)) \<Longrightarrow> mapR f xs = Inr (map g xs)"
  by (induction xs) auto

section \<open>Sequences of steps on a state\<close>

text \<open>
  Straight line code that mutates one object is a list of steps.  \<open>whenR\<close> is an \<open>if\<close>
  statement without an \<open>else\<close>.
\<close>

primrec seqR :: "('s \<Rightarrow> 's result) list \<Rightarrow> 's \<Rightarrow> 's result" where
  "seqR [] s = Inr s"
| "seqR (f # fs) s = bindR (f s) (seqR fs)"

definition whenR :: "bool \<Rightarrow> ('s \<Rightarrow> 's result) list \<Rightarrow> 's \<Rightarrow> 's result" where
  "whenR b fs s = (if b then seqR fs s else Inr s)"

lemma seqR_append: "seqR (fs @ gs) s = bindR (seqR fs s) (seqR gs)"
  by (induction fs arbitrary: s) (auto simp: bindR_def split: sum.splits)

lemma whenR_simps [simp, res_simps]:
  "whenR True fs s = seqR fs s"
  "whenR False fs s = Inr s"
  by (simp_all add: whenR_def)

text \<open>An invariant that every step keeps holds after the sequence.\<close>

definition keeps :: "('s \<Rightarrow> bool) \<Rightarrow> ('s \<Rightarrow> 's result) \<Rightarrow> bool" where
  "keeps P f \<longleftrightarrow> (\<forall>s t. P s \<longrightarrow> f s = Inr t \<longrightarrow> P t)"

lemma keepsI: "(\<And>s t. P s \<Longrightarrow> f s = Inr t \<Longrightarrow> P t) \<Longrightarrow> keeps P f"
  by (simp add: keeps_def)

lemma keepsD: "keeps P f \<Longrightarrow> f s = Inr t \<Longrightarrow> P s \<Longrightarrow> P t"
  by (auto simp: keeps_def)

lemma keeps_seqR: "\<forall>f \<in> set fs. keeps P f \<Longrightarrow> keeps P (seqR fs)"
proof (induction fs)
  case Nil
  then show ?case by (simp add: keeps_def)
next
  case (Cons f fs)
  show ?case
  proof (rule keepsI)
    fix s t
    assume "P s" and "seqR (f # fs) s = Inr t"
    moreover from this(2) obtain u where "f s = Inr u" "seqR fs u = Inr t"
      by (auto simp: bindR_eq_Inr)
    ultimately show "P t" using Cons by (meson keepsD list.set_intros)
  qed
qed

lemma keeps_whenR: "\<forall>f \<in> set fs. keeps P f \<Longrightarrow> keeps P (whenR b fs)"
  using keeps_seqR [of fs P] by (simp add: keeps_def whenR_def)

section \<open>Reads of strings and vectors\<close>

text \<open>
  \<open>s[i]\<close> of a \<open>std::string\<close> reads the terminating NUL at \<open>i = s.length()\<close> and is
  undefined beyond it; \<open>v[i]\<close> of a \<open>std::vector\<close> is undefined from \<open>v.size()\<close>
  on; \<open>substr\<close> raises \<open>std::out_of_range\<close> when it starts beyond the end.
\<close>

definition char_at :: "string \<Rightarrow> nat \<Rightarrow> char result" where
  "char_at s i = (if i < length s then Inr (s ! i)
     else if i = length s then Inr (CHR 0x00) else Inl Undefined_behaviour)"

definition first_char :: "string \<Rightarrow> char" where
  "first_char s = (case s of [] \<Rightarrow> CHR 0x00 | c # _ \<Rightarrow> c)"

definition vec_at :: "'a list \<Rightarrow> nat \<Rightarrow> 'a result" where
  "vec_at xs i = (if i < length xs then Inr (xs ! i) else Inl Undefined_behaviour)"

definition substr :: "string \<Rightarrow> nat \<Rightarrow> nat \<Rightarrow> string result" where
  "substr s pos n = (if length s < pos then Inl Out_of_range else Inr (take n (drop pos s)))"

text \<open>The difference of two \<open>size_t\<close> values wraps around.\<close>

definition size_t_diff :: "nat \<Rightarrow> nat \<Rightarrow> nat" where
  "size_t_diff a b = (if b \<le> a then a - b else 2 ^ 64 + a - b)"

text \<open>What a reader of \<open>s.c_str()\<close> sees: the bytes in front of the first NUL.\<close>

definition c_str :: "string \<Rightarrow> string" where
  "c_str s = takeWhile (\<lambda>c. c \<noteq> CHR 0x00) s"

lemma c_str_id: "CHR 0x00 \<notin> set s \<Longrightarrow> c_str s = s"
  by (auto simp: c_str_def takeWhile_eq_all_conv)

section \<open>C conversions\<close>

text \<open>\<open>char\<close> is signed on the platforms of the build files.\<close>

definition uchar :: "char \<Rightarrow> int" where
  "uchar c = of_char c"

definition schar :: "char \<Rightarrow> int" where
  "schar c = (if uchar c < 128 then uchar c else uchar c - 256)"

definition to_char :: "int \<Rightarrow> char" where
  "to_char i = char_of (i mod 256)"

text \<open>The \<open>%\<close> of C truncates towards zero.\<close>

definition c_mod :: "int \<Rightarrow> int \<Rightarrow> int" where
  "c_mod a b = sgn a * (\<bar>a\<bar> mod \<bar>b\<bar>)"

definition int32 :: "int \<Rightarrow> bool" where
  "int32 i \<longleftrightarrow> - (2 ^ 31) \<le> i \<and> i < 2 ^ 31"

definition int64 :: "int \<Rightarrow> bool" where
  "int64 i \<longleftrightarrow> - (2 ^ 63) \<le> i \<and> i < 2 ^ 63"

lemma uchar_bounds: "0 \<le> uchar c" "uchar c < 256"
  using pos_mod_sign [of 256 "of_char c :: int"] pos_mod_bound [of 256 "of_char c :: int"]
  by (simp_all add: uchar_def)

lemma to_char_uchar [simp]: "to_char (uchar c) = c"
  using uchar_bounds [of c] by (simp add: to_char_def uchar_def)

lemma uchar_to_char: "0 \<le> i \<Longrightarrow> i < 256 \<Longrightarrow> uchar (to_char i) = i"
  by (simp add: uchar_def to_char_def)

section \<open>Lists\<close>

lemma concat_map_concat: "concat (map f (concat xss)) = concat (map (\<lambda>xs. concat (map f xs)) xss)"
  by (induction xss) simp_all

definition optional :: "bool \<Rightarrow> 'a \<Rightarrow> 'a list" where
  "optional b x = (if b then [x] else [])"

lemma optional_simps [simp]: "optional True x = [x]" "optional False x = []"
  by (simp_all add: optional_def)

lemma map_optional [simp]: "map f (optional b x) = optional b (f x)"
  by (cases b) simp_all

lemma set_optional [simp]:
  "y \<in> set (optional b x) \<longleftrightarrow> b \<and> y = x" "set (optional b x) \<subseteq> A \<longleftrightarrow> (b \<longrightarrow> x \<in> A)"
  "set (optional b x) \<inter> A = {} \<longleftrightarrow> (b \<longrightarrow> x \<notin> A)" "A \<inter> set (optional b x) = {} \<longleftrightarrow> (b \<longrightarrow> x \<notin> A)"
  by (cases b; simp)+

lemma list_all_optional [simp]: "list_all P (optional b x) \<longleftrightarrow> (b \<longrightarrow> P x)"
  by (cases b) simp_all

lemma distinct_optional [simp]: "distinct (optional b x)"
  by (cases b) simp_all

section \<open>Printing numbers\<close>

definition digit_char :: "nat \<Rightarrow> char" where
  "digit_char d = ''0123456789abcdef'' ! d"

fun show_base :: "nat \<Rightarrow> nat \<Rightarrow> string" where
  "show_base b n =
     (if b < 2 \<or> n < b then [digit_char n] else show_base b (n div b) @ [digit_char (n mod b)])"

declare show_base.simps [simp del]

definition show_nat :: "nat \<Rightarrow> string" where
  "show_nat n = show_base 10 n"

text \<open>\<open>std::to_string\<close> of an integer.\<close>

definition show_int :: "int \<Rightarrow> string" where
  "show_int i = (if i < 0 then ''-'' @ show_nat (nat (- i)) else show_nat (nat i))"

text \<open>The conversion \<open>%04x\<close> of an \<open>int\<close>, which is printed as its 32 bit pattern.\<close>

definition hex4 :: "int \<Rightarrow> string" where
  "hex4 i = (let h = show_base 16 (nat (i mod 2 ^ 32)) in replicate (4 - length h) (CHR ''0'') @ h)"

definition is_digit :: "char \<Rightarrow> bool" where
  "is_digit c \<longleftrightarrow> c \<in> set ''0123456789''"

definition digit_val :: "char \<Rightarrow> nat" where
  "digit_val c = of_char c - 48"

definition read_nat :: "string \<Rightarrow> nat" where
  "read_nat = foldl (\<lambda>n c. 10 * n + digit_val c) 0"

lemma read_nat_snoc: "read_nat (s @ [c]) = 10 * read_nat s + digit_val c"
  by (simp add: read_nat_def)

lemma less_10_cases:
  fixes d :: nat
  assumes "d < 10"
  obtains "d = 0" | "d = 1" | "d = 2" | "d = 3" | "d = 4" | "d = 5" | "d = 6" | "d = 7" | "d = 8"
    | "d = 9"
  using assms by (auto simp: numeral_eq_Suc less_Suc_eq)

lemma digit_char_digit: "d < 10 \<Longrightarrow> is_digit (digit_char d) \<and> digit_val (digit_char d) = d"
  by (erule less_10_cases) (simp_all add: digit_char_def is_digit_def digit_val_def)

lemma digit_char_zero: "d < 10 \<Longrightarrow> digit_char d = CHR ''0'' \<longleftrightarrow> d = 0"
  by (erule less_10_cases) (simp_all add: digit_char_def)

lemma show_nat_rec: "show_nat n = (if n < 10 then [digit_char n]
    else show_nat (n div 10) @ [digit_char (n mod 10)])"
  by (simp add: show_nat_def show_base.simps [of 10 n])

lemma show_nat_induct [case_names small step]:
  assumes "\<And>n. n < 10 \<Longrightarrow> P n" and "\<And>n. \<not> n < 10 \<Longrightarrow> P (n div 10) \<Longrightarrow> P n"
  shows "P (n::nat)"
proof (induction n rule: less_induct)
  case (less n)
  then show ?case using assms by (cases "n < 10") auto
qed

lemma read_show_nat [text_simps]: "read_nat (show_nat n) = n"
proof (induction n rule: show_nat_induct)
  case (small n)
  then show ?case by (simp add: show_nat_rec [of n] read_nat_def digit_char_digit)
next
  case (step n)
  then show ?case
    by (simp add: show_nat_rec [of n] read_nat_snoc digit_char_digit)
qed

lemma show_nat_digits [text_simps]: "c \<in> set (show_nat n) \<Longrightarrow> is_digit c"
proof (induction n rule: show_nat_induct)
  case (small n)
  then show ?case by (simp add: show_nat_rec [of n] digit_char_digit)
next
  case (step n)
  then show ?case by (auto simp add: show_nat_rec [of n] digit_char_digit)
qed

lemma show_nat_nonempty [simp]: "show_nat n \<noteq> []"
  by (subst show_nat_rec) simp

lemma hd_show_nat: "hd (show_nat n) = CHR ''0'' \<longleftrightarrow> n = 0"
proof (induction n rule: show_nat_induct)
  case (small n)
  then show ?case by (simp add: show_nat_rec [of n] digit_char_zero)
next
  case (step n)
  then show ?case by (simp add: show_nat_rec [of n] hd_append)
qed

lemma show_nat_0: "show_nat 0 = ''0''"
  by (simp add: show_nat_rec digit_char_def)

section \<open>White space\<close>

definition is_ws :: "char \<Rightarrow> bool" where
  "is_ws c \<longleftrightarrow> c = CHR '' '' \<or> c = CHR 0x09 \<or> c = CHR 0x0A \<or> c = CHR 0x0D"

lemma digit_not_ws: "is_digit c \<Longrightarrow> \<not> is_ws c"
  by (auto simp: is_digit_def is_ws_def)

end
