(* ===== verification/Doubles.thy ===== *)
theory Doubles
  imports Prelude
begin

text \<open>
  The \<open>double\<close> values of the program: finite binary64 numbers as sign, mantissa and binary
  exponent.  The program obtains them from \<open>std::stod\<close> on a token its regular expression
  accepted, from an \<open>int\<close> or a \<open>long long\<close>, or from literals; it compares them with
  small integers, truncates them to \<open>long long\<close> and prints them with the default stream
  format (\<open>%g\<close> with six digits).  Each of these operations of the standard library is
  modelled here on exact integers, rounding to nearest with ties to even.  \<open>std::stod\<close>
  raises \<open>std::out_of_range\<close> when the value overflows, or underflows inexactly.
\<close>

section \<open>Values\<close>

datatype double = Double (d_neg: bool) (d_man: nat) (d_exp: int)

definition d_num :: "double \<Rightarrow> int" where
  "d_num x = (if d_neg x then - 1 else 1) * int (d_man x) * 2 ^ nat (d_exp x)"

definition d_den :: "double \<Rightarrow> int" where
  "d_den x = 2 ^ nat (- d_exp x)"

definition d_ge :: "double \<Rightarrow> int \<Rightarrow> bool" where
  "d_ge x n \<longleftrightarrow> n * d_den x \<le> d_num x"

definition d_le :: "double \<Rightarrow> int \<Rightarrow> bool" where
  "d_le x n \<longleftrightarrow> d_num x \<le> n * d_den x"

definition d_nonzero :: "double \<Rightarrow> bool" where
  "d_nonzero x \<longleftrightarrow> d_man x \<noteq> 0"

text \<open>The conversion to \<open>long long\<close> truncates and is undefined when the result does not fit.\<close>

definition d_trunc :: "double \<Rightarrow> int result" where
  "d_trunc x = (let i = sgn (d_num x) * (\<bar>d_num x\<bar> div d_den x)
     in if int64 i then Inr i else Inl Undefined_behaviour)"

section \<open>Rounding a quotient to a double\<close>

fun bit_length :: "nat \<Rightarrow> nat" where
  "bit_length n = (if n = 0 then 0 else Suc (bit_length (n div 2)))"

declare bit_length.simps [simp del]

definition round_quot :: "nat \<Rightarrow> nat \<Rightarrow> nat" where
  "round_quot a b = (let q = a div b; r = a mod b
     in if 2 * r < b \<or> (2 * r = b \<and> even q) then q else Suc q)"

definition scaled :: "nat \<Rightarrow> nat \<Rightarrow> int \<Rightarrow> nat \<times> nat" where
  "scaled n d e = (n * 2 ^ nat (- e), d * 2 ^ nat e)"

definition double_exponent :: "nat \<Rightarrow> nat \<Rightarrow> int" where
  "double_exponent n d = (let e = int (bit_length n) - int (bit_length d) - 53; (a, b) = scaled n d e
     in if 2 ^ 53 * b \<le> a then e + 1 else e)"

definition nearest_double :: "bool \<Rightarrow> nat \<Rightarrow> nat \<Rightarrow> double result" where
  "nearest_double neg n d =
     (if n = 0 then Inr (Double neg 0 0)
      else
        let e1 = double_exponent n d; e = max e1 (- 1074); (a, b) = scaled n d e;
            m = round_quot a b; m' = (if m = 2 ^ 53 then 2 ^ 52 else m);
            e' = (if m = 2 ^ 53 then e + 1 else e)
        in if 971 < e' \<or> (e1 < - 1074 \<and> a mod b \<noteq> 0) then Inl Out_of_range
           else Inr (Double neg m' e'))"

text \<open>Conversions from the integer types never fail: their values are far from the range's ends.\<close>

definition double_of_int :: "int \<Rightarrow> double" where
  "double_of_int i =
     (case nearest_double (i < 0) (nat \<bar>i\<bar>) 1 of Inr x \<Rightarrow> x | Inl _ \<Rightarrow> Double False 0 0)"

section \<open>Printing with six significant digits\<close>

definition floor_log10 :: "nat \<Rightarrow> nat \<Rightarrow> int" where
  "floor_log10 n d =
     (if d \<le> n then int (length (show_nat (n div d))) - 1
      else - int (length (show_nat ((d + n - 1) div n - 1))))"

definition strip_zeros :: "string \<Rightarrow> string" where
  "strip_zeros s = rev (dropWhile (\<lambda>c. c = CHR ''0'') (rev s))"

definition with_fraction :: "string \<Rightarrow> string \<Rightarrow> string" where
  "with_fraction ip fr = (let fr' = strip_zeros fr in if fr' = [] then ip else ip @ ''.'' @ fr')"

definition show_exponent :: "int \<Rightarrow> string" where
  "show_exponent x =
     (let ds = show_nat (nat \<bar>x\<bar>)
      in ''e'' @ (if x < 0 then ''-'' else ''+'') @ replicate (2 - length ds) (CHR ''0'') @ ds)"

text \<open>The six digits and the decimal exponent of a positive quotient, after rounding.\<close>

definition six_digits :: "nat \<Rightarrow> nat \<Rightarrow> nat \<times> int" where
  "six_digits n d =
     (let x = floor_log10 n d; m = round_quot (n * 10 ^ nat (5 - x)) (d * 10 ^ nat (x - 5))
      in if m = 10 ^ 6 then (10 ^ 5, x + 1) else (m, x))"

definition show_g :: "nat \<Rightarrow> int \<Rightarrow> string" where
  "show_g m x =
     (let ds = show_nat m
      in if - 4 \<le> x \<and> x < 6 then
           (if 0 \<le> x then with_fraction (take (nat x + 1) ds) (drop (nat x + 1) ds)
            else with_fraction ''0'' (replicate (nat (- x) - 1) (CHR ''0'') @ ds))
         else with_fraction (take 1 ds) (drop 1 ds) @ show_exponent x)"

definition show_double :: "double \<Rightarrow> string" where
  "show_double x =
     (if d_neg x then ''-'' else '''') @
     (if d_man x = 0 then ''0''
      else (case six_digits (nat \<bar>d_num x\<bar>) (nat (d_den x)) of (m, e) \<Rightarrow> show_g m e))"

section \<open>Number tokens\<close>

text \<open>
  The token that the regular expression of \<open>json_value::parse\<close> accepts, by its capture groups:
  the sign, the integer digits, the digits after the point and the exponent.
\<close>

record number_token =
  nt_neg :: bool
  nt_int :: string
  nt_frac :: "string option"
  nt_exp :: "(bool \<times> string) option"

definition stod :: "number_token \<Rightarrow> double result" where
  "stod t =
     (let fr = (case nt_frac t of None \<Rightarrow> [] | Some f \<Rightarrow> f);
          e = (case nt_exp t of None \<Rightarrow> 0 | Some (neg, ds) \<Rightarrow>
                 (if neg then - int (read_nat ds) else int (read_nat ds)));
          k = e - int (length fr);
          n = read_nat (nt_int t @ fr)
      in nearest_double (nt_neg t) (n * 10 ^ nat k) (10 ^ nat (- k)))"

definition stoll :: "number_token \<Rightarrow> int result" where
  "stoll t =
     (let i = (if nt_neg t then - int (read_nat (nt_int t)) else int (read_nat (nt_int t)))
      in if int64 i then Inr i else Inl Out_of_range)"

end
