(* ===== verification/JsonValue.thy ===== *)
theory JsonValue
  imports Doubles
begin

text \<open>
  The classes \<open>json_object\<close> and \<open>json_value\<close> of generate_libs/make_json.h and
  make_json.cpp, without the parser: the fields, the constructors, \<open>operator[]\<close>, the
  readers \<open>lick\<close> and \<open>ding\<close>, and the printer \<open>get_repr\<close>.  A scalar field a
  constructor leaves uninitialised is \<open>None\<close>; reading it is undefined behaviour.
  The last sections model the statements of the generators that write through chains of
  \<open>val_object[..]\<close> and \<open>val_list[..]\<close>, and their laws.
\<close>

section \<open>The object template\<close>

text \<open>
  \<open>json_object\<close> keeps its members in insertion order.  \<open>operator[]\<close> scans for the first
  member of that name and, without one, appends \<open>jso()\<close>, here the parameter \<open>d\<close>.
  \<open>obj_index\<close> is the object and the element after a read through the reference,
  \<open>obj_updR\<close> the object after a write through it.
\<close>

type_synonym 'v json_object = "(string \<times> 'v) list"

fun obj_get :: "'v \<Rightarrow> string \<Rightarrow> 'v json_object \<Rightarrow> 'v" where
  "obj_get d k [] = d"
| "obj_get d k ((n, v) # o') = (if n = k then v else obj_get d k o')"

fun obj_updR :: "'v \<Rightarrow> string \<Rightarrow> ('v \<Rightarrow> 'v result) \<Rightarrow> 'v json_object \<Rightarrow> 'v json_object result" where
  "obj_updR d k f [] = bindR (f d) (\<lambda>v. Inr [(k, v)])"
| "obj_updR d k f ((n, v) # o') =
     (if n = k then bindR (f v) (\<lambda>w. Inr ((n, w) # o'))
      else bindR (obj_updR d k f o') (\<lambda>o''. Inr ((n, v) # o'')))"

fun obj_put :: "string \<Rightarrow> 'v \<Rightarrow> 'v json_object \<Rightarrow> 'v json_object" where
  "obj_put k w [] = [(k, w)]"
| "obj_put k w ((n, v) # o') = (if n = k then (n, w) # o' else (n, v) # obj_put k w o')"

definition obj_index :: "'v \<Rightarrow> string \<Rightarrow> 'v json_object \<Rightarrow> 'v \<times> 'v json_object" where
  "obj_index d k o' = (let v = obj_get d k o' in (v, obj_put k v o'))"

definition obj_keys :: "'v json_object \<Rightarrow> string list" where
  "obj_keys o' = map fst o'"

lemma obj_keys_simps:
  "obj_keys [] = []" "obj_keys (kv # o') = fst kv # obj_keys o'"
  "obj_keys (o1 @ o2) = obj_keys o1 @ obj_keys o2"
  by (simp_all add: obj_keys_def)

lemma obj_keys_optional [simp]: "obj_keys (optional b (k, v)) = optional b k"
  by (simp add: obj_keys_def)

lemma obj_updR_eq: "obj_updR d k f o' = bindR (f (obj_get d k o')) (\<lambda>w. Inr (obj_put k w o'))"
  by (induction o' rule: obj_get.induct [of _ d k]) (auto simp: bindR_def split: sum.splits)

lemma obj_put_keys: "set (obj_keys (obj_put k w o')) = insert k (set (obj_keys o'))"
  by (induction k w o' rule: obj_put.induct) (auto simp: obj_keys_def)

lemma obj_put_distinct: "distinct (obj_keys o') \<Longrightarrow> distinct (obj_keys (obj_put k w o'))"
proof (induction k w o' rule: obj_put.induct)
  case (2 k w n v o')
  then show ?case using obj_put_keys [of k w o'] by (auto simp: obj_keys_def)
qed (simp add: obj_keys_def)

lemma obj_put_id: "k \<in> set (obj_keys o') \<Longrightarrow> obj_put k (obj_get d k o') o' = o'"
  by (induction o' rule: obj_get.induct [of _ d k]) (auto simp: obj_keys_def)

section \<open>Stores indexed by keys\<close>

text \<open>
  What the clients of \<open>operator[]\<close> rely on, whichever container provides it: a read after a
  write.  The container may be a \<open>json_object\<close> or the \<open>std::map\<close> of the command
  parameters and of the configuration.  The client's loop \<open>for (kv : pairs) m[kv.first] =
  kv.second;\<close> is \<open>put_all\<close>; its meaning is proved once here.
\<close>

locale keyed_store =
  fixes get :: "'k \<Rightarrow> 's \<Rightarrow> 'v"
    and put :: "'k \<Rightarrow> 'v \<Rightarrow> 's \<Rightarrow> 's"
  assumes get_put_same: "get k (put k v s) = v"
    and get_put_other: "k \<noteq> k' \<Longrightarrow> get k (put k' v s) = get k s"
begin

lemma get_put: "get k (put k' v s) = (if k = k' then v else get k s)"
  by (simp add: get_put_same get_put_other)

text \<open>A loop of assignments leaves the last value written for each key.\<close>

lemma get_put_all:
  "get k (fold (\<lambda>(n, v). put n v) kvs s)
     = (case map_of (rev kvs) k of None \<Rightarrow> get k s | Some v \<Rightarrow> v)"
proof (induction kvs arbitrary: s)
  case Nil
  then show ?case by simp
next
  case (Cons kv kvs)
  obtain n v where kv: "kv = (n, v)" by (cases kv)
  have "get k (fold (\<lambda>(n, v). put n v) kvs (put n v s))
      = (case map_of (rev kvs) k of None \<Rightarrow> get k (put n v s) | Some v \<Rightarrow> v)"
    by (rule Cons.IH)
  then show ?case
    by (auto simp: kv get_put map_add_def split: option.splits)
qed

lemma get_put_all_fresh:
  "k \<notin> fst ` set kvs \<Longrightarrow> get k (fold (\<lambda>(n, v). put n v) kvs s) = get k s"
proof -
  assume "k \<notin> fst ` set kvs"
  then have "map_of (rev kvs) k = None" by (simp add: map_of_eq_None_iff)
  then show ?thesis by (simp add: get_put_all)
qed

end

interpretation json_obj: keyed_store "obj_get d" obj_put for d
proof unfold_locales
  fix k :: string and d v :: 'a and s
  show "obj_get d k (obj_put k v s) = v"
    by (induction k v s rule: obj_put.induct) auto
next
  fix k k' :: string and d v :: 'a and s
  assume "k \<noteq> k'"
  then show "obj_get d k (obj_put k' v s) = obj_get d k s"
    by (induction k' v s rule: obj_put.induct) auto
qed

text \<open>The same interface on \<open>std::map\<close>, whose \<open>operator[]\<close> inserts a default value.\<close>

definition map_get :: "'v \<Rightarrow> string \<Rightarrow> (string \<Rightarrow> 'v option) \<Rightarrow> 'v" where
  "map_get d k m = (case m k of None \<Rightarrow> d | Some v \<Rightarrow> v)"

definition map_put :: "string \<Rightarrow> 'v \<Rightarrow> (string \<Rightarrow> 'v option) \<Rightarrow> string \<Rightarrow> 'v option" where
  "map_put k v m = m(k \<mapsto> v)"

interpretation std_map: keyed_store "map_get d" map_put for d
  by unfold_locales (simp_all add: map_get_def map_put_def)

section \<open>The value class\<close>

datatype json_value =
  JV (val_type: int)
     (val_int: "int option")
     (val_llint: "int option")
     (val_float: "double option")
     (val_string: string)
     (val_list: "json_value list")
     (val_object: "(string \<times> json_value) list")

definition set_val_int :: "int \<Rightarrow> json_value \<Rightarrow> json_value" where
  "set_val_int i v = JV (val_type v) (Some i) (val_llint v) (val_float v) (val_string v)
     (val_list v) (val_object v)"

definition set_val_type :: "int \<Rightarrow> json_value \<Rightarrow> json_value" where
  "set_val_type t v = JV t (val_int v) (val_llint v) (val_float v) (val_string v)
     (val_list v) (val_object v)"

definition set_val_list :: "json_value list \<Rightarrow> json_value \<Rightarrow> json_value" where
  "set_val_list xs v = JV (val_type v) (val_int v) (val_llint v) (val_float v) (val_string v)
     xs (val_object v)"

definition set_val_object :: "(string \<times> json_value) list \<Rightarrow> json_value \<Rightarrow> json_value" where
  "set_val_object o' v = JV (val_type v) (val_int v) (val_llint v) (val_float v) (val_string v)
     (val_list v) o'"

lemma set_sel [simp]:
  "val_type (set_val_int i v) = val_type v" "val_int (set_val_int i v) = Some i"
  "val_llint (set_val_int i v) = val_llint v" "val_float (set_val_int i v) = val_float v"
  "val_string (set_val_int i v) = val_string v" "val_list (set_val_int i v) = val_list v"
  "val_object (set_val_int i v) = val_object v"
  "val_type (set_val_type t v) = t" "val_int (set_val_type t v) = val_int v"
  "val_llint (set_val_type t v) = val_llint v" "val_float (set_val_type t v) = val_float v"
  "val_string (set_val_type t v) = val_string v" "val_list (set_val_type t v) = val_list v"
  "val_object (set_val_type t v) = val_object v"
  "val_type (set_val_list xs v) = val_type v" "val_int (set_val_list xs v) = val_int v"
  "val_llint (set_val_list xs v) = val_llint v" "val_float (set_val_list xs v) = val_float v"
  "val_string (set_val_list xs v) = val_string v" "val_list (set_val_list xs v) = xs"
  "val_object (set_val_list xs v) = val_object v"
  "val_type (set_val_object o' v) = val_type v" "val_int (set_val_object o' v) = val_int v"
  "val_llint (set_val_object o' v) = val_llint v" "val_float (set_val_object o' v) = val_float v"
  "val_string (set_val_object o' v) = val_string v" "val_list (set_val_object o' v) = val_list v"
  "val_object (set_val_object o' v) = o'"
  by (simp_all add: set_val_int_def set_val_type_def set_val_list_def set_val_object_def)

text \<open>The nine constructors.\<close>

definition jv_default :: json_value where
  "jv_default = JV 0 (Some 0) None None [] [] []"

definition jv_int :: "int \<Rightarrow> json_value" where
  "jv_int n = JV 0 (Some n) None None [] [] []"

definition jv_string :: "string \<Rightarrow> json_value" where
  "jv_string s = JV 1 None None None s [] []"

definition jv_cstring :: "string \<Rightarrow> json_value" where
  "jv_cstring s = JV 1 None None None s [] []"

definition jv_list :: "json_value list \<Rightarrow> json_value" where
  "jv_list l = JV 2 None None None [] l []"

definition jv_object :: "(string \<times> json_value) list \<Rightarrow> json_value" where
  "jv_object o' = JV 3 None None None [] [] o'"

definition jv_bool :: "bool \<Rightarrow> json_value" where
  "jv_bool n = JV 4 (Some (if n then 1 else 0)) None None [] [] []"

definition jv_double :: "double \<Rightarrow> json_value" where
  "jv_double d = JV 5 None None (Some d) [] [] []"

definition jv_llint :: "int \<Rightarrow> json_value" where
  "jv_llint n = JV 6 None (Some n) None [] [] []"

lemmas jv_defs = jv_default_def jv_int_def jv_string_def jv_cstring_def jv_list_def
  jv_object_def jv_bool_def jv_double_def jv_llint_def

text \<open>Reading a scalar field that no constructor initialised is undefined.\<close>

definition read_field :: "'a option \<Rightarrow> 'a result" where
  "read_field x = (case x of None \<Rightarrow> Inl Undefined_behaviour | Some y \<Rightarrow> Inr y)"

lemma read_field_simps [simp, res_simps]:
  "read_field None = Inl Undefined_behaviour" "read_field (Some y) = Inr y"
  by (simp_all add: read_field_def)

text \<open>A number as \<open>long long\<close> and as \<open>double\<close>.\<close>

definition lick :: "json_value \<Rightarrow> int result" where
  "lick v =
     (if val_type v = 0 then read_field (val_int v)
      else if val_type v = 5 then bindR (read_field (val_float v)) d_trunc
      else read_field (val_llint v))"

definition ding :: "json_value \<Rightarrow> double result" where
  "ding v =
     (if val_type v = 0 then bindR (read_field (val_int v)) (\<lambda>i. Inr (double_of_int i))
      else if val_type v = 6 then bindR (read_field (val_llint v)) (\<lambda>i. Inr (double_of_int i))
      else read_field (val_float v))"

section \<open>The printer\<close>

text \<open>\<open>indent_json\<close>: a tab after every line feed that stands before the last two characters.\<close>

fun indent_json :: "string \<Rightarrow> string" where
  "indent_json [] = []"
| "indent_json (c # s) =
     (if c = CHR 0x0A \<and> 2 \<le> length s then [CHR 0x0A, CHR 0x09] else [c]) @ indent_json s"

definition escape_char :: "char \<Rightarrow> string" where
  "escape_char c =
     (if c = CHR 0x08 then [CHR 0x5C, CHR ''b'']
      else if c = CHR 0x0C then [CHR 0x5C, CHR ''f'']
      else if c = CHR 0x0A then [CHR 0x5C, CHR ''n'']
      else if c = CHR 0x0D then [CHR 0x5C, CHR ''r'']
      else if c = CHR 0x09 then [CHR 0x5C, CHR ''t'']
      else if c = CHR 0x0B then [CHR 0x5C, CHR ''v'']
      else if c = CHR 0x22 then [CHR 0x5C, CHR 0x22]
      else if c = CHR 0x5C then [CHR 0x5C, CHR 0x5C]
      else if 0 < schar c \<and> schar c < 32 then [CHR 0x5C, CHR ''u''] @ hex4 (schar c)
      else [c])"

definition quote :: "string \<Rightarrow> string" where
  "quote s = [CHR 0x22] @ concat (map escape_char s) @ [CHR 0x22]"

text \<open>The elements of a container, each but the last followed by a comma and a line feed.\<close>

fun comma_lines :: "string list \<Rightarrow> string" where
  "comma_lines [] = []"
| "comma_lines [x] = x"
| "comma_lines (x # y # ys) = x @ [CHR '','', CHR 0x0A] @ comma_lines (y # ys)"

lemma size_member [termination_simp]:
  "kv \<in> set (val_object v) \<Longrightarrow> size (snd kv) < size v"
proof (cases v)
  case (JV t i l f s xs o')
  assume "kv \<in> set (val_object v)"
  with JV have "kv \<in> set o'" by simp
  then have "size (snd kv) < size_list (size_prod (\<lambda>_. 0) size) o'"
    by (rule size_list_estimation) (simp add: size_prod_simp)
  with JV show ?thesis by simp
qed

lemma size_element [termination_simp]: "w \<in> set (val_list v) \<Longrightarrow> size w < size v"
proof (cases v)
  case (JV t i l f s xs o')
  assume "w \<in> set (val_list v)"
  with JV have "w \<in> set xs" by simp
  then have "size w < Suc (size_list size xs)" by (induction xs) auto
  with JV show ?thesis by simp
qed

definition show_bool :: "int \<Rightarrow> string" where
  "show_bool i = (if i = - 1 then ''null'' else if i = 0 then ''false'' else if i = 1 then ''true''
     else '''')"

definition show_field :: "('a \<Rightarrow> string) \<Rightarrow> 'a option \<Rightarrow> string" where
  "show_field f x = (case x of None \<Rightarrow> '''' | Some y \<Rightarrow> f y)"

text \<open>
  \<open>repr\<close> is the text \<open>get_repr\<close> builds; \<open>get_repr\<close> returns it when every scalar
  the printer reads is initialised, which \<open>readable\<close> decides.
\<close>

function repr :: "json_value \<Rightarrow> string" where
  "repr v = indent_json
     (if val_type v = 0 then show_field show_int (val_int v)
      else if val_type v = 1 then quote (val_string v)
      else if val_type v = 2 then
        [CHR ''['', CHR 0x0A] @ comma_lines (map repr (val_list v)) @ [CHR 0x0A, CHR '']'']
      else if val_type v = 3 then
        [CHR ''{'', CHR 0x0A] @
        comma_lines (map (\<lambda>kv. indent_json (quote (fst kv)) @ '': '' @ repr (snd kv)) (val_object v)) @
        [CHR 0x0A, CHR ''}'']
      else if val_type v = 4 then show_field show_bool (val_int v)
      else if val_type v = 5 then show_field show_double (val_float v)
      else if val_type v = 6 then show_field show_int (val_llint v)
      else '''')"
  by pat_completeness auto
termination
  by (relation "measure size") (auto simp: size_member size_element)

declare repr.simps [simp del]

function readable :: "json_value \<Rightarrow> bool" where
  "readable v =
     ((val_type v = 0 \<longrightarrow> val_int v \<noteq> None) \<and>
      (val_type v = 2 \<longrightarrow> list_all readable (val_list v)) \<and>
      (val_type v = 3 \<longrightarrow> list_all (\<lambda>kv. readable (snd kv)) (val_object v)) \<and>
      (val_type v = 4 \<longrightarrow> val_int v \<noteq> None) \<and>
      (val_type v = 5 \<longrightarrow> val_float v \<noteq> None) \<and>
      (val_type v = 6 \<longrightarrow> val_llint v \<noteq> None))"
  by pat_completeness auto
termination
  by (relation "measure size") (auto simp: size_member size_element)

declare readable.simps [simp del]

definition get_repr :: "json_value \<Rightarrow> string result" where
  "get_repr v = (if readable v then Inr (repr v) else Inl Undefined_behaviour)"

end
