(* ===== verification/JsonParse.thy ===== *)
theory JsonParse
  imports JsonValue
begin

text \<open>
  The parser of generate_libs/make_json.cpp: \<open>strip\<close>, \<open>hex_to_int\<close>, \<open>unescapify\<close> and
  \<open>parse\<close>.  A loop over an index of a string is a recursion over the rest of the string from
  that index on, so the guard \<open>i < l-1\<close> reads "at least two characters are left".
\<close>

section \<open>Trimming\<close>

text \<open>
  The two scans of \<open>strip\<close>: \<open>strip_begin\<close> is the final value of \<open>begin\<close>,
  \<open>strip_end\<close> that of \<open>end\<close>, which is \<open>-1\<close> when the scan runs off the front.
\<close>

fun strip_begin :: "string \<Rightarrow> int" where
  "strip_begin [] = 0"
| "strip_begin (c # s) = (if is_ws c then 1 + strip_begin s else 0)"

definition strip_end :: "string \<Rightarrow> int" where
  "strip_end s = int (length (dropWhile is_ws (rev s))) - 1"

definition strip :: "string \<Rightarrow> string" where
  "strip s = (let b = strip_begin s; e = strip_end s
     in if e < b then '''' else take (nat (e - b + 1)) (drop (nat b) s))"

section \<open>Escape sequences\<close>

definition hex_digit_of :: "char \<Rightarrow> int" where
  "hex_digit_of c =
     (case find (\<lambda>i. ''0123456789ABCDEF'' ! i = c) [0..<16] of Some i \<Rightarrow> int i
      | None \<Rightarrow> (case find (\<lambda>i. ''0123456789abcdef'' ! i = c) [0..<16] of Some i \<Rightarrow> int i | None \<Rightarrow> - 1))"

text \<open>The loop runs from the last character down to the first.\<close>

definition hex_to_int :: "string \<Rightarrow> int" where
  "hex_to_int s = foldl (\<lambda>r c. r * 16 + hex_digit_of c) 0 (rev s)"

text \<open>
  One step of \<open>unescapify\<close> at a backslash, with the rest \<open>s\<close> of the string behind the
  character that follows it.  In the case \<open>u\<close> a first half \<open>p1\<close> with
  \<open>p1>>10 == 54\<close> appends one character made of two halves; every other value appends nothing.
  The four hexadecimal digits are not skipped.
\<close>

definition unescape_step :: "char \<Rightarrow> string \<Rightarrow> string result" where
  "unescape_step c s =
     (if c = CHR 0x22 then Inr [CHR 0x22]
      else if c = CHR 0x5C then Inr [CHR 0x5C]
      else if c = CHR ''/'' then Inr ''/''
      else if c = CHR ''b'' then Inr [CHR 0x08]
      else if c = CHR ''f'' then Inr [CHR 0x0C]
      else if c = CHR ''n'' then Inr [CHR 0x0A]
      else if c = CHR ''r'' then Inr [CHR 0x0D]
      else if c = CHR ''t'' then Inr [CHR 0x09]
      else if c = CHR ''u'' then
        (let p1 = hex_to_int (take 4 s)
         in if p1 div 1024 = 54 then
              bindR (substr s 6 4)
                (\<lambda>h. Inr [to_char (c_mod p1 1024 * 1024 + c_mod (hex_to_int h) 1024)])
            else Inr [])
      else Inr [CHR 0x5C])"

fun unescapify :: "string \<Rightarrow> string result" where
  "unescapify [] = Inr []"
| "unescapify [c] = Inr [c]"
| "unescapify (c # d # s) =
     (if c = CHR 0x5C then bindR (unescape_step d s) (\<lambda>r. bindR (unescapify s) (\<lambda>r'. Inr (r @ r')))
      else bindR (unescapify (d # s)) (\<lambda>r'. Inr (c # r')))"

section \<open>The number token\<close>

text \<open>
  The full match of \<open>(-)?(0|[1-9][0-9]*)(\\.[0-9]+)?([eE][-+]?[0-9]+)?\<close>, with its groups.
\<close>

definition scan_int :: "string \<Rightarrow> (string \<times> string) option" where
  "scan_int s = (let ds = takeWhile is_digit s; r = dropWhile is_digit s
     in if ds = [] \<or> (hd ds = CHR ''0'' \<and> tl ds \<noteq> []) then None else Some (ds, r))"

definition scan_frac :: "string \<Rightarrow> (string option \<times> string) option" where
  "scan_frac s =
     (case s of
        c # s' \<Rightarrow>
          if c = CHR ''.'' then
            (let ds = takeWhile is_digit s'
             in if ds = [] then None else Some (Some ds, dropWhile is_digit s'))
          else Some (None, s)
      | [] \<Rightarrow> Some (None, s))"

definition scan_exp :: "string \<Rightarrow> ((bool \<times> string) option \<times> string) option" where
  "scan_exp s =
     (case s of
        c # s' \<Rightarrow>
          if c = CHR ''e'' \<or> c = CHR ''E'' then
            (let neg = (s' \<noteq> [] \<and> hd s' = CHR ''-'');
                 s'' = (if s' \<noteq> [] \<and> (hd s' = CHR ''-'' \<or> hd s' = CHR ''+'') then tl s' else s');
                 ds = takeWhile is_digit s''
             in if ds = [] then None else Some (Some (neg, ds), dropWhile is_digit s''))
          else Some (None, s)
      | [] \<Rightarrow> Some (None, s))"

definition scan_number :: "string \<Rightarrow> number_token option" where
  "scan_number s =
     (let neg = (s \<noteq> [] \<and> hd s = CHR ''-''); s1 = (if neg then tl s else s)
      in case scan_int s1 of None \<Rightarrow> None | Some (ip, s2) \<Rightarrow>
         case scan_frac s2 of None \<Rightarrow> None | Some (fr, s3) \<Rightarrow>
         case scan_exp s3 of None \<Rightarrow> None | Some (ex, s4) \<Rightarrow>
           if s4 = [] then Some \<lparr>nt_neg = neg, nt_int = ip, nt_frac = fr, nt_exp = ex\<rparr> else None)"

text \<open>The value of an accepted number: double, 64 bit or 32 bit.  \<open>parse\<close> starts from
  \<open>json_value()\<close>, so the fields it does not set are those of that constructor.\<close>

definition number_value :: "number_token \<Rightarrow> json_value result" where
  "number_value t =
     (if nt_frac t \<noteq> None \<or> nt_exp t \<noteq> None then
        bindR (stod t) (\<lambda>d. Inr (JV 5 (Some 0) None (Some d) [] [] []))
      else
        bindR (stoll t) (\<lambda>i. Inr (if i \<le> 2147483647 \<and> - 2147483648 \<le> i
          then JV 0 (Some i) (Some i) None [] [] [] else JV 6 (Some 0) (Some i) None [] [] [])))"

section \<open>Splitting a container at its separators\<close>

text \<open>
  The state of the loops in \<open>parse\<close>: the two texts being collected, which of them is current,
  the nesting counters and the string flag.  The counters also move inside of string literals.
\<close>

record scan_state =
  is_parsing_name :: bool
  name_parse :: string
  to_parse :: string
  in_object :: int
  in_list :: int
  in_string :: bool

definition scan_init :: scan_state where
  "scan_init = \<lparr>is_parsing_name = True, name_parse = [], to_parse = [], in_object = 0,
     in_list = 0, in_string = False\<rparr>"

definition collect :: "char \<Rightarrow> scan_state \<Rightarrow> scan_state" where
  "collect c st = (if is_parsing_name st then st\<lparr>name_parse := name_parse st @ [c]\<rparr>
     else st\<lparr>to_parse := to_parse st @ [c]\<rparr>)"

definition toggle_string :: "char \<Rightarrow> scan_state \<Rightarrow> scan_state" where
  "toggle_string c st = (if c = CHR 0x22 then st\<lparr>in_string := \<not> in_string st\<rparr> else st)"

definition count_brackets :: "char \<Rightarrow> scan_state \<Rightarrow> scan_state" where
  "count_brackets c st =
     (if c = CHR ''{'' then st\<lparr>in_object := in_object st + 1\<rparr>
      else if c = CHR ''}'' then st\<lparr>in_object := in_object st - 1\<rparr>
      else if c = CHR ''['' then st\<lparr>in_list := in_list st + 1\<rparr>
      else if c = CHR '']'' then st\<lparr>in_list := in_list st - 1\<rparr>
      else st)"

text \<open>
  The body of the object loop after the escape test, on the current character.  A member that the
  separator completes is handed out with the state in which the loop goes on.
\<close>

definition object_char :: "char \<Rightarrow> scan_state \<Rightarrow> (string \<times> string) list \<times> scan_state" where
  "object_char c st0 =
     (let st = count_brackets c st0
      in if c = CHR '':'' \<and> in_object st = 0 \<and> \<not> in_string st \<and> is_parsing_name st then
           ([], st\<lparr>is_parsing_name := False\<rparr>)
         else if c = CHR '','' \<and> in_object st = 0 \<and> in_list st = 0 \<and> \<not> in_string st then
           ([(name_parse st, to_parse st)],
            st\<lparr>name_parse := [], to_parse := [], is_parsing_name := True\<rparr>)
         else ([], collect c st))"

fun object_loop :: "string \<Rightarrow> scan_state \<Rightarrow> (string \<times> string) list" where
  "object_loop (c # d # s) st0 =
     (let st = toggle_string c st0
      in if c = CHR 0x5C then
           (case object_char d (collect c st) of (out, st') \<Rightarrow> out @ object_loop s st')
         else (case object_char c st of (out, st') \<Rightarrow> out @ object_loop (d # s) st'))"
| "object_loop _ st = [(name_parse st, to_parse st)]"

text \<open>The list loop; it does not ask whether a comma stands inside of a string literal.\<close>

definition list_char :: "char \<Rightarrow> scan_state \<Rightarrow> string list \<times> scan_state" where
  "list_char c st0 =
     (let st = count_brackets c st0
      in if c = CHR '','' \<and> in_object st = 0 \<and> in_list st = 0 then
           ([to_parse st], st\<lparr>to_parse := []\<rparr>)
         else ([], st\<lparr>to_parse := to_parse st @ [c]\<rparr>))"

fun list_loop :: "string \<Rightarrow> scan_state \<Rightarrow> string list" where
  "list_loop (c # d # s) st0 =
     (let st = toggle_string c st0
      in if c = CHR 0x5C then
           (case list_char d (st\<lparr>to_parse := to_parse st @ [c]\<rparr>) of (out, st') \<Rightarrow> out @ list_loop s st')
         else (case list_char c st of (out, st') \<Rightarrow> out @ list_loop (d # s) st'))"
| "list_loop _ st = (if to_parse st \<noteq> [] then [to_parse st] else [])"

text \<open>Every collected text is shorter than the container it was cut from.\<close>

definition pending :: "scan_state \<Rightarrow> nat" where
  "pending st = length (name_parse st) + length (to_parse st)"

lemma pending_simps:
  "pending (toggle_string c st) = pending st" "pending (count_brackets c st) = pending st"
  "pending (collect c st) = Suc (pending st)"
  by (simp_all add: pending_def toggle_string_def count_brackets_def collect_def)

lemma object_char_pending:
  "object_char c st = (out, st') \<Longrightarrow> pending st' \<le> Suc (pending st) \<and>
     (\<forall>(n, t) \<in> set out. length n + length t \<le> pending st)"
  using pending_simps(2) [of c st] pending_simps(3) [of c "count_brackets c st"]
  by (auto simp: object_char_def Let_def pending_def split: if_splits)

lemma object_loop_length:
  "(n, t) \<in> set (object_loop s st) \<Longrightarrow> length n + length t \<le> pending st + length s"
proof (induction s st rule: object_loop.induct)
  case (1 c d s st0)
  show ?case
  proof (cases "c = CHR 0x5C")
    case True
    obtain out st' where oc: "object_char d (collect c (toggle_string c st0)) = (out, st')"
      by (cases "object_char d (collect c (toggle_string c st0))")
    with True "1.prems" have "(n, t) \<in> set out \<or> (n, t) \<in> set (object_loop s st')" by simp
    moreover note object_char_pending [OF oc] "1.IH"(1) [OF refl True oc [symmetric]]
    ultimately show ?thesis by (auto simp: pending_simps split: if_splits)
  next
    case False
    obtain out st' where oc: "object_char c (toggle_string c st0) = (out, st')"
      by (cases "object_char c (toggle_string c st0)")
    with False "1.prems" have "(n, t) \<in> set out \<or> (n, t) \<in> set (object_loop (d # s) st')" by simp
    moreover note object_char_pending [OF oc] "1.IH"(2) [OF refl False oc [symmetric]]
    ultimately show ?thesis by (auto simp: pending_simps split: if_splits)
  qed
qed (auto simp: pending_def)

lemma list_char_pending:
  "list_char c st = (out, st') \<Longrightarrow> length (to_parse st') \<le> Suc (length (to_parse st)) \<and>
     (\<forall>t \<in> set out. length t \<le> length (to_parse st))"
  by (auto simp: list_char_def count_brackets_def Let_def split: if_splits)

lemma toggle_string_to_parse [simp]: "to_parse (toggle_string c st) = to_parse st"
  by (simp add: toggle_string_def)

lemma list_loop_length:
  "t \<in> set (list_loop s st) \<Longrightarrow> length t \<le> length (to_parse st) + length s"
proof (induction s st rule: list_loop.induct)
  case (1 c d s st0)
  let ?st = "(toggle_string c st0)\<lparr>to_parse := to_parse (toggle_string c st0) @ [c]\<rparr>"
  show ?case
  proof (cases "c = CHR 0x5C")
    case True
    obtain out st' where oc: "list_char d ?st = (out, st')" by (cases "list_char d ?st")
    with True "1.prems" have "t \<in> set out \<or> t \<in> set (list_loop s st')" by simp
    moreover note list_char_pending [OF oc] "1.IH"(1) [OF refl True oc [symmetric]]
    ultimately show ?thesis by auto
  next
    case False
    obtain out st' where oc: "list_char c (toggle_string c st0) = (out, st')"
      by (cases "list_char c (toggle_string c st0)")
    with False "1.prems" have "t \<in> set out \<or> t \<in> set (list_loop (d # s) st')" by simp
    moreover note list_char_pending [OF oc] "1.IH"(2) [OF refl False oc [symmetric]]
    ultimately show ?thesis by auto
  qed
qed (auto split: if_splits)

lemma strip_length: "length (strip s) \<le> length s"
  by (simp add: strip_def Let_def min.coboundedI1)

section \<open>The parser\<close>

definition set_member :: "json_value json_object \<Rightarrow> string \<times> json_value \<Rightarrow> json_value json_object" where
  "set_member o' kv = obj_put (fst kv) (snd kv) o'"

text \<open>
  The members of an object are parsed in order and assigned through \<open>operator[]\<close>; the name is
  the \<open>val_string\<close> of the parsed name.  The tests that follow the three container cases in the
  source cannot succeed on a text that starts with a bracket or a quote.
\<close>

function parse :: "string \<Rightarrow> json_value result" where
  "parse s0 =
     (let s = strip s0
      in if first_char s = CHR ''{'' then
           bindR (mapR (\<lambda>m. bindR (parse (snd m)) (\<lambda>v. bindR (parse (fst m)) (\<lambda>n. Inr (val_string n, v))))
                    (object_loop (tl s) scan_init))
             (\<lambda>kvs. Inr (JV 3 (Some 0) None None [] [] (foldl set_member [] kvs)))
         else if first_char s = CHR ''['' then
           bindR (mapR parse (list_loop (tl s) scan_init))
             (\<lambda>vs. Inr (JV 2 (Some 0) None None [] vs []))
         else if first_char s = CHR 0x22 then
           bindR (bindR (substr s 1 (size_t_diff (length s) 2)) unescapify)
             (\<lambda>t. Inr (JV 1 (Some 0) None None t [] []))
         else
           (case scan_number s of
              Some t \<Rightarrow> number_value t
            | None \<Rightarrow>
                Inr (if s = ''null'' then JV 4 (Some (- 1)) None None [] [] []
                     else if s = ''true'' then JV 4 (Some 1) None None [] [] []
                     else if s = ''false'' then JV 4 (Some 0) None None [] [] []
                     else jv_default)))"
  by pat_completeness auto

lemma first_char_tl: "first_char s = c \<Longrightarrow> c \<noteq> CHR 0x00 \<Longrightarrow> length s = Suc (length (tl s))"
  by (cases s) (auto simp: first_char_def)

lemma object_loop_init: "(n, t) \<in> set (object_loop s scan_init) \<Longrightarrow> length n + length t \<le> length s"
  using object_loop_length [of n t s scan_init] by (simp add: pending_def scan_init_def)

lemma list_loop_init: "t \<in> set (list_loop s scan_init) \<Longrightarrow> length t \<le> length s"
  using list_loop_length [of t s scan_init] by (simp add: scan_init_def)

termination parse
proof (relation "measure length", goal_cases)
  case 1
  then show ?case by simp
next
  case (2 s0 s m)
  then have "length s = Suc (length (tl s))" by (intro first_char_tl) auto
  moreover have "length (snd m) \<le> length (tl s)"
    using 2 object_loop_init [of "fst m" "snd m" "tl s"] by simp
  ultimately show ?case using strip_length [of s0] 2 by simp
next
  case (3 s0 s m v)
  then have "length s = Suc (length (tl s))" by (intro first_char_tl) auto
  moreover have "length (fst m) \<le> length (tl s)"
    using 3 object_loop_init [of "fst m" "snd m" "tl s"] by simp
  ultimately show ?case using strip_length [of s0] 3 by simp
next
  case (4 s0 s t)
  then have "length s = Suc (length (tl s))" by (intro first_char_tl) auto
  moreover have "length t \<le> length (tl s)" using 4 list_loop_init [of t "tl s"] by simp
  ultimately show ?case using strip_length [of s0] 4 by simp
qed

declare parse.simps [simp del]

end
