(* ===== verification/JsonNumber.thy ===== *)
theory JsonNumber
  imports JsonParse
begin

text \<open>
  The regular expression of the number case of \<open>parse\<close>, stated as a set of texts, and the
  proof that \<open>scan_number\<close> accepts exactly these and yields the capture groups.
\<close>

section \<open>The expression\<close>

text \<open>The number token of the regular expression in \<open>parse\<close>, group by group.\<close>

definition digits :: "string \<Rightarrow> bool" where
  "digits s \<longleftrightarrow> s \<noteq> [] \<and> (\<forall>c \<in> set s. is_digit c)"

definition int_text :: "string \<Rightarrow> bool" where
  "int_text s \<longleftrightarrow> digits s \<and> (hd s = CHR ''0'' \<longrightarrow> tl s = [])"

definition frac_text :: "string option \<Rightarrow> string \<Rightarrow> bool" where
  "frac_text fr f \<longleftrightarrow> (case fr of None \<Rightarrow> f = [] | Some ds \<Rightarrow> digits ds \<and> f = CHR ''.'' # ds)"

definition exp_text :: "(bool \<times> string) option \<Rightarrow> string \<Rightarrow> bool" where
  "exp_text ex e \<longleftrightarrow>
     (case ex of None \<Rightarrow> e = []
      | Some (neg, ds) \<Rightarrow> digits ds \<and>
          (\<exists>c \<in> set ''eE''. \<exists>sg \<in> (if neg then {''-''} else {'''', ''+''}). e = c # sg @ ds))"

definition number_text :: "number_token \<Rightarrow> string \<Rightarrow> bool" where
  "number_text t s \<longleftrightarrow>
     (\<exists>f e. s = (if nt_neg t then ''-'' else '''') @ nt_int t @ f @ e \<and>
        int_text (nt_int t) \<and> frac_text (nt_frac t) f \<and> exp_text (nt_exp t) e)"

section \<open>The scanner decides it\<close>

definition no_digit_head :: "string \<Rightarrow> bool" where
  "no_digit_head r \<longleftrightarrow> (r = [] \<or> \<not> is_digit (hd r))"

lemma no_digit_head_simps [simp]:
  "no_digit_head []" "no_digit_head (c # r) \<longleftrightarrow> \<not> is_digit c"
  by (simp_all add: no_digit_head_def)

lemma no_digit_head_dropWhile [simp]: "no_digit_head (dropWhile is_digit s)"
  by (cases "dropWhile is_digit s = []") (auto simp: no_digit_head_def hd_dropWhile)

lemma span_digits:
  assumes "digits ds" "no_digit_head r"
  shows "takeWhile is_digit (ds @ r) = ds" "dropWhile is_digit (ds @ r) = r"
proof -
  from assms(1) have "\<And>c. c \<in> set ds \<Longrightarrow> is_digit c" by (simp add: digits_def)
  with assms(2) show "takeWhile is_digit (ds @ r) = ds" "dropWhile is_digit (ds @ r) = r"
    by (cases r; simp add: takeWhile_append2 dropWhile_append2)+
qed

lemma digits_nonempty: "digits ds \<Longrightarrow> ds \<noteq> []"
  by (simp add: digits_def)

lemma digits_takeWhile: "takeWhile is_digit s \<noteq> [] \<Longrightarrow> digits (takeWhile is_digit s)"
  by (auto simp: digits_def dest: set_takeWhileD)

lemma scan_int_iff:
  "scan_int s = Some (ip, r) \<longleftrightarrow> s = ip @ r \<and> int_text ip \<and> no_digit_head r"
proof
  assume "scan_int s = Some (ip, r)"
  then have "ip = takeWhile is_digit s" "r = dropWhile is_digit s"
    and "ip \<noteq> []" "hd ip = CHR ''0'' \<longrightarrow> tl ip = []"
    by (auto simp: scan_int_def Let_def split: if_splits)
  then show "s = ip @ r \<and> int_text ip \<and> no_digit_head r"
    by (simp add: int_text_def digits_takeWhile)
next
  assume "s = ip @ r \<and> int_text ip \<and> no_digit_head r"
  then show "scan_int s = Some (ip, r)"
    by (auto simp: scan_int_def int_text_def span_digits digits_nonempty)
qed

lemma scan_frac_text:
  assumes "frac_text fr f" "no_digit_head r" "r = [] \<or> hd r \<noteq> CHR ''.''"
  shows "scan_frac (f @ r) = Some (fr, r)"
proof (cases fr)
  case None
  with assms show ?thesis by (cases r) (simp_all add: frac_text_def scan_frac_def)
next
  case (Some ds)
  with assms show ?thesis by (simp add: frac_text_def scan_frac_def span_digits digits_nonempty)
qed

lemma scan_frac_sound:
  assumes "scan_frac s = Some (fr, r)"
  shows "\<exists>f. s = f @ r \<and> frac_text fr f"
proof (cases "s \<noteq> [] \<and> hd s = CHR ''.''")
  case True
  then obtain s' where s: "s = CHR ''.'' # s'" by (cases s) auto
  with assms have "fr = Some (takeWhile is_digit s')" "r = dropWhile is_digit s'"
    "takeWhile is_digit s' \<noteq> []"
    by (auto simp: scan_frac_def Let_def split: if_splits)
  then show ?thesis
    by (intro exI [of _ "CHR ''.'' # takeWhile is_digit s'"])
      (simp add: s frac_text_def digits_takeWhile)
next
  case False
  with assms show ?thesis by (auto simp: scan_frac_def frac_text_def split: list.splits)
qed

lemma digits_no_sign: "digits ds \<Longrightarrow> hd ds \<noteq> CHR ''-'' \<and> hd ds \<noteq> CHR ''+''"
  by (cases ds) (auto simp: digits_def is_digit_def)

lemma scan_exp_text:
  assumes "exp_text ex e"
  shows "scan_exp e = Some (ex, [])"
proof (cases ex)
  case None
  with assms show ?thesis by (simp add: exp_text_def scan_exp_def)
next
  case (Some nd)
  obtain neg ds where nd: "nd = (neg, ds)" by (cases nd)
  with assms Some obtain c sg where ds: "digits ds" and c: "c = CHR ''e'' \<or> c = CHR ''E''"
    and sg: "sg \<in> (if neg then {''-''} else {'''', ''+''})" and e: "e = c # sg @ ds"
    by (auto simp: exp_text_def)
  from ds have td: "takeWhile is_digit ds = ds" "dropWhile is_digit ds = []"
    using span_digits [of ds "[]"] by simp_all
  from sg consider "neg" "sg = ''-''" | "\<not> neg" "sg = ''''" | "\<not> neg" "sg = ''+''"
    by (auto split: if_splits)
  then show ?thesis
    using ds c digits_no_sign [OF ds] digits_nonempty [OF ds]
    by cases (auto simp: scan_exp_def e Some nd td Let_def)
qed

lemma scan_exp_sound:
  assumes "scan_exp s = Some (ex, r)" "r = []"
  shows "exp_text ex s"
proof (cases "s \<noteq> [] \<and> (hd s = CHR ''e'' \<or> hd s = CHR ''E'')")
  case True
  then obtain c s' where s: "s = c # s'" and c: "c = CHR ''e'' \<or> c = CHR ''E''" by (cases s) auto
  define sg where "sg = (if s' \<noteq> [] \<and> (hd s' = CHR ''-'' \<or> hd s' = CHR ''+'') then [hd s'] else [])"
  define s2 where "s2 = (if s' \<noteq> [] \<and> (hd s' = CHR ''-'' \<or> hd s' = CHR ''+'') then tl s' else s')"
  have s': "s' = sg @ s2" by (simp add: sg_def s2_def)
  from assms c have ex: "ex = Some (s' \<noteq> [] \<and> hd s' = CHR ''-'', takeWhile is_digit s2)"
    and r: "dropWhile is_digit s2 = []" and ne: "takeWhile is_digit s2 \<noteq> []"
    by (auto simp: scan_exp_def s s2_def [symmetric] Let_def split: if_splits)
  from r have "takeWhile is_digit s2 = s2"
    using takeWhile_dropWhile_id [of is_digit s2] by simp
  with ne have "digits s2" using digits_takeWhile [of s2] by (simp add: digits_def)
  moreover have "sg \<in> (if s' \<noteq> [] \<and> hd s' = CHR ''-'' then {''-''} else {'''', ''+''})"
    by (simp add: sg_def)
  ultimately show ?thesis
    using c by (auto simp: exp_text_def ex s \<open>takeWhile is_digit s2 = s2\<close> s')
next
  case False
  with assms show ?thesis by (auto simp: scan_exp_def exp_text_def split: list.splits)
qed

text \<open>A fraction or exponent does not start with a digit, an exponent not with a point.\<close>

lemma frac_text_head: "frac_text fr f \<Longrightarrow> no_digit_head r \<Longrightarrow> no_digit_head (f @ r)"
  by (auto simp: frac_text_def is_digit_def split: option.splits)

lemma exp_text_head: "exp_text ex e \<Longrightarrow> no_digit_head e \<and> (e = [] \<or> hd e \<noteq> CHR ''.'')"
  by (auto simp: exp_text_def is_digit_def split: option.splits)

lemma int_text_no_minus: "int_text s \<Longrightarrow> s \<noteq> [] \<and> hd s \<noteq> CHR ''-''"
  using digits_no_sign [of s] digits_nonempty [of s] by (simp add: int_text_def)

lemma scan_number_iff: "scan_number s = Some t \<longleftrightarrow> number_text t s"
proof
  assume sn: "scan_number s = Some t"
  define neg where "neg = (s \<noteq> [] \<and> hd s = CHR ''-'')"
  define s1 where "s1 = (if neg then tl s else s)"
  have s: "s = (if neg then ''-'' else '''') @ s1"
    by (cases s) (auto simp: neg_def s1_def)
  from sn obtain ip s2 fr s3 ex where i: "scan_int s1 = Some (ip, s2)"
    and f: "scan_frac s2 = Some (fr, s3)" and e: "scan_exp s3 = Some (ex, [])"
    and t: "t = \<lparr>nt_neg = neg, nt_int = ip, nt_frac = fr, nt_exp = ex\<rparr>"
    by (auto simp: scan_number_def Let_def neg_def [symmetric] s1_def [symmetric]
        split: option.splits prod.splits if_splits)
  from i have "s1 = ip @ s2" "int_text ip" by (simp_all add: scan_int_iff)
  moreover from scan_frac_sound [OF f] obtain f' where "s2 = f' @ s3" "frac_text fr f'" by blast
  moreover from scan_exp_sound [OF e] have "exp_text ex s3" by simp
  ultimately show "number_text t s" using s by (auto simp: number_text_def t)
next
  assume "number_text t s"
  then obtain f e where s: "s = (if nt_neg t then ''-'' else '''') @ nt_int t @ f @ e"
    and i: "int_text (nt_int t)" and f: "frac_text (nt_frac t) f" and e: "exp_text (nt_exp t) e"
    by (auto simp: number_text_def)
  have "s \<noteq> [] \<and> hd s = CHR ''-'' \<longleftrightarrow> nt_neg t"
    using int_text_no_minus [OF i] by (auto simp: s)
  moreover have "scan_int (nt_int t @ f @ e) = Some (nt_int t, f @ e)"
    using i exp_text_head [OF e] frac_text_head [OF f] by (simp add: scan_int_iff)
  moreover have "scan_frac (f @ e) = Some (nt_frac t, e)"
    using exp_text_head [OF e] by (intro scan_frac_text f) auto
  moreover note scan_exp_text [OF e]
  ultimately show "scan_number s = Some t"
    by (simp add: scan_number_def Let_def) (simp add: s)
qed

lemma number_text_head:
  assumes "number_text t s"
  obtains c s' where "s = c # s'" "c = CHR ''-'' \<or> is_digit c"
proof -
  from assms obtain f e where s: "s = (if nt_neg t then ''-'' else '''') @ nt_int t @ f @ e"
    and i: "int_text (nt_int t)"
    by (auto simp: number_text_def)
  from i obtain d ds where "nt_int t = d # ds" "is_digit d"
    by (cases "nt_int t") (auto simp: int_text_def digits_def)
  with s that show thesis by (cases "nt_neg t") auto
qed

lemma digits_last: "digits ds \<Longrightarrow> is_digit (last ds)"
  by (simp add: digits_def)

lemma number_text_last:
  assumes "number_text t s"
  shows "is_digit (last s)"
proof -
  from assms obtain f e where s: "s = (if nt_neg t then ''-'' else '''') @ nt_int t @ f @ e"
    and i: "int_text (nt_int t)" and f: "frac_text (nt_frac t) f" and e: "exp_text (nt_exp t) e"
    by (auto simp: number_text_def)
  have "f = [] \<or> f \<noteq> [] \<and> is_digit (last f)"
    using f by (auto simp: frac_text_def digits_last digits_nonempty split: option.splits)
  moreover have "e = [] \<or> e \<noteq> [] \<and> is_digit (last e)"
    using e by (auto simp: exp_text_def digits_last digits_nonempty split: option.splits)
  moreover have "nt_int t \<noteq> [] \<and> is_digit (last (nt_int t))"
    using i by (simp add: int_text_def digits_last digits_nonempty)
  ultimately show ?thesis by (auto simp: s)
qed

lemma show_nat_int_text: "int_text (show_nat n)"
proof -
  have "hd (show_nat n) = CHR ''0'' \<longrightarrow> tl (show_nat n) = []"
    by (auto simp: hd_show_nat show_nat_0)
  then show ?thesis by (auto simp: int_text_def digits_def dest: show_nat_digits)
qed

lemma show_int_number_text:
  "number_text \<lparr>nt_neg = i < 0, nt_int = show_nat (nat \<bar>i\<bar>), nt_frac = None, nt_exp = None\<rparr> (show_int i)"
  by (auto simp: number_text_def show_int_def frac_text_def exp_text_def show_nat_int_text)

lemma stoll_show_int:
  "stoll \<lparr>nt_neg = i < 0, nt_int = show_nat (nat \<bar>i\<bar>), nt_frac = None, nt_exp = None\<rparr>
     = (if int64 i then Inr i else Inl Out_of_range)"
  by (simp add: stoll_def read_show_nat)

end
