(* ===== verification/JsonGrammar.thy ===== *)
theory JsonGrammar
  imports JsonNumber
begin

text \<open>
  An abstract specification of the texts \<open>json_value::parse\<close> reads correctly: a part of the JSON
  grammar.  \<open>core j t\<close> says that \<open>t\<close> is a text of the document \<open>j\<close>, and
  \<open>build j\<close> is the value \<open>parse\<close> makes of it.  White space is free around every token
  except between the brackets of an empty array, which \<open>parse\<close> reads as an array with one element
  (\<open>blank_array_has_an_element\<close> in JsonProperties), and strings have the two character escapes
  but not \<open>\uXXXX\<close>, which \<open>parse\<close> does not decode (\<open>unicode_escape_kept_as_digits\<close>
  there).  On the other side raw control characters, except for line feeds, may stand in strings.
  \<open>clean\<close> are the documents on which the bracket counting of the two container loops is right.
\<close>

section \<open>Documents\<close>

datatype json =
    Num int
  | Real number_token
  | Str string
  | Bool bool
  | Null
  | Arr "json list"
  | Obj "(string \<times> json) list"

definition is_bracket :: "char \<Rightarrow> bool" where
  "is_bracket c \<longleftrightarrow> c \<in> set ''{}[]''"

text \<open>
  The documents the loops of \<open>parse\<close> split correctly: no bracket inside of a string, no comma
  inside of a string that is itself a list element, no empty object, distinct member names.
\<close>

fun no_comma :: "json \<Rightarrow> bool" where
  "no_comma (Str s) = (CHR '','' \<notin> set s)"
| "no_comma _ = True"

fun clean :: "json \<Rightarrow> bool" where
  "clean (Num i) = int64 i"
| "clean (Real t) = (\<exists>d. stod t = Inr d)"
| "clean (Str s) = (\<forall>c \<in> set s. \<not> is_bracket c)"
| "clean (Bool b) = True"
| "clean Null = True"
| "clean (Arr js) = (\<forall>j \<in> set js. clean j \<and> no_comma j)"
| "clean (Obj kjs) = (kjs \<noteq> [] \<and> distinct (map fst kjs) \<and>
     (\<forall>kj \<in> set kjs. (\<forall>c \<in> set (fst kj). \<not> is_bracket c) \<and> clean (snd kj)))"

text \<open>The value \<open>parse\<close> builds, field by field.\<close>

fun build :: "json \<Rightarrow> json_value" where
  "build (Num i) = (if int32 i then JV 0 (Some i) (Some i) None [] [] []
     else JV 6 (Some 0) (Some i) None [] [] [])"
| "build (Real t) = JV 5 (Some 0) None (case stod t of Inr d \<Rightarrow> Some d | Inl _ \<Rightarrow> None) [] [] []"
| "build (Str s) = JV 1 (Some 0) None None s [] []"
| "build (Bool b) = JV 4 (Some (if b then 1 else 0)) None None [] [] []"
| "build Null = JV 4 (Some (- 1)) None None [] [] []"
| "build (Arr js) = JV 2 (Some 0) None None [] (map build js) []"
| "build (Obj kjs) = JV 3 (Some 0) None None [] [] (map (\<lambda>kj. (fst kj, build (snd kj))) kjs)"

section \<open>Texts\<close>

definition all_ws :: "string \<Rightarrow> bool" where
  "all_ws w \<longleftrightarrow> (\<forall>c \<in> set w. is_ws c)"

lemma all_ws_simps [simp]:
  "all_ws []" "all_ws (c # w) \<longleftrightarrow> is_ws c \<and> all_ws w" "all_ws (v @ w) \<longleftrightarrow> all_ws v \<and> all_ws w"
  by (auto simp: all_ws_def)

text \<open>A character of a string literal, plain or as a two character escape.\<close>

definition escapes :: "(char \<times> char) list" where
  "escapes = [(CHR 0x22, CHR 0x22), (CHR 0x5C, CHR 0x5C), (CHR ''/'', CHR ''/''), (CHR ''b'', CHR 0x08),
     (CHR ''f'', CHR 0x0C), (CHR ''n'', CHR 0x0A), (CHR ''r'', CHR 0x0D), (CHR ''t'', CHR 0x09)]"

definition encodes :: "char \<Rightarrow> string \<Rightarrow> bool" where
  "encodes c e \<longleftrightarrow>
     (e = [c] \<and> c \<noteq> CHR 0x22 \<and> c \<noteq> CHR 0x5C \<and> c \<noteq> CHR 0x0A) \<or>
     (\<exists>x. e = [CHR 0x5C, x] \<and> (x, c) \<in> set escapes)"

inductive body :: "string \<Rightarrow> string \<Rightarrow> bool" where
  body_Nil: "body [] []"
| body_Cons: "encodes c e \<Longrightarrow> body s b \<Longrightarrow> body (c # s) (e @ b)"

definition literal :: "string \<Rightarrow> string \<Rightarrow> bool" where
  "literal s l \<longleftrightarrow> (\<exists>b. body s b \<and> l = CHR 0x22 # b @ [CHR 0x22])"

text \<open>The texts of a document, of the elements of a list and of the members of an object.\<close>

definition token_int :: "number_token \<Rightarrow> int" where
  "token_int t = (if nt_neg t then - int (read_nat (nt_int t)) else int (read_nat (nt_int t)))"

inductive core :: "json \<Rightarrow> string \<Rightarrow> bool"
  and elems :: "json list \<Rightarrow> string \<Rightarrow> bool"
  and members :: "(string \<times> json) list \<Rightarrow> string \<Rightarrow> bool" where
  core_Num: "number_text t s \<Longrightarrow> nt_frac t = None \<Longrightarrow> nt_exp t = None \<Longrightarrow> core (Num (token_int t)) s"
| core_Real: "number_text t s \<Longrightarrow> nt_frac t \<noteq> None \<or> nt_exp t \<noteq> None \<Longrightarrow> core (Real t) s"
| core_Str: "literal s l \<Longrightarrow> core (Str s) l"
| core_True: "core (Bool True) ''true''"
| core_False: "core (Bool False) ''false''"
| core_Null: "core Null ''null''"
| core_Arr0: "core (Arr []) ''[]''"
| core_Arr: "elems js u \<Longrightarrow> core (Arr js) (CHR ''['' # u @ '']'')"
| core_Obj: "members ms u \<Longrightarrow> core (Obj ms) (CHR ''{'' # u @ ''}'')"
| elems_One: "core j t \<Longrightarrow> all_ws v \<Longrightarrow> all_ws w \<Longrightarrow> elems [j] (v @ t @ w)"
| elems_Cons: "core j t \<Longrightarrow> all_ws v \<Longrightarrow> all_ws w \<Longrightarrow> elems js u \<Longrightarrow>
    elems (j # js) (v @ t @ w @ CHR '','' # u)"
| members_One: "literal k l \<Longrightarrow> core j t \<Longrightarrow> all_ws v \<Longrightarrow> all_ws w \<Longrightarrow> all_ws v' \<Longrightarrow> all_ws w' \<Longrightarrow>
    members [(k, j)] (v @ l @ w @ CHR '':'' # v' @ t @ w')"
| members_Cons: "literal k l \<Longrightarrow> core j t \<Longrightarrow> all_ws v \<Longrightarrow> all_ws w \<Longrightarrow> all_ws v' \<Longrightarrow> all_ws w' \<Longrightarrow>
    members ms u \<Longrightarrow> members ((k, j) # ms) (v @ l @ w @ CHR '':'' # v' @ t @ w' @ CHR '','' # u)"

lemma core_show_int: "core (Num i) (show_int i)"
proof -
  let ?t = "\<lparr>nt_neg = i < 0, nt_int = show_nat (nat \<bar>i\<bar>), nt_frac = None, nt_exp = None\<rparr>"
  have "token_int ?t = i" by (simp add: token_int_def read_show_nat)
  moreover have "core (Num (token_int ?t)) (show_int i)"
    by (rule core_Num [OF show_int_number_text]) simp_all
  ultimately show ?thesis by simp
qed

text \<open>The documents whose texts hold no other document, and the induction that starts from them.\<close>

fun scalar :: "json \<Rightarrow> bool" where
  "scalar (Arr js) \<longleftrightarrow> js = []"
| "scalar (Obj ms) \<longleftrightarrow> False"
| "scalar _ \<longleftrightarrow> True"

lemma elems_nonempty: "elems js u \<Longrightarrow> js \<noteq> []"
  by (cases rule: elems.cases) auto

lemma document_induct [rotated 7, consumes 1, case_names scalar list object element elements member members]:
  assumes "\<And>j t. core j t \<Longrightarrow> scalar j \<Longrightarrow> P j t"
    and "\<And>js u. elems js u \<Longrightarrow> Q js u \<Longrightarrow> P (Arr js) (CHR ''['' # u @ '']'')"
    and "\<And>ms u. members ms u \<Longrightarrow> R ms u \<Longrightarrow> P (Obj ms) (CHR ''{'' # u @ ''}'')"
    and "\<And>j t v w. core j t \<Longrightarrow> P j t \<Longrightarrow> all_ws v \<Longrightarrow> all_ws w \<Longrightarrow> Q [j] (v @ t @ w)"
    and "\<And>j t v w js u. core j t \<Longrightarrow> P j t \<Longrightarrow> all_ws v \<Longrightarrow> all_ws w \<Longrightarrow> elems js u \<Longrightarrow> Q js u \<Longrightarrow>
      Q (j # js) (v @ t @ w @ CHR '','' # u)"
    and "\<And>k l j t v w v' w'. literal k l \<Longrightarrow> core j t \<Longrightarrow> P j t \<Longrightarrow> all_ws v \<Longrightarrow> all_ws w \<Longrightarrow> all_ws v' \<Longrightarrow>
      all_ws w' \<Longrightarrow> R [(k, j)] (v @ l @ w @ CHR '':'' # v' @ t @ w')"
    and "\<And>k l j t v w v' w' ms u. literal k l \<Longrightarrow> core j t \<Longrightarrow> P j t \<Longrightarrow> all_ws v \<Longrightarrow> all_ws w \<Longrightarrow>
      all_ws v' \<Longrightarrow> all_ws w' \<Longrightarrow> members ms u \<Longrightarrow> R ms u \<Longrightarrow>
      R ((k, j) # ms) (v @ l @ w @ CHR '':'' # v' @ t @ w' @ CHR '','' # u)"
  shows "core j t \<Longrightarrow> P j t" and "elems js u \<Longrightarrow> Q js u" and "members ms u \<Longrightarrow> R ms u"
  by (induction rule: core_elems_members.inducts)
    (simp_all add: assms core_elems_members.intros)

section \<open>Trimming and string literals\<close>

lemma strip_begin_append: "all_ws v \<Longrightarrow> t = [] \<or> \<not> is_ws (hd t) \<Longrightarrow> strip_begin (v @ t) = int (length v)"
  by (induction v) (auto, cases t, auto)

lemma dropWhile_all_ws: "all_ws w \<Longrightarrow> dropWhile is_ws (rev w @ r) = dropWhile is_ws r"
  by (rule dropWhile_append2) (simp add: all_ws_def)

lemma strip_padded:
  assumes "all_ws v" "all_ws w" "t \<noteq> []" "\<not> is_ws (hd t)" "\<not> is_ws (last t)"
  shows "strip (v @ t @ w) = t"
proof -
  have "strip_begin (v @ t @ w) = int (length v)"
    using assms by (intro strip_begin_append) auto
  moreover have "dropWhile is_ws (rev t @ rev v) = rev t @ rev v"
    using assms by (cases t rule: rev_cases) auto
  then have "strip_end (v @ t @ w) = int (length v + length t) - 1"
    using assms by (simp add: strip_end_def dropWhile_all_ws)
  ultimately show ?thesis using assms(3) by (simp add: strip_def Let_def)
qed

lemma strip_all_ws: "all_ws w \<Longrightarrow> strip w = []"
  using strip_begin_append [of w "[]"] dropWhile_all_ws [of w "[]"]
  by (simp add: strip_def strip_end_def Let_def)

lemma unescapify_body: "body s b \<Longrightarrow> unescapify b = Inr s"
proof (induction rule: body.induct)
  case (body_Cons c e s b)
  from body_Cons.hyps(1) consider "e = [c]" "c \<noteq> CHR 0x5C"
    | x where "e = [CHR 0x5C, x]" "(x, c) \<in> set escapes"
    by (auto simp: encodes_def)
  then show ?case
  proof cases
    case 1
    with body_Cons.IH show ?thesis by (cases b) simp_all
  next
    case 2
    then have "unescape_step x b = Inr [c]" by (auto simp: escapes_def unescape_step_def)
    with 2 body_Cons.IH show ?thesis by simp
  qed
qed simp

text \<open>The texts of a document do not begin or end with white space.\<close>

lemma literal_ends: "literal s l \<Longrightarrow> \<exists>b. l = CHR 0x22 # b @ [CHR 0x22] \<and> unescapify b = Inr s"
  by (auto simp: literal_def dest: unescapify_body)

lemma parse_literal:
  assumes "literal s l" "all_ws v" "all_ws w"
  shows "parse (v @ l @ w) = Inr (JV 1 (Some 0) None None s [] [])"
proof -
  from literal_ends [OF assms(1)] obtain b where l: "l = CHR 0x22 # b @ [CHR 0x22]"
    and b: "unescapify b = Inr s" by blast
  have st: "strip (v @ l @ w) = l"
    using assms by (intro strip_padded) (auto simp: l is_ws_def)
  have fc: "first_char l = CHR 0x22" and sub: "substr l 1 (size_t_diff (length l) 2) = Inr b"
    by (simp_all add: l first_char_def substr_def size_t_diff_def)
  show ?thesis by (simp add: parse.simps [of "v @ l @ w"] Let_def st fc sub [simplified] b)
qed

lemma number_text_ends: "number_text t s \<Longrightarrow> s \<noteq> [] \<and> \<not> is_ws (hd s) \<and> \<not> is_ws (last s)"
proof -
  assume n: "number_text t s"
  from number_text_head [OF n] obtain c s' where "s = c # s'" "c = CHR ''-'' \<or> is_digit c" by blast
  moreover from this(2) have "\<not> is_ws c" by (auto simp: is_ws_def is_digit_def)
  moreover have "\<not> is_ws (last s)" using number_text_last [OF n] by (rule digit_not_ws)
  ultimately show ?thesis by simp
qed

lemma parse_number:
  assumes "number_text t s" "all_ws v" "all_ws w"
  shows "parse (v @ s @ w) = number_value t"
proof -
  from number_text_head [OF assms(1)] obtain c s' where s: "s = c # s'"
    and c: "c = CHR ''-'' \<or> is_digit c" by blast
  have "strip (v @ s @ w) = s"
    using assms number_text_ends [OF assms(1)] by (intro strip_padded) auto
  moreover have "first_char s = c" by (simp add: first_char_def s)
  moreover have "c \<noteq> CHR ''{'' \<and> c \<noteq> CHR ''['' \<and> c \<noteq> CHR 0x22"
    using c by (auto simp: is_digit_def)
  moreover have "scan_number s = Some t" using assms(1) by (simp add: scan_number_iff)
  ultimately show ?thesis by (simp add: parse.simps [of "v @ s @ w"] Let_def)
qed

lemma parse_word:
  assumes "t \<in> {''null'', ''true'', ''false''}" "all_ws v" "all_ws w"
  shows "parse (v @ t @ w) = Inr (JV 4 (Some (if t = ''null'' then - 1 else if t = ''true'' then 1 else 0))
    None None [] [] [])"
proof -
  have "strip (v @ t @ w) = t"
    using assms by (intro strip_padded) (auto simp: is_ws_def)
  moreover have "scan_number t = None"
    using assms(1) by (auto simp: scan_number_def scan_int_def is_digit_def)
  ultimately show ?thesis
    using assms(1) by (auto simp: parse.simps [of "v @ t @ w"] Let_def first_char_def)
qed

lemma literal_no_ws: "literal s l \<Longrightarrow> l \<noteq> [] \<and> \<not> is_ws (hd l) \<and> \<not> is_ws (last l)"
  by (auto simp: literal_def is_ws_def)

lemma core_ends:
  assumes "core j t"
  shows "t \<noteq> [] \<and> \<not> is_ws (hd t) \<and> \<not> is_ws (last t)"
  using assms
proof (cases rule: core.cases)
  case (core_Num n)
  then show ?thesis using number_text_ends [of n t] by simp
next
  case (core_Real n)
  then show ?thesis using number_text_ends [of n t] by simp
next
  case (core_Str s)
  then show ?thesis using literal_no_ws [of s t] by simp
qed (simp_all add: is_ws_def)

end
