(* ===== verification/JsonScan.thy ===== *)
theory JsonScan
  imports JsonGrammar
begin

text \<open>
  What the two container loops of \<open>parse\<close> do on the text of one document.  The loops share an
  interface: a character that is not a separator at its place is collected and moves the counters,
  an escape is collected as two characters.  The interface is a locale; the facts about string
  literals, and about whole documents where nesting hides every separator, are proved in it once,
  and it is interpreted on the name and the value part of the object loop and on the list loop.
\<close>

section \<open>The interface of the loops\<close>

definition obj_delta :: "char \<Rightarrow> int" where
  "obj_delta c = (if c = CHR ''{'' then 1 else if c = CHR ''}'' then - 1 else 0)"

definition list_delta :: "char \<Rightarrow> int" where
  "list_delta c = (if c = CHR ''['' then 1 else if c = CHR '']'' then - 1 else 0)"

definition neutral :: "char \<Rightarrow> bool" where
  "neutral c \<longleftrightarrow> c \<noteq> CHR 0x22 \<and> c \<noteq> CHR 0x5C \<and> c \<noteq> CHR '','' \<and> c \<noteq> CHR '':'' \<and> \<not> is_bracket c"

lemma no_delta: "\<not> is_bracket c \<Longrightarrow> obj_delta c = 0 \<and> list_delta c = 0"
  by (auto simp: is_bracket_def obj_delta_def list_delta_def)

lemma ws_neutral: "is_ws c \<Longrightarrow> neutral c"
  by (auto simp: is_ws_def neutral_def is_bracket_def)

text \<open>
  \<open>run a b q acc r\<close> is the result of the loop on the rest \<open>r\<close> with the counters \<open>a\<close>
  and \<open>b\<close>, the string flag \<open>q\<close> and the collected text \<open>acc\<close>.
\<close>

locale text_scanner =
  fixes run :: "int \<Rightarrow> int \<Rightarrow> bool \<Rightarrow> string \<Rightarrow> string \<Rightarrow> 'o"
    and quiet :: "char \<Rightarrow> int \<Rightarrow> int \<Rightarrow> bool \<Rightarrow> bool"
  assumes run_plain: "c \<noteq> CHR 0x5C \<Longrightarrow> quiet c a b q \<Longrightarrow> r \<noteq> [] \<Longrightarrow>
      run a b q acc (c # r)
        = run (a + obj_delta c) (b + list_delta c) (if c = CHR 0x22 then \<not> q else q) (acc @ [c]) r"
    and run_escape: "(x, c) \<in> set escapes \<Longrightarrow>
      run a b q acc (CHR 0x5C # x # r) = run a b q (acc @ [CHR 0x5C, x]) r"
    and quiet_other: "c \<noteq> CHR '','' \<Longrightarrow> c \<noteq> CHR '':'' \<Longrightarrow> quiet c a b q"
begin

lemma run_neutral:
  "\<forall>c \<in> set t. neutral c \<Longrightarrow> r \<noteq> [] \<Longrightarrow> run a b q acc (t @ r) = run a b q (acc @ t) r"
proof (induction t arbitrary: acc)
  case (Cons c t)
  then have c: "c \<noteq> CHR 0x5C" "c \<noteq> CHR 0x22" "quiet c a b q" "obj_delta c = 0" "list_delta c = 0"
    using quiet_other [of c a b q] no_delta [of c] by (auto simp: neutral_def)
  have "run a b q acc (c # t @ r) = run a b q (acc @ [c]) (t @ r)"
    using run_plain [OF c(1,3)] Cons.prems(2) c by simp
  then show ?case using Cons by simp
qed simp

lemma run_ws: "all_ws w \<Longrightarrow> r \<noteq> [] \<Longrightarrow> run a b q acc (w @ r) = run a b q (acc @ w) r"
  by (rule run_neutral) (simp_all add: all_ws_def ws_neutral)

lemma run_body:
  "body s t \<Longrightarrow> \<forall>c \<in> set s. \<not> is_bracket c \<and> quiet c a b True \<Longrightarrow> r \<noteq> [] \<Longrightarrow>
     run a b True acc (t @ r) = run a b True (acc @ t) r"
proof (induction arbitrary: acc rule: body.induct)
  case (body_Cons c e s t)
  from body_Cons.hyps(1) consider "e = [c]" "c \<noteq> CHR 0x22" "c \<noteq> CHR 0x5C"
    | x where "e = [CHR 0x5C, x]" "(x, c) \<in> set escapes"
    by (auto simp: encodes_def)
  then have "run a b True acc (e @ t @ r) = run a b True (acc @ e) (t @ r)"
  proof cases
    case 1
    then show ?thesis
      using body_Cons.prems run_plain [of c a b True "t @ r" acc] no_delta [of c] by simp
  next
    case 2
    then show ?thesis by (simp add: run_escape)
  qed
  then show ?case using body_Cons by simp
qed simp

lemma run_quote:
  "r \<noteq> [] \<Longrightarrow> run a b q acc (CHR 0x22 # r) = run a b (\<not> q) (acc @ [CHR 0x22]) r"
  using run_plain [of "CHR 0x22" a b q r acc] quiet_other no_delta [of "CHR 0x22"]
  by (simp add: is_bracket_def)

lemma run_literal:
  assumes "literal s l" "\<forall>c \<in> set s. \<not> is_bracket c \<and> quiet c a b True" "r \<noteq> []"
  shows "run a b False acc (l @ r) = run a b False (acc @ l) r"
proof -
  from assms(1) obtain t where "body s t" "l = CHR 0x22 # t @ [CHR 0x22]"
    by (auto simp: literal_def)
  with assms(2,3) run_body [of s t a b "CHR 0x22 # r" "acc @ [CHR 0x22]"] show ?thesis
    by (simp add: run_quote)
qed

text \<open>White space, a literal, white space.\<close>

lemma run_padded_literal:
  assumes "literal s l" "\<forall>c \<in> set s. \<not> is_bracket c \<and> quiet c a b True" "all_ws v" "all_ws w" "r \<noteq> []"
  shows "run a b False acc (v @ l @ w @ r) = run a b False (acc @ v @ l @ w) r"
  using assms run_literal [OF assms(1,2), of "w @ r" "acc @ v"]
  by (simp add: run_ws)

end

text \<open>Where the loop counts, nesting hides every separator.\<close>

locale value_scanner = text_scanner +
  assumes quiet_deep: "0 \<le> a \<Longrightarrow> 0 \<le> b \<Longrightarrow> 0 < a \<or> 0 < b \<Longrightarrow> quiet c a b q"

section \<open>The characters of numbers and words\<close>


definition number_char :: "char \<Rightarrow> bool" where
  "number_char c \<longleftrightarrow> is_digit c \<or> c \<in> set ''+-.eE''"

lemma digits_number_char: "digits ds \<Longrightarrow> c \<in> set ds \<Longrightarrow> number_char c"
  by (simp add: digits_def number_char_def)

lemma number_char_sym [simp]:
  "number_char (CHR ''-'')" "number_char (CHR ''+'')" "number_char (CHR ''.'')"
  "number_char (CHR ''e'')" "number_char (CHR ''E'')"
  by (simp_all add: number_char_def)

lemma number_text_chars: "number_text t s \<Longrightarrow> c \<in> set s \<Longrightarrow> number_char c"
proof -
  assume "number_text t s" and c: "c \<in> set s"
  then obtain f e where s: "s = (if nt_neg t then ''-'' else '''') @ nt_int t @ f @ e"
    and i: "digits (nt_int t)" and f: "frac_text (nt_frac t) f" and e: "exp_text (nt_exp t) e"
    by (auto simp: number_text_def int_text_def)
  have "\<forall>c \<in> set f. number_char c"
    using f by (auto simp: frac_text_def digits_number_char split: option.splits)
  moreover have "\<forall>c \<in> set e. number_char c"
    using e by (auto simp: exp_text_def digits_number_char split: option.splits if_splits)
  ultimately show ?thesis using c i by (auto simp: s digits_number_char split: if_splits)
qed

lemma number_char_neutral: "number_char c \<Longrightarrow> neutral c"
  by (auto simp: number_char_def is_digit_def neutral_def is_bracket_def)

lemma number_text_neutral: "number_text t s \<Longrightarrow> c \<in> set s \<Longrightarrow> neutral c"
  by (rule number_char_neutral) (rule number_text_chars)

section \<open>Whole documents\<close>

definition hidden :: "(char \<Rightarrow> int \<Rightarrow> int \<Rightarrow> bool \<Rightarrow> bool) \<Rightarrow> int \<Rightarrow> int \<Rightarrow> json \<Rightarrow> bool" where
  "hidden quiet a b j \<longleftrightarrow> (\<forall>s. j = Str s \<longrightarrow> (\<forall>c \<in> set s. quiet c a b True))"

context value_scanner begin

lemma run_open_close:
  assumes "0 \<le> a" "0 \<le> b" "r \<noteq> []"
    and "\<And>acc. run (a + obj_delta o') (b + list_delta o') False acc (u @ e # r)
           = run (a + obj_delta o') (b + list_delta o') False (acc @ u) (e # r)"
    and "(o', e) = (CHR ''{'', CHR ''}'') \<or> (o', e) = (CHR ''['', CHR '']'')"
  shows "run a b False acc (o' # u @ e # r) = run a b False (acc @ o' # u @ [e]) r"
  using assms run_plain [of o' a b False "u @ e # r" acc]
    run_plain [of e "a + obj_delta o'" "b + list_delta o'" False r "acc @ o' # u"] quiet_other
  by (auto simp: obj_delta_def list_delta_def)

lemma run_padded:
  assumes "\<And>r acc. r \<noteq> [] \<Longrightarrow> run a b False acc (t @ r) = run a b False (acc @ t) r"
    and "all_ws v" "all_ws w" "r \<noteq> []"
  shows "run a b False acc (v @ t @ w @ r) = run a b False (acc @ v @ t @ w) r"
  using assms(2-4) assms(1) [of "w @ r" "acc @ v"] by (simp add: run_ws)

lemma run_deep_sep:
  assumes "0 \<le> a" "0 \<le> b" "0 < a \<or> 0 < b" "c = CHR '','' \<or> c = CHR '':''" "r \<noteq> []"
  shows "run a b False acc (c # r) = run a b False (acc @ [c]) r"
  using assms run_plain [of c a b False r acc] quiet_deep [of a b c False]
  by (auto simp: obj_delta_def list_delta_def)

lemma run_scalar:
  assumes "core j t" "scalar j" "clean j" "hidden quiet a b j" "0 \<le> a" "0 \<le> b" "r \<noteq> []"
  shows "run a b False acc (t @ r) = run a b False (acc @ t) r"
  using assms(1)
proof (cases rule: core.cases)
  case (core_Num t')
  then show ?thesis using assms by (intro run_neutral) (auto dest: number_text_neutral)
next
  case (core_Real t')
  then show ?thesis using assms by (intro run_neutral) (auto dest: number_text_neutral)
next
  case (core_Str s)
  then show ?thesis using assms by (intro run_literal) (auto simp: hidden_def)
next
  case core_Arr0
  then show ?thesis
    using assms run_open_close [of a b r "CHR ''[''" "[]" "CHR '']''" acc] by simp
next
  case (core_Arr js u)
  then show ?thesis using assms(2) elems_nonempty by auto
qed (insert assms, (intro run_neutral; auto simp: neutral_def is_bracket_def)+)

lemma run_member:
  assumes "\<And>r acc. r \<noteq> [] \<Longrightarrow> run a b False acc (t @ r) = run a b False (acc @ t) r"
    and "literal k l" "\<forall>c \<in> set k. \<not> is_bracket c"
    and "all_ws v" "all_ws w" "all_ws v'" "all_ws w'" "0 \<le> a" "0 \<le> b" "0 < a \<or> 0 < b" "r \<noteq> []"
  shows "run a b False acc (v @ l @ w @ CHR '':'' # v' @ t @ w' @ r)
     = run a b False (acc @ v @ l @ w @ CHR '':'' # v' @ t @ w') r"
proof -
  have "run a b False acc (v @ l @ w @ CHR '':'' # v' @ t @ w' @ r)
      = run a b False (acc @ v @ l @ w) (CHR '':'' # v' @ t @ w' @ r)"
    using assms by (intro run_padded_literal) (auto simp: quiet_deep)
  also have "\<dots> = run a b False (acc @ v @ l @ w @ [CHR '':'']) (v' @ t @ w' @ r)"
    using assms run_deep_sep [of a b "CHR '':''" "v' @ t @ w' @ r" "acc @ v @ l @ w"] by simp
  also have "\<dots> = run a b False ((acc @ v @ l @ w @ [CHR '':'']) @ v' @ t @ w') r"
    using assms by (intro run_padded) auto
  finally show ?thesis by simp
qed

lemma run_document:
  shows "core j t \<Longrightarrow> clean j \<Longrightarrow> hidden quiet a b j \<Longrightarrow> 0 \<le> a \<Longrightarrow> 0 \<le> b \<Longrightarrow> r \<noteq> [] \<Longrightarrow>
      run a b False acc (t @ r) = run a b False (acc @ t) r"
    and "elems js u \<Longrightarrow> \<forall>j \<in> set js. clean j \<Longrightarrow> 0 \<le> a \<Longrightarrow> 0 \<le> b \<Longrightarrow> 0 < a \<or> 0 < b \<Longrightarrow> r \<noteq> [] \<Longrightarrow>
      run a b False acc (u @ r) = run a b False (acc @ u) r"
    and "members ms u \<Longrightarrow> \<forall>m \<in> set ms. clean (snd m) \<and> (\<forall>c \<in> set (fst m). \<not> is_bracket c) \<Longrightarrow>
      0 \<le> a \<Longrightarrow> 0 \<le> b \<Longrightarrow> 0 < a \<or> 0 < b \<Longrightarrow> r \<noteq> [] \<Longrightarrow>
      run a b False acc (u @ r) = run a b False (acc @ u) r"
proof (induction arbitrary: a b acc r and a b acc r and a b acc r rule: document_induct)
  case (scalar j t)
  then show ?case by (intro run_scalar)
next
  case (list js u)
  then show ?case
    using run_open_close [of a b r "CHR ''[''" u "CHR '']''" acc]
    by (simp add: obj_delta_def list_delta_def)
next
  case (object ms u)
  then show ?case
    using run_open_close [of a b r "CHR ''{''" u "CHR ''}''" acc]
    by (simp add: obj_delta_def list_delta_def)
next
  case (element j t v w)
  have "hidden quiet a b j" using element.prems by (simp add: hidden_def quiet_deep)
  with element show ?case using run_padded [of a b t v w r acc] by simp
next
  case (elements j t v w js u)
  have "hidden quiet a b j" using elements.prems by (simp add: hidden_def quiet_deep)
  with elements have "run a b False acc (v @ t @ w @ CHR '','' # u @ r)
      = run a b False (acc @ v @ t @ w) (CHR '','' # u @ r)"
    by (intro run_padded) auto
  then show ?case
    using elements run_deep_sep [of a b "CHR '',''" "u @ r" "acc @ v @ t @ w"] by simp
next
  case (member k l j t v w v' w')
  have "hidden quiet a b j" using member.prems by (simp add: hidden_def quiet_deep)
  with member show ?case using run_member [of a b t k l v w v' w' r acc] by simp
next
  case (members k l j t v w v' w' ms u)
  have "hidden quiet a b j" using members.prems by (simp add: hidden_def quiet_deep)
  with members show ?case
    using run_member [of a b t k l v w v' w' "CHR '','' # u @ r" acc]
      run_deep_sep [of a b "CHR '',''" "u @ r" "acc @ v @ l @ w @ CHR '':'' # v' @ t @ w'"] by simp
qed

end

section \<open>The loops provide the interface\<close>

definition name_state :: "int \<Rightarrow> int \<Rightarrow> bool \<Rightarrow> string \<Rightarrow> scan_state" where
  "name_state a b q acc = \<lparr>is_parsing_name = True, name_parse = acc, to_parse = [], in_object = a,
     in_list = b, in_string = q\<rparr>"

definition value_state :: "string \<Rightarrow> int \<Rightarrow> int \<Rightarrow> bool \<Rightarrow> string \<Rightarrow> scan_state" where
  "value_state n a b q acc = \<lparr>is_parsing_name = False, name_parse = n, to_parse = acc, in_object = a,
     in_list = b, in_string = q\<rparr>"

definition element_state :: "int \<Rightarrow> int \<Rightarrow> bool \<Rightarrow> string \<Rightarrow> scan_state" where
  "element_state a b q acc = \<lparr>is_parsing_name = True, name_parse = [], to_parse = acc, in_object = a,
     in_list = b, in_string = q\<rparr>"

lemmas loop_defs = toggle_string_def count_brackets_def collect_def object_char_def list_char_def
  name_state_def value_state_def element_state_def obj_delta_def list_delta_def

interpretation name_scan: text_scanner
  "\<lambda>a b q acc r. object_loop r (name_state a b q acc)"
  "\<lambda>c a b q. (c = CHR '':'' \<longrightarrow> a \<noteq> 0 \<or> q) \<and> (c = CHR '','' \<longrightarrow> a \<noteq> 0 \<or> b \<noteq> 0 \<or> q)"
proof (unfold_locales, goal_cases)
  case (1 c a b q r acc)
  then show ?case by (cases r) (auto simp: loop_defs)
next
  case (2 x c a b q acc r)
  then show ?case by (auto simp: loop_defs escapes_def)
qed auto

interpretation value_scan: value_scanner
  "\<lambda>a b q acc r. object_loop r (value_state n a b q acc)"
  "\<lambda>c a b q. c = CHR '','' \<longrightarrow> a \<noteq> 0 \<or> b \<noteq> 0 \<or> q" for n
proof (unfold_locales, goal_cases)
  case (1 c a b q r acc)
  then show ?case by (cases r) (auto simp: loop_defs)
next
  case (2 x c a b q acc r)
  then show ?case by (auto simp: loop_defs escapes_def)
qed auto

interpretation element_scan: value_scanner
  "\<lambda>a b q acc r. list_loop r (element_state a b q acc)"
  "\<lambda>c a b q. c = CHR '','' \<longrightarrow> a \<noteq> 0 \<or> b \<noteq> 0"
proof (unfold_locales, goal_cases)
  case (1 c a b q r acc)
  then show ?case by (cases r) (auto simp: loop_defs)
next
  case (2 x c a b q acc r)
  then show ?case by (auto simp: loop_defs escapes_def)
qed auto

end
