(* ===== verification/JsonPath.thy ===== *)
theory JsonPath
  imports JsonValue
begin

text \<open>
  The statements of the generators: assignments through a chain of \<open>val_object["k"]\<close> and
  \<open>val_list[i]\<close>, and \<open>push_back\<close> on such a chain.  A chain is a path; \<open>modify\<close>
  runs a step at its end, creating missing members on the way as \<open>operator[]\<close> does and
  failing where an index is out of range.  The laws say what a later read sees, and that every
  statement keeps a document printable with distinct member names.
\<close>

section \<open>Statements\<close>

datatype link = Key string | Idx nat

fun modify :: "link list \<Rightarrow> (json_value \<Rightarrow> json_value result) \<Rightarrow> json_value \<Rightarrow> json_value result" where
  "modify [] f v = f v"
| "modify (Key k # p) f v =
     bindR (obj_updR jv_default k (modify p f) (val_object v)) (\<lambda>o'. Inr (set_val_object o' v))"
| "modify (Idx i # p) f v =
     (if i < length (val_list v)
      then bindR (modify p f (val_list v ! i)) (\<lambda>w. Inr (set_val_list ((val_list v)[i := w]) v))
      else Inl Undefined_behaviour)"

definition assign :: "link list \<Rightarrow> json_value \<Rightarrow> json_value \<Rightarrow> json_value result" where
  "assign p w = modify p (\<lambda>_. Inr w)"

definition push_back :: "link list \<Rightarrow> json_value \<Rightarrow> json_value \<Rightarrow> json_value result" where
  "push_back p w = modify p (\<lambda>v. Inr (set_val_list (val_list v @ [w]) v))"

text \<open>A read through a chain; it yields what the chain of references would yield.\<close>

fun peek :: "link list \<Rightarrow> json_value \<Rightarrow> json_value result" where
  "peek [] v = Inr v"
| "peek (Key k # p) v = peek p (obj_get jv_default k (val_object v))"
| "peek (Idx i # p) v = bindR (vec_at (val_list v) i) (peek p)"

lemma modify_Key: "modify (Key k # p) f v =
    bindR (modify p f (obj_get jv_default k (val_object v)))
      (\<lambda>w. Inr (set_val_object (obj_put k w (val_object v)) v))"
  by (simp add: obj_updR_eq bindR_assoc)

section \<open>What a read sees after a statement\<close>

lemma peek_append: "peek (p @ q) v = bindR (peek p v) (peek q)"
proof (induction p arbitrary: v)
  case (Cons s p)
  then show ?case by (cases s) (auto simp: bindR_def split: sum.split)
qed simp

text \<open>A read at or below the written place sees the result of the step.\<close>

lemma peek_modify_same:
  "modify p f v = Inr v' \<Longrightarrow>
     \<exists>w w'. peek p v = Inr w \<and> f w = Inr w' \<and> (\<forall>r. peek (p @ r) v' = peek r w')"
proof (induction p arbitrary: v v')
  case Nil
  then show ?case by simp
next
  case (Cons s p)
  show ?case
  proof (cases s)
    case (Key k)
    with Cons.prems obtain u where
      u: "modify p f (obj_get jv_default k (val_object v)) = Inr u"
      and v': "v' = set_val_object (obj_put k u (val_object v)) v"
      by (auto simp only: modify_Key bindR_eq_Inr sum.inject)
    from Cons.IH [OF u] show ?thesis by (simp add: Key v' json_obj.get_put_same)
  next
    case (Idx i)
    with Cons.prems obtain u where i: "i < length (val_list v)"
      and u: "modify p f (val_list v ! i) = Inr u"
      and v': "v' = set_val_list ((val_list v)[i := u]) v"
      by (auto simp: bindR_eq_Inr split: if_splits)
    from Cons.IH [OF u] show ?thesis by (simp add: Idx v' i vec_at_def)
  qed
qed

text \<open>Two chains that part at some link do not meet again.\<close>

fun diverge :: "link list \<Rightarrow> link list \<Rightarrow> bool" where
  "diverge (s # p) (t # q) \<longleftrightarrow> (if s = t then diverge p q else True)"
| "diverge _ _ \<longleftrightarrow> False"

lemma peek_modify_other: "diverge p q \<Longrightarrow> modify p f v = Inr v' \<Longrightarrow> peek q v' = peek q v"
proof (induction p q arbitrary: v v' rule: diverge.induct)
  case (1 s p t q)
  show ?case
  proof (cases s)
    case (Key k)
    with "1.prems" obtain u where
      u: "modify p f (obj_get jv_default k (val_object v)) = Inr u"
      and v': "v' = set_val_object (obj_put k u (val_object v)) v"
      by (auto simp only: modify_Key bindR_eq_Inr sum.inject)
    show ?thesis
    proof (cases "t = s")
      case True
      with "1.prems" have "diverge p q" by simp
      with "1.IH" True u show ?thesis by (simp add: Key v' json_obj.get_put_same)
    next
      case False
      then show ?thesis by (cases t) (auto simp: Key v' json_obj.get_put_other)
    qed
  next
    case (Idx i)
    with "1.prems" obtain u where i: "i < length (val_list v)"
      and u: "modify p f (val_list v ! i) = Inr u"
      and v': "v' = set_val_list ((val_list v)[i := u]) v"
      by (auto simp: bindR_eq_Inr split: if_splits)
    show ?thesis
    proof (cases "t = s")
      case True
      with "1.prems" have "diverge p q" by simp
      with "1.IH" True u i show ?thesis by (simp add: Idx v' vec_at_def)
    next
      case False
      then show ?thesis by (cases t) (auto simp: Idx v' vec_at_def)
    qed
  qed
qed simp_all

lemma peek_assign_below: "assign p w v = Inr v' \<Longrightarrow> peek (p @ r) v' = peek r w"
  using peek_modify_same [of p "\<lambda>_. Inr w" v v'] by (auto simp: assign_def)

lemma peek_assign_same: "assign p w v = Inr v' \<Longrightarrow> peek p v' = Inr w"
  using peek_assign_below [of p w v v' "[]"] by simp

lemma peek_assign_other: "diverge p q \<Longrightarrow> assign p w v = Inr v' \<Longrightarrow> peek q v' = peek q v"
  unfolding assign_def by (rule peek_modify_other)

lemma peek_push_other: "diverge p q \<Longrightarrow> push_back p w v = Inr v' \<Longrightarrow> peek q v' = peek q v"
  unfolding push_back_def by (rule peek_modify_other)

text \<open>A step that leaves every read below a chain's end alone.\<close>

definition leaves :: "link list \<Rightarrow> (json_value \<Rightarrow> json_value result) \<Rightarrow> bool" where
  "leaves q f \<longleftrightarrow> (\<forall>v v'. f v = Inr v' \<longrightarrow> peek q v' = peek q v)"

lemma leavesI: "(\<And>v v'. f v = Inr v' \<Longrightarrow> peek q v' = peek q v) \<Longrightarrow> leaves q f"
  by (simp add: leaves_def)

lemma leavesD: "leaves q f \<Longrightarrow> f v = Inr v' \<Longrightarrow> peek q v' = peek q v"
  by (simp add: leaves_def)

lemma leaves_assign: "diverge p q \<Longrightarrow> leaves q (assign p w)"
  by (auto intro: leavesI peek_assign_other)

lemma leaves_push_back: "diverge p q \<Longrightarrow> leaves q (push_back p w)"
  by (auto intro: leavesI peek_push_other)

lemma leaves_seqR: "\<forall>f \<in> set fs. leaves q f \<Longrightarrow> leaves q (seqR fs)"
proof (induction fs)
  case Nil
  then show ?case by (simp add: leaves_def)
next
  case (Cons f fs)
  show ?case
  proof (rule leavesI)
    fix v v'
    assume "seqR (f # fs) v = Inr v'"
    then obtain u where "f v = Inr u" "seqR fs u = Inr v'" by (auto simp: bindR_eq_Inr)
    with Cons show "peek q v' = peek q v" by (metis leavesD list.set_intros)
  qed
qed

lemma leaves_whenR: "\<forall>f \<in> set fs. leaves q f \<Longrightarrow> leaves q (whenR b fs)"
  using leaves_seqR [of fs q] by (simp add: leaves_def whenR_def)

text \<open>One rule for a list of steps, for the simplifier.\<close>

lemma leaves_seq_Cons: "leaves q f \<Longrightarrow> leaves q (seqR fs) \<Longrightarrow> leaves q (seqR (f # fs))"
proof (rule leavesI)
  fix v v'
  assume a: "leaves q f" "leaves q (seqR fs)" "seqR (f # fs) v = Inr v'"
  then obtain u where "f v = Inr u" "seqR fs u = Inr v'" by (auto simp: bindR_eq_Inr)
  with a show "peek q v' = peek q v" by (metis leavesD)
qed

section \<open>Documents are printable, with distinct member names\<close>

function sound :: "json_value \<Rightarrow> bool" where
  "sound v = (distinct (obj_keys (val_object v)) \<and>
     list_all sound (val_list v) \<and> list_all (\<lambda>kv. sound (snd kv)) (val_object v) \<and>
     (val_type v \<in> {0, 4} \<longrightarrow> val_int v \<noteq> None) \<and>
     (val_type v = 5 \<longrightarrow> val_float v \<noteq> None) \<and> (val_type v = 6 \<longrightarrow> val_llint v \<noteq> None))"
  by pat_completeness auto
termination
  by (relation "measure size") (auto simp: size_member size_element)

declare sound.simps [simp del]

lemma sound_readable: "sound v \<Longrightarrow> readable v"
proof (induction v rule: readable.induct)
  case (1 v)
  from "1.prems" have "\<And>w. w \<in> set (val_list v) \<Longrightarrow> sound w"
    and "\<And>kv. kv \<in> set (val_object v) \<Longrightarrow> sound (snd kv)"
    by (simp_all add: sound.simps [of v] list_all_iff)
  with "1.IH" have "list_all readable (val_list v) \<or> val_type v \<noteq> 2"
    and "list_all (\<lambda>kv. readable (snd kv)) (val_object v) \<or> val_type v \<noteq> 3"
    by (auto simp: list_all_iff)
  with "1.prems" show ?case by (auto simp: readable.simps [of v] sound.simps [of v])
qed

lemma sound_get_repr: "sound v \<Longrightarrow> get_repr v = Inr (repr v)"
  by (simp add: get_repr_def sound_readable)

lemma sound_jv [simp]:
  "sound jv_default" "sound (jv_int n)" "sound (jv_string s)" "sound (jv_cstring s)"
  "sound (jv_bool b)" "sound (jv_double d)" "sound (jv_llint n)"
  "sound (jv_list l) \<longleftrightarrow> list_all sound l"
  "sound (jv_object o') \<longleftrightarrow> distinct (obj_keys o') \<and> list_all (\<lambda>kv. sound (snd kv)) o'"
  by (subst sound.simps, simp add: jv_defs obj_keys_def)+

lemma sound_obj_get:
  "list_all (\<lambda>kv. sound (snd kv)) o' \<Longrightarrow> sound (obj_get jv_default k o')"
  by (induction jv_default k o' rule: obj_get.induct) auto

lemma sound_obj_put:
  "list_all (\<lambda>kv. sound (snd kv)) o' \<Longrightarrow> sound w \<Longrightarrow> list_all (\<lambda>kv. sound (snd kv)) (obj_put k w o')"
  by (induction k w o' rule: obj_put.induct) auto

lemma sound_set_object:
  "sound v \<Longrightarrow> sound w \<Longrightarrow> sound (set_val_object (obj_put k w (val_object v)) v)"
  by (simp add: sound.simps [of v] sound.simps [of "set_val_object _ v"]
      sound_obj_put obj_put_distinct)

lemma sound_set_list:
  "sound v \<Longrightarrow> list_all sound xs \<Longrightarrow> sound (set_val_list xs v)"
  by (simp add: sound.simps [of v] sound.simps [of "set_val_list _ v"])

lemma sound_member: "sound v \<Longrightarrow> sound (obj_get jv_default k (val_object v))"
  by (rule sound_obj_get) (simp add: sound.simps [of v])

lemma sound_element: "sound v \<Longrightarrow> i < length (val_list v) \<Longrightarrow> sound (val_list v ! i)"
  by (simp add: sound.simps [of v] list_all_length)

lemma keeps_sound_modify: "keeps sound f \<Longrightarrow> keeps sound (modify p f)"
proof (induction p)
  case Nil
  then show ?case by (simp add: keeps_def)
next
  case (Cons s p)
  then have IH: "keeps sound (modify p f)" by simp
  show ?case
  proof (rule keepsI)
    fix v v'
    assume v: "sound v" and m: "modify (s # p) f v = Inr v'"
    show "sound v'"
    proof (cases s)
      case (Key k)
      with m obtain u where "modify p f (obj_get jv_default k (val_object v)) = Inr u"
        and "v' = set_val_object (obj_put k u (val_object v)) v"
        by (auto simp only: modify_Key bindR_eq_Inr sum.inject)
      with v IH show ?thesis by (metis keepsD sound_member sound_set_object)
    next
      case (Idx i)
      with m obtain u where i: "i < length (val_list v)" "modify p f (val_list v ! i) = Inr u"
        and v': "v' = set_val_list ((val_list v)[i := u]) v"
        by (auto simp: bindR_eq_Inr split: if_splits)
      with v IH have "sound u" by (metis keepsD sound_element)
      with v have "list_all sound ((val_list v)[i := u])"
        using set_update_subset_insert [of "val_list v" i u]
        by (auto simp: sound.simps [of v] list_all_iff)
      with v show ?thesis by (simp add: v' sound_set_list)
    qed
  qed
qed

lemma keeps_sound_assign: "sound w \<Longrightarrow> keeps sound (assign p w)"
  unfolding assign_def by (rule keeps_sound_modify) (simp add: keeps_def)

lemma keeps_sound_push_back: "sound w \<Longrightarrow> keeps sound (push_back p w)"
  unfolding push_back_def
proof (rule keeps_sound_modify, rule keepsI)
  fix v v'
  assume "sound w" "sound v" "Inr (set_val_list (val_list v @ [w]) v) = (Inr v' :: json_value result)"
  then show "sound v'" by (auto simp: sound.simps [of v] intro!: sound_set_list)
qed

lemmas keeps_sound = keeps_sound_assign keeps_sound_push_back keeps_seqR keeps_whenR

end
