(* ===== verification/JsonCorrect.thy ===== *)
theory JsonCorrect
  imports JsonScan JsonPath
begin

text \<open>
  Correctness of the parser on the documents of \<open>JsonGrammar\<close>, of the printer as a printer of
  that grammar, and the round trip between both.  Then what happens outside: the texts on which the
  bracket counting and the escape decoding of the source give another value than JSON does.
\<close>

section \<open>The parser reads every text of a document\<close>

lemma element_state_init: "element_state 0 0 False [] = scan_init"
  by (simp add: element_state_def scan_init_def)

lemma name_state_init: "name_state 0 0 False [] = scan_init"
  by (simp add: name_state_def scan_init_def)

lemma to_parse_element_state [simp]: "to_parse (element_state a b q acc) = acc"
  by (simp add: element_state_def)

lemma list_loop_sep:
  "r \<noteq> [] \<Longrightarrow> list_loop (CHR '','' # r) (element_state 0 0 False acc)
     = acc # list_loop r (element_state 0 0 False [])"
  by (cases r) (auto simp: loop_defs)

lemma value_state_sel [simp]:
  "name_parse (value_state n a b q acc) = n" "to_parse (value_state n a b q acc) = acc"
  by (simp_all add: value_state_def)

lemma object_loop_colon:
  "r \<noteq> [] \<Longrightarrow> object_loop (CHR '':'' # r) (name_state 0 0 False acc)
     = object_loop r (value_state acc 0 0 False [])"
  by (cases r) (auto simp: loop_defs)

lemma object_loop_sep:
  "r \<noteq> [] \<Longrightarrow> object_loop (CHR '','' # r) (value_state n 0 0 False acc)
     = (n, acc) # object_loop r (name_state 0 0 False [])"
  by (cases r) (auto simp: loop_defs)

lemma hidden_element: "no_comma j \<Longrightarrow> hidden (\<lambda>c a b q. c = CHR '','' \<longrightarrow> a \<noteq> 0 \<or> b \<noteq> 0) 0 0 j"
  by (auto simp: hidden_def)

lemma hidden_value: "hidden (\<lambda>c a b q. c = CHR '','' \<longrightarrow> a \<noteq> 0 \<or> b \<noteq> 0 \<or> q) 0 0 j"
  by (simp add: hidden_def)

text \<open>The loops cut out exactly the texts of the elements and of the members.\<close>

lemma list_loop_element:
  assumes "core j t" "clean j" "no_comma j" "all_ws v" "all_ws w" "r \<noteq> []"
  shows "list_loop (v @ t @ w @ r) (element_state 0 0 False [])
    = list_loop r (element_state 0 0 False (v @ t @ w))"
  using assms element_scan.run_padded [where a = 0 and b = 0 and t = t and v = v and w = w and r = r
        and acc = "[]"]
    element_scan.run_document(1) [OF assms(1,2) hidden_element [OF assms(3)]]
  by simp

lemma object_loop_member:
  assumes "literal k l" "\<forall>c \<in> set k. \<not> is_bracket c" "all_ws v" "all_ws w"
    and "core j t" "clean j" "all_ws v'" "all_ws w'" "r \<noteq> []"
  shows "object_loop (v @ l @ w @ CHR '':'' # v' @ t @ w' @ r) (name_state 0 0 False [])
    = object_loop r (value_state (v @ l @ w) 0 0 False (v' @ t @ w'))"
proof -
  have "object_loop (v @ l @ w @ CHR '':'' # v' @ t @ w' @ r) (name_state 0 0 False [])
      = object_loop (CHR '':'' # v' @ t @ w' @ r) (name_state 0 0 False (v @ l @ w))"
    using assms name_scan.run_padded_literal [where s = k and l = l and a = 0 and b = 0 and v = v
        and w = w and r = "CHR '':'' # v' @ t @ w' @ r" and acc = "[]"]
    by simp
  also have "\<dots> = object_loop (v' @ t @ w' @ r) (value_state (v @ l @ w) 0 0 False [])"
    using assms(9) by (intro object_loop_colon) simp
  also have "\<dots> = object_loop r (value_state (v @ l @ w) 0 0 False (v' @ t @ w'))"
    using assms value_scan.run_padded [where n = "v @ l @ w" and a = 0 and b = 0 and t = t
        and v = v' and w = w' and r = r and acc = "[]"]
      value_scan.run_document(1) [OF assms(5,6) hidden_value]
    by simp
  finally show ?thesis .
qed

definition parse_member :: "string \<times> string \<Rightarrow> (string \<times> json_value) result" where
  "parse_member m = bindR (parse (snd m)) (\<lambda>v. bindR (parse (fst m)) (\<lambda>n. Inr (val_string n, v)))"

lemma foldl_set_member:
  "distinct (map fst (o' @ kvs)) \<Longrightarrow> foldl set_member o' kvs = o' @ kvs"
proof (induction kvs arbitrary: o')
  case (Cons kv kvs)
  have "k \<notin> fst ` set o' \<Longrightarrow> obj_put k v o' = o' @ [(k, v)]" for k :: string and v :: json_value
    by (induction k v o' rule: obj_put.induct) auto
  then have "set_member o' kv = o' @ [kv]" using Cons.prems by (simp add: set_member_def)
  then show ?case using Cons by simp
qed simp

lemma parse_bracket_strip:
  assumes "core j t" "all_ws v" "all_ws w"
  shows "strip (v @ t @ w) = t"
  using assms core_ends [OF assms(1)] by (intro strip_padded) auto

lemma parse_scalar:
  assumes "core j t" "scalar j" "clean j" "all_ws v" "all_ws w"
  shows "parse (v @ t @ w) = Inr (build j)"
  using assms(1)
proof (cases rule: core.cases)
  case (core_Num n)
  then show ?thesis
    using assms parse_number [of n t v w]
    by (auto simp: number_value_def stoll_def token_int_def Let_def int32_def)
next
  case (core_Real n)
  with assms(3) obtain d where "stod n = Inr d" by auto
  with core_Real show ?thesis
    using assms parse_number [of n t v w] by (auto simp: number_value_def)
next
  case (core_Str s)
  then show ?thesis using assms parse_literal [of s t v w] by simp
next
  case core_Arr0
  then show ?thesis
    using assms parse_bracket_strip [OF core_elems_members.core_Arr0, of v w]
    by (simp add: parse.simps [of "v @ _"] Let_def first_char_def scan_init_def)
next
  case (core_Arr js u)
  then show ?thesis using assms(2) elems_nonempty by auto
qed (use assms parse_word [of t v w] in simp_all)

lemma parse_document:
  shows "core j t \<Longrightarrow> clean j \<Longrightarrow> all_ws v \<Longrightarrow> all_ws w \<Longrightarrow> parse (v @ t @ w) = Inr (build j)"
    and "elems js u \<Longrightarrow> \<forall>j \<in> set js. clean j \<and> no_comma j \<Longrightarrow>
      mapR parse (list_loop (u @ [x]) (element_state 0 0 False [])) = Inr (map build js)"
    and "members ms u \<Longrightarrow> \<forall>m \<in> set ms. (\<forall>c \<in> set (fst m). \<not> is_bracket c) \<and> clean (snd m) \<Longrightarrow>
      mapR parse_member (object_loop (u @ [x]) (name_state 0 0 False []))
        = Inr (map (\<lambda>m. (fst m, build (snd m))) ms)"
proof (induction arbitrary: v w and x and x rule: document_induct)
  case (scalar j t)
  then show ?case by (intro parse_scalar)
next
  case (list js u)
  have "strip (v @ (CHR ''['' # u @ '']'') @ w) = CHR ''['' # u @ '']''"
    using list by (intro parse_bracket_strip [OF core_Arr]) auto
  then show ?case
    using list.IH [of "CHR '']''"] list.prems
    by (simp add: parse.simps [of "v @ _"] Let_def first_char_def element_state_init)
next
  case (object ms u)
  have "strip (v @ (CHR ''{'' # u @ ''}'') @ w) = CHR ''{'' # u @ ''}''"
    using object by (intro parse_bracket_strip [OF core_Obj]) auto
  moreover have "foldl set_member [] (map (\<lambda>m. (fst m, build (snd m))) ms)
      = map (\<lambda>m. (fst m, build (snd m))) ms"
    using object.prems foldl_set_member [of "[]" "map (\<lambda>m. (fst m, build (snd m))) ms"]
    by (simp add: comp_def)
  ultimately show ?case
    using object.IH [of "CHR ''}''"] object.prems
    by (simp add: parse.simps [of "v @ _"] Let_def first_char_def name_state_init
        parse_member_def [abs_def])
next
  case (element j t v w)
  then show ?case
    using list_loop_element [of j t v w "[x]"] core_ends [of j t] by simp
next
  case (elements j t v w js u)
  then show ?case
    using list_loop_element [of j t v w "CHR '','' # u @ [x]"] by (simp add: list_loop_sep)
next
  case (member k l j t v w v' w')
  then show ?case
    using object_loop_member [of k l v w j t v' w' "[x]"] parse_literal [of k l v w]
    by (simp add: parse_member_def)
next
  case (members k l j t v w v' w' ms u)
  then show ?case
    using object_loop_member [of k l v w j t v' w' "CHR '','' # u @ [x]"] parse_literal [of k l v w]
    by (simp add: object_loop_sep parse_member_def)
qed

section \<open>Indentation keeps a text of the grammar\<close>

text \<open>\<open>tabbed s t\<close>: \<open>t\<close> is \<open>s\<close> with tabs added behind some line feeds.\<close>

inductive tabbed :: "string \<Rightarrow> string \<Rightarrow> bool" where
  tabbed_Nil: "tabbed [] []"
| tabbed_Cons: "tabbed s t \<Longrightarrow> tabbed (c # s) (c # t)"
| tabbed_tab: "tabbed s t \<Longrightarrow> tabbed (CHR 0x0A # s) (CHR 0x0A # CHR 0x09 # t)"

inductive_cases tabbed_NilE [elim!]: "tabbed [] t"
inductive_cases tabbed_ConsE: "tabbed (c # s) t"

lemma tabbed_indent: "tabbed s (indent_json s)"
  by (induction s) (auto intro: tabbed.intros)

lemma tabbed_Cons_cases:
  assumes "tabbed (c # s) z"
  obtains t where "z = c # t" "tabbed s t" | t where "z = c # CHR 0x09 # t" "c = CHR 0x0A" "tabbed s t"
  using assms by (auto elim: tabbed_ConsE)

lemma tabbed_append:
  "tabbed (x @ y) z \<Longrightarrow> \<exists>x' y'. z = x' @ y' \<and> tabbed x x' \<and> tabbed y y'"
proof (induction x arbitrary: z)
  case Nil
  then show ?case by (intro exI [of _ "[]"] exI [of _ z]) (simp add: tabbed_Nil)
next
  case (Cons c x)
  from Cons.prems have "tabbed (c # x @ y) z" by simp
  then show ?case
  proof (cases rule: tabbed_Cons_cases)
    case (1 t)
    with Cons.IH [of t] obtain x' y' where "t = x' @ y'" "tabbed x x'" "tabbed y y'" by blast
    with 1 show ?thesis by (metis append_Cons tabbed_Cons)
  next
    case (2 t)
    with Cons.IH [of t] obtain x' y' where "t = x' @ y'" "tabbed x x'" "tabbed y y'" by blast
    with 2 show ?thesis by (metis append_Cons tabbed_tab)
  qed
qed

lemma tabbed_same: "tabbed s t \<Longrightarrow> CHR 0x0A \<notin> set s \<Longrightarrow> t = s"
  by (induction rule: tabbed.induct) auto

lemma tabbed_ws: "tabbed s t \<Longrightarrow> all_ws s \<Longrightarrow> all_ws t"
  by (induction rule: tabbed.induct) (auto simp: is_ws_def)

lemma tabbed_char: "tabbed (c # s) t \<Longrightarrow> c \<noteq> CHR 0x0A \<Longrightarrow> \<exists>t'. t = c # t' \<and> tabbed s t'"
  by (auto elim: tabbed_ConsE)

lemma tabbed_number: "number_text n s \<Longrightarrow> tabbed s t \<Longrightarrow> t = s"
  by (rule tabbed_same)
    (auto dest!: number_text_chars simp: number_char_def is_digit_def)

lemma body_no_newline: "body s b \<Longrightarrow> CHR 0x0A \<notin> set b"
  by (induction rule: body.induct) (auto simp: encodes_def escapes_def)

lemma tabbed_literal: "literal s l \<Longrightarrow> tabbed l t \<Longrightarrow> t = l"
  by (rule tabbed_same) (auto simp: literal_def dest: body_no_newline)

lemma tabbed_three:
  assumes "tabbed (v @ t @ w) z" "all_ws v" "all_ws w"
  obtains v' t' w' where "z = v' @ t' @ w'" "all_ws v'" "tabbed t t'" "all_ws w'"
  using assms by (metis tabbed_append tabbed_ws)

lemma tabbed_sep:
  assumes "tabbed (x @ c # y) z" "c \<noteq> CHR 0x0A"
  obtains x' y' where "z = x' @ c # y'" "tabbed x x'" "tabbed y y'"
  using assms by (metis tabbed_append tabbed_char)

lemma tabbed_member:
  assumes "tabbed (v @ l @ w @ CHR '':'' # v' @ t @ w') z" "literal k l"
    and "all_ws v" "all_ws w" "all_ws v'" "all_ws w'"
  obtains v1 w1 v2 t2 w2 where "z = v1 @ l @ w1 @ CHR '':'' # v2 @ t2 @ w2" "tabbed t t2"
    "all_ws v1" "all_ws w1" "all_ws v2" "all_ws w2"
proof -
  from assms(1) have "tabbed ((v @ l @ w) @ CHR '':'' # v' @ t @ w') z" by simp
  then obtain x y where z: "z = x @ CHR '':'' # y" "tabbed (v @ l @ w) x" "tabbed (v' @ t @ w') y"
    by (rule tabbed_sep) simp_all
  obtain v1 l1 w1 where x: "x = v1 @ l1 @ w1" "all_ws v1" "tabbed l l1" "all_ws w1"
    by (rule tabbed_three [OF z(2) assms(3,4)])
  obtain v2 t2 w2 where "y = v2 @ t2 @ w2" "all_ws v2" "tabbed t t2" "all_ws w2"
    by (rule tabbed_three [OF z(3) assms(5,6)])
  with x z tabbed_literal [OF assms(2) x(3)] show thesis using that [of v1 w1 v2 t2 w2] by simp
qed

lemma scalar_one_line:
  assumes "core j t" "scalar j"
  shows "CHR 0x0A \<notin> set t"
  using assms(1)
proof (cases rule: core.cases)
  case (core_Num n)
  then show ?thesis by (auto dest!: number_text_chars simp: number_char_def is_digit_def)
next
  case (core_Real n)
  then show ?thesis by (auto dest!: number_text_chars simp: number_char_def is_digit_def)
next
  case (core_Str s)
  then show ?thesis by (auto simp: literal_def dest: body_no_newline)
next
  case (core_Arr js u)
  then show ?thesis using assms(2) elems_nonempty by auto
qed (use assms in simp_all)

lemma tabbed_bracket:
  assumes "tabbed (c # u @ [d]) z" "c \<noteq> CHR 0x0A" "d \<noteq> CHR 0x0A"
  obtains u' where "z = c # u' @ [d]" "tabbed u u'"
proof -
  from assms(1,2) obtain y where y: "z = c # y" "tabbed (u @ [d]) y" by (auto dest: tabbed_char)
  then obtain u' e where u': "y = u' @ e" "tabbed u u'" "tabbed [d] e" by (auto dest: tabbed_append)
  moreover have "e = [d]" using tabbed_same [OF u'(3)] assms(3) by simp
  ultimately show thesis using that y by blast
qed

lemma core_tabbed:
  shows "core j t \<Longrightarrow> tabbed t t' \<Longrightarrow> core j t'"
    and "elems js u \<Longrightarrow> tabbed u u' \<Longrightarrow> elems js u'"
    and "members ms u \<Longrightarrow> tabbed u u' \<Longrightarrow> members ms u'"
proof (induction arbitrary: t' and u' and u' rule: document_induct)
  case (scalar j t)
  then show ?case using tabbed_same scalar_one_line by blast
next
  case (list js u)
  from list.prems obtain u' where "t' = CHR ''['' # u' @ '']''" "tabbed u u'"
    by (rule tabbed_bracket) simp_all
  with list.IH show ?case by (simp add: core_Arr)
next
  case (object ms u)
  from object.prems obtain u' where "t' = CHR ''{'' # u' @ ''}''" "tabbed u u'"
    by (rule tabbed_bracket) simp_all
  with object.IH show ?case by (simp add: core_Obj)
next
  case (element j t v w)
  from element.prems element.hyps obtain v' t' w' where
    "u' = v' @ t' @ w'" "all_ws v'" "tabbed t t'" "all_ws w'"
    by (auto elim: tabbed_three)
  with element.IH show ?case by (auto intro: elems_One)
next
  case (elements j t v w js u)
  from elements.prems have "tabbed ((v @ t @ w) @ CHR '','' # u) u'" by simp
  then obtain x y where u': "u' = x @ CHR '','' # y" "tabbed (v @ t @ w) x" "tabbed u y"
    by (rule tabbed_sep) simp_all
  with elements.hyps obtain v' t' w' where
    "x = v' @ t' @ w'" "all_ws v'" "tabbed t t'" "all_ws w'"
    by (auto elim: tabbed_three)
  with elements.IH u' show ?case using elems_Cons [of j t' v' w' js y] by simp
next
  case (member k l j t v w v' w')
  obtain v1 w1 v2 t2 w2 where
    "u' = v1 @ l @ w1 @ CHR '':'' # v2 @ t2 @ w2" "tabbed t t2" "all_ws v1" "all_ws w1" "all_ws v2" "all_ws w2"
    by (rule tabbed_member [OF member.prems member.hyps(1,3-6)])
  with member.IH member.hyps show ?case using members_One [of k l j t2 v1 w1 v2 w2] by simp
next
  case (members k l j t v w v' w' ms u)
  from members.prems have "tabbed ((v @ l @ w @ CHR '':'' # v' @ t @ w') @ CHR '','' # u) u'" by simp
  then obtain x r where x: "u' = x @ CHR '','' # r" "tabbed (v @ l @ w @ CHR '':'' # v' @ t @ w') x" "tabbed u r"
    by (rule tabbed_sep) simp_all
  obtain v1 w1 v2 t2 w2 where
    "x = v1 @ l @ w1 @ CHR '':'' # v2 @ t2 @ w2" "tabbed t t2" "all_ws v1" "all_ws w1" "all_ws v2" "all_ws w2"
    by (rule tabbed_member [OF x(2) members.hyps(1,3-6)])
  with members.IH members.hyps x(1,3) show ?case
    using members_Cons [of k l j t2 v1 w1 v2 w2 ms r] by simp
qed

section \<open>The printer prints the grammar\<close>

text \<open>The document a value stands for.\<close>

inductive denotes :: "json_value \<Rightarrow> json \<Rightarrow> bool" where
  denotes_int: "val_type v = 0 \<Longrightarrow> val_int v = Some i \<Longrightarrow> denotes v (Num i)"
| denotes_llint: "val_type v = 6 \<Longrightarrow> val_llint v = Some i \<Longrightarrow> denotes v (Num i)"
| denotes_real: "val_type v = 5 \<Longrightarrow> val_float v = Some d \<Longrightarrow> stod t = Inr d \<Longrightarrow> denotes v (Real t)"
| denotes_string: "val_type v = 1 \<Longrightarrow> val_string v = s \<Longrightarrow> denotes v (Str s)"
| denotes_bool: "val_type v = 4 \<Longrightarrow> val_int v = Some (if b then 1 else 0) \<Longrightarrow> denotes v (Bool b)"
| denotes_null: "val_type v = 4 \<Longrightarrow> val_int v = Some (- 1) \<Longrightarrow> denotes v Null"
| denotes_list: "val_type v = 2 \<Longrightarrow> list_all2 denotes (val_list v) js \<Longrightarrow> denotes v (Arr js)"
| denotes_object: "val_type v = 3 \<Longrightarrow>
    list_all2 (\<lambda>kv kj. fst kv = fst kj \<and> denotes (snd kv) (snd kj)) (val_object v) kjs \<Longrightarrow>
    denotes v (Obj kjs)"

text \<open>
  What the printer writes as JSON that \<open>parse\<close> reads back: integers, no control character
  without a short escape, no empty container.
\<close>

definition printable_char :: "char \<Rightarrow> bool" where
  "printable_char c \<longleftrightarrow> \<not> (0 < schar c \<and> schar c < 32) \<or>
     c \<in> {CHR 0x08, CHR 0x09, CHR 0x0A, CHR 0x0C, CHR 0x0D}"

fun printable :: "json \<Rightarrow> bool" where
  "printable (Num i) = True"
| "printable (Real t) = False"
| "printable (Str s) = (\<forall>c \<in> set s. printable_char c)"
| "printable (Bool b) = True"
| "printable Null = True"
| "printable (Arr js) = (js \<noteq> [] \<and> (\<forall>j \<in> set js. printable j))"
| "printable (Obj kjs) = (kjs \<noteq> [] \<and>
     (\<forall>kj \<in> set kjs. (\<forall>c \<in> set (fst kj). printable_char c) \<and> printable (snd kj)))"

lemma schar_vt: "schar (CHR 0x0B) = 11"
  by (simp add: schar_def uchar_def)

lemma escape_char_encodes: "printable_char c \<Longrightarrow> encodes c (escape_char c)"
  by (auto simp: printable_char_def escape_char_def encodes_def escapes_def schar_vt)

lemma quote_literal: "\<forall>c \<in> set s. printable_char c \<Longrightarrow> literal s (quote s)"
proof -
  assume "\<forall>c \<in> set s. printable_char c"
  then have "body s (concat (map escape_char s))"
    by (induction s) (auto intro: body.intros simp: escape_char_encodes)
  then show ?thesis by (auto simp: literal_def quote_def)
qed

lemma indent_literal: "literal s l \<Longrightarrow> literal s (indent_json l)"
  using tabbed_literal [OF _ tabbed_indent] by metis

lemma elems_comma_lines:
  "list_all2 core js ts \<Longrightarrow> js \<noteq> [] \<Longrightarrow> all_ws v \<Longrightarrow> all_ws w \<Longrightarrow> elems js (v @ comma_lines ts @ w)"
proof (induction js ts arbitrary: v rule: list_all2_induct)
  case (Cons j js t ts)
  show ?case
  proof (cases ts)
    case Nil
    with Cons show ?thesis by (auto intro: elems_One)
  next
    case (Cons t' ts')
    with Cons.IH [of "[CHR 0x0A]"] Cons.hyps Cons.prems
    have "elems js (CHR 0x0A # comma_lines ts @ w)" by (auto simp: is_ws_def)
    with Cons Cons.hyps Cons.prems elems_Cons [of j t v "[]" js] show ?thesis by simp
  qed
qed simp

text \<open>A member as the printer writes it.\<close>

definition member_text :: "(string \<times> json) \<Rightarrow> string \<Rightarrow> bool" where
  "member_text m u \<longleftrightarrow> (\<exists>l t. literal (fst m) l \<and> core (snd m) t \<and> u = l @ '': '' @ t)"

lemma member_textI:
  "literal (fst m) l \<Longrightarrow> core (snd m) t \<Longrightarrow> member_text m (l @ '': '' @ t)"
  by (auto simp: member_text_def)

lemma members_comma_lines:
  "list_all2 member_text ms us \<Longrightarrow> ms \<noteq> [] \<Longrightarrow> all_ws v \<Longrightarrow> all_ws w \<Longrightarrow>
     members ms (v @ comma_lines us @ w)"
proof (induction ms us arbitrary: v rule: list_all2_induct)
  case (Cons m ms u us)
  then obtain l t where u: "u = l @ '': '' @ t" "literal (fst m) l" "core (snd m) t"
    by (auto simp: member_text_def)
  show ?case
  proof (cases us)
    case Nil
    with Cons u members_One [of "fst m" l "snd m" t v "[]" "'' ''" w] show ?thesis
      by (simp add: is_ws_def)
  next
    case (Cons u' us')
    with Cons.IH [of "[CHR 0x0A]"] Cons.hyps Cons.prems
    have "members ms (CHR 0x0A # comma_lines us @ w)" by (auto simp: is_ws_def)
    with Cons Cons.hyps Cons.prems u members_Cons [of "fst m" l "snd m" t v "[]" "'' ''" "[]" ms]
    show ?thesis by (simp add: is_ws_def)
  qed
qed simp

lemma core_indent: "core j t \<Longrightarrow> core j (indent_json t)"
  by (rule core_tabbed(1) [OF _ tabbed_indent])

lemma repr_core: "denotes v j \<Longrightarrow> printable j \<Longrightarrow> core j (repr v)"
proof (induction rule: denotes.induct)
  case (denotes_list v js)
  then have "list_all2 core js (map repr (val_list v))" "js \<noteq> []"
    by (auto simp: list_all2_conv_all_nth)
  then have "elems js ([CHR 0x0A] @ comma_lines (map repr (val_list v)) @ [CHR 0x0A])"
    by (intro elems_comma_lines) (auto simp: is_ws_def)
  with denotes_list.hyps show ?case
    using core_indent [OF core_Arr] by (fastforce simp: repr.simps [of v])
next
  case (denotes_object v kjs)
  have "list_all2 member_text kjs
      (map (\<lambda>kv. indent_json (quote (fst kv)) @ '': '' @ repr (snd kv)) (val_object v))" "kjs \<noteq> []"
    using denotes_object
    by (auto simp: list_all2_conv_all_nth
        intro!: member_textI [simplified] indent_literal quote_literal)
  then have "members kjs ([CHR 0x0A] @ comma_lines
      (map (\<lambda>kv. indent_json (quote (fst kv)) @ '': '' @ repr (snd kv)) (val_object v)) @ [CHR 0x0A])"
    by (intro members_comma_lines) (auto simp: is_ws_def)
  with denotes_object.hyps show ?case
    using core_indent [OF core_Obj] by (fastforce simp: repr.simps [of v])
next
  case (denotes_string v s)
  then show ?case
    using core_indent [OF core_Str [OF quote_literal]] by (simp add: repr.simps [of v])
next
  case (denotes_bool v b)
  then show ?case
    using core_indent [OF core_True] core_indent [OF core_False]
    by (cases b) (simp_all add: repr.simps [of v] show_field_def show_bool_def)
next
  case (denotes_null v)
  then show ?case
    using core_indent [OF core_Null] by (simp add: repr.simps [of v] show_field_def show_bool_def)
qed (use core_indent [OF core_show_int] in \<open>simp_all add: repr.simps show_field_def\<close>)

lemma denotes_readable: "denotes v j \<Longrightarrow> readable v"
proof (induction rule: denotes.induct)
  case (denotes_list v js)
  then have "list_all readable (val_list v)"
    by (auto simp: list_all_length list_all2_conv_all_nth)
  with denotes_list.hyps show ?case by (simp add: readable.simps [of v])
next
  case (denotes_object v kjs)
  then have "list_all (\<lambda>kv. readable (snd kv)) (val_object v)"
    by (auto simp: list_all_length list_all2_conv_all_nth)
  with denotes_object.hyps show ?case by (simp add: readable.simps [of v])
next
  case (denotes_int v i)
  then show ?case by (simp add: readable.simps [of v])
next
  case (denotes_llint v i)
  then show ?case by (simp add: readable.simps [of v])
next
  case (denotes_real v d t)
  then show ?case by (simp add: readable.simps [of v])
next
  case (denotes_string v s)
  then show ?case by (simp add: readable.simps [of v])
next
  case (denotes_bool v b)
  then show ?case by (simp add: readable.simps [of v])
next
  case (denotes_null v)
  then show ?case by (simp add: readable.simps [of v])
qed

lemma denotes_build: "clean j \<Longrightarrow> denotes (build j) j"
proof (induction j)
  case (Num i)
  show ?case
    by (cases "int32 i") (auto intro: denotes_int denotes_llint)
next
  case (Real t)
  then show ?case by (auto intro: denotes_real)
next
  case (Bool b)
  show ?case by (rule denotes_bool) simp_all
next
  case (Arr js)
  then show ?case by (intro denotes_list) (auto simp: list_all2_conv_all_nth)
next
  case (Obj kjs)
  then have "denotes (build (snd kj)) (snd kj)" if "kj \<in> set kjs" for kj
    using that by (cases kj) (auto simp: snds.simps)
  then show ?case by (intro denotes_object) (auto simp: list_all2_conv_all_nth)
next
  case (Str s)
  show ?case by (rule denotes_string) simp_all
next
  case Null
  show ?case by (rule denotes_null) simp_all
qed

section \<open>The results of the parser\<close>

lemma nearest_double_error: "nearest_double b n d = Inl e \<Longrightarrow> e = Out_of_range"
  by (auto simp: nearest_double_def Let_def split: if_splits prod.splits)

lemma number_value_error: "number_value t = Inl e \<Longrightarrow> e = Out_of_range"
  by (auto simp: number_value_def bindR_eq_Inl stod_def stoll_def Let_def dest: nearest_double_error
      split: if_splits)

lemma unescape_step_error: "unescape_step c s = Inl e \<Longrightarrow> e = Out_of_range"
  by (auto simp: unescape_step_def substr_def Let_def bindR_eq_Inl split: if_splits)

lemma unescapify_error: "unescapify s = Inl e \<Longrightarrow> e = Out_of_range"
  by (induction s rule: unescapify.induct)
    (auto simp: bindR_eq_Inl dest: unescape_step_error split: if_splits)

lemma mapR_error: "mapR f xs = Inl e \<Longrightarrow> \<exists>x \<in> set xs. f x = Inl e"
  by (induction xs) (auto simp: bindR_eq_Inl)

lemma mapR_result: "mapR f xs = Inr ys \<Longrightarrow> list_all2 (\<lambda>x y. f x = Inr y) xs ys"
  by (induction xs arbitrary: ys) (auto simp: bindR_eq_Inr)

lemma parse_errors: "parse s = Inl e \<Longrightarrow> e = Out_of_range"
proof (induction s arbitrary: e rule: parse.induct)
  case (1 s0)
  let ?s = "strip s0"
  consider "first_char ?s = CHR ''{''" | "first_char ?s \<noteq> CHR ''{''" "first_char ?s = CHR ''[''"
    | "first_char ?s \<noteq> CHR ''{''" "first_char ?s \<noteq> CHR ''[''" by blast
  then show ?case
  proof cases
    case 1
    with "1.prems" have "mapR parse_member (object_loop (tl ?s) scan_init) = Inl e"
      by (auto simp: parse.simps [of s0] bindR_eq_Inl parse_member_def [abs_def])
    then obtain m where m: "m \<in> set (object_loop (tl ?s) scan_init)" "parse_member m = Inl e"
      by (auto dest: mapR_error)
    from m(2) consider "parse (snd m) = Inl e" | v where "parse (snd m) = Inr v" "parse (fst m) = Inl e"
      by (auto simp: parse_member_def bindR_eq_Inl)
    then show ?thesis
      using "1.IH"(1) [OF refl 1 m(1)] "1.IH"(2) [OF refl 1 m(1)] by cases blast+
  next
    case 2
    with "1.prems" have "mapR parse (list_loop (tl ?s) scan_init) = Inl e"
      by (simp add: parse.simps [of s0] bindR_eq_Inl)
    then obtain t where "t \<in> set (list_loop (tl ?s) scan_init)" "parse t = Inl e"
      by (auto dest: mapR_error)
    then show ?thesis using "1.IH"(3) [OF refl 2] by blast
  next
    case 3
    show ?thesis
    proof (cases "first_char ?s = CHR 0x22")
      case True
      with "1.prems" show ?thesis
        by (auto simp: parse.simps [of s0] Let_def bindR_eq_Inl substr_def dest: unescapify_error
            split: if_splits)
    next
      case False
      with 3 "1.prems" show ?thesis
        by (simp add: parse.simps [of s0] Let_def number_value_error split: option.splits)
    qed
  qed
qed

lemma sound_leaf:
  "sound (JV t (Some i) l f s [] []) \<longleftrightarrow> (t = 5 \<longrightarrow> f \<noteq> None) \<and> (t = 6 \<longrightarrow> l \<noteq> None)"
  by (subst sound.simps) (auto simp: obj_keys_def)

lemma number_value_sound: "number_value t = Inr v \<Longrightarrow> sound v"
  by (auto simp: number_value_def bindR_eq_Inr sound_leaf split: if_splits)

lemma foldl_set_member_sound:
  "distinct (obj_keys o') \<Longrightarrow> list_all (\<lambda>kv. sound (snd kv)) o' \<Longrightarrow> list_all (\<lambda>kv. sound (snd kv)) kvs \<Longrightarrow>
     distinct (obj_keys (foldl set_member o' kvs)) \<and>
     list_all (\<lambda>kv. sound (snd kv)) (foldl set_member o' kvs)"
  by (induction kvs arbitrary: o') (simp_all add: set_member_def obj_put_distinct sound_obj_put)

lemma mapR_all:
  assumes "mapR f xs = Inr ys" and "\<And>x y. x \<in> set xs \<Longrightarrow> f x = Inr y \<Longrightarrow> P y"
  shows "list_all P ys"
  using assms
proof (induction xs arbitrary: ys)
  case (Cons x xs)
  then obtain y zs where "ys = y # zs" "f x = Inr y" "mapR f xs = Inr zs"
    by (auto simp: bindR_eq_Inr)
  moreover from this have "P y" by (intro Cons.prems(2) [of x]) simp_all
  moreover from calculation have "list_all P zs" by (intro Cons.IH Cons.prems(2)) simp_all
  ultimately show ?case by simp
qed simp

lemma parsed_members_sound:
  assumes "mapR parse_member ms = Inr kvs"
    and "\<And>m v. m \<in> set ms \<Longrightarrow> parse (snd m) = Inr v \<Longrightarrow> sound v"
  shows "sound (JV 3 (Some 0) None None [] [] (foldl set_member [] kvs))"
proof -
  have "list_all (\<lambda>kv. sound (snd kv)) kvs"
    using assms(1)
  proof (rule mapR_all)
    fix m kv
    assume m: "m \<in> set ms" "parse_member m = Inr kv"
    then have "parse (snd m) = Inr (snd kv)" by (auto simp: parse_member_def bindR_eq_Inr)
    then show "sound (snd kv)" using assms(2) [OF m(1)] by blast
  qed
  then have "distinct (obj_keys (foldl set_member [] kvs))"
    "list_all (\<lambda>kv. sound (snd kv)) (foldl set_member [] kvs)"
    using foldl_set_member_sound [of "[]" kvs] by (simp_all add: obj_keys_def)
  then show ?thesis by (subst sound.simps) simp
qed

lemma parse_sound: "parse s = Inr v \<Longrightarrow> sound v"
proof (induction s arbitrary: v rule: parse.induct)
  case (1 s0)
  let ?s = "strip s0"
  consider "first_char ?s = CHR ''{''" | "first_char ?s \<noteq> CHR ''{''" "first_char ?s = CHR ''[''"
    | "first_char ?s \<noteq> CHR ''{''" "first_char ?s \<noteq> CHR ''[''" by blast
  then show ?case
  proof cases
    case 1
    with "1.prems" obtain kvs where
      "mapR parse_member (object_loop (tl ?s) scan_init) = Inr kvs"
      and "v = JV 3 (Some 0) None None [] [] (foldl set_member [] kvs)"
      by (auto simp: parse.simps [of s0] bindR_eq_Inr parse_member_def [abs_def])
    with "1.IH"(1) [OF refl 1] show ?thesis using parsed_members_sound by blast
  next
    case 2
    with "1.prems" obtain vs where vs: "mapR parse (list_loop (tl ?s) scan_init) = Inr vs"
      and v: "v = JV 2 (Some 0) None None [] vs []"
      by (auto simp: parse.simps [of s0] bindR_eq_Inr)
    have "list_all sound vs"
      using vs "1.IH"(3) [OF refl 2] by (rule mapR_all)
    then show ?thesis by (subst sound.simps) (simp add: v obj_keys_def)
  next
    case 3
    with "1.prems" show ?thesis
      by (cases "first_char ?s = CHR 0x22")
        (auto simp: parse.simps [of s0] Let_def bindR_eq_Inr sound_leaf jv_defs number_value_sound
          split: option.splits if_splits)
  qed
qed

text \<open>What the printer writes is read back.\<close>

lemma parse_repr:
  assumes "denotes v j" "clean j" "printable j"
  shows "parse (repr v) = Inr (build j)"
  using parse_document(1) [OF repr_core [OF assms(1,3)] assms(2), of "[]" "[]"] by (simp add: all_ws_def)

lemma get_repr_denotes: "denotes v j \<Longrightarrow> get_repr v = Inr (repr v)"
  using denotes_readable by (simp add: get_repr_def)

section \<open>The document of a value\<close>

text \<open>
  The document a printed value stands for, as a function.  A double is printed with six significant
  digits, without a point when it is integral, so its document is the number in its text; it is the
  same number when six digits determine it.  \<open>describable\<close> are the values the printer can read
  and whose doubles are of that kind.
\<close>

definition number_json :: "number_token \<Rightarrow> json" where
  "number_json t = (if nt_frac t \<noteq> None \<or> nt_exp t \<noteq> None then Real t else Num (token_int t))"

definition double_json :: "double \<Rightarrow> json" where
  "double_json d = (case scan_number (show_double d) of None \<Rightarrow> Null | Some t \<Rightarrow> number_json t)"

definition six_digits_suffice :: "double \<Rightarrow> bool" where
  "six_digits_suffice d \<longleftrightarrow> (case scan_number (show_double d) of None \<Rightarrow> False
     | Some t \<Rightarrow> if nt_frac t \<noteq> None \<or> nt_exp t \<noteq> None then stod t = Inr d
                 else double_of_int (token_int t) = d)"

function describe :: "json_value \<Rightarrow> json" where
  "describe v =
     (if val_type v = 0 then Num (the (val_int v))
      else if val_type v = 1 then Str (val_string v)
      else if val_type v = 2 then Arr (map describe (val_list v))
      else if val_type v = 3 then Obj (map (\<lambda>kv. (fst kv, describe (snd kv))) (val_object v))
      else if val_type v = 5 then double_json (the (val_float v))
      else if val_type v = 6 then Num (the (val_llint v))
      else if val_int v = Some (- 1) then Null
      else Bool (val_int v = Some 1))"
  by pat_completeness auto
termination
  by (relation "measure size") (auto simp: size_member size_element)

declare describe.simps [simp del]

function describable :: "json_value \<Rightarrow> bool" where
  "describable v =
     ((val_type v = 0 \<longrightarrow> val_int v \<noteq> None) \<and>
      (val_type v = 2 \<longrightarrow> list_all describable (val_list v)) \<and>
      (val_type v = 3 \<longrightarrow> list_all (\<lambda>kv. describable (snd kv)) (val_object v)) \<and>
      (val_type v = 4 \<longrightarrow> val_int v \<in> {Some (- 1), Some 0, Some 1}) \<and>
      (val_type v = 5 \<longrightarrow> (case val_float v of None \<Rightarrow> False | Some d \<Rightarrow> six_digits_suffice d)) \<and>
      (val_type v = 6 \<longrightarrow> val_llint v \<noteq> None) \<and>
      val_type v \<in> {0, 1, 2, 3, 4, 5, 6})"
  by pat_completeness auto
termination
  by (relation "measure size") (auto simp: size_member size_element)

declare describable.simps [simp del]

lemma describe_jv [simp]:
  "describe (jv_int i) = Num i" "describe (jv_string s) = Str s" "describe (jv_bool b) = Bool b"
  "describe (jv_list vs) = Arr (map describe vs)"
  "describe (jv_object kvs) = Obj (map (\<lambda>kv. (fst kv, describe (snd kv))) kvs)"
  "describe (jv_double d) = double_json d"
  by (subst describe.simps, simp add: jv_defs)+

lemma describable_jv [simp]:
  "describable (jv_int i)" "describable (jv_string s)" "describable (jv_bool b)"
  "describable (jv_list vs) \<longleftrightarrow> list_all describable vs"
  "describable (jv_object kvs) \<longleftrightarrow> list_all (\<lambda>kv. describable (snd kv)) kvs"
  "describable (jv_double d) \<longleftrightarrow> six_digits_suffice d"
  by (subst describable.simps, simp add: jv_defs)+

text \<open>The documents whose printed texts are in the grammar: no empty container, no bare control character.\<close>

fun sendable :: "json \<Rightarrow> bool" where
  "sendable (Str s) = (\<forall>c \<in> set s. printable_char c)"
| "sendable (Arr js) = (js \<noteq> [] \<and> (\<forall>j \<in> set js. sendable j))"
| "sendable (Obj kjs) = (kjs \<noteq> [] \<and>
     (\<forall>kj \<in> set kjs. (\<forall>c \<in> set (fst kj). printable_char c) \<and> sendable (snd kj)))"
| "sendable _ = True"

lemma double_core: "six_digits_suffice d \<Longrightarrow> core (double_json d) (show_double d)"
proof -
  assume "six_digits_suffice d"
  then obtain t where t: "scan_number (show_double d) = Some t"
    by (auto simp: six_digits_suffice_def split: option.splits)
  then have "number_text t (show_double d)" by (simp add: scan_number_iff)
  then have "core (number_json t) (show_double d)"
    unfolding number_json_def by (auto simp del: not_None_eq split_paired_All intro: core_Num core_Real)
  with t show ?thesis by (simp add: double_json_def)
qed

lemma describe_core: "describable v \<Longrightarrow> sendable (describe v) \<Longrightarrow> core (describe v) (repr v)"
proof (induction v rule: describe.induct)
  case (1 v)
  note d = "1.prems"(1) [unfolded describable.simps [of v]]
  from d consider "val_type v = 0" | "val_type v = 1" | "val_type v = 2" | "val_type v = 3"
    | "val_type v = 4" | "val_type v = 5" | "val_type v = 6" by auto
  then show ?case
  proof cases
    case 1
    with d show ?thesis
      using core_indent [OF core_show_int] by (auto simp: describe.simps [of v] repr.simps [of v] show_field_def)
  next
    case 2
    with "1.prems"(2) show ?thesis
      using core_indent [OF core_Str [OF quote_literal]] by (simp add: describe.simps [of v] repr.simps [of v])
  next
    case 3
    have "list_all2 core (map describe (val_list v)) (map repr (val_list v))" "val_list v \<noteq> []"
      using "1.IH"(1) d 3 "1.prems"(2)
      by (auto simp: describe.simps [of v] list_all2_map1 list_all2_map2 list_all_iff intro!: list.rel_refl_strong)
    then have "elems (map describe (val_list v)) ([CHR 0x0A] @ comma_lines (map repr (val_list v)) @ [CHR 0x0A])"
      by (intro elems_comma_lines) (auto simp: is_ws_def)
    with 3 show ?thesis
      using core_indent [OF core_Arr] by (fastforce simp: describe.simps [of v] repr.simps [of v])
  next
    case 4
    let ?kjs = "map (\<lambda>kv. (fst kv, describe (snd kv))) (val_object v)"
    have "list_all2 member_text ?kjs (map (\<lambda>kv. indent_json (quote (fst kv)) @ '': '' @ repr (snd kv)) (val_object v))"
      "?kjs \<noteq> []"
      using "1.IH"(2) d 4 "1.prems"(2)
      by (auto simp: describe.simps [of v] list_all2_map1 list_all2_map2 list_all_iff
          intro!: list.rel_refl_strong member_textI [of "(_, _)", simplified] indent_literal quote_literal)
    then have "members ?kjs ([CHR 0x0A] @ comma_lines
        (map (\<lambda>kv. indent_json (quote (fst kv)) @ '': '' @ repr (snd kv)) (val_object v)) @ [CHR 0x0A])"
      by (intro members_comma_lines) (auto simp: is_ws_def)
    with 4 show ?thesis
      using core_indent [OF core_Obj] by (fastforce simp: describe.simps [of v] repr.simps [of v])
  next
    case 5
    with d show ?thesis
      using core_indent [OF core_True] core_indent [OF core_False] core_indent [OF core_Null]
      by (auto simp: describe.simps [of v] repr.simps [of v] show_field_def show_bool_def)
  next
    case 6
    with d show ?thesis
      using core_indent [OF double_core]
      by (auto simp: describe.simps [of v] repr.simps [of v] show_field_def split: option.splits)
  next
    case 7
    with d show ?thesis
      using core_indent [OF core_show_int] by (auto simp: describe.simps [of v] repr.simps [of v] show_field_def)
  qed
qed

lemma describable_readable: "describable v \<Longrightarrow> readable v"
proof (induction v rule: describe.induct)
  case (1 v)
  then show ?case
    by (auto simp: readable.simps [of v] describable.simps [of v] list_all_iff split: option.splits)
qed

lemma get_repr_describable: "describable v \<Longrightarrow> get_repr v = Inr (repr v)"
  by (simp add: get_repr_def describable_readable)

lemma parse_described:
  "describable v \<Longrightarrow> clean (describe v) \<Longrightarrow> sendable (describe v) \<Longrightarrow> parse (repr v) = Inr (build (describe v))"
  using parse_document(1) [OF describe_core, of v "[]" "[]"] by simp

end
