(* ===== verification/JsonProperties.thy ===== *)
theory JsonProperties
  imports JsonCorrect
begin

text \<open>
  What the JSON component promises to the rest of the program, and the inputs on which it deviates
  from RFC 8259: the properties of \<open>parse\<close> and \<open>get_repr\<close> over the lemmas of
  JsonNumber, JsonGrammar, JsonScan and JsonCorrect.
\<close>

section \<open>Parsing\<close>

text \<open>C3: The parser is correct on the part of the JSON grammar that \<open>core\<close> describes: all of it
  but the \<open>\\uXXXX\<close> escapes and white space between the brackets of an empty array.  A text of
  this part, whatever white space surrounds its tokens, of a clean document (no bracket in a string,
  no comma in a string that is an element of a list, no empty object, distinct member names, numbers
  in the range of their types) is parsed to exactly the value that document stands for: every
  member, element, number and two character escape.\<close>

theorem parse_correct:
  assumes "core j t" "clean j" "all_ws v" "all_ws w"
  shows "parse (v @ t @ w) = Inr (build j)"
  using parse_document(1) [OF assms(1)] assms by simp

lemma sample_literal: "literal ''a,b'' (CHR 0x22 # ''a,b'' @ [CHR 0x22])"
proof -
  have "body ''a,b'' ([CHR ''a''] @ [CHR '',''] @ [CHR ''b''] @ [])"
    by (intro body.intros) (simp_all add: encodes_def)
  then show ?thesis by (auto simp: literal_def)
qed

lemma sample_core:
  "core (Obj [(''a,b'', Arr [Bool True, Null])])
     (CHR ''{'' # ([] @ (CHR 0x22 # ''a,b'' @ [CHR 0x22]) @ '' '' @ CHR '':'' # [] @
        (CHR ''['' # ('' '' @ ''true'' @ [] @ CHR '','' # [] @ ''null'' @ '' '') @ '']'') @ []) @ ''}'')"
  by (intro core_Obj members_One sample_literal core_Arr elems_Cons elems_One core_True core_Null)
    (simp_all add: is_ws_def)

theorem parse_correct_witness:
  "parse ('' '' @ (CHR ''{'' # ([] @ (CHR 0x22 # ''a,b'' @ [CHR 0x22]) @ '' '' @ CHR '':'' # [] @
        (CHR ''['' # ('' '' @ ''true'' @ [] @ CHR '','' # [] @ ''null'' @ '' '') @ '']'') @ []) @ ''}'') @ [])
   = Inr (build (Obj [(''a,b'', Arr [Bool True, Null])]))"
  by (rule parse_correct [OF sample_core]) (simp_all add: is_ws_def is_bracket_def)

text \<open>C37: The number scanner of the parser accepts a text with the groups \<open>t\<close> exactly when
  the text is in the language of the regular expression
  \<open>(-)?(0|[1-9][0-9]*)(\\.[0-9]+)?([eE][-+]?[0-9]+)?\<close> with those groups.\<close>

theorem number_scanner_is_regex: "(scan_number s = Some t) = number_text t s"
  by (rule scan_number_iff)

text \<open>C24: On every text whatever, \<open>parse\<close> returns: either with the exception
  \<open>std::out_of_range\<close> (a number outside of its type, a half surrogate escape at the end) or
  with a value all of whose fields that \<open>get_repr\<close> reads are initialised, so that the value can
  be printed; it has no undefined behaviour and raises nothing else.\<close>

theorem parse_total:
  "case parse s of
     Inl e \<Rightarrow> e = Out_of_range
   | Inr v \<Rightarrow> get_repr v = Inr (repr v) \<and> distinct (obj_keys (val_object v))"
proof (cases "parse s")
  case (Inl e)
  then show ?thesis by (simp add: parse_errors)
next
  case (Inr v)
  then have "sound v" by (rule parse_sound)
  then show ?thesis using Inr by (simp add: sound_get_repr sound.simps [of v])
qed

section \<open>Printing\<close>

text \<open>C22: Printing and parsing round trip: a value that stands for a printable clean document is
  printed, and parsing the printed text gives the canonical value of the same document.\<close>

theorem repr_parse_roundtrip:
  assumes "denotes v j" "clean j" "printable j"
  shows "bindR (get_repr v) parse = Inr (build j) \<and> denotes (build j) j"
proof -
  have "get_repr v = Inr (repr v)"
    using denotes_readable [OF assms(1)] by (simp add: get_repr_def)
  moreover have "parse (repr v) = Inr (build j)" by (rule parse_repr [OF assms])
  ultimately show ?thesis using denotes_build [OF assms(2)] by simp
qed

theorem repr_parse_roundtrip_witness:
  "bindR (get_repr (jv_object [(''id'', jv_list [jv_int 7, jv_bool True])])) parse
     = Inr (build (Obj [(''id'', Arr [Num 7, Bool True])])) \<and>
   denotes (build (Obj [(''id'', Arr [Num 7, Bool True])])) (Obj [(''id'', Arr [Num 7, Bool True])])"
proof (rule repr_parse_roundtrip)
  have "denotes (jv_int 7) (Num 7)" by (rule denotes_int) (simp_all add: jv_defs)
  moreover have "denotes (jv_bool True) (Bool True)" by (rule denotes_bool) (simp_all add: jv_defs)
  ultimately have "denotes (jv_list [jv_int 7, jv_bool True]) (Arr [Num 7, Bool True])"
    by (intro denotes_list) (simp_all add: jv_defs)
  then show "denotes (jv_object [(''id'', jv_list [jv_int 7, jv_bool True])])
      (Obj [(''id'', Arr [Num 7, Bool True])])"
    by (intro denotes_object) (simp_all add: jv_defs)
  show "clean (Obj [(''id'', Arr [Num 7, Bool True])])"
    by (simp add: is_bracket_def int64_def)
  show "printable (Obj [(''id'', Arr [Num 7, Bool True])])"
    by (simp add: printable_char_def schar_def uchar_def)
qed

section \<open>Deviations from the JSON standard\<close>

lemma unescapify_plain:
  "CHR 0x5C \<notin> set p \<Longrightarrow> unescapify (p @ s) = bindR (unescapify s) (\<lambda>r. Inr (p @ r))"
proof (induction p)
  case Nil
  then show ?case by (cases "unescapify s") simp_all
next
  case (Cons c p)
  then show ?case by (cases "p @ s") (auto simp: bindR_assoc)
qed

text \<open>An escape \<open>\\uXXXX\<close> whose reversed code is not a high surrogate is not decoded: the
  backslash and the \<open>u\<close> vanish, the four digits stay in the string as they are, and the rest
  of the string is read on as if nothing had happened.\<close>

theorem unicode_escape_kept_as_digits:
  assumes "length h = 4" "CHR 0x5C \<notin> set h" "hex_to_int h div 1024 \<noteq> 54"
  shows "unescapify ([CHR 0x5C, CHR ''u''] @ h @ s) = bindR (unescapify s) (\<lambda>r. Inr (h @ r))"
proof -
  have "unescape_step (CHR ''u'') (h @ s) = Inr []"
    using assms by (simp add: unescape_step_def)
  then show ?thesis
    using unescapify_plain [OF assms(2), of s] by (cases "unescapify s") simp_all
qed

theorem unicode_escape_kept_as_digits_witness:
  "unescapify ([CHR 0x5C, CHR ''u''] @ ''00e9'' @ [CHR 0x5C, CHR ''n'']) = Inr (''00e9'' @ [CHR 0x0A])"
  using unicode_escape_kept_as_digits [of "''00e9''" "[CHR 0x5C, CHR ''n'']"]
  by (simp add: hex_to_int_def hex_digit_of_def upt_conv_Cons unescape_step_def)

lemma list_loop_comma_string:
  assumes "\<forall>c \<in> set a. neutral c" "\<forall>c \<in> set b. neutral c"
  shows "list_loop (CHR 0x22 # a @ CHR '','' # b @ [CHR 0x22, CHR '']'']) scan_init
    = [CHR 0x22 # a, b @ [CHR 0x22]]"
proof -
  have sep: "list_loop (CHR '','' # r) (element_state 0 0 True acc)
      = acc # list_loop r (element_state 0 0 True [])" if "r \<noteq> []" for r acc
    using that by (cases r) (auto simp: loop_defs)
  have "list_loop (CHR 0x22 # a @ CHR '','' # b @ [CHR 0x22, CHR '']'']) (element_state 0 0 False [])
      = (CHR 0x22 # a) # list_loop (b @ [CHR 0x22, CHR '']'']) (element_state 0 0 True [])"
    using assms(1) by (simp add: element_scan.run_quote element_scan.run_neutral sep)
  also have "\<dots> = [CHR 0x22 # a, b @ [CHR 0x22]]"
    using assms(2) by (simp add: element_scan.run_neutral) (simp add: loop_defs)
  finally show ?thesis by (simp add: element_state_init)
qed

text \<open>An empty array with white space between its brackets is read as an array with one element,
  the number 0 of the default constructor.\<close>

lemma blank_array_has_an_element:
  assumes "all_ws w" "w \<noteq> []"
  shows "parse ([CHR ''[''] @ w @ [CHR '']'']) = Inr (JV 2 (Some 0) None None [] [jv_default] [])"
proof -
  have "strip ([] @ (CHR ''['' # w @ [CHR '']'']) @ []) = CHR ''['' # w @ [CHR '']'']"
    by (rule strip_padded) (simp_all add: is_ws_def)
  moreover have "list_loop (w @ [CHR '']'']) (element_state 0 0 False []) = [w]"
    using assms by (subst element_scan.run_ws) (simp_all add: loop_defs)
  moreover have "parse w = Inr jv_default"
    using strip_all_ws [OF assms(1)]
    by (simp add: parse.simps [of w] Let_def first_char_def scan_number_def scan_int_def)
  ultimately show ?thesis
    by (simp add: parse.simps [of "CHR ''['' # _"] first_char_def element_state_init [symmetric])
qed

text \<open>A comma inside of a string that is a list element ends the element: for every string
  text \<open>a,b\<close> without brackets, quotes and backslashes the parser hands the two halves, each
  with one quote, on as two elements instead of the one string.\<close>

theorem comma_splits_list_strings:
  assumes "\<forall>c \<in> set a. neutral c" "\<forall>c \<in> set b. neutral c"
  shows "parse ([CHR ''['', CHR 0x22] @ a @ '','' @ b @ [CHR 0x22, CHR '']''])
    = bindR (parse (CHR 0x22 # a)) (\<lambda>v. bindR (parse (b @ [CHR 0x22]))
        (\<lambda>w. Inr (JV 2 (Some 0) None None [] [v, w] [])))"
proof -
  have "strip ([] @ (CHR ''['' # (CHR 0x22 # a @ CHR '','' # b) @ [CHR 0x22, CHR '']'']) @ [])
      = CHR ''['' # (CHR 0x22 # a @ CHR '','' # b) @ [CHR 0x22, CHR '']'']"
    by (rule strip_padded) (simp_all add: is_ws_def)
  then show ?thesis
    using list_loop_comma_string [OF assms]
    by (simp add: parse.simps [of "CHR ''['' # _"] first_char_def bindR_assoc)
qed

theorem comma_splits_list_strings_witness:
  "parse ([CHR ''['', CHR 0x22] @ ''a'' @ '','' @ ''b'' @ [CHR 0x22, CHR '']''])
    = bindR (parse (CHR 0x22 # ''a'')) (\<lambda>v. bindR (parse (''b'' @ [CHR 0x22]))
        (\<lambda>w. Inr (JV 2 (Some 0) None None [] [v, w] [])))"
  by (rule comma_splits_list_strings) (simp_all add: neutral_def is_bracket_def)

end
