(* ===== verification/Files.thy ===== *)
theory Files
  imports Prelude
begin

text \<open>
  generate_libs/uuid_generator.cpp and generate_libs/file_management.cpp: \<open>generate_uuid\<close> and
  the class \<open>file\<close>, a tree of binary files, text files and directories that can be read from
  and written to the disk, printed, and packed into a zip archive.  The random engine is a
  sequence of picks, the disk a map from names to contents, the local time a parameter; an
  archive is the sequence of calls that reach the zip library.
\<close>

section \<open>Identifiers\<close>

definition uuid_hex :: string where
  "uuid_hex = ''0123456789abcdef''"

definition uuid_v4_pattern :: "nat list" where
  "uuid_v4_pattern = [8, 4, 4, 4, 12]"

text \<open>The inner loop on a group, from the pick number \<open>k\<close> on, and the outer loop.\<close>

definition uuid_group :: "(nat \<Rightarrow> nat) \<Rightarrow> nat \<Rightarrow> nat \<Rightarrow> string" where
  "uuid_group pick_hex k n = map (\<lambda>i. uuid_hex ! pick_hex i) [k..<k + n]"

fun uuid_groups :: "(nat \<Rightarrow> nat) \<Rightarrow> nat \<Rightarrow> nat list \<Rightarrow> string" where
  "uuid_groups pick_hex k [] = []"
| "uuid_groups pick_hex k [n] = uuid_group pick_hex k n"
| "uuid_groups pick_hex k (n # m # ns) =
     uuid_group pick_hex k n @ ''-'' @ uuid_groups pick_hex (k + n) (m # ns)"

definition generate_uuid :: "(nat \<Rightarrow> nat) \<Rightarrow> string" where
  "generate_uuid pick_hex = uuid_groups pick_hex 0 uuid_v4_pattern"

text \<open>The distribution \<open>pick_hex(0,15)\<close> returns values of its range.\<close>

definition hex_picks :: "(nat \<Rightarrow> nat) \<Rightarrow> bool" where
  "hex_picks pick_hex \<longleftrightarrow> (\<forall>i. pick_hex i < 16)"

section \<open>The tree of files\<close>

datatype pack_file =
  File (filetype: int)
       (binary_contents: string)
       (text_contents: string)
       (directory_contents: "pack_file list")
       (filename: string)

definition file_empty :: pack_file where
  "file_empty = File 1 [] [] [] []"

definition file_dir :: "string \<Rightarrow> pack_file list \<Rightarrow> pack_file" where
  "file_dir dirname contents = File 2 [] [] contents dirname"

definition file_text :: "string \<Rightarrow> string \<Rightarrow> pack_file" where
  "file_text fname contents = File 1 [] contents [] fname"

lemmas file_defs = file_empty_def file_dir_def file_text_def

definition set_filename :: "string \<Rightarrow> pack_file \<Rightarrow> pack_file" where
  "set_filename n f = File (filetype f) (binary_contents f) (text_contents f) (directory_contents f) n"

lemma set_filename_sel [simp]:
  "filetype (set_filename n f) = filetype f" "binary_contents (set_filename n f) = binary_contents f"
  "text_contents (set_filename n f) = text_contents f"
  "directory_contents (set_filename n f) = directory_contents f" "filename (set_filename n f) = n"
  by (simp_all add: set_filename_def)

lemma size_directory [termination_simp]: "g \<in> set (directory_contents f) \<Longrightarrow> size g < size f"
proof (cases f)
  case (File t b s ds n)
  assume "g \<in> set (directory_contents f)"
  with File have "g \<in> set ds" by simp
  then have "size g < Suc (size_list size ds)" by (induction ds) auto
  with File show ?thesis by simp
qed

text \<open>
  The greedy full match of \<open>.*[\\\/](.+)\<close>, whose dot does not match a line break: the text
  behind the last slash or backslash that is not the last character.
\<close>

definition is_slash :: "char \<Rightarrow> bool" where
  "is_slash c \<longleftrightarrow> c = CHR ''/'' \<or> c = CHR 0x5C"

definition is_break :: "char \<Rightarrow> bool" where
  "is_break c \<longleftrightarrow> c = CHR 0x0A \<or> c = CHR 0x0D"

definition truncate_slashes :: "string \<Rightarrow> string" where
  "truncate_slashes strink =
     (if list_ex is_break strink \<or> \<not> list_ex is_slash (butlast strink) then strink
      else rev (takeWhile (\<lambda>c. \<not> is_slash c) (rev (butlast strink))) @ [last strink])"

section \<open>The disk\<close>

type_synonym disk = "string \<Rightarrow> string option"

text \<open>
  A stream on a file that cannot be opened reads as empty text; in the binary case
  \<open>tellg\<close> is \<open>-1\<close> there, and a string of that length raises \<open>std::length_error\<close>.
\<close>

definition read_file :: "disk \<Rightarrow> string \<Rightarrow> bool \<Rightarrow> pack_file \<Rightarrow> pack_file result" where
  "read_file d fname is_binary f =
     (if is_binary then
        (case d fname of
           None \<Rightarrow> Inl Length_error
         | Some bytes \<Rightarrow> Inr (File 0 bytes (text_contents f) (directory_contents f) (truncate_slashes fname)))
      else Inr (File 1 (binary_contents f) (case d fname of None \<Rightarrow> [] | Some t \<Rightarrow> t)
                  (directory_contents f) (truncate_slashes fname)))"

text \<open>\<open>can_open\<close> says which names the operating system lets the program create.\<close>

definition write_file :: "(string \<Rightarrow> bool) \<Rightarrow> pack_file \<Rightarrow> disk \<Rightarrow> disk" where
  "write_file can_open f d =
     (if can_open (filename f) then
        (if filetype f = 0 then d(filename f \<mapsto> binary_contents f)
         else if filetype f = 1 then d(filename f \<mapsto> text_contents f)
         else d)
      else d)"

section \<open>Archives\<close>

record tm_zip =
  tm_sec :: int
  tm_min :: int
  tm_hour :: int
  tm_mday :: int
  tm_mon :: int
  tm_year :: int

record zip_fileinfo =
  tmz_date :: tm_zip
  dosDate :: nat
  internal_fa :: nat
  external_fa :: nat

definition exfl :: "nat list" where
  "exfl = [0x75, 0x78, 0x0B, 0x00, 0x01, 0x04, 0xE8, 0x03, 0x00, 0x00, 0x04, 0xE8, 0x03, 0x00, 0x00]"

definition ext_attrs :: nat where
  "ext_attrs = 420 * 2 ^ 16"

definition initialize_zfi :: "tm_zip \<Rightarrow> zip_fileinfo" where
  "initialize_zfi current_time =
     \<lparr>tmz_date = current_time, dosDate = 0, internal_fa = 0, external_fa = ext_attrs\<rparr>"

text \<open>
  The calls of the zip library.  Of \<open>zipOpenNewFileInZip4_64\<close> the arguments that vary or carry
  data are kept: the name, the file information, the extra field, the compression method, the
  version and the flags.
\<close>

datatype zip_call =
    ZipOpen string
  | ZipOpenNewFile string zip_fileinfo "nat list" nat nat nat
  | ZipWrite string
  | ZipCloseFile
  | ZipClose

definition zip_entry :: "zip_fileinfo \<Rightarrow> nat \<Rightarrow> string \<Rightarrow> string \<Rightarrow> zip_call list" where
  "zip_entry zip_fi compression name contents =
     [ZipOpenNewFile (c_str name) zip_fi exfl compression 798 2048, ZipWrite contents, ZipCloseFile]"

definition child_path :: "string \<Rightarrow> string \<Rightarrow> string" where
  "child_path subdirectory name = subdirectory @ (if subdirectory = [] then [] else ''/'') @ name"

function add_files_to_zip :: "zip_fileinfo \<Rightarrow> string \<Rightarrow> pack_file \<Rightarrow> zip_call list" where
  "add_files_to_zip zip_fi subdirectory f =
     (if filetype f = 0 then zip_entry zip_fi 8 subdirectory (binary_contents f)
      else if filetype f = 1 then zip_entry zip_fi 0 subdirectory (text_contents f)
      else if filetype f = 2 then
        concat (map (\<lambda>i. add_files_to_zip zip_fi (child_path subdirectory (filename i)) i)
          (directory_contents f))
      else [])"
  by pat_completeness auto
termination
  by (relation "measure (\<lambda>(zip_fi, subdirectory, f). size f)") (auto simp: size_directory)

declare add_files_to_zip.simps [simp del]

definition make_zip :: "tm_zip \<Rightarrow> (nat \<Rightarrow> nat) \<Rightarrow> string \<Rightarrow> pack_file \<Rightarrow> string \<times> zip_call list \<times> pack_file" where
  "make_zip current_time u extension f =
     (let zip_fi = initialize_zfi current_time;
          f' = set_filename (''tmp/'' @ generate_uuid u @ extension) f
      in (filename f',
          [ZipOpen (c_str (filename f'))] @ add_files_to_zip zip_fi [] f' @ [ZipClose],
          f'))"

text \<open>The textual tree.\<close>

function tree_repr :: "nat \<Rightarrow> pack_file \<Rightarrow> string" where
  "tree_repr indent f =
     concat (replicate (indent - 1) ''| '') @ (if indent \<noteq> 0 then ''|-'' else []) @
     filename f @ [CHR 0x0A] @
     (if filetype f = 2 then concat (map (tree_repr (indent + 1)) (directory_contents f)) else [])"
  by pat_completeness auto
termination
  by (relation "measure (\<lambda>(indent, f). size f)") (auto simp: size_directory)

declare tree_repr.simps [simp del]

section \<open>What the operations promise\<close>

subsection \<open>Identifiers\<close>

lemma uuid_hex_nth: "i < 16 \<Longrightarrow> uuid_hex ! i = digit_char i"
  by (simp add: uuid_hex_def digit_char_def)

lemma digit_char_inj: "i < 16 \<Longrightarrow> j < 16 \<Longrightarrow> digit_char i = digit_char j \<longleftrightarrow> i = j"
proof -
  have "distinct uuid_hex" by (simp add: uuid_hex_def)
  moreover assume "i < 16" "j < 16"
  ultimately show ?thesis
    using nth_eq_iff_index_eq [of uuid_hex i j] by (simp add: uuid_hex_nth) (simp add: uuid_hex_def)
qed

lemma uuid_group_eq:
  assumes "hex_picks u" "hex_picks v"
  shows "uuid_group u k n = uuid_group v k n \<longleftrightarrow> (\<forall>i \<in> {k..<k + n}. u i = v i)"
  using assms by (auto simp: uuid_group_def hex_picks_def uuid_hex_nth digit_char_inj)

lemma uuid_group_length [simp]: "length (uuid_group u k n) = n"
  by (simp add: uuid_group_def)

lemma uuid_groups_Cons:
  "uuid_groups u k (n # ns) = uuid_group u k n @ (if ns = [] then [] else CHR ''-'' # uuid_groups u (k + n) ns)"
  by (cases ns) simp_all

lemma uuid_groups_eq:
  assumes "hex_picks u" "hex_picks v"
  shows "uuid_groups u k ns = uuid_groups v k ns \<longleftrightarrow> (\<forall>i \<in> {k..<k + sum_list ns}. u i = v i)"
proof (induction ns arbitrary: k)
  case (Cons n ns)
  have "{k..<k + sum_list (n # ns)} = {k..<k + n} \<union> {k + n..<k + n + sum_list ns}" by auto
  then show ?case
    using Cons.IH [of "k + n"] uuid_group_eq [OF assms, of k n] by (auto simp: uuid_groups_Cons)
qed simp

text \<open>The positions of the hyphens.\<close>

definition uuid_like :: "string \<Rightarrow> bool" where
  "uuid_like s \<longleftrightarrow> length s = 36 \<and>
     (\<forall>i < 36. if i \<in> {8, 13, 18, 23} then s ! i = CHR ''-'' else s ! i \<in> set uuid_hex)"

lemma length_uuid_hex: "length uuid_hex = 16"
  by (simp add: uuid_hex_def)

lemma uuid_group_hex: "hex_picks u \<Longrightarrow> i < n \<Longrightarrow> uuid_group u k n ! i \<in> set uuid_hex"
  unfolding uuid_group_def hex_picks_def by (simp add: length_uuid_hex)

lemma generate_uuid_groups:
  "generate_uuid u = uuid_group u 0 8 @ [CHR ''-''] @ uuid_group u 8 4 @ [CHR ''-''] @
     uuid_group u 12 4 @ [CHR ''-''] @ uuid_group u 16 4 @ [CHR ''-''] @ uuid_group u 20 12"
  by (simp add: generate_uuid_def uuid_v4_pattern_def)

lemma generate_uuid_like: "hex_picks u \<Longrightarrow> uuid_like (generate_uuid u)"
  by (auto simp: uuid_like_def generate_uuid_groups nth_append uuid_group_hex nth_Cons')

subsection \<open>Archives\<close>

text \<open>
  The abstract contents of a tree: the path of each leaf as a list of names, the compression
  method and the bytes.  A path is written with slashes between its names.
\<close>

function leaf_paths :: "pack_file \<Rightarrow> (string list \<times> nat \<times> string) list" where
  "leaf_paths f =
     (if filetype f = 0 then [([], 8, binary_contents f)]
      else if filetype f = 1 then [([], 0, text_contents f)]
      else if filetype f = 2 then
        concat (map (\<lambda>g. map (\<lambda>(p, mc). (filename g # p, mc)) (leaf_paths g)) (directory_contents f))
      else [])"
  by pat_completeness auto
termination
  by (relation "measure size") (auto simp: size_directory)

declare leaf_paths.simps [simp del]

fun join_path :: "string list \<Rightarrow> string" where
  "join_path [] = []"
| "join_path [n] = n"
| "join_path (n # m # ns) = n @ ''/'' @ join_path (m # ns)"

text \<open>No file inside of the tree has an empty name.\<close>

function named :: "pack_file \<Rightarrow> bool" where
  "named f \<longleftrightarrow> list_all (\<lambda>g. filename g \<noteq> [] \<and> named g) (directory_contents f)"
  by pat_completeness auto
termination
  by (relation "measure size") (auto simp: size_directory)

declare named.simps [simp del]

lemma join_path_empty: "[] \<notin> set ps \<Longrightarrow> join_path ps = [] \<longleftrightarrow> ps = []"
  by (induction ps rule: join_path.induct) auto

lemma join_path_snoc: "ps \<noteq> [] \<Longrightarrow> join_path (ps @ [n]) = join_path ps @ ''/'' @ n"
  by (induction ps rule: join_path.induct) auto

lemma child_path_join: "[] \<notin> set ps \<Longrightarrow> child_path (join_path ps) n = join_path (ps @ [n])"
  by (cases "ps = []") (simp_all add: child_path_def join_path_empty join_path_snoc)

lemma add_files_leaves:
  "[] \<notin> set ps \<Longrightarrow> named f \<Longrightarrow> add_files_to_zip z (join_path ps) f
     = concat (map (\<lambda>(p, m, c). zip_entry z m (join_path (ps @ p)) c) (leaf_paths f))"
proof (induction f arbitrary: ps rule: leaf_paths.induct)
  case (1 f)
  consider "filetype f = 0" | "filetype f = 1" | "filetype f = 2"
    | "filetype f \<noteq> 0" "filetype f \<noteq> 1" "filetype f \<noteq> 2" by blast
  then show ?case
  proof cases
    case 3
    have "add_files_to_zip z (child_path (join_path ps) (filename g)) g
        = concat (map (\<lambda>(p, m, c). zip_entry z m (join_path (ps @ filename g # p)) c) (leaf_paths g))"
      if g: "g \<in> set (directory_contents f)" for g
    proof -
      have n: "filename g \<noteq> []" "named g"
        using "1.prems"(2) g by (simp_all add: named.simps [of f] list_all_iff)
      then have "[] \<notin> set (ps @ [filename g])" using "1.prems"(1) by auto
      with "1.IH" [of g "ps @ [filename g]"] 3 g n "1.prems"(1) show ?thesis
        by (simp add: child_path_join)
    qed
    then have "map (\<lambda>i. add_files_to_zip z (child_path (join_path ps) (filename i)) i) (directory_contents f)
        = map (\<lambda>g. concat (map (\<lambda>(p, m, c). zip_entry z m (join_path (ps @ filename g # p)) c) (leaf_paths g)))
            (directory_contents f)" by simp
    with 3 show ?thesis
      by (simp add: add_files_to_zip.simps [of z _ f] leaf_paths.simps [of f] concat_map_concat
          o_def split_def cong: map_cong)
  qed (simp_all add: add_files_to_zip.simps [of z _ f] leaf_paths.simps [of f])
qed

lemma make_zip_run:
  assumes "named f"
  shows "make_zip t u ext f =
    (''tmp/'' @ generate_uuid u @ ext,
     [ZipOpen (c_str (''tmp/'' @ generate_uuid u @ ext))] @
     concat (map (\<lambda>(p, m, c). zip_entry (initialize_zfi t) m (join_path p) c) (leaf_paths f)) @ [ZipClose],
     set_filename (''tmp/'' @ generate_uuid u @ ext) f)"
proof -
  let ?f = "set_filename (''tmp/'' @ generate_uuid u @ ext) f"
  have "named (set_filename n f)" for n
    using assms by (simp add: named.simps [of f] named.simps [of "set_filename n f"])
  moreover have "leaf_paths (set_filename n f) = leaf_paths f" for n
    by (simp add: leaf_paths.simps [of f] leaf_paths.simps [of "set_filename n f"])
  ultimately have "add_files_to_zip (initialize_zfi t) (join_path []) ?f
      = concat (map (\<lambda>(p, m, c). zip_entry (initialize_zfi t) m (join_path p) c) (leaf_paths f))"
    using add_files_leaves [of "[]" ?f] by simp
  then show ?thesis by (simp add: make_zip_def Let_def)
qed

text \<open>The leaves and the names of a tree by its form.\<close>

lemma leaf_paths_files [simp]:
  "leaf_paths (file_text n t) = [([], 0, t)]"
  "leaf_paths (File 0 b t ds n) = [([], 8, b)]"
  "leaf_paths (file_dir n ds) =
     concat (map (\<lambda>g. map (\<lambda>(p, mc). (filename g # p, mc)) (leaf_paths g)) ds)"
  by (subst leaf_paths.simps, simp add: file_defs)+

lemma named_files [simp]:
  "named (file_text n t)" "named (File k b t [] n)"
  "named (file_dir n ds) \<longleftrightarrow> (\<forall>g \<in> set ds. filename g \<noteq> [] \<and> named g)"
  by (subst named.simps, simp add: file_defs list_all_iff)+

lemma filename_files [simp]:
  "filename (file_text n t) = n" "filename (file_dir n ds) = n"
  by (simp_all add: file_defs)

subsection \<open>The base name\<close>

text \<open>\<open>slash_match s r\<close>: the expression \<open>.*[\\\/](.+)\<close> matches \<open>s\<close> with the group \<open>r\<close>.\<close>

definition slash_match :: "string \<Rightarrow> string \<Rightarrow> bool" where
  "slash_match s r \<longleftrightarrow> (\<exists>p c. s = p @ c # r \<and> is_slash c \<and> r \<noteq> [] \<and>
     (\<forall>x \<in> set p. \<not> is_break x) \<and> (\<forall>x \<in> set r. \<not> is_break x))"

lemma slash_not_break: "is_slash c \<Longrightarrow> \<not> is_break c"
  by (auto simp: is_slash_def is_break_def)

lemma truncate_slashes_greedy:
  assumes "slash_match s r" "\<And>r'. slash_match s r' \<Longrightarrow> length r \<le> length r'"
  shows "truncate_slashes s = r"
proof -
  from assms(1) obtain p c where s: "s = p @ c # r" and c: "is_slash c" and r: "r \<noteq> []"
    and nb: "\<forall>x \<in> set p. \<not> is_break x" "\<forall>x \<in> set r. \<not> is_break x"
    by (auto simp: slash_match_def)
  obtain r0 x where rx: "r = r0 @ [x]" using r by (cases r rule: rev_cases) auto
  have r0: "\<forall>y \<in> set r0. \<not> is_slash y"
  proof
    fix y
    assume "y \<in> set r0"
    then obtain a b where ab: "r0 = a @ y # b" by (meson split_list)
    show "\<not> is_slash y"
    proof
      assume "is_slash y"
      then have "slash_match s (b @ [x])"
        unfolding slash_match_def using nb c slash_not_break
        by (intro exI [of _ "p @ c # a"] exI [of _ y]) (auto simp: s rx ab)
      from assms(2) [OF this] show False by (simp add: rx ab)
    qed
  qed
  then have "takeWhile (\<lambda>y. \<not> is_slash y) (rev r0 @ c # rev p) = rev r0"
    using c by (subst takeWhile_append2) auto
  moreover have "\<not> list_ex is_break s"
    using nb c slash_not_break by (auto simp: s list_ex_iff)
  moreover have "butlast s = p @ c # r0" "last s = x" by (simp_all add: s rx butlast_append)
  ultimately show ?thesis using c by (simp add: truncate_slashes_def rx list_ex_iff)
qed

lemma truncate_slashes_none:
  assumes "\<nexists>r. slash_match s r"
  shows "truncate_slashes s = s"
proof (rule ccontr)
  assume "truncate_slashes s \<noteq> s"
  then have nb: "\<forall>x \<in> set s. \<not> is_break x" and "\<exists>c \<in> set (butlast s). is_slash c"
    by (auto simp: truncate_slashes_def list_ex_iff split: if_splits)
  then obtain c a b where c: "is_slash c" "butlast s = a @ c # b" by (meson split_list)
  then have "s \<noteq> []" by auto
  then have "s = butlast s @ [last s]" by simp
  then have "s = a @ c # (b @ [last s])" using c(2) by simp
  moreover from this nb have "\<forall>x \<in> set a. \<not> is_break x" "\<forall>x \<in> set (b @ [last s]). \<not> is_break x"
    by (metis Un_iff list.set_intros(2) set_append)+
  ultimately have "slash_match s (b @ [last s])"
    unfolding slash_match_def using c(1) by blast
  with assms show False by blast
qed

section \<open>Properties\<close>

text \<open>C38: \<open>generate_uuid\<close> returns 36 characters, hyphens at the positions 8, 13, 18 and 23 and
  lower case hexadecimal digits elsewhere, and two calls return the same identifier only when
  all 32 random picks agree.\<close>

theorem uuid_shape_and_injective:
  assumes "hex_picks u" "hex_picks v"
  shows "uuid_like (generate_uuid u) \<and>
    (generate_uuid u = generate_uuid v) = (\<forall>i \<in> {0..<32}. u i = v i)"
  using generate_uuid_like [OF assms(1)] uuid_groups_eq [OF assms, of 0 uuid_v4_pattern]
  by (simp add: generate_uuid_def) (simp add: uuid_v4_pattern_def)

theorem uuid_shape_and_injective_witness:
  "uuid_like (generate_uuid (\<lambda>_. 10)) \<and>
    (generate_uuid (\<lambda>_. 10) = generate_uuid (\<lambda>i. i mod 16)) = (\<forall>i \<in> {0..<32::nat}. 10 = i mod 16)"
  by (rule uuid_shape_and_injective) (simp_all add: hex_picks_def)

text \<open>The base name the regular expression extracts is the text behind the last slash or
  backslash with something behind it, whatever other matches there are; without a match the
  whole name is kept.\<close>

theorem truncate_slashes_is_last_match:
  "(\<forall>r. slash_match s r \<longrightarrow> (\<forall>r'. slash_match s r' \<longrightarrow> length r \<le> length r') \<longrightarrow> truncate_slashes s = r)
   \<and> ((\<nexists>r. slash_match s r) \<longrightarrow> truncate_slashes s = s)"
  using truncate_slashes_greedy [of s] truncate_slashes_none [of s] by blast

theorem truncate_slashes_is_last_match_witness:
  "truncate_slashes ''abc'' = ''abc''"
proof -
  have "\<nexists>r. slash_match ''abc'' r"
    by (auto simp: slash_match_def is_slash_def append_eq_Cons_conv Cons_eq_append_conv)
  then show ?thesis using truncate_slashes_is_last_match [of "''abc''"] by blast
qed

text \<open>C30: \<open>make_zip\<close> writes, between opening and closing one archive in \<open>tmp/\<close> that is named
  by a fresh identifier, exactly one properly opened, written and closed entry per leaf of the
  tree, in the order of the tree, under the path of the names that lead to it.\<close>

theorem make_zip_entries:
  assumes "named f"
  shows "make_zip t u ext f =
    (''tmp/'' @ generate_uuid u @ ext,
     [ZipOpen (c_str (''tmp/'' @ generate_uuid u @ ext))] @
     concat (map (\<lambda>(p, m, c). zip_entry (initialize_zfi t) m (join_path p) c) (leaf_paths f)) @ [ZipClose],
     set_filename (''tmp/'' @ generate_uuid u @ ext) f)"
  by (rule make_zip_run [OF assms])

theorem make_zip_entries_witness:
  "make_zip \<lparr>tm_sec = 0, tm_min = 0, tm_hour = 12, tm_mday = 1, tm_mon = 0, tm_year = 2023\<rparr> (\<lambda>_. 10) ''.zip''
      (file_dir [] [file_text ''a'' ''x'']) =
    (''tmp/'' @ generate_uuid (\<lambda>_. 10) @ ''.zip'',
     [ZipOpen (c_str (''tmp/'' @ generate_uuid (\<lambda>_. 10) @ ''.zip''))] @
     concat (map (\<lambda>(p, m, c). zip_entry (initialize_zfi \<lparr>tm_sec = 0, tm_min = 0, tm_hour = 12,
         tm_mday = 1, tm_mon = 0, tm_year = 2023\<rparr>) m (join_path p) c)
       (leaf_paths (file_dir [] [file_text ''a'' ''x'']))) @ [ZipClose],
     set_filename (''tmp/'' @ generate_uuid (\<lambda>_. 10) @ ''.zip'') (file_dir [] [file_text ''a'' ''x'']))"
  by (rule make_zip_entries) simp

text \<open>Reading back the file that \<open>write_file\<close> has written gives the same type and the same
  bytes, under the base name; every other file on the disk is as before.\<close>

theorem read_after_write:
  assumes "can_open (filename f)" "filetype f \<in> {0, 1}"
  shows "(\<exists>g'. read_file (write_file can_open f d) (filename f) (filetype f = 0) g = Inr g' \<and>
      filetype g' = filetype f \<and> filename g' = truncate_slashes (filename f) \<and>
      (if filetype f = 0 then binary_contents g' = binary_contents f
       else text_contents g' = text_contents f)) \<and>
    (\<forall>n. n \<noteq> filename f \<longrightarrow> write_file can_open f d n = d n)"
  using assms by (auto simp: read_file_def write_file_def)

theorem read_after_write_witness:
  "(\<exists>g'. read_file (write_file (\<lambda>_. True) (file_text ''a/b'' ''x'') (\<lambda>_. None)) ''a/b''
        (filetype (file_text ''a/b'' ''x'') = 0) file_empty = Inr g' \<and>
      filetype g' = 1 \<and> filename g' = truncate_slashes ''a/b'' \<and> text_contents g' = ''x'')"
  using read_after_write [of "\<lambda>_. True" "file_text ''a/b'' ''x''" "\<lambda>_. None" file_empty]
  by (simp add: file_defs)

end
