(* ===== verification/Manifest.thy ===== *)
theory Manifest
  imports JsonPath Files
begin

text \<open>
  generate_libs/manifest.cpp: \<open>split_authors\<close>, \<open>split_version\<close> and the two generators of
  the class \<open>manifest\<close>.  A generator is a list of steps on its document, grouped by the blocks of
  the source; its parameters are a record with the names of the source.  The \<open>k\<close>-th call of
  \<open>generate_uuid\<close> in a function draws from the picks \<open>u k\<close>.
\<close>

section \<open>Splitting\<close>

text \<open>The body of the loop over the characters: \<open>cpos\<close> and \<open>ret\<close>.\<close>

definition append_char :: "char \<Rightarrow> json_value \<Rightarrow> json_value" where
  "append_char cc v = JV (val_type v) (val_int v) (val_llint v) (val_float v) (val_string v @ [cc])
     (val_list v) (val_object v)"

definition split_step :: "char \<Rightarrow> nat \<times> json_value list \<Rightarrow> char \<Rightarrow> nat \<times> json_value list" where
  "split_step delim st cc =
     (case st of (cpos, ret) \<Rightarrow>
        if cc = delim then (cpos + 1, ret @ [jv_string []])
        else (cpos, ret[cpos := append_char cc (ret ! cpos)]))"

definition split_authors :: "string \<Rightarrow> char \<Rightarrow> json_value list" where
  "split_authors striq delim =
     (if length striq \<noteq> 0 then snd (foldl (split_step delim) (0, [jv_string []]) striq) else [])"

text \<open>\<open>atoi\<close> is undefined when the value does not fit an \<open>int\<close>.\<close>

definition is_space :: "char \<Rightarrow> bool" where
  "is_space c \<longleftrightarrow> c = CHR '' '' \<or> (9 \<le> uchar c \<and> uchar c \<le> 13)"

definition atoi :: "string \<Rightarrow> int result" where
  "atoi s =
     (let t = dropWhile is_space (c_str s);
          neg = (t \<noteq> [] \<and> hd t = CHR ''-'');
          t' = (if t \<noteq> [] \<and> (hd t = CHR ''-'' \<or> hd t = CHR ''+'') then tl t else t);
          n = int (read_nat (takeWhile is_digit t'));
          i = (if neg then - n else n)
      in if int32 i then Inr i else Inl Undefined_behaviour)"

definition split_version :: "string \<Rightarrow> json_value list result" where
  "split_version striq =
     mapR (\<lambda>liem. bindR (atoi (val_string liem)) (\<lambda>i. Inr (jv_int i))) (split_authors striq CHR ''.'')"

section \<open>Independent manifests\<close>

record nondependent =
  pack_type :: string
  pack_name :: string
  pack_description :: string
  pack_version :: "json_value list"
  pack_use_metadata :: bool
  pack_authors :: "json_value list"
  pack_author_url :: string
  pack_use_gametest :: bool
  pack_gametest_entry_file :: string

definition uuid_value :: "(nat \<Rightarrow> nat \<Rightarrow> nat) \<Rightarrow> nat \<Rightarrow> json_value" where
  "uuid_value u k = jv_string (generate_uuid (u k))"

definition version_value :: "int \<Rightarrow> int \<Rightarrow> int \<Rightarrow> json_value" where
  "version_value a b c = jv_list [jv_int a, jv_int b, jv_int c]"

abbreviation header_of :: "string \<Rightarrow> link list" where
  "header_of k \<equiv> [Key ''header'', Key k]"

abbreviation module_of :: "nat \<Rightarrow> string \<Rightarrow> link list" where
  "module_of i k \<equiv> [Key ''modules'', Idx i, Key k]"

abbreviation dependency_of :: "nat \<Rightarrow> string \<Rightarrow> link list" where
  "dependency_of i k \<equiv> [Key ''dependencies'', Idx i, Key k]"

definition nd_header :: "nondependent \<Rightarrow> (nat \<Rightarrow> nat \<Rightarrow> nat) \<Rightarrow> (json_value \<Rightarrow> json_value result) list" where
  "nd_header a u =
     [whenR (pack_name a \<noteq> []) [assign (header_of ''name'') (jv_string (pack_name a))],
      whenR (pack_description a \<noteq> [] \<and> pack_type a \<noteq> ''skin_pack'')
        [assign (header_of ''description'') (jv_string (pack_description a))],
      assign (header_of ''uuid'') (uuid_value u 0),
      assign (header_of ''version'') (version_value 1 0 0)]"

definition nd_modules :: "nondependent \<Rightarrow> (nat \<Rightarrow> nat \<Rightarrow> nat) \<Rightarrow> (json_value \<Rightarrow> json_value result) list" where
  "nd_modules a u =
     [assign [Key ''modules''] (jv_list []),
      push_back [Key ''modules''] (jv_object []),
      assign (module_of 0 ''type'') (jv_string (pack_type a)),
      whenR (pack_type a = ''scripts'') [assign (module_of 0 ''type'') (jv_cstring ''data'')],
      assign (module_of 0 ''uuid'') (uuid_value u 1),
      assign (module_of 0 ''version'') (version_value 1 0 0),
      whenR (pack_type a = ''scripts'')
        [push_back [Key ''modules''] (jv_object []),
         whenR (pack_description a \<noteq> [])
           [assign (module_of 1 ''description'') (jv_string (pack_description a))],
         assign (module_of 1 ''type'') (jv_cstring ''client_data''),
         assign (module_of 1 ''uuid'') (uuid_value u 2),
         assign (module_of 1 ''version'') (version_value 1 0 0)]]"

text \<open>\<open>pack_version[0].val_int\<close> is read before the pack type is looked at.\<close>

definition engine_version :: "json_value list \<Rightarrow> bool \<Rightarrow> json_value \<Rightarrow> json_value result" where
  "engine_version version wanted doc =
     bindR (vec_at version 0) (\<lambda>v. bindR (read_field (val_int v)) (\<lambda>i.
       whenR (i \<noteq> 0 \<and> wanted) [assign (header_of ''min_engine_version'') (jv_list version)] doc))"

definition metadata_block :: "bool \<Rightarrow> json_value list \<Rightarrow> string \<Rightarrow> json_value \<Rightarrow> json_value result" where
  "metadata_block use_metadata authors author_url =
     whenR use_metadata
       [assign [Key ''metadata''] (jv_object []),
        whenR (authors \<noteq> []) [assign [Key ''metadata'', Key ''authors''] (jv_list authors)],
        whenR (author_url \<noteq> []) [assign [Key ''metadata'', Key ''url''] (jv_string author_url)]]"

text \<open>The local change of the parameter \<open>pack_use_gametest\<close>.\<close>

definition nd_use_gametest :: "nondependent \<Rightarrow> bool" where
  "nd_use_gametest a =
     (if pack_type a \<noteq> ''data'' \<and> pack_type a \<noteq> ''scripts'' then False else pack_use_gametest a)"

definition nd_script_module :: "nondependent \<Rightarrow> nat \<Rightarrow> json_value \<Rightarrow> (json_value \<Rightarrow> json_value result) list" where
  "nd_script_module a i uuid =
     [push_back [Key ''modules''] (jv_object []),
      assign (module_of i ''type'') (jv_string ''javascript''),
      assign (module_of i ''version'') (version_value 1 0 0),
      assign (module_of i ''uuid'') uuid,
      assign (module_of i ''entry'') (jv_string (''scripts/'' @ pack_gametest_entry_file a))]"

definition nd_gametest :: "nondependent \<Rightarrow> (nat \<Rightarrow> nat \<Rightarrow> nat) \<Rightarrow> json_value \<Rightarrow> json_value result" where
  "nd_gametest a u =
     whenR (nd_use_gametest a)
       [assign [Key ''dependencies''] (jv_list []),
        push_back [Key ''dependencies''] (jv_object []),
        assign (dependency_of 0 ''description'')
          (jv_string ''Minecraft module, required to use the Minecraft module''),
        assign (dependency_of 0 ''uuid'') (uuid_value u 3),
        assign (dependency_of 0 ''version'') (version_value 0 1 0),
        push_back [Key ''dependencies''] (jv_object []),
        assign (dependency_of 1 ''description'')
          (jv_string ''GameTest module, required to use the GameTest module''),
        assign (dependency_of 1 ''uuid'') (uuid_value u 4),
        assign (dependency_of 1 ''version'') (version_value 0 1 0),
        whenR (pack_gametest_entry_file a \<noteq> [])
          (if pack_type a = ''scripts'' then nd_script_module a 2 (uuid_value u 5)
           else nd_script_module a 1 (uuid_value u 6))]"

definition nondependent_doc :: "nondependent \<Rightarrow> (nat \<Rightarrow> nat \<Rightarrow> nat) \<Rightarrow> json_value result" where
  "nondependent_doc a u =
     seqR (nd_header a u @ nd_modules a u @
           [engine_version (pack_version a) (pack_type a \<noteq> ''skin_pack''),
            metadata_block (pack_use_metadata a) (pack_authors a) (pack_author_url a),
            nd_gametest a u])
       (jv_object [(''format_version'', jv_int 2), (''header'', jv_object [])])"

definition generate_nondependent :: "nondependent \<Rightarrow> (nat \<Rightarrow> nat \<Rightarrow> nat) \<Rightarrow> string result" where
  "generate_nondependent a u = bindR (nondependent_doc a u) get_repr"

section \<open>A behaviour pack with its resource pack\<close>

record dependent =
  bp_name :: string
  bp_description :: string
  bp_version :: "json_value list"
  bp_use_scripts :: bool
  bp_use_metadata :: bool
  bp_authors :: "json_value list"
  bp_author_url :: string
  rp_name :: string
  rp_description :: string
  rp_version :: "json_value list"
  rp_use_metadata :: bool
  rp_authors :: "json_value list"
  rp_author_url :: string
  rp_use_ui :: bool
  bp_use_gametest :: bool
  bp_gametest_entry_file :: string

text \<open>The statements that open both documents; a list of one empty object already stands in
  \<open>modules\<close> and \<open>dependencies\<close>.\<close>

definition dep_open :: "string \<Rightarrow> string \<Rightarrow> json_value \<Rightarrow> (json_value \<Rightarrow> json_value result) list" where
  "dep_open name description uuid =
     [assign [Key ''format_version''] (jv_int 2),
      assign [Key ''header''] (jv_object []),
      assign [Key ''modules''] (jv_list [jv_object []]),
      assign [Key ''dependencies''] (jv_list [jv_object []]),
      whenR (name \<noteq> []) [assign (header_of ''name'') (jv_string name)],
      whenR (description \<noteq> []) [assign (header_of ''description'') (jv_string description)],
      assign (header_of ''uuid'') uuid,
      assign (header_of ''version'') (version_value 1 0 0)]"

definition dep_module :: "nat \<Rightarrow> string \<Rightarrow> json_value \<Rightarrow> (json_value \<Rightarrow> json_value result) list" where
  "dep_module i type uuid =
     [assign (module_of i ''type'') (jv_string type),
      assign (module_of i ''uuid'') uuid,
      assign (module_of i ''version'') (version_value 1 0 0)]"

definition behaviorpack_doc :: "dependent \<Rightarrow> (nat \<Rightarrow> nat \<Rightarrow> nat) \<Rightarrow> json_value result" where
  "behaviorpack_doc a u =
     seqR (dep_open (bp_name a) (bp_description a) (uuid_value u 0) @
           [engine_version (bp_version a) True,
            push_back [Key ''modules''] (jv_object [])] @
           dep_module 0 ''data'' (uuid_value u 1) @
           [whenR (bp_use_scripts a)
              (push_back [Key ''modules''] (jv_object []) # dep_module 1 ''client_data'' (uuid_value u 2)),
            metadata_block (bp_use_metadata a) (bp_authors a) (bp_author_url a)])
       (jv_object [])"

definition resourcepack_doc :: "dependent \<Rightarrow> (nat \<Rightarrow> nat \<Rightarrow> nat) \<Rightarrow> json_value result" where
  "resourcepack_doc a u =
     seqR (dep_open (rp_name a) (rp_description a) (uuid_value u 3) @
           [engine_version (rp_version a) True] @
           dep_module 0 ''resources'' (uuid_value u 4) @
           [metadata_block (rp_use_metadata a) (rp_authors a) (rp_author_url a)])
       (jv_object [])"

text \<open>
  The value at the end of a chain, read through \<open>operator[]\<close>, with the document that remains
  after the read.
\<close>

definition fetch :: "link list \<Rightarrow> json_value \<Rightarrow> (json_value \<times> json_value) result" where
  "fetch p doc = bindR (modify p Inr doc) (\<lambda>doc'. bindR (peek p doc') (\<lambda>w. Inr (w, doc')))"

text \<open>
  The four statements that link the documents.  The version of the resource pack's dependency is
  taken from the resource pack itself.
\<close>

definition cross_link :: "json_value \<times> json_value \<Rightarrow> (json_value \<times> json_value) result" where
  "cross_link docs = (case docs of (bp, rp) \<Rightarrow>
     bindR (fetch (header_of ''uuid'') rp) (\<lambda>(w, rp).
     bindR (assign (dependency_of 0 ''uuid'') w bp) (\<lambda>bp.
     bindR (fetch (header_of ''version'') rp) (\<lambda>(w, rp).
     bindR (assign (dependency_of 0 ''version'') w bp) (\<lambda>bp.
     bindR (fetch (header_of ''uuid'') bp) (\<lambda>(w, bp).
     bindR (assign (dependency_of 0 ''uuid'') w rp) (\<lambda>rp.
     bindR (fetch (header_of ''version'') rp) (\<lambda>(w, rp).
     bindR (assign (dependency_of 0 ''version'') w rp) (\<lambda>rp.
       Inr (bp, rp))))))))))"

definition ui_capability :: "dependent \<Rightarrow> json_value \<Rightarrow> json_value result" where
  "ui_capability a =
     whenR (bp_use_scripts a \<and> rp_use_ui a)
       [assign [Key ''capabilities''] (jv_list []),
        push_back [Key ''capabilities''] (jv_string ''experimental_custom_ui'')]"

definition dep_script_module :: "dependent \<Rightarrow> nat \<Rightarrow> json_value \<Rightarrow> (json_value \<Rightarrow> json_value result) list" where
  "dep_script_module a i uuid =
     [push_back [Key ''modules''] (jv_object []),
      assign (module_of i ''type'') (jv_string ''javascript''),
      assign (module_of i ''uuid'') uuid,
      assign (module_of i ''version'') (version_value 1 0 0),
      assign (module_of i ''entry'') (jv_string (''scripts/'' @ bp_gametest_entry_file a))]"

definition dep_gametest :: "dependent \<Rightarrow> (nat \<Rightarrow> nat \<Rightarrow> nat) \<Rightarrow> json_value \<Rightarrow> json_value result" where
  "dep_gametest a u =
     whenR (bp_use_gametest a)
       ([assign (dependency_of 0 ''description'')
           (jv_string ''Minecraft module, required to use the Minecraft module''),
         assign (dependency_of 0 ''uuid'') (uuid_value u 5),
         assign (dependency_of 0 ''version'') (version_value 0 1 0),
         push_back [Key ''dependencies''] (jv_object []),
         assign (dependency_of 1 ''description'')
           (jv_string ''GameTest module, required to use the GameTest module''),
         assign (dependency_of 1 ''uuid'') (uuid_value u 6),
         assign (dependency_of 1 ''version'') (version_value 0 1 0)] @
        (if bp_use_scripts a then dep_script_module a 2 (uuid_value u 7)
         else dep_script_module a 1 (uuid_value u 8)))"

definition dependent_docs :: "dependent \<Rightarrow> (nat \<Rightarrow> nat \<Rightarrow> nat) \<Rightarrow> (json_value \<times> json_value) result" where
  "dependent_docs a u =
     bindR (behaviorpack_doc a u) (\<lambda>bp. bindR (resourcepack_doc a u) (\<lambda>rp.
     bindR (cross_link (bp, rp)) (\<lambda>(bp, rp).
     bindR (ui_capability a rp) (\<lambda>rp. bindR (dep_gametest a u bp) (\<lambda>bp.
       Inr (bp, rp))))))"

definition generate_dependent :: "dependent \<Rightarrow> (nat \<Rightarrow> nat \<Rightarrow> nat) \<Rightarrow> string list result" where
  "generate_dependent a u =
     bindR (dependent_docs a u) (\<lambda>(bp, rp). bindR (get_repr bp) (\<lambda>s. bindR (get_repr rp) (\<lambda>t.
       Inr [s, t])))"

section \<open>What splitting promises\<close>

text \<open>The reference: the parts of a text between the delimiters.\<close>

fun split_on :: "char \<Rightarrow> string \<Rightarrow> string list" where
  "split_on d [] = [[]]"
| "split_on d (c # s) = (if c = d then [] # split_on d s
     else (case split_on d s of p # ps \<Rightarrow> (c # p) # ps | [] \<Rightarrow> [[c]]))"

lemma split_on_nonempty [simp]: "split_on d s \<noteq> []"
  by (induction s) (auto split: list.split)

lemma append_char_string: "append_char c (jv_string s) = jv_string (s @ [c])"
  by (simp add: append_char_def jv_string_def)

lemma split_fold:
  "foldl (split_step d) (length ps, map jv_string ps @ [jv_string p]) s
     = (length ps + length (split_on d s) - 1,
        map jv_string ps @ map jv_string ((p @ hd (split_on d s)) # tl (split_on d s)))"
proof (induction s arbitrary: ps p)
  case (Cons c s)
  show ?case
  proof (cases "c = d")
    case True
    then show ?thesis
      using Cons.IH [of "ps @ [p]" "[]"] by (cases "split_on d s") (simp_all add: split_step_def)
  next
    case False
    then show ?thesis
      using Cons.IH [of ps "p @ [c]"]
      by (cases "split_on d s") (simp_all add: split_step_def append_char_string nth_append list_update_append)
  qed
qed simp

lemma split_authors_eq: "split_authors s d = (if s = [] then [] else map jv_string (split_on d s))"
proof (cases "s = []")
  case False
  then show ?thesis
    using split_fold [of d "[]" "[]" s] by (cases "split_on d s") (simp_all add: split_authors_def)
qed (simp add: split_authors_def)

fun join_with :: "char \<Rightarrow> string list \<Rightarrow> string" where
  "join_with d [] = []"
| "join_with d [p] = p"
| "join_with d (p # q # ps) = p @ d # join_with d (q # ps)"

lemma split_on_prefix: "d \<notin> set p \<Longrightarrow> split_on d (p @ d # s) = p # split_on d s"
  by (induction p) auto

lemma split_on_single: "d \<notin> set p \<Longrightarrow> split_on d p = [p]"
  by (induction p) auto

lemma split_on_join: "ps \<noteq> [] \<Longrightarrow> \<forall>p \<in> set ps. d \<notin> set p \<Longrightarrow> split_on d (join_with d ps) = ps"
  by (induction d ps rule: join_with.induct) (auto simp: split_on_prefix split_on_single)

lemma join_split_on: "join_with d (split_on d s) = s"
proof (induction s)
  case (Cons c s)
  then show ?case by (cases "split_on d s"; cases "tl (split_on d s)") auto
qed simp

lemma split_on_parts: "p \<in> set (split_on d s) \<Longrightarrow> d \<notin> set p"
  by (induction s arbitrary: p) (auto split: list.splits if_splits)

lemma digit_plain: "is_digit c \<Longrightarrow> c \<noteq> CHR 0x00 \<and> \<not> is_space c \<and> c \<noteq> CHR ''-'' \<and> c \<noteq> CHR ''+'' \<and> c \<noteq> CHR ''.''"
  by (auto simp: is_digit_def is_space_def uchar_def)

lemma atoi_digits:
  assumes "ds \<noteq> []" "\<forall>c \<in> set ds. is_digit c"
  shows "atoi ds = (if int32 (int (read_nat ds)) then Inr (int (read_nat ds)) else Inl Undefined_behaviour)"
    and "atoi (CHR ''-'' # ds)
      = (if int32 (- int (read_nat ds)) then Inr (- int (read_nat ds)) else Inl Undefined_behaviour)"
proof -
  have nul: "CHR 0x00 \<notin> set ds" using assms(2) digit_plain by blast
  have tw: "takeWhile is_digit ds = ds" using assms(2) by (simp add: takeWhile_eq_all_conv)
  obtain c s where ds: "ds = c # s" using assms(1) by (cases ds) auto
  with assms(2) have "\<not> is_space c \<and> c \<noteq> CHR ''-'' \<and> c \<noteq> CHR ''+''" using digit_plain by auto
  then have dw: "dropWhile is_space ds = ds" "hd ds \<noteq> CHR ''-''" "hd ds \<noteq> CHR ''+''"
    by (simp_all add: ds)
  show "atoi ds = (if int32 (int (read_nat ds)) then Inr (int (read_nat ds)) else Inl Undefined_behaviour)"
    using dw by (simp add: atoi_def c_str_id [OF nul] tw)
  have "\<not> is_space (CHR ''-'')" by (simp add: is_space_def uchar_def)
  moreover have "c_str (CHR ''-'' # ds) = CHR ''-'' # ds" using nul by (intro c_str_id) auto
  ultimately show "atoi (CHR ''-'' # ds)
      = (if int32 (- int (read_nat ds)) then Inr (- int (read_nat ds)) else Inl Undefined_behaviour)"
    by (simp add: atoi_def tw)
qed

lemma atoi_show_int: "int32 i \<Longrightarrow> atoi (show_int i) = Inr i"
  using atoi_digits [of "show_nat (nat i)"] atoi_digits [of "show_nat (nat (- i))"]
  by (auto simp: show_int_def text_simps)

lemma show_int_no_dot: "CHR ''.'' \<notin> set (show_int i)"
  by (auto simp: show_int_def dest: show_nat_digits digit_plain)

lemma split_version_ints:
  assumes "is \<noteq> []" "\<forall>i \<in> set is. int32 i"
  shows "split_version (join_with CHR ''.'' (map show_int is)) = Inr (map jv_int is)"
proof -
  have "split_on CHR ''.'' (join_with CHR ''.'' (map show_int is)) = map show_int is"
    using assms(1) by (intro split_on_join) (auto simp: show_int_no_dot)
  moreover have "join_with CHR ''.'' (map show_int is) \<noteq> []"
    using assms(1) by (cases "is"; cases "tl is") (auto simp: show_int_def)
  moreover have "mapR (\<lambda>liem. bindR (atoi (val_string liem)) (\<lambda>i. Inr (jv_int i)))
      (map (\<lambda>i. jv_string (show_int i)) is) = Inr (map jv_int is)"
    using assms(2) by (induction "is") (auto simp: atoi_show_int jv_string_def)
  ultimately show ?thesis by (simp add: split_version_def split_authors_eq o_def)
qed

lemma atoi_error: "atoi s = Inl e \<Longrightarrow> e = Undefined_behaviour"
  by (simp add: atoi_def Let_def split: if_splits)

section \<open>Templates of the documents\<close>

text \<open>
  The abstract specification of the generators: the documents written down as they look, with the
  optional members and elements marked.
\<close>

definition header_template :: "string \<Rightarrow> string \<Rightarrow> json_value \<Rightarrow> (string \<times> json_value) list" where
  "header_template name description uuid =
     optional (name \<noteq> []) (''name'', jv_string name) @
     optional (description \<noteq> []) (''description'', jv_string description) @
     [(''uuid'', uuid), (''version'', version_value 1 0 0)]"

definition metadata_template :: "bool \<Rightarrow> json_value list \<Rightarrow> string \<Rightarrow> (string \<times> json_value) list" where
  "metadata_template use_metadata authors author_url =
     optional use_metadata (''metadata'', jv_object
       (optional (authors \<noteq> []) (''authors'', jv_list authors) @
        optional (author_url \<noteq> []) (''url'', jv_string author_url)))"

definition engine_template :: "json_value list \<Rightarrow> bool \<Rightarrow> (string \<times> json_value) list" where
  "engine_template version wanted =
     optional (val_int (hd version) \<noteq> Some 0 \<and> wanted) (''min_engine_version'', jv_list version)"

definition module_template :: "string \<Rightarrow> json_value \<Rightarrow> json_value" where
  "module_template type uuid =
     jv_object [(''type'', jv_string type), (''uuid'', uuid), (''version'', version_value 1 0 0)]"

definition dependency_template :: "string \<Rightarrow> json_value \<Rightarrow> json_value" where
  "dependency_template description uuid =
     jv_object [(''description'', jv_string description), (''uuid'', uuid),
       (''version'', version_value 0 1 0)]"

definition nd_modules_template :: "nondependent \<Rightarrow> (nat \<Rightarrow> nat \<Rightarrow> nat) \<Rightarrow> json_value list" where
  "nd_modules_template a u =
     (if pack_type a = ''scripts'' then
        [module_template ''data'' (uuid_value u 1),
         jv_object (optional (pack_description a \<noteq> []) (''description'', jv_string (pack_description a)) @
           [(''type'', jv_string ''client_data''), (''uuid'', uuid_value u 2),
            (''version'', version_value 1 0 0)])]
      else [module_template (pack_type a) (uuid_value u 1)])"

definition nd_script_template :: "nondependent \<Rightarrow> (nat \<Rightarrow> nat \<Rightarrow> nat) \<Rightarrow> json_value list" where
  "nd_script_template a u =
     optional (nd_use_gametest a \<and> pack_gametest_entry_file a \<noteq> [])
       (jv_object [(''type'', jv_string ''javascript''), (''version'', version_value 1 0 0),
          (''uuid'', uuid_value u (if pack_type a = ''scripts'' then 5 else 6)),
          (''entry'', jv_string (''scripts/'' @ pack_gametest_entry_file a))])"

definition nondependent_template :: "nondependent \<Rightarrow> (nat \<Rightarrow> nat \<Rightarrow> nat) \<Rightarrow> json_value" where
  "nondependent_template a u = jv_object (
     [(''format_version'', jv_int 2),
      (''header'', jv_object
        (header_template (pack_name a) (if pack_type a = ''skin_pack'' then [] else pack_description a)
           (uuid_value u 0) @ engine_template (pack_version a) (pack_type a \<noteq> ''skin_pack''))),
      (''modules'', jv_list (nd_modules_template a u @ nd_script_template a u))] @
     metadata_template (pack_use_metadata a) (pack_authors a) (pack_author_url a) @
     optional (nd_use_gametest a) (''dependencies'', jv_list
       [dependency_template ''Minecraft module, required to use the Minecraft module'' (uuid_value u 3),
        dependency_template ''GameTest module, required to use the GameTest module'' (uuid_value u 4)]))"

text \<open>Symbolic execution of the steps.\<close>

lemma obj_put_fresh: "k \<notin> set (obj_keys o') \<Longrightarrow> obj_put k w o' = o' @ [(k, w)]"
  by (induction k w o' rule: obj_put.induct) (auto simp: obj_keys_def)

lemma obj_get_fresh: "k \<notin> set (obj_keys o') \<Longrightarrow> obj_get d k (o' @ [(k, w)]) = w"
  by (induction o') (auto simp: obj_keys_def)

lemma obj_put_snoc: "k \<notin> set (obj_keys o') \<Longrightarrow> obj_put k w' (o' @ [(k, w)]) = o' @ [(k, w')]"
  by (induction o') (auto simp: obj_keys_def)

lemma jv_shapes [simp]:
  "val_object (jv_object o') = o'" "val_list (jv_list xs) = xs"
  "set_val_object o'' (jv_object o') = jv_object o''" "set_val_list ys (jv_list xs) = jv_list ys"
  by (simp_all add: jv_object_def jv_list_def set_val_object_def set_val_list_def)

lemma jv_cstring_eq: "jv_cstring s = jv_string s"
  by (simp add: jv_defs)

lemmas step_simps = jv_cstring_eq assign_def push_back_def obj_updR_eq header_template_def metadata_template_def
  optional_def version_value_def module_template_def dependency_template_def

lemma nd_header_run:
  "seqR (nd_header a u) (jv_object [f, (''header'', jv_object [])]) = Inr (jv_object [f, (''header'',
     jv_object (header_template (pack_name a)
       (if pack_type a = ''skin_pack'' then [] else pack_description a) (uuid_value u 0)))])"
  if "fst f = ''format_version''"
  using that
  by (cases f; cases "pack_name a = []"; cases "pack_description a = []"; cases "pack_type a = ''skin_pack''")
    (simp_all add: nd_header_def step_simps)


lemma nd_modules_run:
  "seqR (nd_modules a u) (jv_object [f, (''header'', h)])
     = Inr (jv_object [f, (''header'', h), (''modules'', jv_list (nd_modules_template a u))])"
  if "fst f = ''format_version''"
  using that
  by (cases f; cases "pack_description a = []"; cases "pack_type a = ''scripts''")
    (simp_all add: nd_modules_def nd_modules_template_def step_simps)

lemma header_no_engine: "''min_engine_version'' \<notin> set (obj_keys (header_template n d w))"
  by (simp add: header_template_def obj_keys_def)

lemma engine_version_run:
  assumes "version \<noteq> []" "val_int (hd version) \<noteq> None"
    and "''min_engine_version'' \<notin> set (obj_keys hs)" "fst f \<noteq> ''header''"
  shows "engine_version version wanted (jv_object (f # (''header'', jv_object hs) # o'))
    = Inr (jv_object (f # (''header'', jv_object (hs @ engine_template version wanted)) # o'))"
  using assms
  by (cases version; cases f)
    (auto simp: engine_version_def vec_at_def engine_template_def step_simps obj_put_fresh)

lemma metadata_run:
  assumes "''metadata'' \<notin> set (obj_keys o')"
  shows "metadata_block um as url (jv_object o') = Inr (jv_object (o' @ metadata_template um as url))"
  using assms
  by (cases um; cases "as = []"; cases "url = []")
    (simp_all add: metadata_block_def step_simps obj_put_fresh obj_get_fresh obj_put_snoc)

lemma nd_gametest_run:
  assumes "fst f = ''format_version''"
  shows "nd_gametest a u (jv_object (f # (''header'', h) # (''modules'', jv_list (nd_modules_template a u)) #
       metadata_template um as url))
    = Inr (jv_object (f # (''header'', h) #
       (''modules'', jv_list (nd_modules_template a u @ nd_script_template a u)) #
       metadata_template um as url @ optional (nd_use_gametest a) (''dependencies'', jv_list
       [dependency_template ''Minecraft module, required to use the Minecraft module'' (uuid_value u 3),
        dependency_template ''GameTest module, required to use the GameTest module'' (uuid_value u 4)])))"
proof (cases "nd_use_gametest a")
  case False
  then show ?thesis by (simp add: nd_gametest_def nd_script_template_def optional_def)
next
  case True
  then show ?thesis
    using assms
    by (cases f; cases um; cases "pack_type a = ''scripts''"; cases "pack_gametest_entry_file a = []")
      (simp_all add: nd_gametest_def nd_script_template_def nd_script_module_def nd_modules_template_def
        step_simps)
qed

lemma seqR_eqI: "seqR fs s = Inr t \<Longrightarrow> seqR (fs @ gs) s = seqR gs t"
  by (simp add: seqR_append)

lemma nondependent_doc_eq:
  assumes "pack_version a \<noteq> []" "val_int (hd (pack_version a)) \<noteq> None"
  shows "nondependent_doc a u = Inr (nondependent_template a u)"
proof -
  let ?f = "(''format_version'', jv_int 2)"
  let ?h = "header_template (pack_name a) (if pack_type a = ''skin_pack'' then [] else pack_description a)
    (uuid_value u 0)"
  have "''min_engine_version'' \<notin> set (obj_keys ?h)" by (rule header_no_engine)
  then show ?thesis
    unfolding nondependent_doc_def
    by (subst seqR_eqI [OF nd_header_run], simp, subst seqR_eqI [OF nd_modules_run], simp)
      (simp add: engine_version_run [OF assms] metadata_run obj_keys_simps nd_gametest_run
        nondependent_template_def)
qed


definition dep_header_template :: "string \<Rightarrow> string \<Rightarrow> json_value list \<Rightarrow> json_value \<Rightarrow> json_value" where
  "dep_header_template name description version uuid =
     jv_object (header_template name description uuid @ engine_template version True)"

definition link_template :: "json_value \<Rightarrow> json_value" where
  "link_template uuid = jv_object [(''uuid'', uuid), (''version'', version_value 1 0 0)]"

text \<open>The list of modules ends with an empty object.\<close>

definition behaviorpack_template :: "dependent \<Rightarrow> (nat \<Rightarrow> nat \<Rightarrow> nat) \<Rightarrow> json_value" where
  "behaviorpack_template a u = jv_object (
     [(''format_version'', jv_int 2),
      (''header'', dep_header_template (bp_name a) (bp_description a) (bp_version a) (uuid_value u 0)),
      (''modules'', jv_list (
        [module_template ''data'' (uuid_value u 1)] @
        optional (bp_use_scripts a) (module_template ''client_data'' (uuid_value u 2)) @
        optional (bp_use_gametest a) (jv_object
          [(''type'', jv_string ''javascript''), (''uuid'', uuid_value u (if bp_use_scripts a then 7 else 8)),
           (''version'', version_value 1 0 0),
           (''entry'', jv_string (''scripts/'' @ bp_gametest_entry_file a))]) @
        [jv_object []])),
      (''dependencies'', jv_list (
        if bp_use_gametest a then
          [jv_object [(''uuid'', uuid_value u 5), (''version'', version_value 0 1 0),
             (''description'', jv_string ''Minecraft module, required to use the Minecraft module'')],
           dependency_template ''GameTest module, required to use the GameTest module'' (uuid_value u 6)]
        else [link_template (uuid_value u 3)]))] @
     metadata_template (bp_use_metadata a) (bp_authors a) (bp_author_url a))"

definition resourcepack_template :: "dependent \<Rightarrow> (nat \<Rightarrow> nat \<Rightarrow> nat) \<Rightarrow> json_value" where
  "resourcepack_template a u = jv_object (
     [(''format_version'', jv_int 2),
      (''header'', dep_header_template (rp_name a) (rp_description a) (rp_version a) (uuid_value u 3)),
      (''modules'', jv_list [module_template ''resources'' (uuid_value u 4)]),
      (''dependencies'', jv_list [link_template (uuid_value u 0)])] @
     metadata_template (rp_use_metadata a) (rp_authors a) (rp_author_url a) @
     optional (bp_use_scripts a \<and> rp_use_ui a)
       (''capabilities'', jv_list [jv_string ''experimental_custom_ui'']))"

lemma dep_open_run:
  "seqR (dep_open n d w) (jv_object []) = Inr (jv_object [(''format_version'', jv_int 2),
     (''header'', jv_object (header_template n d w)), (''modules'', jv_list [jv_object []]),
     (''dependencies'', jv_list [jv_object []])])"
  by (cases "n = []"; cases "d = []") (simp_all add: dep_open_def step_simps)

definition version_ok :: "json_value list \<Rightarrow> bool" where
  "version_ok version \<longleftrightarrow> version \<noteq> [] \<and> val_int (hd version) \<noteq> None"

lemma behaviorpack_run:
  assumes "version_ok (bp_version a)"
  shows "behaviorpack_doc a u = Inr (jv_object (
     [(''format_version'', jv_int 2),
      (''header'', dep_header_template (bp_name a) (bp_description a) (bp_version a) (uuid_value u 0)),
      (''modules'', jv_list ([module_template ''data'' (uuid_value u 1)] @
        optional (bp_use_scripts a) (module_template ''client_data'' (uuid_value u 2)) @ [jv_object []])),
      (''dependencies'', jv_list [jv_object []])] @
      metadata_template (bp_use_metadata a) (bp_authors a) (bp_author_url a)))"
  using assms
  unfolding behaviorpack_doc_def
  by (subst seqR_eqI [OF dep_open_run], cases "bp_use_scripts a")
    (simp_all add: version_ok_def engine_version_run header_no_engine dep_header_template_def
      dep_module_def assign_def push_back_def obj_updR_eq module_template_def metadata_run obj_keys_simps)

lemma resourcepack_run:
  assumes "version_ok (rp_version a)"
  shows "resourcepack_doc a u = Inr (jv_object (
     [(''format_version'', jv_int 2),
      (''header'', dep_header_template (rp_name a) (rp_description a) (rp_version a) (uuid_value u 3)),
      (''modules'', jv_list [module_template ''resources'' (uuid_value u 4)]),
      (''dependencies'', jv_list [jv_object []])] @
      metadata_template (rp_use_metadata a) (rp_authors a) (rp_author_url a)))"
  using assms
  unfolding resourcepack_doc_def
  by (subst seqR_eqI [OF dep_open_run])
    (simp add: version_ok_def engine_version_run header_no_engine dep_header_template_def
      dep_module_def assign_def push_back_def obj_updR_eq module_template_def metadata_run obj_keys_simps)

lemma fetch_header:
  "fetch (header_of ''uuid'') (jv_object ((''format_version'', x) #
      (''header'', jv_object (header_template n d w @ e)) # o'))
    = Inr (w, jv_object ((''format_version'', x) # (''header'', jv_object (header_template n d w @ e)) # o'))"
  "fetch (header_of ''version'') (jv_object ((''format_version'', x) #
      (''header'', jv_object (header_template n d w @ e)) # o'))
    = Inr (version_value 1 0 0,
        jv_object ((''format_version'', x) # (''header'', jv_object (header_template n d w @ e)) # o'))"
  by (cases "n = []"; cases "d = []"; simp add: fetch_def header_template_def)+

lemma assign_dependency:
  "assign (dependency_of 0 ''uuid'') w (jv_object ((''format_version'', x) # (''header'', h) #
      (''modules'', m) # (''dependencies'', jv_list [jv_object []]) # o'))
    = Inr (jv_object ((''format_version'', x) # (''header'', h) # (''modules'', m) #
        (''dependencies'', jv_list [jv_object [(''uuid'', w)]]) # o'))"
  "assign (dependency_of 0 ''version'') v (jv_object ((''format_version'', x) # (''header'', h) #
      (''modules'', m) # (''dependencies'', jv_list [jv_object [(''uuid'', w)]]) # o'))
    = Inr (jv_object ((''format_version'', x) # (''header'', h) # (''modules'', m) #
        (''dependencies'', jv_list [jv_object [(''uuid'', w), (''version'', v)]]) # o'))"
  by (simp_all add: assign_def)

lemma cross_link_run:
  "cross_link
     (jv_object ((''format_version'', x) # (''header'', jv_object (header_template n d w @ e)) #
        (''modules'', m) # (''dependencies'', jv_list [jv_object []]) # o'),
      jv_object ((''format_version'', x') # (''header'', jv_object (header_template n' d' w' @ e')) #
        (''modules'', m') # (''dependencies'', jv_list [jv_object []]) # o''))
   = Inr (jv_object ((''format_version'', x) # (''header'', jv_object (header_template n d w @ e)) #
        (''modules'', m) # (''dependencies'', jv_list [link_template w']) # o'),
      jv_object ((''format_version'', x') # (''header'', jv_object (header_template n' d' w' @ e')) #
        (''modules'', m') # (''dependencies'', jv_list [link_template w]) # o''))"
  by (simp add: cross_link_def fetch_header assign_dependency link_template_def)

lemma ui_capability_run:
  assumes "''capabilities'' \<notin> set (obj_keys o')"
  shows "ui_capability a (jv_object o') = Inr (jv_object (o' @ optional (bp_use_scripts a \<and> rp_use_ui a)
    (''capabilities'', jv_list [jv_string ''experimental_custom_ui''])))"
  using assms
  by (cases "bp_use_scripts a"; cases "rp_use_ui a")
    (simp_all add: ui_capability_def assign_def push_back_def obj_updR_eq obj_put_fresh obj_get_fresh
      obj_put_snoc)

lemma metadata_keys: "set (obj_keys (metadata_template um as url)) \<subseteq> {''metadata''}"
  by (simp add: metadata_template_def obj_keys_def)

lemma dep_gametest_run:
  "dep_gametest a u (jv_object ((''format_version'', x) # (''header'', h) #
      (''modules'', jv_list ([d] @ optional (bp_use_scripts a) s @ [jv_object []])) #
      (''dependencies'', jv_list [link_template w]) # o'))
   = Inr (jv_object ((''format_version'', x) # (''header'', h) #
      (''modules'', jv_list ([d] @ optional (bp_use_scripts a) s @
        optional (bp_use_gametest a) (jv_object
          [(''type'', jv_string ''javascript''), (''uuid'', uuid_value u (if bp_use_scripts a then 7 else 8)),
           (''version'', version_value 1 0 0),
           (''entry'', jv_string (''scripts/'' @ bp_gametest_entry_file a))]) @ [jv_object []])) #
      (''dependencies'', jv_list (
        if bp_use_gametest a then
          [jv_object [(''uuid'', uuid_value u 5), (''version'', version_value 0 1 0),
             (''description'', jv_string ''Minecraft module, required to use the Minecraft module'')],
           dependency_template ''GameTest module, required to use the GameTest module'' (uuid_value u 6)]
        else [link_template w])) # o'))"
  by (cases "bp_use_gametest a"; cases "bp_use_scripts a")
    (simp_all add: dep_gametest_def dep_script_module_def assign_def push_back_def link_template_def
      dependency_template_def)

lemma dependent_docs_eq:
  assumes "version_ok (bp_version a)" "version_ok (rp_version a)"
  shows "dependent_docs a u = Inr (behaviorpack_template a u, resourcepack_template a u)"
proof -
  have "''capabilities'' \<notin> set (obj_keys (metadata_template um as url))" for um as url
    using metadata_keys by fastforce
  then show ?thesis
    using dep_gametest_run [of a u _ _ "module_template ''data'' (uuid_value u 1)"
        "module_template ''client_data'' (uuid_value u 2)" "uuid_value u 3"]
    by (simp add: dependent_docs_def behaviorpack_run [OF assms(1)] resourcepack_run [OF assms(2)]
        dep_header_template_def cross_link_run ui_capability_run obj_keys_simps
        behaviorpack_template_def resourcepack_template_def)
qed


section \<open>Versions that cannot be read\<close>

lemma engine_version_bad: "\<not> version_ok version \<Longrightarrow> engine_version version wanted doc = Inl Undefined_behaviour"
  by (cases version) (auto simp: engine_version_def version_ok_def vec_at_def)

lemma nondependent_doc_bad: "\<not> version_ok (pack_version a) \<Longrightarrow> nondependent_doc a u = Inl Undefined_behaviour"
  unfolding nondependent_doc_def
  by (subst seqR_eqI [OF nd_header_run], simp, subst seqR_eqI [OF nd_modules_run], simp)
    (simp add: engine_version_bad)

lemma behaviorpack_bad: "\<not> version_ok (bp_version a) \<Longrightarrow> behaviorpack_doc a u = Inl Undefined_behaviour"
  unfolding behaviorpack_doc_def by (subst seqR_eqI [OF dep_open_run]) (simp add: engine_version_bad)

lemma resourcepack_bad: "\<not> version_ok (rp_version a) \<Longrightarrow> resourcepack_doc a u = Inl Undefined_behaviour"
  unfolding resourcepack_doc_def by (subst seqR_eqI [OF dep_open_run]) (simp add: engine_version_bad)

lemma split_version_ok: "split_version s = Inr vs \<Longrightarrow> s \<noteq> [] \<Longrightarrow> version_ok vs"
proof -
  assume a: "split_version s = Inr vs" "s \<noteq> []"
  then obtain p ps where "split_on CHR ''.'' s = p # ps" by (cases "split_on CHR ''.'' s") auto
  with a show ?thesis
    by (auto simp: split_version_def split_authors_eq bindR_eq_Inr version_ok_def jv_int_def)
qed

section \<open>Properties\<close>

text \<open>\<open>split_authors\<close> returns the parts of the text between the delimiters, in order and with
  nothing lost: joined again they are the text, and no part contains the delimiter.  The empty
  text has no parts.\<close>

theorem split_authors_parts:
  "split_authors s d = (if s = [] then [] else map jv_string (split_on d s)) \<and>
   join_with d (split_on d s) = s \<and> list_all (\<lambda>p. d \<notin> set p) (split_on d s)"
  using split_authors_eq [of s d] join_split_on [of d s] split_on_parts [of _ d s]
  by (auto simp: list_all_iff)

text \<open>\<open>split_version\<close> reads back every version number: for all 32 bit components the dotted
  text is split into exactly these integers.\<close>

theorem split_version_roundtrip:
  assumes "is \<noteq> []" "\<forall>i \<in> set is. int32 i"
  shows "split_version (join_with CHR ''.'' (map show_int is)) = Inr (map jv_int is)"
  using assms by (rule split_version_ints)

theorem split_version_roundtrip_witness:
  "split_version (join_with CHR ''.'' (map show_int [1, 17, 0])) = Inr (map jv_int [1, 17, 0])"
  by (rule split_version_roundtrip) (simp_all add: int32_def)

text \<open>C26: \<open>generate_nondependent\<close> prints exactly the template of an independent manifest, for
  every pack type and every combination of the options, when the version has a first component
  with an integer; otherwise (an empty version text) it reads outside of the vector.\<close>

theorem generate_nondependent_template:
  "generate_nondependent a u =
     (if version_ok (pack_version a) then get_repr (nondependent_template a u)
      else Inl Undefined_behaviour)"
  using nondependent_doc_eq [of a u] nondependent_doc_bad [of a u]
  by (auto simp: generate_nondependent_def version_ok_def)

text \<open>C25: \<open>generate_dependent\<close> prints exactly the two linked templates, with the extra empty
  module at the end of the behaviour pack's modules; an empty version of either pack is read
  outside of its vector.\<close>

theorem generate_dependent_templates:
  "generate_dependent a u =
     (if version_ok (bp_version a) \<and> version_ok (rp_version a) then
        bindR (get_repr (behaviorpack_template a u)) (\<lambda>s.
        bindR (get_repr (resourcepack_template a u)) (\<lambda>t. Inr [s, t]))
      else Inl Undefined_behaviour)"
proof (cases "version_ok (bp_version a) \<and> version_ok (rp_version a)")
  case True
  then show ?thesis by (simp add: generate_dependent_def dependent_docs_eq)
next
  case False
  then have "dependent_docs a u = Inl Undefined_behaviour"
    using behaviorpack_bad [of a u] behaviorpack_run [of a u] resourcepack_bad [of a u]
    by (cases "version_ok (bp_version a)") (simp_all add: dependent_docs_def)
  with False show ?thesis by (auto simp: generate_dependent_def)
qed

text \<open>The two packs of a dependent pair name each other: the resource pack always depends on
  the header identifier of the behaviour pack; the behaviour pack depends on the header
  identifier of the resource pack unless GameTest is requested, whose module then takes the place
  of that dependency.\<close>

theorem dependent_packs_name_each_other:
  assumes "version_ok (bp_version a)" "version_ok (rp_version a)"
  shows "\<exists>bp rp. dependent_docs a u = Inr (bp, rp) \<and>
    peek (dependency_of 0 ''uuid'') rp = peek (header_of ''uuid'') bp \<and>
    peek (header_of ''uuid'') bp = Inr (uuid_value u 0) \<and>
    peek (header_of ''uuid'') rp = Inr (uuid_value u 3) \<and>
    peek (dependency_of 0 ''uuid'') bp
      = (if bp_use_gametest a then Inr (uuid_value u 5) else peek (header_of ''uuid'') rp)"
proof -
  have h: "obj_get d ''uuid'' (header_template n de w @ e) = w" for d n de w e
    by (cases "n = []"; cases "de = []") (simp_all add: header_template_def)
  show ?thesis
    by (simp add: dependent_docs_eq [OF assms] behaviorpack_template_def resourcepack_template_def
        dep_header_template_def h vec_at_def link_template_def)
qed

theorem dependent_packs_name_each_other_witness:
  "\<exists>bp rp. dependent_docs \<lparr>bp_name = ''b'', bp_description = [], bp_version = [jv_int 1, jv_int 17, jv_int 0],
      bp_use_scripts = True, bp_use_metadata = False, bp_authors = [], bp_author_url = [], rp_name = ''r'',
      rp_description = [], rp_version = [jv_int 1], rp_use_metadata = True, rp_authors = [],
      rp_author_url = [], rp_use_ui = True, bp_use_gametest = False, bp_gametest_entry_file = []\<rparr> (\<lambda>_ _. 0)
      = Inr (bp, rp) \<and>
    peek (dependency_of 0 ''uuid'') rp = peek (header_of ''uuid'') bp \<and>
    peek (dependency_of 0 ''uuid'') bp = peek (header_of ''uuid'') rp"
  using dependent_packs_name_each_other [of "\<lparr>bp_name = ''b'', bp_description = [],
      bp_version = [jv_int 1, jv_int 17, jv_int 0],
      bp_use_scripts = True, bp_use_metadata = False, bp_authors = [], bp_author_url = [], rp_name = ''r'',
      rp_description = [], rp_version = [jv_int 1], rp_use_metadata = True, rp_authors = [],
      rp_author_url = [], rp_use_ui = True, bp_use_gametest = False, bp_gametest_entry_file = []\<rparr>" "\<lambda>_ _. 0"]
  by (auto simp: version_ok_def jv_int_def)

end
