(* ===== verification/Http.thy ===== *)
theory Http
  imports JsonCorrect Manifest
begin

text \<open>
  The HTTP side of the class \<open>restapi\<close> in pilepoxyl/httpapi.cpp, below the interactions: the
  curl callbacks, the fetching and uploading functions and the small parsers.  What reaches the
  outside world is a list of actions; the answers of the network are a parameter.
\<close>

section \<open>Actions\<close>

text \<open>
  A part of a multipart form: the calls of the library that describe it, in order.  The contents are
  given as bytes or as the path of a file.
\<close>

datatype mime_call =
    Mime_name string
  | Mime_filename string
  | Mime_data string
  | Mime_filedata string

type_synonym part = "mime_call list"

datatype action =
    HttpGet string
  | HttpPost string "string list" string
  | HttpForm string "string list" "part list"
  | WriteZip string "zip_call list"
  | RemoveFile string

text \<open>
  A computation that acts and then returns, raises or has undefined behaviour: the actions it has
  performed, in order, and its result.
\<close>

type_synonym ('e, 'a) effect = "'e list \<times> 'a result"
type_synonym 'a io = "(action, 'a) effect"

definition returnIO :: "'a \<Rightarrow> ('e, 'a) effect" where
  "returnIO x = ([], Inr x)"

definition emit :: "'e \<Rightarrow> ('e, unit) effect" where
  "emit a = ([a], Inr ())"

definition liftR :: "'a result \<Rightarrow> ('e, 'a) effect" where
  "liftR r = ([], r)"

definition bindIO :: "('e, 'a) effect \<Rightarrow> ('a \<Rightarrow> ('e, 'b) effect) \<Rightarrow> ('e, 'b) effect" where
  "bindIO m f = (case m of (as, Inl e) \<Rightarrow> (as, Inl e)
     | (as, Inr x) \<Rightarrow> (case f x of (bs, r) \<Rightarrow> (as @ bs, r)))"

lemma bindIO_returnIO [simp, res_simps]: "bindIO (returnIO x) f = f x"
  by (simp add: bindIO_def returnIO_def split: prod.split)

lemma bindIO_liftR [simp, res_simps]:
  "bindIO (liftR (Inr x)) f = f x" "bindIO (liftR (Inl e)) f = ([], Inl e)"
  by (simp_all add: bindIO_def liftR_def split: prod.split)

lemma bindIO_emit [simp, res_simps]: "bindIO (emit a) f = (a # fst (f ()), snd (f ()))"
  by (simp add: bindIO_def emit_def split: prod.split)

lemma bindIO_assoc: "bindIO (bindIO m f) g = bindIO m (\<lambda>x. bindIO (f x) g)"
  by (cases m; cases "snd m") (auto simp: bindIO_def split: prod.splits sum.splits)

lemma bindIO_pair: "bindIO (acts, Inr x) f = (acts @ fst (f x), snd (f x))"
  by (simp add: bindIO_def split: prod.split)

lemma bindIO_failed: "bindIO (acts, Inl e) f = (acts, Inl e)"
  by (simp add: bindIO_def)

lemma liftR_pair: "liftR r = ([], r)"
  by (simp add: liftR_def)

lemmas effect_simps = bindIO_pair bindIO_failed liftR_pair returnIO_def

section \<open>The curl callbacks\<close>

text \<open>
  \<open>data\<close> is the allocated block with its terminating NUL, \<open>None\<close> the null pointer of
  \<open>struct curl_response cr={0}\<close>.
\<close>

record curl_response =
  data :: "string option"
  resp_size :: nat

definition no_response :: curl_response where
  "no_response = \<lparr>data = None, resp_size = 0\<rparr>"

definition write_callback :: "string \<Rightarrow> curl_response \<Rightarrow> nat \<times> curl_response" where
  "write_callback chunk udata =
     (let old = (case data udata of None \<Rightarrow> [] | Some block \<Rightarrow> block);
          actual_size = length chunk
      in (actual_size,
          \<lparr>data = Some (take (resp_size udata) old @ chunk @ [CHR 0x00]),
           resp_size = resp_size udata + actual_size\<rparr>))"

definition dummy_write_callback :: "string \<Rightarrow> nat" where
  "dummy_write_callback chunk = length chunk"

text \<open>What a transfer leaves in the response: the library calls back once for each chunk.\<close>

definition transfer :: "string list \<Rightarrow> curl_response \<Rightarrow> curl_response" where
  "transfer chunks r = foldl (\<lambda>r chunk. snd (write_callback chunk r)) r chunks"

text \<open>
  The network: the chunks that arrive for an address.  A transfer without a body does not call
  back, and \<open>fetch\<close> then builds a string from a null pointer.
\<close>

type_synonym network = "string \<Rightarrow> string list"

definition fetch_url :: "network \<Rightarrow> string \<Rightarrow> string io" where
  "fetch_url net url =
     bindIO (emit (HttpGet (c_str url))) (\<lambda>_.
       case data (transfer (net (c_str url)) no_response) of
         None \<Rightarrow> liftR (Inl Logic_error)
       | Some block \<Rightarrow> returnIO (c_str block))"

definition raw_fetch :: "network \<Rightarrow> string \<Rightarrow> string io" where
  "raw_fetch net url =
     bindIO (emit (HttpGet (c_str url))) (\<lambda>_.
       let cr = transfer (net (c_str url)) no_response
       in returnIO (case data cr of None \<Rightarrow> [] | Some block \<Rightarrow> take (resp_size cr) block))"

section \<open>Requests\<close>

definition user_agent :: string where
  "user_agent = ''User-Agent: DiscordBot (http://0.0.0.0, 0.0.1)''"

definition json_content :: string where
  "json_content = ''Content-Type: application/json; charset=UTF-8''"

definition auth_header :: "string \<Rightarrow> string" where
  "auth_header bot_token = c_str (''Authorization: Bot '' @ bot_token)"

text \<open>A request with a body: its length is set before the body, so NUL bytes are sent as well.\<close>

definition post_json :: "string \<Rightarrow> string \<Rightarrow> string \<Rightarrow> unit io" where
  "post_json bot_token link content =
     emit (HttpPost (c_str link) [user_agent, json_content, auth_header bot_token] content)"

definition deferred_respond_interaction :: "string \<Rightarrow> string \<Rightarrow> unit io" where
  "deferred_respond_interaction bot_token link =
     post_json bot_token link ([CHR ''{'', CHR 0x22] @ ''type'' @ [CHR 0x22] @ '': 5}'')"

text \<open>The document the three upload functions send with the file.\<close>

definition upload_wrapper :: "string \<Rightarrow> string \<Rightarrow> json_value result" where
  "upload_wrapper filename' msgcont =
     bindR (seqR
       [whenR (msgcont \<noteq> []) [assign [Key ''content''] (jv_string msgcont)],
        assign [Key ''attachments''] (jv_list []),
        push_back [Key ''attachments''] (jv_object []),
        assign [Key ''attachments'', Idx 0, Key ''id''] (jv_int 0),
        assign [Key ''attachments'', Idx 0, Key ''filename''] (jv_string filename')]
       (jv_object [])) (\<lambda>json_payload.
     seqR [assign [Key ''type''] (jv_int 4), assign [Key ''data''] json_payload] (jv_object []))"

definition upload :: "string \<Rightarrow> string \<Rightarrow> string \<Rightarrow> string \<Rightarrow> part \<Rightarrow> unit io" where
  "upload bot_token url filename' msgcont attachment =
     bindIO (liftR (bindR (upload_wrapper filename' msgcont) get_repr)) (\<lambda>wrapper.
       emit (HttpForm (c_str url) [user_agent, auth_header bot_token]
         [[Mime_name ''payload_json'', Mime_data (c_str wrapper)], attachment]))"

definition data_part :: "string \<Rightarrow> string \<Rightarrow> part" where
  "data_part filename' filedata = [Mime_name ''files[0]'', Mime_filename filename', Mime_data filedata]"

definition file_part :: "string \<Rightarrow> string \<Rightarrow> part" where
  "file_part filename' lclfname = [Mime_name ''files[0]'', Mime_filename filename', Mime_filedata lclfname]"

definition upload_data_df :: "string \<Rightarrow> string \<Rightarrow> string \<Rightarrow> string \<Rightarrow> string \<Rightarrow> unit io" where
  "upload_data_df bot_token url filename' filedata msgcont =
     upload bot_token url filename' msgcont (data_part (c_str filename') (c_str filedata))"

definition upload_file_df :: "string \<Rightarrow> string \<Rightarrow> string \<Rightarrow> string \<Rightarrow> string \<Rightarrow> unit io" where
  "upload_file_df bot_token url filename' lclfname msgcont =
     upload bot_token url filename' msgcont (file_part (c_str filename') (c_str lclfname))"

definition upload_data_bf :: "string \<Rightarrow> string \<Rightarrow> string \<Rightarrow> string \<Rightarrow> string \<Rightarrow> unit io" where
  "upload_data_bf bot_token url filename' filedata msgcont =
     upload bot_token url filename' msgcont (data_part (c_str filename') filedata)"

text \<open>
  The name under which the receiver sees a part, as the library documents its calls:
  \<open>curl_mime_filename\<close> sets it, and \<open>curl_mime_filedata\<close> sets it as well, to the base name of
  the file, so that the later of the two calls decides.
\<close>

definition base_name :: "string \<Rightarrow> string" where
  "base_name path = rev (takeWhile (\<lambda>c. c \<noteq> CHR ''/'') (rev path))"

fun remote_name :: "part \<Rightarrow> string option \<Rightarrow> string option" where
  "remote_name [] n = n"
| "remote_name (Mime_filename s # calls) n = remote_name calls (Some s)"
| "remote_name (Mime_filedata path # calls) n = remote_name calls (Some (base_name path))"
| "remote_name (_ # calls) n = remote_name calls n"

text \<open>The names of the files in the forms that are sent.\<close>

definition file_names :: "action list \<Rightarrow> string list" where
  "file_names acts = concat (map (\<lambda>a. case a of
     HttpForm url headers parts \<Rightarrow>
       concat (map (\<lambda>p. case remote_name p None of None \<Rightarrow> [] | Some n \<Rightarrow> [n]) parts)
   | _ \<Rightarrow> []) acts)"

lemma file_names_simps [simp]:
  "file_names [] = []" "file_names (acts @ bcts) = file_names acts @ file_names bcts"
  "file_names (HttpGet url # acts) = file_names acts" "file_names (HttpPost url headers content # acts) = file_names acts"
  "file_names (WriteZip n calls # acts) = file_names acts" "file_names (RemoveFile n # acts) = file_names acts"
  "file_names (HttpForm url headers [[Mime_name k, Mime_data d], data_part s d'] # acts) = s # file_names acts"
  "file_names (HttpForm url headers [[Mime_name k, Mime_data d], file_part s path] # acts) = base_name path # file_names acts"
  by (simp_all add: file_names_def data_part_def file_part_def)

text \<open>
  \<open>send_message\<close> keeps its own copy of the pointer of the block it allocates.  After a callback
  that copy is valid only when the reallocation did not move the block, and without a callback
  the block is read uninitialised.
\<close>

definition send_message :: "network \<Rightarrow> bool \<Rightarrow> string \<Rightarrow> string \<Rightarrow> string \<Rightarrow> string io" where
  "send_message net moved bot_token channel_id content =
     (let channel_link = ''https://discord.com/api/v10/channels/'' @ channel_id @ ''/messages''
      in bindIO (liftR (bindR (assign [Key ''content''] (jv_string content) (jv_object [])) get_repr)) (\<lambda>text.
         bindIO (post_json bot_token channel_link text) (\<lambda>_.
           if net (c_str channel_link) = [] \<or> moved then liftR (Inl Undefined_behaviour)
           else returnIO (c_str (concat (net (c_str channel_link)))))))"

section \<open>Small parsers\<close>

text \<open>
  The expression \<open>^(.+?)(; charset=(.+))?$\<close>: the first group is the shortest non-empty text that
  is followed by nothing or by \<open>; charset=\<close> and at least one more character.  \<open>length()\<close> of the
  match is the length of its text.
\<close>

definition charset_mark :: string where
  "charset_mark = ''; charset=''"

definition charset_of :: "string \<Rightarrow> string option" where
  "charset_of s =
     (if take 10 s = charset_mark \<and> drop 10 s \<noteq> [] then Some (drop 10 s) else None)"

fun split_charset :: "string \<Rightarrow> string \<times> string" where
  "split_charset [] = ([], [])"
| "split_charset (c # s) =
     (case charset_of s of
        Some cs \<Rightarrow> ([c], cs)
      | None \<Rightarrow> (if s = [] then ([c], []) else (case split_charset s of (p, cs) \<Rightarrow> (c # p, cs))))"

definition identify_filetype :: "string \<Rightarrow> string \<times> string" where
  "identify_filetype content_type =
     (if content_type = [] \<or> list_ex is_break content_type then ([], [])
      else (case split_charset content_type of (p, cs) \<Rightarrow>
        (p, if 4 \<le> length content_type then cs else [])))"

text \<open>The options of a command as an object; a later option of the same name wins.\<close>

definition reduce_options :: "json_value \<Rightarrow> json_value" where
  "reduce_options options = jv_object
     (fold (\<lambda>liem. obj_put (val_string (obj_get jv_default ''name'' (val_object liem)))
                      (obj_get jv_default ''value'' (val_object liem)))
       (val_list options) [])"

text \<open>The loop from the last character down to the first underscore it meets.\<close>

definition parse_hpcid :: "string \<Rightarrow> (string \<times> int) result" where
  "parse_hpcid hpcid =
     (if CHR ''_'' \<in> set hpcid then
        (let pnum = rev (takeWhile (\<lambda>c. c \<noteq> CHR ''_'') (rev hpcid));
             prefix = rev (tl (dropWhile (\<lambda>c. c \<noteq> CHR ''_'') (rev hpcid)))
         in bindR (atoi pnum) (\<lambda>n. Inr (prefix, n)))
      else Inr (hpcid, 1))"

section \<open>The help message\<close>

text \<open>
  The vector \<open>ret\<close> is the list of a value.  \<open>help_button i\<close> is the block that adds the
  \<open>i\<close>-th button of the first row, \<open>help_option\<close> the one that adds an entry to the menu.
\<close>

definition int_plus :: "int \<Rightarrow> int \<Rightarrow> int result" where
  "int_plus a b = (if int32 (a + b) then Inr (a + b) else Inl Undefined_behaviour)"

definition page_id :: "string \<Rightarrow> int result \<Rightarrow> string result" where
  "page_id hpcid page = bindR page (\<lambda>n. Inr (''hp_'' @ hpcid @ ''_'' @ show_int n))"

definition help_button :: "nat \<Rightarrow> string result \<Rightarrow> string \<Rightarrow> (json_value \<Rightarrow> json_value result) list" where
  "help_button i custom_id label =
     (let button = [Idx 0, Key ''components'', Idx i]
      in [push_back [Idx 0, Key ''components''] (jv_object []),
          assign (button @ [Key ''type'']) (jv_int 2),
          assign (button @ [Key ''style'']) (jv_int 1),
          (\<lambda>ret. bindR custom_id (\<lambda>s. assign (button @ [Key ''custom_id'']) (jv_string s) ret)),
          assign (button @ [Key ''label'']) (jv_cstring label)])"

definition disable_buttons :: "bool \<Rightarrow> nat \<Rightarrow> nat \<Rightarrow> json_value \<Rightarrow> json_value result" where
  "disable_buttons b i j = whenR b
     [assign [Idx 0, Key ''components'', Idx i, Key ''disabled''] (jv_bool True),
      assign [Idx 0, Key ''components'', Idx j, Key ''disabled''] (jv_bool True)]"

definition help_row :: "string \<Rightarrow> int \<Rightarrow> int \<Rightarrow> (json_value \<Rightarrow> json_value result) list" where
  "help_row hpcid current_pos max_pos =
     [push_back [] (jv_object []),
      assign [Idx 0, Key ''type''] (jv_int 1),
      assign [Idx 0, Key ''components''] (jv_list [])] @
     help_button 0 (Inr (''hp_'' @ hpcid @ ''_2147483646'')) [CHR 0xE2, CHR 0x8F, CHR 0xAE] @
     help_button 1 (page_id hpcid (int_plus current_pos (- 1))) [CHR 0xE2, CHR 0x97, CHR 0x80] @
     [disable_buttons (current_pos = 1) 0 1] @
     help_button 2 (page_id hpcid (int_plus current_pos 1)) [CHR 0xE2, CHR 0x96, CHR 0xB6] @
     help_button 3 (Inr (''hp_'' @ hpcid @ ''_2147483647'')) [CHR 0xE2, CHR 0x8F, CHR 0xAD] @
     [disable_buttons (current_pos = max_pos) 2 3]"

definition help_option :: "nat \<Rightarrow> nat \<Rightarrow> string \<Rightarrow> string \<Rightarrow> string \<Rightarrow> string \<Rightarrow> (json_value \<Rightarrow> json_value result) list" where
  "help_option index k label value' emoji description =
     (let menu = [Idx index, Key ''components'', Idx 0, Key ''options'']; entry = menu @ [Idx k]
      in [push_back menu (jv_object []),
          assign (entry @ [Key ''label'']) (jv_cstring label),
          assign (entry @ [Key ''value'']) (jv_cstring value'),
          assign (entry @ [Key ''emoji'']) (jv_object []),
          assign (entry @ [Key ''emoji'', Key ''id'']) (jv_int (- 1)),
          modify (entry @ [Key ''emoji'', Key ''id'']) (\<lambda>v. Inr (set_val_type 4 v)),
          assign (entry @ [Key ''emoji'', Key ''name'']) (jv_cstring emoji),
          assign (entry @ [Key ''description'']) (jv_cstring description)])"

definition help_menu :: "nat \<Rightarrow> (json_value \<Rightarrow> json_value result) list" where
  "help_menu index =
     [push_back [] (jv_object []),
      assign [Idx index, Key ''type''] (jv_int 1),
      assign [Idx index, Key ''components''] (jv_list []),
      push_back [Idx index, Key ''components''] (jv_object []),
      assign [Idx index, Key ''components'', Idx 0, Key ''type''] (jv_int 3),
      assign [Idx index, Key ''components'', Idx 0, Key ''placeholder''] (jv_cstring ''Search commands''),
      assign [Idx index, Key ''components'', Idx 0, Key ''custom_id''] (jv_cstring ''help_commands''),
      assign [Idx index, Key ''components'', Idx 0, Key ''options''] (jv_list [])] @
     help_option index 0 ''Manifest generator'' ''manifest''
       [CHR 0xF0, CHR 0x9F, CHR 0x93, CHR 0x84]
       ''Unusable for normies, unnecessary for developers.'' @
     help_option index 1 ''JSON obfuscator'' ''obfuscator''
       [CHR 0xF0, CHR 0x9F, CHR 0x94, CHR 0x8F]
       (''Don'' @ [CHR 0x27] @ ''t spend countless hours obfuscating everything.'') @
     help_option index 2 ''Item generator'' ''item''
       [CHR 0xE2, CHR 0x9B, CHR 0x8F, CHR 0xEF, CHR 0xB8, CHR 0x8F]
       (''Can'' @ [CHR 0x27] @ ''t think of one? Perhaps chopsticks might do.'') @
     help_option index 3 ''Entity generator'' ''entity''
       [CHR 0xF0, CHR 0x9F, CHR 0x90, CHR 0x99]
       ''Currently under beta development. (More like early alpha)'' @
     help_option index 4 ''Help'' ''help'' [CHR 0xE2, CHR 0x9D, CHR 0x93]
       ''Self-reference; sometimes catastrophic, sometimes helpful.''"

definition make_help_with_selection :: "string \<Rightarrow> int \<Rightarrow> int \<Rightarrow> json_value list result" where
  "make_help_with_selection hpcid current_pos max_pos =
     (let index = (current_pos \<noteq> 0)
      in bindR (seqR [whenR index (help_row hpcid current_pos max_pos),
                      seqR (help_menu (if index then 1 else 0))] (jv_list []))
           (\<lambda>ret. Inr (val_list ret)))"

section \<open>What the functions promise\<close>

subsection \<open>Transfers\<close>

lemma transfer_more:
  "data r = Some (b @ [CHR 0x00]) \<Longrightarrow> resp_size r = length b \<Longrightarrow>
     transfer chunks r = \<lparr>data = Some (b @ concat chunks @ [CHR 0x00]), resp_size = length (b @ concat chunks)\<rparr>"
proof (induction chunks arbitrary: r b)
  case Nil
  then show ?case by (cases r) (simp add: transfer_def)
next
  case (Cons c cs)
  let ?r = "snd (write_callback c r)"
  have "data ?r = Some ((b @ c) @ [CHR 0x00])" "resp_size ?r = length (b @ c)"
    using Cons.prems by (simp_all add: write_callback_def Let_def)
  from Cons.IH [OF this] show ?case by (simp add: transfer_def)
qed

lemma transfer_all:
  "transfer chunks no_response = (if chunks = [] then no_response
     else \<lparr>data = Some (concat chunks @ [CHR 0x00]), resp_size = length (concat chunks)\<rparr>)"
proof (cases chunks)
  case Nil
  then show ?thesis by (simp add: transfer_def)
next
  case (Cons c cs)
  have "transfer chunks no_response = transfer cs (snd (write_callback c no_response))"
    by (simp add: transfer_def Cons)
  also have "\<dots> = \<lparr>data = Some (c @ concat cs @ [CHR 0x00]), resp_size = length (c @ concat cs)\<rparr>"
    by (rule transfer_more) (simp_all add: write_callback_def no_response_def Let_def)
  finally show ?thesis by (simp add: Cons)
qed

lemma transfer_sel:
  "data (transfer chunks no_response) = (if chunks = [] then None else Some (concat chunks @ [CHR 0x00]))"
  "resp_size (transfer chunks no_response) = length (concat chunks)"
  by (simp_all add: transfer_all) (simp_all add: no_response_def)

lemma c_str_snoc_nul: "c_str (s @ [CHR 0x00]) = c_str s"
  by (induction s) (simp_all add: c_str_def)

lemma raw_fetch_eq: "raw_fetch net url = ([HttpGet (c_str url)], Inr (concat (net (c_str url))))"
  by (simp add: raw_fetch_def Let_def transfer_sel returnIO_def)

lemma fetch_url_eq: "fetch_url net url = ([HttpGet (c_str url)],
    if net (c_str url) = [] then Inl Logic_error else Inr (c_str (concat (net (c_str url)))))"
  by (simp add: fetch_url_def transfer_sel c_str_snoc_nul returnIO_def liftR_def)

subsection \<open>Page identifiers\<close>

lemma parse_hpcid_show: "int32 n \<Longrightarrow> parse_hpcid (p @ CHR ''_'' # show_int n) = Inr (p, n)"
proof -
  assume n: "int32 n"
  have u: "\<forall>c \<in> set (rev (show_int n)). c \<noteq> CHR ''_''"
    by (auto simp: show_int_def is_digit_def dest!: show_nat_digits)
  have "takeWhile (\<lambda>c. c \<noteq> CHR ''_'') (rev (show_int n) @ CHR ''_'' # rev p) = rev (show_int n)"
    by (subst takeWhile_append2, use u in simp, simp)
  moreover have "dropWhile (\<lambda>c. c \<noteq> CHR ''_'') (rev (show_int n) @ CHR ''_'' # rev p) = CHR ''_'' # rev p"
    by (subst dropWhile_append2, use u in simp, simp)
  ultimately show ?thesis using n by (simp add: parse_hpcid_def Let_def atoi_show_int)
qed

subsection \<open>Content types\<close>

lemma charset_of_other: "CHR '';'' \<notin> set s \<Longrightarrow> s = [] \<or> hd s \<noteq> CHR '';''"
  by (cases s) auto

lemma charset_of_no_mark: "hd s \<noteq> CHR '';'' \<Longrightarrow> charset_of s = None"
  by (cases s) (auto simp: charset_of_def charset_mark_def)

lemma charset_of_mark: "cs \<noteq> [] \<Longrightarrow> charset_of (charset_mark @ cs) = Some cs"
  by (simp add: charset_of_def charset_mark_def)

lemma split_charset_plain: "CHR '';'' \<notin> set p \<Longrightarrow> split_charset p = (p, [])"
proof (induction p)
  case (Cons c p)
  then have "charset_of p = None"
    by (cases p) (auto simp: charset_of_no_mark, simp add: charset_of_def charset_mark_def)
  with Cons show ?case by simp
qed simp

lemma split_charset_mark:
  "CHR '';'' \<notin> set p \<Longrightarrow> p \<noteq> [] \<Longrightarrow> cs \<noteq> [] \<Longrightarrow> split_charset (p @ charset_mark @ cs) = (p, cs)"
proof (induction p)
  case (Cons c p)
  show ?case
  proof (cases p)
    case Nil
    with Cons.prems show ?thesis by (simp add: charset_of_mark)
  next
    case (Cons d q)
    with Cons.prems have "charset_of (p @ charset_mark @ cs) = None"
      by (intro charset_of_no_mark) auto
    with Cons.prems Cons.IH Cons show ?thesis by (simp del: split_charset.simps add: split_charset.simps(2) [of c])
  qed
qed simp

subsection \<open>The help message\<close>

definition button_template :: "string \<Rightarrow> string \<Rightarrow> bool \<Rightarrow> json_value" where
  "button_template custom_id label disabled = jv_object (
     [(''type'', jv_int 2), (''style'', jv_int 1), (''custom_id'', jv_string custom_id),
      (''label'', jv_string label)] @ optional disabled (''disabled'', jv_bool True))"

definition row_template :: "string \<Rightarrow> int \<Rightarrow> int \<Rightarrow> json_value" where
  "row_template hpcid current_pos max_pos = jv_object
     [(''type'', jv_int 1), (''components'', jv_list
       [button_template (''hp_'' @ hpcid @ ''_2147483646'') [CHR 0xE2, CHR 0x8F, CHR 0xAE] (current_pos = 1),
        button_template (''hp_'' @ hpcid @ ''_'' @ show_int (current_pos - 1))
          [CHR 0xE2, CHR 0x97, CHR 0x80] (current_pos = 1),
        button_template (''hp_'' @ hpcid @ ''_'' @ show_int (current_pos + 1))
          [CHR 0xE2, CHR 0x96, CHR 0xB6] (current_pos = max_pos),
        button_template (''hp_'' @ hpcid @ ''_2147483647'') [CHR 0xE2, CHR 0x8F, CHR 0xAD]
          (current_pos = max_pos)])]"

definition option_template :: "string \<Rightarrow> string \<Rightarrow> string \<Rightarrow> string \<Rightarrow> json_value" where
  "option_template label value' emoji description = jv_object
     [(''label'', jv_string label), (''value'', jv_string value'),
      (''emoji'', jv_object [(''id'', set_val_type 4 (jv_int (- 1))), (''name'', jv_string emoji)]),
      (''description'', jv_string description)]"

definition menu_template :: json_value where
  "menu_template = jv_object
     [(''type'', jv_int 1), (''components'', jv_list [jv_object
       [(''type'', jv_int 3), (''placeholder'', jv_string ''Search commands''),
        (''custom_id'', jv_string ''help_commands''),
        (''options'', jv_list
          [option_template ''Manifest generator'' ''manifest'' [CHR 0xF0, CHR 0x9F, CHR 0x93, CHR 0x84]
             ''Unusable for normies, unnecessary for developers.'',
           option_template ''JSON obfuscator'' ''obfuscator'' [CHR 0xF0, CHR 0x9F, CHR 0x94, CHR 0x8F]
             (''Don'' @ [CHR 0x27] @ ''t spend countless hours obfuscating everything.''),
           option_template ''Item generator'' ''item''
             [CHR 0xE2, CHR 0x9B, CHR 0x8F, CHR 0xEF, CHR 0xB8, CHR 0x8F]
             (''Can'' @ [CHR 0x27] @ ''t think of one? Perhaps chopsticks might do.''),
           option_template ''Entity generator'' ''entity'' [CHR 0xF0, CHR 0x9F, CHR 0x90, CHR 0x99]
             ''Currently under beta development. (More like early alpha)'',
           option_template ''Help'' ''help'' [CHR 0xE2, CHR 0x9D, CHR 0x93]
             ''Self-reference; sometimes catastrophic, sometimes helpful.''])]])]"

definition has_neighbours :: "int \<Rightarrow> bool" where
  "has_neighbours page \<longleftrightarrow> int32 (page - 1) \<and> int32 (page + 1)"

lemma help_row_run:
  "seqR (help_row hpcid cp mp) (jv_list []) =
     (if has_neighbours cp then Inr (jv_list [row_template hpcid cp mp]) else Inl Undefined_behaviour)"
proof -
  consider "int32 (cp - 1)" "int32 (cp + 1)" | "\<not> int32 (cp - 1)" | "int32 (cp - 1)" "\<not> int32 (cp + 1)" by blast
  then show ?thesis
  proof cases
    case 1
    then show ?thesis
      by (cases "cp = 1"; cases "cp = mp")
        (simp_all add: has_neighbours_def page_id_def int_plus_def help_row_def help_button_def disable_buttons_def
          Let_def assign_def push_back_def obj_updR_eq jv_cstring_eq row_template_def button_template_def)
  next
    case 2
    then show ?thesis
      by (simp add: has_neighbours_def page_id_def int_plus_def help_row_def help_button_def Let_def assign_def
          push_back_def obj_updR_eq)
  next
    case 3
    then show ?thesis
      by (cases "cp = 1")
        (simp_all add: has_neighbours_def page_id_def int_plus_def help_row_def help_button_def disable_buttons_def
          Let_def assign_def push_back_def obj_updR_eq jv_cstring_eq)
  qed
qed

lemma help_menu_run:
  "seqR (help_menu 0) (jv_list []) = Inr (jv_list [menu_template])"
  "seqR (help_menu 1) (jv_list [r]) = Inr (jv_list [r, menu_template])"
  by (simp_all add: help_menu_def help_option_def Let_def assign_def push_back_def obj_updR_eq
      jv_cstring_eq menu_template_def option_template_def)

lemma make_help_run:
  "make_help_with_selection hpcid cp mp =
     (if cp = 0 \<or> has_neighbours cp then Inr (optional (cp \<noteq> 0) (row_template hpcid cp mp) @ [menu_template])
      else Inl Undefined_behaviour)"
  by (cases "cp = 0") (simp_all add: make_help_with_selection_def help_row_run help_menu_run [simplified])

subsection \<open>Uploads\<close>

text \<open>The document in front of an upload, which is always printable.\<close>

definition wrapper_template :: "string \<Rightarrow> string \<Rightarrow> json_value" where
  "wrapper_template filename' msgcont = jv_object
     [(''type'', jv_int 4), (''data'', jv_object (
        optional (msgcont \<noteq> []) (''content'', jv_string msgcont) @
        [(''attachments'', jv_list [jv_object
           [(''id'', jv_int 0), (''filename'', jv_string filename')]])]))]"

lemma upload_run:
  "upload token url fname msg att = ([HttpForm (c_str url) [user_agent, auth_header token]
     [[Mime_name ''payload_json'', Mime_data (c_str (repr (wrapper_template fname msg)))], att]], Inr ())"
proof -
  have "upload_wrapper fname msg = Inr (wrapper_template fname msg)"
    by (cases "msg = []")
      (simp_all add: upload_wrapper_def wrapper_template_def assign_def push_back_def obj_updR_eq)
  moreover have "sound (wrapper_template fname msg)"
    by (simp add: wrapper_template_def obj_keys_def)
  ultimately show ?thesis
    by (simp add: upload_def sound_get_repr) (simp add: emit_def)
qed

section \<open>Properties\<close>

text \<open>The chunks the network delivers arrive whole and in order, however they are cut:
  \<open>raw_fetch\<close> returns their concatenation, \<open>fetch\<close> its part in front of the first NUL, and
  \<open>fetch\<close> raises \<open>std::logic_error\<close> exactly when no chunk arrives at all.\<close>

theorem fetch_returns_the_body:
  "raw_fetch net url = ([HttpGet (c_str url)], Inr (concat (net (c_str url)))) \<and>
   fetch_url net url = ([HttpGet (c_str url)],
     if net (c_str url) = [] then Inl Logic_error else Inr (c_str (concat (net (c_str url)))))"
  by (rule conjI) (rule raw_fetch_eq, rule fetch_url_eq)

text \<open>The page identifiers the help buttons carry are read back: for every topic, underscores
  included, and every page number in the range of \<open>int\<close>.\<close>

theorem help_page_roundtrip:
  assumes "int32 n"
  shows "parse_hpcid (topic @ ''_'' @ show_int n) = Inr (topic, n)"
  using parse_hpcid_show [OF assms] by simp

theorem help_page_roundtrip_witness:
  "parse_hpcid (''my_topic'' @ ''_'' @ show_int 2147483646) = Inr (''my_topic'', 2147483646)"
  by (rule help_page_roundtrip) (simp add: int32_def)

text \<open>A media type without a semicolon is identified whole, with the character set behind its
  mark when there is one.\<close>

theorem identify_filetype_parts:
  assumes "p \<noteq> []" "CHR '';'' \<notin> set p" "cs \<noteq> []" "\<not> list_ex is_break (p @ cs)"
  shows "identify_filetype p = (p, []) \<and> identify_filetype (p @ ''; charset='' @ cs) = (p, cs)"
proof -
  have "split_charset (p @ ''; charset='' @ cs) = (p, cs)"
    using split_charset_mark [OF assms(2,1,3)] by (simp add: charset_mark_def)
  then show ?thesis
    using assms split_charset_plain [OF assms(2)]
    by (simp add: identify_filetype_def) (simp add: is_break_def)
qed

theorem identify_filetype_parts_witness:
  "identify_filetype ''application/json'' = (''application/json'', []) \<and>
   identify_filetype (''application/json'' @ ''; charset='' @ ''utf-8'') = (''application/json'', ''utf-8'')"
  by (rule identify_filetype_parts) (simp_all add: is_break_def)

text \<open>\<open>reduce_options\<close> gives, under every name, the value of the last option with that name,
  and the default value when there is none; no name occurs twice.\<close>

theorem reduce_options_last_value:
  "obj_get jv_default k (val_object (reduce_options options))
     = (case map_of (rev (map (\<lambda>o'. (val_string (obj_get jv_default ''name'' (val_object o')),
                                     obj_get jv_default ''value'' (val_object o')))
                          (val_list options))) k of
          None \<Rightarrow> jv_default | Some v \<Rightarrow> v) \<and>
   distinct (obj_keys (val_object (reduce_options options)))"
proof -
  let ?nv = "\<lambda>o'. (val_string (obj_get jv_default ''name'' (val_object o')),
    obj_get jv_default ''value'' (val_object o'))"
  have "val_object (reduce_options options)
      = fold (\<lambda>(n, v). obj_put n v) (map ?nv (val_list options)) []"
    by (simp add: reduce_options_def fold_map o_def)
  moreover have "distinct (obj_keys (fold (\<lambda>(n, v). obj_put n v) kvs o'))"
    if "distinct (obj_keys o')" for kvs and o' :: "json_value json_object"
    using that by (induction kvs arbitrary: o') (auto simp: obj_put_distinct)
  ultimately show ?thesis
    using json_obj.get_put_all [of jv_default k "map ?nv (val_list options)" "[]"]
    by (simp add: obj_keys_simps split: option.split)
qed

text \<open>The help message is the menu of topics, and with a page number one row of four buttons in
  front of it, the first two of which are disabled on the first page and the last two on the last
  page; only for the page numbers at the two ends of \<open>int\<close> the neighbours overflow.\<close>

theorem help_message_template:
  "make_help_with_selection hpcid current_pos max_pos =
     (if current_pos = 0 \<or> has_neighbours current_pos
      then Inr (optional (current_pos \<noteq> 0) (row_template hpcid current_pos max_pos) @ [menu_template])
      else Inl Undefined_behaviour)"
  by (rule make_help_run)

end
