(* ===== verification/Obfuscator.thy ===== *)
theory Obfuscator
  imports JsonCorrect
begin

text \<open>
  The class \<open>generatelibs::obfuscator\<close> of generate_libs/obfuscator.cpp: \<open>decode_utf8\<close>,
  \<open>unicodeEscape\<close>, \<open>minify\<close> and \<open>obfuscateMain\<close>.  A loop over an index of the
  input is a recursion over the rest of the input.  The second half relates the operations to
  their specifications: the UTF-8 encoding, the surrogate pairs of UTF-16 and the JSON grammar.
\<close>

section \<open>The operations\<close>

definition decode_utf8 :: "string \<Rightarrow> int result" where
  "decode_utf8 embestring =
     bindR (char_at embestring 0) (\<lambda>c0.
       if uchar c0 div 32 = 6 then
         bindR (char_at embestring 1) (\<lambda>c1. Inr (uchar c0 mod 32 * 64 + uchar c1 mod 64))
       else if uchar c0 div 16 = 14 then
         bindR (char_at embestring 1) (\<lambda>c1. bindR (char_at embestring 2) (\<lambda>c2.
           Inr (uchar c0 mod 16 * 4096 + uchar c1 mod 64 * 64 + uchar c2 mod 64)))
       else if uchar c0 div 8 = 30 then
         bindR (char_at embestring 1) (\<lambda>c1. bindR (char_at embestring 2) (\<lambda>c2.
           bindR (char_at embestring 3) (\<lambda>c3.
             Inr (uchar c0 mod 8 * 262144 + uchar c1 mod 64 * 4096 + uchar c2 mod 64 * 64
                  + uchar c3 mod 64))))
       else Inr (schar c0))"

text \<open>The length of the substring the loop of \<open>unicodeEscape\<close> decodes at a byte.\<close>

definition utf8_width :: "char \<Rightarrow> nat" where
  "utf8_width c =
     (if uchar c div 32 = 6 then 2 else if uchar c div 16 = 14 then 3
      else if uchar c div 8 = 30 then 4 else 1)"

definition escaped_character :: "int \<Rightarrow> string" where
  "escaped_character cc =
     (if 65535 < cc then
        [CHR 0x5C, CHR ''u''] @ hex4 (55296 + cc div 1024) @
        [CHR 0x5C, CHR ''u''] @ hex4 (56320 + c_mod cc 1024)
      else [CHR 0x5C, CHR ''u''] @ hex4 cc)"

fun unicodeEscape :: "string \<Rightarrow> string result" where
  "unicodeEscape [] = Inr []"
| "unicodeEscape (c # s) =
     bindR (decode_utf8 (take (utf8_width c) (c # s))) (\<lambda>cc.
     bindR (unicodeEscape (drop (utf8_width c - 1) s)) (\<lambda>r.
       Inr (escaped_character cc @ r)))"

text \<open>
  The inner loop of \<open>minify\<close> behind an opening quote: the text up to the closing quote and what
  follows, or nothing when the input ends first.
\<close>

fun close_quote :: "string \<Rightarrow> (string \<times> string) option" where
  "close_quote [] = None"
| "close_quote [c] = (if c = CHR 0x22 then Some ([c], []) else None)"
| "close_quote (c # d # s) =
     (if c = CHR 0x5C then map_option (\<lambda>(l, r). (c # d # l, r)) (close_quote s)
      else if c = CHR 0x22 then Some ([c], d # s)
      else map_option (\<lambda>(l, r). (c # l, r)) (close_quote (d # s)))"

lemma close_quote_append: "close_quote s = Some (l, r) \<Longrightarrow> s = l @ r \<and> l \<noteq> []"
  by (induction s arbitrary: l r rule: close_quote.induct) (auto split: if_splits)

function minify :: "string \<Rightarrow> string result" where
  "minify [] = Inr []"
| "minify (c # s) =
     (if c = CHR 0x09 \<or> c = CHR 0x0D \<or> c = CHR 0x0A \<or> c = CHR '' '' then minify s
      else if c = CHR 0x22 then
        (case close_quote s of
           None \<Rightarrow> Inl (Thrown ''Unterminated std::string.'')
         | Some (l, r) \<Rightarrow> bindR (minify r) (\<lambda>t. Inr (c # l @ t)))
      else bindR (minify s) (\<lambda>t. Inr (c # t)))"
  by pat_completeness auto
termination
  by (relation "measure length") (auto dest: close_quote_append)

text \<open>
  The first match of the regular expression \<open>"([^"]*)"\<close>: the text before it, the text between
  its quotes and the text behind it.
\<close>

definition find_string :: "string \<Rightarrow> (string \<times> string \<times> string) option" where
  "find_string s =
     (case dropWhile (\<lambda>c. c \<noteq> CHR 0x22) s of
        [] \<Rightarrow> None
      | q # r \<Rightarrow>
          if CHR 0x22 \<in> set r then
            Some (takeWhile (\<lambda>c. c \<noteq> CHR 0x22) s, takeWhile (\<lambda>c. c \<noteq> CHR 0x22) r,
                  tl (dropWhile (\<lambda>c. c \<noteq> CHR 0x22) r))
          else None)"

lemma find_string_shorter: "find_string s = Some (p, m, r) \<Longrightarrow> length r < length s"
proof -
  assume "find_string s = Some (p, m, r)"
  then obtain q t where "dropWhile (\<lambda>c. c \<noteq> CHR 0x22) s = q # t"
    and r: "r = tl (dropWhile (\<lambda>c. c \<noteq> CHR 0x22) t)"
    by (auto simp: find_string_def split: list.splits if_splits)
  moreover from this have "length (q # t) \<le> length s" by (metis length_dropWhile_le)
  moreover have "length (dropWhile (\<lambda>c. c \<noteq> CHR 0x22) t) \<le> length t" by (rule length_dropWhile_le)
  ultimately show ?thesis by simp
qed

function escape_strings :: "string \<Rightarrow> string result" where
  "escape_strings s =
     (case find_string s of
        None \<Rightarrow> Inr s
      | Some (p, m, r) \<Rightarrow>
          bindR (unicodeEscape m) (\<lambda>e. bindR (escape_strings r) (\<lambda>t.
            Inr (p @ [CHR 0x22] @ e @ [CHR 0x22] @ t))))"
  by pat_completeness auto
termination
  by (relation "measure length") (auto dest: find_string_shorter)

declare escape_strings.simps [simp del]

definition obfuscateMain :: "string \<Rightarrow> bool \<Rightarrow> string result" where
  "obfuscateMain input_string do_minify =
     bindR (escape_strings input_string) (\<lambda>o'. if do_minify then minify o' else Inr o')"

section \<open>Minified text\<close>

text \<open>The three kinds of input \<open>minify\<close> distinguishes, as rewrite rules.\<close>

lemma minify_ws: "is_ws c \<Longrightarrow> minify (c # s) = minify s"
  by (auto simp: is_ws_def)

lemma minify_plain: "\<not> is_ws c \<Longrightarrow> c \<noteq> CHR 0x22 \<Longrightarrow> minify (c # s) = bindR (minify s) (\<lambda>t. Inr (c # t))"
  by (auto simp: is_ws_def)

lemma minify_string:
  "close_quote s = Some (l, r) \<Longrightarrow>
     minify (CHR 0x22 # s) = bindR (minify r) (\<lambda>t. Inr (CHR 0x22 # l @ t))"
  by simp

lemma minify_all_ws: "all_ws w \<Longrightarrow> minify (w @ s) = minify s"
  by (induction w) (simp_all add: minify_ws del: minify.simps)

lemma close_quote_extend: "close_quote s = Some (l, r) \<Longrightarrow> close_quote (l @ t) = Some (l, t)"
proof (induction s arbitrary: l r rule: close_quote.induct)
  case (2 c)
  then show ?case by (cases t) (auto split: if_splits)
next
  case (3 c d s)
  consider "c = CHR 0x5C" | "c \<noteq> CHR 0x5C" "c = CHR 0x22" | "c \<noteq> CHR 0x5C" "c \<noteq> CHR 0x22"
    by blast
  then show ?case
  proof cases
    case 3
    with "3.prems" obtain l' where l: "l = c # l'" and l': "close_quote (d # s) = Some (l', r)"
      by auto
    from close_quote_append [OF l'] have "l' @ t \<noteq> []" by simp
    moreover have "close_quote (l' @ t) = Some (l', t)" using "3.IH"(2) [OF 3 l'] .
    ultimately show ?thesis using 3 by (cases "l' @ t") (simp_all add: l)
  qed (use "3.prems" "3.IH"(1) in \<open>auto split: if_splits\<close>, cases t, auto)
qed simp

lemma minify_idem: "minify s = Inr t \<Longrightarrow> minify t = Inr t"
proof (induction s arbitrary: t rule: minify.induct)
  case (2 c s)
  consider "is_ws c" | "\<not> is_ws c" "c = CHR 0x22" | "\<not> is_ws c" "c \<noteq> CHR 0x22" by blast
  then show ?case
  proof cases
    case 1
    then have "c = CHR 0x09 \<or> c = CHR 0x0D \<or> c = CHR 0x0A \<or> c = CHR '' ''"
      by (auto simp: is_ws_def)
    moreover have "minify s = Inr t"
      using "2.prems" 1 by (simp add: minify_ws del: minify.simps)
    ultimately show ?thesis by (rule "2.IH"(1))
  next
    case w: 2
    then have nw: "\<not> (c = CHR 0x09 \<or> c = CHR 0x0D \<or> c = CHR 0x0A \<or> c = CHR '' '')"
      by (auto simp: is_ws_def)
    from "2.prems" w obtain l r u where lr: "close_quote s = Some (l, r)"
      and u: "minify r = Inr u" and t: "t = c # l @ u"
      by (auto simp: bindR_eq_Inr split: option.splits)
    have "minify u = Inr u" using "2.IH"(2) [OF nw w(2) lr refl u] .
    then show ?thesis using close_quote_extend [OF lr, of u] by (simp add: t w(2))
  next
    case w: 3
    with "2.prems" obtain u where u: "minify s = Inr u" and t: "t = c # u"
      by (auto simp: minify_plain bindR_eq_Inr simp del: minify.simps)
    have "minify u = Inr u" using "2.IH"(3) w u by (auto simp: is_ws_def)
    then show ?thesis using w by (simp add: t minify_plain del: minify.simps)
  qed
qed simp

lemma minify_error: "minify s = Inl e \<Longrightarrow> e = Thrown ''Unterminated std::string.''"
proof (induction s arbitrary: e rule: minify.induct)
  case (2 c s)
  consider "is_ws c" | "\<not> is_ws c" "c = CHR 0x22" | "\<not> is_ws c" "c \<noteq> CHR 0x22" by blast
  then show ?case
  proof cases
    case 1
    then have "c = CHR 0x09 \<or> c = CHR 0x0D \<or> c = CHR 0x0A \<or> c = CHR '' ''"
      by (auto simp: is_ws_def)
    moreover have "minify s = Inl e"
      using "2.prems" 1 by (simp add: minify_ws del: minify.simps)
    ultimately show ?thesis by (rule "2.IH"(1))
  next
    case w: 2
    then have nw: "\<not> (c = CHR 0x09 \<or> c = CHR 0x0D \<or> c = CHR 0x0A \<or> c = CHR '' '')"
      by (auto simp: is_ws_def)
    show ?thesis
    proof (cases "close_quote s")
      case None
      with "2.prems" w show ?thesis by simp
    next
      case (Some lr)
      then obtain l r where lr: "close_quote s = Some (l, r)" by (cases lr) auto
      then have "minify r = Inl e" using "2.prems" w by (simp add: bindR_eq_Inl)
      then show ?thesis using "2.IH"(2) [OF nw w(2) lr refl] by simp
    qed
  next
    case w: 3
    with "2.prems" have "minify s = Inl e"
      by (simp add: minify_plain bindR_eq_Inl del: minify.simps)
    then show ?thesis using "2.IH"(3) w by (auto simp: is_ws_def)
  qed
qed simp

section \<open>Minifying a JSON document\<close>

text \<open>\<open>mini t t'\<close>: in front of any rest, \<open>minify\<close> turns the token sequence \<open>t\<close> into \<open>t'\<close>.\<close>

definition mini :: "string \<Rightarrow> string \<Rightarrow> bool" where
  "mini t t' \<longleftrightarrow> (\<forall>r. minify (t @ r) = bindR (minify r) (\<lambda>u. Inr (t' @ u)))"

lemma mini_append: "mini a a' \<Longrightarrow> mini b b' \<Longrightarrow> mini (a @ b) (a' @ b')"
  by (simp add: mini_def bindR_assoc)

lemma mini_ws: "all_ws w \<Longrightarrow> mini w []"
  by (auto simp: mini_def minify_all_ws bindR_def split: sum.split)

lemma mini_plain: "\<forall>c \<in> set t. \<not> is_ws c \<and> c \<noteq> CHR 0x22 \<Longrightarrow> mini t t"
proof (induction t)
  case Nil
  show ?case by (rule mini_ws) simp
next
  case (Cons c t)
  then have "mini [c] [c]" by (simp add: mini_def minify_plain del: minify.simps)
  from mini_append [OF this Cons.IH] Cons.prems show ?case by simp
qed

lemma mini_char: "\<not> is_ws c \<Longrightarrow> c \<noteq> CHR 0x22 \<Longrightarrow> mini [c] [c]"
  by (rule mini_plain) simp


text \<open>
  What \<open>minify\<close> is meant to do, without reference to its loops: a text is a sequence of string
  tokens with other text before, between and behind them; the string tokens are kept, and all white
  space outside of them is removed.  Inside of a token a backslash protects the next character.
\<close>

inductive string_body :: "string \<Rightarrow> bool" where
  end_of_body: "string_body []"
| plain_char: "c \<noteq> CHR 0x22 \<Longrightarrow> c \<noteq> CHR 0x5C \<Longrightarrow> string_body b \<Longrightarrow> string_body (c # b)"
| protected_char: "string_body b \<Longrightarrow> string_body (CHR 0x5C # d # b)"

definition quoted :: "string \<Rightarrow> string" where
  "quoted b = [CHR 0x22] @ b @ [CHR 0x22]"

definition squeezed :: "string \<Rightarrow> string \<Rightarrow> bool" where
  "squeezed s t \<longleftrightarrow> (\<exists>segments rest.
     s = concat (map (\<lambda>(p, b). p @ quoted b) segments) @ rest \<and>
     t = concat (map (\<lambda>(p, b). filter (\<lambda>c. \<not> is_ws c) p @ quoted b) segments) @ filter (\<lambda>c. \<not> is_ws c) rest \<and>
     (\<forall>(p, b) \<in> set segments. CHR 0x22 \<notin> set p \<and> string_body b) \<and> CHR 0x22 \<notin> set rest)"

lemma close_quote_token: "string_body b \<Longrightarrow> close_quote (b @ CHR 0x22 # r) = Some (b @ [CHR 0x22], r)"
proof (induction rule: string_body.induct)
  case end_of_body
  then show ?case by (cases r) simp_all
next
  case (plain_char c b)
  then show ?case by (cases "b @ CHR 0x22 # r") auto
qed simp

lemma close_quote_finds: "close_quote s = Some (l, r) \<Longrightarrow> \<exists>b. string_body b \<and> l = b @ [CHR 0x22] \<and> s = b @ CHR 0x22 # r"
proof (induction s arbitrary: l r rule: close_quote.induct)
  case (2 c)
  then show ?case using end_of_body by (auto split: if_splits)
next
  case (3 c d s)
  consider "c = CHR 0x5C" | "c \<noteq> CHR 0x5C" "c = CHR 0x22" | "c \<noteq> CHR 0x5C" "c \<noteq> CHR 0x22" by blast
  then show ?case
  proof cases
    case 1
    with "3.prems" obtain l' where l: "l = c # d # l'" "close_quote s = Some (l', r)" by auto
    with "3.IH"(1) [OF 1 l(2)] 1 show ?thesis using protected_char by fastforce
  next
    case 2
    with "3.prems" show ?thesis using end_of_body by fastforce
  next
    case e: 3
    with "3.prems" obtain l' where l: "l = c # l'" "close_quote (d # s) = Some (l', r)" by auto
    with "3.IH"(2) [OF e l(2)] e show ?thesis using plain_char by fastforce
  qed
qed simp

lemma squeezed_empty: "squeezed [] []"
  unfolding squeezed_def by (rule exI [of _ "[]"], rule exI [of _ "[]"]) simp

lemma squeezed_char:
  assumes "squeezed s t" "c \<noteq> CHR 0x22"
  shows "squeezed (c # s) (if is_ws c then t else c # t)"
proof -
  obtain segments rest where
    s: "s = concat (map (\<lambda>(p, b). p @ quoted b) segments) @ rest" and
    t: "t = concat (map (\<lambda>(p, b). filter (\<lambda>c. \<not> is_ws c) p @ quoted b) segments) @ filter (\<lambda>c. \<not> is_ws c) rest" and
    ok: "\<forall>(p, b) \<in> set segments. CHR 0x22 \<notin> set p \<and> string_body b" "CHR 0x22 \<notin> set rest"
    using assms(1) unfolding squeezed_def by blast
  show ?thesis
  proof (cases segments)
    case Nil
    with s t ok assms(2) show ?thesis
      unfolding squeezed_def by (intro exI [of _ "[]"] exI [of _ "c # rest"]) simp
  next
    case (Cons pb others)
    then obtain p b where "segments = (p, b) # others" by (cases pb) simp
    with s t ok assms(2) show ?thesis
      unfolding squeezed_def by (intro exI [of _ "(c # p, b) # others"] exI [of _ rest]) simp
  qed
qed

lemma squeezed_token:
  assumes "squeezed s t" "string_body b"
  shows "squeezed (quoted b @ s) (quoted b @ t)"
proof -
  obtain segments rest where
    "s = concat (map (\<lambda>(p, b). p @ quoted b) segments) @ rest"
    "t = concat (map (\<lambda>(p, b). filter (\<lambda>c. \<not> is_ws c) p @ quoted b) segments) @ filter (\<lambda>c. \<not> is_ws c) rest"
    "\<forall>(p, b) \<in> set segments. CHR 0x22 \<notin> set p \<and> string_body b" "CHR 0x22 \<notin> set rest"
    using assms(1) unfolding squeezed_def by blast
  with assms(2) show ?thesis
    unfolding squeezed_def by (intro exI [of _ "([], b) # segments"] exI [of _ rest]) simp
qed

lemma minify_squeezes: "minify s = Inr t \<Longrightarrow> squeezed s t"
proof (induction s arbitrary: t rule: minify.induct)
  case (2 c s)
  consider "is_ws c" | "\<not> is_ws c" "c = CHR 0x22" | "\<not> is_ws c" "c \<noteq> CHR 0x22" by blast
  then show ?case
  proof cases
    case 1
    then have w: "c = CHR 0x09 \<or> c = CHR 0x0D \<or> c = CHR 0x0A \<or> c = CHR '' ''" by (auto simp: is_ws_def)
    have "minify s = Inr t" using "2.prems" 1 by (simp add: minify_ws del: minify.simps)
    from squeezed_char [OF "2.IH"(1) [OF w this], of c] w 1 show ?thesis by auto
  next
    case w: 2
    then have nw: "\<not> (c = CHR 0x09 \<or> c = CHR 0x0D \<or> c = CHR 0x0A \<or> c = CHR '' '')"
      by (auto simp: is_ws_def)
    from "2.prems" w obtain l r u where lr: "close_quote s = Some (l, r)" and u: "minify r = Inr u" and t: "t = c # l @ u"
      by (auto simp: bindR_eq_Inr split: option.splits)
    from close_quote_finds [OF lr] obtain b where b: "string_body b" "l = b @ [CHR 0x22]" "s = b @ CHR 0x22 # r"
      by blast
    from squeezed_token [OF "2.IH"(2) [OF nw w(2) lr refl u] b(1)] show ?thesis
      by (simp add: quoted_def t b w(2))
  next
    case w: 3
    with "2.prems" obtain u where u: "minify s = Inr u" and t: "t = c # u"
      by (auto simp: minify_plain bindR_eq_Inr simp del: minify.simps)
    from w u "2.IH"(3) have "squeezed s u" by (auto simp: is_ws_def)
    from squeezed_char [OF this w(2)] w(1) show ?thesis by (simp add: t)
  qed
qed (simp add: squeezed_empty)

lemma mini_outside: "CHR 0x22 \<notin> set p \<Longrightarrow> mini p (filter (\<lambda>c. \<not> is_ws c) p)"
proof (induction p)
  case Nil
  show ?case by (simp add: mini_ws)
next
  case (Cons c p)
  then have "mini p (filter (\<lambda>c. \<not> is_ws c) p)" by simp
  from mini_append [OF mini_ws [of "[c]"] this] mini_append [OF mini_char [of c] this] Cons.prems
  show ?case by (cases "is_ws c") auto
qed

lemma mini_quoted: "string_body b \<Longrightarrow> mini (quoted b) (quoted b)"
  by (simp add: mini_def quoted_def close_quote_token)

lemma mini_segments:
  "\<forall>(p, b) \<in> set segments. CHR 0x22 \<notin> set p \<and> string_body b \<Longrightarrow>
     mini (concat (map (\<lambda>(p, b). p @ quoted b) segments))
       (concat (map (\<lambda>(p, b). filter (\<lambda>c. \<not> is_ws c) p @ quoted b) segments))"
proof (induction segments)
  case Nil
  show ?case by (simp add: mini_ws)
next
  case (Cons pb segments)
  then obtain p b where pb: "pb = (p, b)" "CHR 0x22 \<notin> set p" "string_body b" by (cases pb) simp
  with Cons show ?case
    using mini_append [OF mini_append [OF mini_outside [OF pb(2)] mini_quoted [OF pb(3)]]] by simp
qed

lemma mini_minify: "mini s t \<Longrightarrow> minify s = Inr t"
proof -
  assume "mini s t"
  then have "minify (s @ []) = bindR (minify []) (\<lambda>u. Inr (t @ u))" unfolding mini_def by (rule spec)
  then show ?thesis by simp
qed

lemma minify_iff_squeezed: "minify s = Inr t \<longleftrightarrow> squeezed s t"
proof
  assume "squeezed s t"
  then obtain segments rest where
    s: "s = concat (map (\<lambda>(p, b). p @ quoted b) segments) @ rest" and
    t: "t = concat (map (\<lambda>(p, b). filter (\<lambda>c. \<not> is_ws c) p @ quoted b) segments) @ filter (\<lambda>c. \<not> is_ws c) rest" and
    ok: "\<forall>(p, b) \<in> set segments. CHR 0x22 \<notin> set p \<and> string_body b" "CHR 0x22 \<notin> set rest"
    unfolding squeezed_def by blast
  show "minify s = Inr t"
    unfolding s t by (intro mini_minify mini_append mini_segments mini_outside ok)
qed (rule minify_squeezes)






section \<open>UTF-8\<close>

text \<open>The UTF-8 encoding of a code point, from its definition.\<close>

definition utf8 :: "int \<Rightarrow> string" where
  "utf8 cp =
     map to_char
      (if cp < 128 then [cp]
       else if cp < 2048 then [192 + cp div 64, 128 + cp mod 64]
       else if cp < 65536 then [224 + cp div 4096, 128 + cp div 64 mod 64, 128 + cp mod 64]
       else [240 + cp div 262144, 128 + cp div 4096 mod 64, 128 + cp div 64 mod 64, 128 + cp mod 64])"

definition code_point :: "int \<Rightarrow> bool" where
  "code_point cp \<longleftrightarrow> 0 \<le> cp \<and> cp < 1114112"

lemma div_64:
  fixes cp :: int
  shows "cp div 64 div 64 = cp div 4096" "cp div 4096 div 64 = cp div 262144"
  using zdiv_zmult2_eq [of 64 cp 64] zdiv_zmult2_eq [of 64 cp 4096]
  by (simp_all add: zdiv_zmult2_eq)

lemma base_64_sum:
  fixes cp :: int
  shows "x * 64 + r = cp \<Longrightarrow> y * 64 + s = x \<Longrightarrow> cp = y * 4096 + s * 64 + r"
    and "x * 64 + r = cp \<Longrightarrow> y * 64 + s = x \<Longrightarrow> z * 64 + t = y \<Longrightarrow>
      cp = z * 262144 + t * 4096 + s * 64 + r"
  by auto

lemma base_64:
  fixes cp :: int
  shows "cp = cp div 4096 * 4096 + cp div 64 mod 64 * 64 + cp mod 64"
    and "cp = cp div 262144 * 262144 + cp div 4096 mod 64 * 4096 + cp div 64 mod 64 * 64 + cp mod 64"
  using base_64_sum [OF div_mult_mod_eq [of cp 64] div_mult_mod_eq [of "cp div 64" 64]]
    base_64_sum(2) [OF div_mult_mod_eq [of cp 64] div_mult_mod_eq [of "cp div 64" 64]
      div_mult_mod_eq [of "cp div 64 div 64" 64]]
  by (simp_all only: div_64)

lemma code_point_cases:
  assumes "code_point cp"
  obtains "0 \<le> cp" "cp < 128" "utf8 cp = [to_char cp]"
  | a b where "cp = a * 64 + b" "0 \<le> a" "a < 32" "0 \<le> b" "b < 64"
      "utf8 cp = [to_char (192 + a), to_char (128 + b)]"
  | a b c where "cp = a * 4096 + b * 64 + c" "0 \<le> a" "a < 16" "0 \<le> b" "b < 64" "0 \<le> c" "c < 64"
      "utf8 cp = [to_char (224 + a), to_char (128 + b), to_char (128 + c)]"
  | a b c d where "cp = a * 262144 + b * 4096 + c * 64 + d" "0 \<le> a" "a < 8" "0 \<le> b" "b < 64"
      "0 \<le> c" "c < 64" "0 \<le> d" "d < 64"
      "utf8 cp = [to_char (240 + a), to_char (128 + b), to_char (128 + c), to_char (128 + d)]"
proof -
  have cp: "0 \<le> cp" "cp < 1114112" using assms by (simp_all add: code_point_def)
  consider "cp < 128" | "128 \<le> cp" "cp < 2048" | "2048 \<le> cp" "cp < 65536" | "65536 \<le> cp" by linarith
  then show ?thesis
  proof cases
    case 1
    with cp show ?thesis by (intro that(1)) (simp_all add: utf8_def)
  next
    case 2
    then show ?thesis by (intro that(2) [of "cp div 64" "cp mod 64"]) (auto simp: utf8_def)
  next
    case 3
    have "cp = cp div 4096 * 4096 + cp div 64 mod 64 * 64 + cp mod 64" by (rule base_64(1))
    then show ?thesis
      using 3 by (intro that(3) [of "cp div 4096" "cp div 64 mod 64" "cp mod 64"])
        (auto simp: utf8_def)
  next
    case 4
    have "cp div 262144 < 8" using cp(2) by simp
    moreover have "0 \<le> cp div 262144" using cp(1) by simp
    moreover have "utf8 cp = [to_char (240 + cp div 262144), to_char (128 + cp div 4096 mod 64),
        to_char (128 + cp div 64 mod 64), to_char (128 + cp mod 64)]"
      using 4 by (simp add: utf8_def)
    ultimately show ?thesis by (intro that(4) [OF base_64(2)]) simp_all
  qed
qed

lemma base_div:
  fixes a :: int
  shows "0 \<le> a \<Longrightarrow> a < b \<Longrightarrow> (b * q + a) div b = q" "0 \<le> a \<Longrightarrow> a < b \<Longrightarrow> (b * q + a) mod b = a"
  by simp_all

lemma base_div_sub:
  fixes a :: int
  shows "0 \<le> a \<Longrightarrow> a < c \<Longrightarrow> c \<le> b \<Longrightarrow> (b * q + a) div b = q" by simp

lemma lead_bits:
  fixes a :: int
  shows "0 \<le> a \<Longrightarrow> a < 32 \<Longrightarrow> (192 + a) div 32 = 6" "0 \<le> a \<Longrightarrow> a < 32 \<Longrightarrow> (192 + a) mod 32 = a"
    and "0 \<le> a \<Longrightarrow> a < 16 \<Longrightarrow> (224 + a) div 32 = 7" "0 \<le> a \<Longrightarrow> a < 16 \<Longrightarrow> (224 + a) div 16 = 14"
    and "0 \<le> a \<Longrightarrow> a < 16 \<Longrightarrow> (224 + a) mod 16 = a"
    and "0 \<le> a \<Longrightarrow> a < 8 \<Longrightarrow> (240 + a) div 8 = 30" "0 \<le> a \<Longrightarrow> a < 8 \<Longrightarrow> (240 + a) mod 8 = a"
    and "0 \<le> a \<Longrightarrow> a < 64 \<Longrightarrow> (128 + a) mod 64 = a"
  using base_div [of a 32 6] by (simp, simp)
    (use base_div_sub [of a 16 32 7] in simp, use base_div(1) [of a 16 14] in simp,
     use base_div(2) [of a 16 14] in simp, use base_div(1) [of a 8 30] in simp,
     use base_div(2) [of a 8 30] in simp, use base_div(2) [of a 64 2] in simp)

lemma lead_bits_4:
  fixes a :: int
  assumes "0 \<le> a" "a < 8"
  shows "(240 + a) div 32 = 7" "(240 + a) div 16 = 15"
  using base_div_sub [of "16 + a" 32 32 7] base_div_sub [of a 8 16 15] assms by simp_all

lemma plain_bits:
  fixes a :: int
  assumes "0 \<le> a" "a < 128"
  shows "a div 32 \<noteq> 6" "a div 16 \<noteq> 14" "a div 8 \<noteq> 30"
  using assms by simp_all

lemma utf8_decodes:
  assumes "code_point cp"
  shows "decode_utf8 (utf8 cp) = Inr cp"
  using assms
  by (cases rule: code_point_cases)
    (simp_all add: decode_utf8_def char_at_def uchar_to_char lead_bits lead_bits_4 plain_bits schar_def)

lemma utf8_width_correct:
  assumes "code_point cp"
  shows "\<exists>c s. utf8 cp = c # s \<and> utf8_width c = Suc (length s)"
  using assms
  by (cases rule: code_point_cases) (simp_all add: utf8_width_def uchar_to_char lead_bits lead_bits_4 plain_bits)

lemma unicodeEscape_utf8:
  "\<forall>cp \<in> set cps. code_point cp \<Longrightarrow>
     unicodeEscape (concat (map utf8 cps)) = Inr (concat (map escaped_character cps))"
proof (induction cps)
  case (Cons cp cps)
  then obtain c s where "utf8 cp = c # s" "utf8_width c = Suc (length s)"
    using utf8_width_correct by (meson list.set_intros(1))
  moreover from this Cons.prems have "decode_utf8 (c # s) = Inr cp" using utf8_decodes [of cp] by simp
  ultimately show ?case using Cons by simp
qed simp

section \<open>UTF-16\<close>

text \<open>Four hexadecimal digits, read back.\<close>

definition read_hex :: "string \<Rightarrow> int" where
  "read_hex = foldl (\<lambda>r c. r * 16 + hex_digit_of c) 0"

lemma hex_digits:
  "map hex_digit_of ''0123456789abcdef'' = [0, 1, 2, 3, 4, 5, 6, 7, 8, 9, 10, 11, 12, 13, 14, 15]"
  by (simp add: hex_digit_of_def upt_conv_Cons)

lemma hex_digit_of_digit_char: "d < 16 \<Longrightarrow> hex_digit_of (digit_char d) = int d"
proof -
  assume d: "d < 16"
  then have "hex_digit_of (digit_char d) = map hex_digit_of ''0123456789abcdef'' ! d"
    by (simp only: digit_char_def) (rule nth_map [symmetric], simp)
  also have "\<dots> = map int [0..<16] ! d"
    by (simp only: hex_digits) (simp add: upt_conv_Cons)
  finally show ?thesis using d by simp
qed

lemma read_hex_snoc: "read_hex (s @ [c]) = read_hex s * 16 + hex_digit_of c"
  by (simp add: read_hex_def)

lemma show_base_16: "show_base 16 n = (if n < 16 then [digit_char n]
    else show_base 16 (n div 16) @ [digit_char (n mod 16)])"
  by (subst show_base.simps) simp

lemma read_hex_show: "read_hex (show_base 16 n) = int n"
proof (induction n rule: less_induct)
  case (less n)
  show ?case
  proof (cases "n < 16")
    case True
    then show ?thesis by (simp add: show_base_16 [of n] read_hex_def hex_digit_of_digit_char)
  next
    case False
    with less.IH [of "n div 16"] have "read_hex (show_base 16 n) = int (n div 16) * 16 + int (n mod 16)"
      by (simp add: show_base_16 [of n] read_hex_snoc hex_digit_of_digit_char)
    then show ?thesis by (simp add: zdiv_int zmod_int)
  qed
qed

lemma read_hex_zeros: "read_hex (replicate k (CHR ''0'') @ s) = read_hex s"
proof (induction k)
  case (Suc k)
  have "hex_digit_of (CHR ''0'') = 0" by (simp add: hex_digit_of_def upt_conv_Cons)
  with Suc show ?case by (simp add: read_hex_def)
qed simp

lemma show_base_16_length: "n < 16 ^ Suc k \<Longrightarrow> length (show_base 16 n) \<le> Suc k"
proof (induction k arbitrary: n)
  case 0
  then show ?case by (simp add: show_base_16 [of n])
next
  case (Suc k)
  then have "n div 16 < 16 ^ Suc k" by (simp add: less_mult_imp_div_less)
  with Suc.IH show ?case by (simp add: show_base_16 [of n])
qed

lemma hex4_read:
  assumes "0 \<le> i" "i < 65536"
  shows "length (hex4 i) = 4" "read_hex (hex4 i) = i"
proof -
  have m: "i mod 4294967296 = i" using assms by simp
  show "length (hex4 i) = 4"
    using show_base_16_length [of "nat i" 3] assms by (simp add: hex4_def Let_def m)
  show "read_hex (hex4 i) = i"
    using assms by (simp add: hex4_def Let_def m read_hex_zeros read_hex_show)
qed

text \<open>The UTF-16 code units a text of \<open>\\uXXXX\<close> escapes stands for.\<close>

fun utf16_units :: "string \<Rightarrow> int list" where
  "utf16_units (a # b # c # d # e # f # s) =
     (if a = CHR 0x5C \<and> b = CHR ''u'' then read_hex [c, d, e, f] # utf16_units s else [])"
| "utf16_units _ = []"

text \<open>The code point of a surrogate pair.\<close>

definition surrogate_value :: "int \<Rightarrow> int \<Rightarrow> int" where
  "surrogate_value hs ls = 65536 + (hs - 55296) * 1024 + (ls - 56320)"

definition printed_units :: "int \<Rightarrow> int list" where
  "printed_units cp = (if 65535 < cp then [55296 + cp div 1024, 56320 + cp mod 1024] else [cp])"

lemma utf16_units_hex4:
  assumes "0 \<le> i" "i < 65536"
  shows "utf16_units ([CHR 0x5C, CHR ''u''] @ hex4 i @ s) = i # utf16_units s"
proof -
  from hex4_read(1) [OF assms] obtain c d e f where "hex4 i = [c, d, e, f]"
    by (auto simp: numeral_eq_Suc length_Suc_conv)
  then show ?thesis using hex4_read(2) [OF assms] by simp
qed

lemma utf16_units_escaped:
  assumes "code_point cp"
  shows "utf16_units (escaped_character cp @ s) = printed_units cp @ utf16_units s"
proof (cases "65535 < cp")
  case False
  with assms show ?thesis
    using utf16_units_hex4 [of cp s] by (simp add: escaped_character_def printed_units_def code_point_def)
next
  case True
  have m: "c_mod cp 1024 = cp mod 1024" using True by (simp add: c_mod_def)
  have "0 \<le> 55296 + cp div 1024" "55296 + cp div 1024 < 65536" "0 \<le> 56320 + cp mod 1024"
    "56320 + cp mod 1024 < 65536"
    using assms True pos_mod_bound [of 1024 cp] by (simp_all add: code_point_def)
  then show ?thesis
    using True utf16_units_hex4 [of "55296 + cp div 1024"
        "[CHR 0x5C, CHR ''u''] @ hex4 (56320 + cp mod 1024) @ s"]
      utf16_units_hex4 [of "56320 + cp mod 1024" s]
    by (simp add: escaped_character_def printed_units_def m)
qed

lemma utf16_units_all:
  "\<forall>cp \<in> set cps. code_point cp \<Longrightarrow>
     utf16_units (concat (map escaped_character cps)) = concat (map printed_units cps)"
  by (induction cps) (simp_all add: utf16_units_escaped)

text \<open>
  UTF-16, from its definition: two units of a surrogate pair are one code point, a surrogate without
  its partner is malformed (\<open>None\<close>), every other unit is its own code point.
\<close>

definition high_surrogate :: "int \<Rightarrow> bool" where
  "high_surrogate u \<longleftrightarrow> 55296 \<le> u \<and> u < 56320"

definition low_surrogate :: "int \<Rightarrow> bool" where
  "low_surrogate u \<longleftrightarrow> 56320 \<le> u \<and> u < 57344"

fun decode_utf16 :: "int list \<Rightarrow> int option list" where
  "decode_utf16 [] = []"
| "decode_utf16 [u] = [if high_surrogate u \<or> low_surrogate u then None else Some u]"
| "decode_utf16 (u # v # us) =
     (if high_surrogate u \<and> low_surrogate v then Some (surrogate_value u v) # decode_utf16 us
      else (if high_surrogate u \<or> low_surrogate u then None else Some u) # decode_utf16 (v # us))"

text \<open>The code points that UTF-8 encodes, and what remains of one behind \<open>unicodeEscape\<close>.\<close>

definition scalar_value :: "int \<Rightarrow> bool" where
  "scalar_value cp \<longleftrightarrow> code_point cp \<and> \<not> high_surrogate cp \<and> \<not> low_surrogate cp"

definition read_back_as :: "int \<Rightarrow> int option list" where
  "read_back_as cp = (if cp < 65536 then [Some cp] else if cp < 1048576 then [Some (cp + 65536)]
     else [None, None])"

lemma decode_utf16_single: "\<not> high_surrogate u \<Longrightarrow> decode_utf16 (u # us) =
    (if low_surrogate u then None else Some u) # decode_utf16 us"
  by (cases us) simp_all

lemma decode_utf16_printed:
  assumes "scalar_value cp"
  shows "decode_utf16 (printed_units cp @ us) = read_back_as cp @ decode_utf16 us"
proof -
  have cp: "0 \<le> cp" "cp < 1114112" using assms by (simp_all add: scalar_value_def code_point_def)
  consider "cp < 65536" | "65536 \<le> cp" "cp < 1048576" | "1048576 \<le> cp" by linarith
  then show ?thesis
  proof cases
    case 1
    with assms show ?thesis
      by (simp add: printed_units_def read_back_as_def decode_utf16_single scalar_value_def)
  next
    case 2
    have "0 \<le> cp div 1024" "cp div 1024 < 1024" "0 \<le> cp mod 1024" "cp mod 1024 < 1024"
      using 2 by simp_all
    then have "high_surrogate (55296 + cp div 1024)" "low_surrogate (56320 + cp mod 1024)"
      by (simp_all add: high_surrogate_def low_surrogate_def)
    moreover have "surrogate_value (55296 + cp div 1024) (56320 + cp mod 1024) = cp + 65536"
      using div_mult_mod_eq [of cp 1024] by (simp add: surrogate_value_def)
    ultimately show ?thesis using 2 by (simp add: printed_units_def read_back_as_def)
  next
    case 3
    have "1024 \<le> cp div 1024" "cp div 1024 < 2048" "0 \<le> cp mod 1024" "cp mod 1024 < 1024"
      using 3 cp by simp_all
    then have "\<not> high_surrogate (55296 + cp div 1024)" "low_surrogate (55296 + cp div 1024)"
      "\<not> high_surrogate (56320 + cp mod 1024)" "low_surrogate (56320 + cp mod 1024)"
      by (simp_all add: high_surrogate_def low_surrogate_def)
    then show ?thesis using 3 by (simp add: printed_units_def read_back_as_def decode_utf16_single)
  qed
qed

lemma decode_utf16_all:
  "\<forall>cp \<in> set cps. scalar_value cp \<Longrightarrow>
     decode_utf16 (concat (map printed_units cps)) = concat (map read_back_as cps)"
  by (induction cps) (simp_all add: decode_utf16_printed)

section \<open>Escaping the strings of a text\<close>

lemma find_string_segment:
  assumes "CHR 0x22 \<notin> set p" "CHR 0x22 \<notin> set m"
  shows "find_string (p @ [CHR 0x22] @ m @ [CHR 0x22] @ r) = Some (p, m, r)"
proof -
  have p: "\<forall>c \<in> set p. c \<noteq> CHR 0x22" and m: "\<forall>c \<in> set m. c \<noteq> CHR 0x22" using assms by auto
  show ?thesis
    using p m by (simp add: find_string_def dropWhile_append2 takeWhile_append2)
qed

lemma find_string_none: "CHR 0x22 \<notin> set r \<Longrightarrow> find_string r = None"
proof -
  assume "CHR 0x22 \<notin> set r"
  then have "dropWhile (\<lambda>c. c \<noteq> CHR 0x22) r = []" by (auto simp: dropWhile_eq_Nil_conv)
  then show ?thesis unfolding find_string_def by (simp only: list.case)
qed

definition segment :: "string \<times> string \<Rightarrow> string" where
  "segment pm = fst pm @ [CHR 0x22] @ snd pm @ [CHR 0x22]"

lemma escape_strings_segments:
  assumes "\<forall>pm \<in> set pms. CHR 0x22 \<notin> set (fst pm) \<and> CHR 0x22 \<notin> set (snd pm)" "CHR 0x22 \<notin> set r"
  shows "escape_strings (concat (map segment pms) @ r)
    = bindR (mapR (\<lambda>pm. bindR (unicodeEscape (snd pm)) (\<lambda>e. Inr (segment (fst pm, e)))) pms)
        (\<lambda>ss. Inr (concat ss @ r))"
  using assms(1)
proof (induction pms)
  case Nil
  then show ?case using assms(2) by (simp add: escape_strings.simps find_string_none)
next
  case (Cons pm pms)
  have "find_string (concat (map segment (pm # pms)) @ r)
      = Some (fst pm, snd pm, concat (map segment pms) @ r)"
    using Cons.prems find_string_segment [of "fst pm" "snd pm" "concat (map segment pms) @ r"]
    by (simp add: segment_def)
  then have "escape_strings (concat (map segment (pm # pms)) @ r)
      = bindR (unicodeEscape (snd pm)) (\<lambda>e. bindR (escape_strings (concat (map segment pms) @ r))
          (\<lambda>t. Inr (segment (fst pm, e) @ t)))"
    by (subst escape_strings.simps) (simp add: segment_def)
  then show ?case using Cons by (simp add: bindR_assoc)
qed

section \<open>Properties\<close>

text \<open>C29: What \<open>unicodeEscape\<close> makes of a text in UTF-8, read back: the escapes it returns
  are UTF-16 units, and decoding them gives every code point up to U+FFFF unchanged and in order.  A
  code point of the planes 1 to 15 comes back as the code point 0x10000 above it, and one of plane 16
  as two low surrogates without a partner, because the code does not subtract 0x10000 before it
  splits the code point.\<close>

theorem unicode_escape_correct:
  assumes "\<forall>cp \<in> set cps. scalar_value cp"
  shows "\<exists>escapes. unicodeEscape (concat (map utf8 cps)) = Inr escapes \<and>
    decode_utf16 (utf16_units escapes) = concat (map read_back_as cps)"
proof -
  have "\<forall>cp \<in> set cps. code_point cp" using assms by (simp add: scalar_value_def)
  then show ?thesis
    using unicodeEscape_utf8 [of cps] utf16_units_all [of cps] decode_utf16_all [OF assms] by simp
qed

theorem unicode_escape_correct_witness:
  "\<exists>escapes. unicodeEscape (concat (map utf8 [65, 233, 8364, 128512, 1048577])) = Inr escapes \<and>
    decode_utf16 (utf16_units escapes) = [Some 65, Some 233, Some 8364, Some 194048, None, None]"
  using unicode_escape_correct [of "[65, 233, 8364, 128512, 1048577]"]
  by (simp add: scalar_value_def code_point_def high_surrogate_def low_surrogate_def read_back_as_def)

text \<open>C34: \<open>minify\<close> on every input: where the text can be cut into string tokens and other text
  it returns exactly these string tokens and the other text without its white space, the only text
  of this kind, and a second run does not change it; where the last string is not terminated, and
  only there, it fails with the exception for that.\<close>

theorem minify_total_idempotent:
  "case minify s of
     Inl e \<Rightarrow> e = Thrown ''Unterminated std::string.'' \<and> (\<nexists>t. squeezed s t)
   | Inr t \<Rightarrow> (\<forall>t'. squeezed s t' \<longleftrightarrow> t' = t) \<and> minify t = Inr t"
  proof (cases "minify s")
  case (Inl e)
  then show ?thesis using minify_error [of s] minify_iff_squeezed [of s] by simp
next
  case (Inr t)
  then have "squeezed s t' \<longleftrightarrow> t' = t" for t' using minify_iff_squeezed [of s t'] by auto
  with Inr show ?thesis using minify_idem [of s t] by simp
qed



text \<open>C35: \<open>obfuscateMain\<close> without the minifying step replaces exactly the text between each
  pair of quotes by its escapes and leaves everything outside of the quotes, and the quotes
  themselves, as they are.\<close>

theorem obfuscate_escapes_between_quotes:
  assumes "\<forall>pm \<in> set pms. CHR 0x22 \<notin> set (fst pm) \<and> CHR 0x22 \<notin> set (snd pm)" "CHR 0x22 \<notin> set r"
  shows "obfuscateMain (concat (map segment pms) @ r) False
    = bindR (mapR (\<lambda>pm. bindR (unicodeEscape (snd pm)) (\<lambda>e. Inr (segment (fst pm, e)))) pms)
        (\<lambda>ss. Inr (concat ss @ r))"
  using escape_strings_segments [OF assms] by (simp add: obfuscateMain_def)

theorem obfuscate_escapes_between_quotes_witness:
  "obfuscateMain (concat (map segment [(''{'', ''k''), ('':'', ''v'')]) @ ''}'') False
    = bindR (mapR (\<lambda>pm. bindR (unicodeEscape (snd pm)) (\<lambda>e. Inr (segment (fst pm, e))))
          [(''{'', ''k''), ('':'', ''v'')])
        (\<lambda>ss. Inr (concat ss @ ''}''))"
  by (rule obfuscate_escapes_between_quotes) simp_all

end
