(* ===== verification/Entity.thy ===== *)
theory Entity
  imports Manifest JsonParse
begin

text \<open>
  The class \<open>generatelibs::entity\<close> of generate_libs/entity.cpp: the identifier and file name
  helpers, the documents and the file tree of an entity pack.  Group \<open>1\<close> and group \<open>2\<close> of the
  identifier expression are split at the last colon, which is the only colon group \<open>2\<close> could be
  preceded by.
\<close>

section \<open>Identifiers and names\<close>

definition reserved_chars :: string where
  "reserved_chars = ''!@#$%^&*()+-=[]{};|,<>/?'' @ [CHR 0x27, CHR 0x22, CHR 0x5C]"

text \<open>The three character classes of the expression.\<close>

definition id_first :: "char \<Rightarrow> bool" where
  "id_first c \<longleftrightarrow> c \<notin> set reserved_chars \<and> c \<noteq> CHR ''.'' \<and> c \<noteq> CHR '':''"

definition id_rest :: "char \<Rightarrow> bool" where
  "id_rest c \<longleftrightarrow> c \<notin> set reserved_chars"

definition id_name :: "char \<Rightarrow> bool" where
  "id_name c \<longleftrightarrow> c \<notin> set reserved_chars \<and> c \<noteq> CHR '':''"

definition id_groups :: "string \<Rightarrow> (string \<times> string) option" where
  "id_groups identifier =
     (let name = rev (takeWhile (\<lambda>c. c \<noteq> CHR '':'') (rev identifier))
      in case dropWhile (\<lambda>c. c \<noteq> CHR '':'') (rev identifier) of
           [] \<Rightarrow> None
         | _ # r \<Rightarrow>
             (case rev r of
                [] \<Rightarrow> None
              | c # s \<Rightarrow>
                  if id_first c \<and> list_all id_rest s \<and> name \<noteq> [] \<and> list_all id_name name
                  then Some (c # s, name) else None))"

definition verifyIdentifier :: "string \<Rightarrow> bool" where
  "verifyIdentifier identifier =
     (case id_groups identifier of
        None \<Rightarrow> False
      | Some (ns, name) \<Rightarrow> ns \<noteq> ''minecraft'' \<and> ns \<noteq> ''minecon'')"

definition get_ename :: "string \<Rightarrow> string" where
  "get_ename identifier = (case id_groups identifier of None \<Rightarrow> [] | Some (ns, name) \<Rightarrow> name)"

text \<open>The full match of \<open>(.*)\.png\<close>, whose dot does not match a line break.\<close>

definition strippng :: "string \<Rightarrow> string" where
  "strippng fname =
     (let n = length fname - 4
      in if 4 \<le> length fname \<and> drop n fname = ''.png'' \<and> \<not> list_ex is_break (take n fname)
         then take n fname else fname)"

definition to_lower :: "string \<Rightarrow> string" where
  "to_lower a = map (\<lambda>c. if 64 < schar c \<and> schar c < 91 then to_char (schar c + 32) else c) a"

text \<open>
  The chain of tests of \<open>getGeo\<close>.  Its reads work on a local copy, so the members
  \<open>operator[]\<close> inserts on the way are not observable; \<open>val_list[0]\<close> of an empty list is
  undefined.
\<close>

definition member :: "string \<Rightarrow> json_value \<Rightarrow> json_value" where
  "member k v = obj_get jv_default k (val_object v)"

definition getGeo :: "string \<Rightarrow> string result" where
  "getGeo model_json =
     bindR (parse model_json) (\<lambda>pmj.
       if val_type pmj \<noteq> 3 then Inr []
       else let geometry = member ''minecraft:geometry'' pmj
       in if val_type geometry \<noteq> 2 then Inr []
       else bindR (vec_at (val_list geometry) 0) (\<lambda>g.
         if val_type g \<noteq> 3 then Inr []
         else let description = member ''description'' g
         in if val_type description \<noteq> 3 then Inr []
         else if val_type (member ''identifier'' description) \<noteq> 1 then Inr []
         else Inr (val_string (member ''identifier'' description))))"

section \<open>The documents\<close>

definition gm_open :: "string \<Rightarrow> string \<Rightarrow> string \<Rightarrow> json_value \<Rightarrow> json_value \<Rightarrow> (json_value \<Rightarrow> json_value result) list" where
  "gm_open name description type header_uuid module_uuid =
     [assign [Key ''format_version''] (jv_int 2),
      assign [Key ''header''] (jv_object []),
      assign (header_of ''name'') (jv_string name),
      assign (header_of ''description'') (jv_string description),
      assign (header_of ''uuid'') header_uuid,
      assign (header_of ''version'') (version_value 0 0 1),
      assign (header_of ''min_engine_version'') (version_value 1 16 0),
      assign [Key ''modules''] (jv_list [jv_object []]),
      assign (module_of 0 ''type'') (jv_string type),
      assign (module_of 0 ''uuid'') module_uuid,
      assign (module_of 0 ''version'') (version_value 0 0 1)]"

text \<open>The statements of \<open>genManifest\<close> on its two documents, without the links.\<close>

definition gm_link :: "json_value \<times> json_value \<Rightarrow> (json_value \<times> json_value) result" where
  "gm_link docs = (case docs of (bp, rp) \<Rightarrow>
     bindR (assign [Key ''dependencies''] (jv_list [jv_object []]) bp) (\<lambda>bp.
     bindR (assign [Key ''dependencies''] (jv_list [jv_object []]) rp) (\<lambda>rp.
     bindR (fetch (header_of ''uuid'') rp) (\<lambda>(w, rp).
     bindR (assign (dependency_of 0 ''uuid'') w bp) (\<lambda>bp.
     bindR (fetch (header_of ''uuid'') bp) (\<lambda>(w, bp).
     bindR (assign (dependency_of 0 ''uuid'') w rp) (\<lambda>rp.
     bindR (fetch (header_of ''version'') rp) (\<lambda>(w, rp).
     bindR (assign (dependency_of 0 ''version'') w bp) (\<lambda>bp.
     bindR (fetch (header_of ''version'') rp) (\<lambda>(w, rp).
     bindR (assign (dependency_of 0 ''version'') w rp) (\<lambda>rp.
       Inr (bp, rp))))))))))))"

definition genManifest :: "bool \<Rightarrow> (nat \<Rightarrow> nat \<Rightarrow> nat) \<Rightarrow> json_value result" where
  "genManifest select_both u =
     bindR (seqR (gm_open ''BP'' ''BP Description'' ''data'' (uuid_value u 0) (uuid_value u 2)) (jv_object [])) (\<lambda>bp.
     bindR (seqR (gm_open ''RP'' ''RP Description'' ''resources'' (uuid_value u 1) (uuid_value u 3)) (jv_object [])) (\<lambda>rp.
     bindR (if select_both then gm_link (bp, rp) else Inr (bp, rp)) (\<lambda>(bp, rp).
       seqR [assign [Key ''rp''] rp, assign [Key ''bp''] bp] (jv_object []))))"

definition genRenderControllers :: "string \<Rightarrow> json_value result" where
  "genRenderControllers idv1 =
     (let controller = [Key ''render_controllers'', Key (''controller.render.'' @ idv1)]
      in seqR
        [assign [Key ''format_version''] (jv_string ''1.10.0''),
         assign [Key ''render_controllers''] (jv_object []),
         assign controller (jv_object []),
         assign (controller @ [Key ''geometry'']) (jv_string ''geometry.default''),
         assign (controller @ [Key ''materials'']) (jv_list [jv_object []]),
         assign (controller @ [Key ''materials'', Idx 0, Key ''*'']) (jv_string ''material.default''),
         assign (controller @ [Key ''textures'']) (jv_list []),
         push_back (controller @ [Key ''textures'']) (jv_string ''texture.default'')]
        (jv_object []))"

definition genBehBasic :: "string \<Rightarrow> bool \<Rightarrow> bool \<Rightarrow> bool \<Rightarrow> json_value result" where
  "genBehBasic identifier isSpawnable isSummonable isExperimental =
     (let description = [Key ''minecraft:entity'', Key ''description''];
          components = [Key ''minecraft:entity'', Key ''components'']
      in seqR
        [assign [Key ''minecraft:entity''] (jv_object []),
         assign description (jv_object []),
         assign (description @ [Key ''identifier'']) (jv_string identifier),
         assign (description @ [Key ''is_spawnable'']) (jv_bool isSpawnable),
         assign (description @ [Key ''is_summonable'']) (jv_bool isSummonable),
         assign (description @ [Key ''is_experimental'']) (jv_bool isExperimental),
         assign components (jv_object []),
         assign (components @ [Key ''minecraft:health'']) (jv_object []),
         assign (components @ [Key ''minecraft:health'', Key ''value'']) (jv_int 20),
         assign (components @ [Key ''minecraft:physics'']) (jv_object [])]
        (jv_object []))"

section \<open>The pack\<close>

record entity_args =
  e_identifier :: string
  textureFile :: pack_file
  modelFile :: pack_file
  isSpawnable :: bool
  isSummonable :: bool
  isExperimental :: bool
  spawnEggOverlay :: string
  spawnEggBase :: string
  material :: string
  select :: string

definition client_of :: "string \<Rightarrow> link list" where
  "client_of k = [Key ''minecraft:client_entity'', Key ''description'', Key k]"

text \<open>
  The statements on \<open>cliententity\<close>.  The model file is parsed, and can raise, only when it has
  a name.
\<close>

definition client_geometry :: "entity_args \<Rightarrow> json_value \<Rightarrow> json_value result" where
  "client_geometry a doc =
     (if filename (modelFile a) \<noteq> [] then
        bindR (assign (client_of ''geometry'') (jv_object []) doc) (\<lambda>doc.
        bindR (getGeo (text_contents (modelFile a))) (\<lambda>geo.
          assign (client_of ''geometry'' @ [Key ''default'']) (jv_string (to_lower geo)) doc))
      else Inr doc)"

definition client_entity :: "entity_args \<Rightarrow> json_value result" where
  "client_entity a =
     seqR
       [assign [Key ''minecraft:client_entity'', Key ''description''] (jv_object []),
        assign (client_of ''identifier'') (jv_string (e_identifier a)),
        whenR (isSpawnable a)
          [assign (client_of ''spawn_egg'') (jv_object []),
           assign (client_of ''spawn_egg'' @ [Key ''overlay_color'']) (jv_string (spawnEggOverlay a)),
           assign (client_of ''spawn_egg'' @ [Key ''base_color'']) (jv_string (spawnEggBase a))],
        whenR (filename (textureFile a) \<noteq> [])
          [assign (client_of ''textures'') (jv_object []),
           assign (client_of ''textures'' @ [Key ''default''])
             (jv_string (''textures/entity/'' @ strippng (filename (textureFile a))))],
        assign (client_of ''materials'') (jv_object []),
        assign (client_of ''materials'' @ [Key ''default'']) (jv_string (material a)),
        client_geometry a,
        assign (client_of ''render_controllers'') (jv_list []),
        push_back (client_of ''render_controllers'')
          (jv_string (''controller.render.'' @ get_ename (e_identifier a)))]
       (jv_object [(''format_version'', jv_string ''1.10.0''),
                   (''minecraft:client_entity'', jv_object [])])"

text \<open>\<open>jszobject.directory_contents[i].directory_contents.push_back(f)\<close>\<close>

definition set_directory :: "pack_file list \<Rightarrow> pack_file \<Rightarrow> pack_file" where
  "set_directory ds f = File (filetype f) (binary_contents f) (text_contents f) ds (filename f)"

lemma set_directory_sel [simp]:
  "filetype (set_directory ds f) = filetype f" "filename (set_directory ds f) = filename f"
  "directory_contents (set_directory ds f) = ds"
  "set_directory ds (file_dir n ds') = file_dir n ds" "filename (file_dir n ds) = n"
  "directory_contents (file_dir n ds) = ds" "set_filename n' (file_dir n ds) = file_dir n' ds"
  by (simp_all add: set_directory_def file_dir_def set_filename_def)

definition push_file :: "pack_file \<Rightarrow> pack_file \<Rightarrow> pack_file result" where
  "push_file g f = Inr (set_directory (directory_contents f @ [g]) f)"

definition push_file_in :: "nat \<Rightarrow> pack_file \<Rightarrow> pack_file \<Rightarrow> pack_file result" where
  "push_file_in i g f =
     (if i < length (directory_contents f) then
        bindR (push_file g (directory_contents f ! i))
          (\<lambda>d. Inr (set_directory ((directory_contents f)[i := d]) f))
      else Inl Undefined_behaviour)"

text \<open>The directories that are pushed first, by \<open>select\<close>.\<close>

definition pack_directories :: "entity_args \<Rightarrow> (pack_file \<Rightarrow> pack_file result) list" where
  "pack_directories a =
     [if select a = ''beh'' then push_file (file_dir ''behavior_pack'' [])
      else push_file (file_dir ''resource_pack'' []),
      whenR (select a = ''both'') [push_file (file_dir ''behavior_pack'' [])]]"

definition upload_files :: "entity_args \<Rightarrow> (pack_file \<Rightarrow> pack_file result) list" where
  "upload_files a =
     [whenR (filename (textureFile a) \<noteq> [] \<and> select a \<noteq> ''beh'')
        [push_file_in 0 (file_dir ''textures'' [file_dir ''entity'' [textureFile a]])],
      whenR (filename (modelFile a) \<noteq> [] \<and> select a \<noteq> ''beh'')
        [push_file_in 0 (file_dir ''models'' [file_dir ''entity'' [modelFile a]])]]"

text \<open>A file whose contents are printed when the push is reached.\<close>

definition printed :: "(string \<Rightarrow> pack_file) \<Rightarrow> json_value \<Rightarrow> nat \<Rightarrow> pack_file \<Rightarrow> pack_file result" where
  "printed mk doc i f = bindR (get_repr doc) (\<lambda>t. push_file_in i (mk t) f)"

definition resource_files :: "entity_args \<Rightarrow> json_value \<Rightarrow> json_value \<Rightarrow> json_value \<Rightarrow> (pack_file \<Rightarrow> pack_file result) list" where
  "resource_files a respack cliententity rendercontr =
     (let ename = get_ename (e_identifier a)
      in [printed (file_text ''manifest.json'') respack 0,
          push_file_in 0 (file_dir ''texts''
            [file_text ''en_US.lang'' (''entity'' @ e_identifier a @ ''.name='' @ ename)]),
          printed (\<lambda>t. file_dir ''entity'' [file_text (ename @ ''.client.json'') t]) cliententity 0,
          printed (\<lambda>t. file_dir ''render_controllers'' [file_text (ename @ ''.render_controllers.json'') t])
            rendercontr 0])"

definition behaviour_files :: "entity_args \<Rightarrow> json_value \<Rightarrow> json_value \<Rightarrow> (pack_file \<Rightarrow> pack_file result) list" where
  "behaviour_files a behpack beh =
     (let i = (if select a = ''both'' then 1 else 0)
      in [printed (file_text ''manifest.json'') behpack i,
          printed (\<lambda>t. file_dir ''entities'' [file_text (get_ename (e_identifier a) @ ''.json'') t]) beh i])"

definition pack_filename :: "entity_args \<Rightarrow> string" where
  "pack_filename a =
     (if select a = ''beh'' then get_ename (e_identifier a) @ ''.bp.mcpack''
      else if select a = ''res'' then get_ename (e_identifier a) @ ''.rp.mcpack''
      else if select a = ''both'' then get_ename (e_identifier a) @ ''.mcaddon''
      else [])"

definition make_entity :: "entity_args \<Rightarrow> (nat \<Rightarrow> nat \<Rightarrow> nat) \<Rightarrow> pack_file result" where
  "make_entity a u =
     (if verifyIdentifier (e_identifier a) then
        bindR (genManifest (select a = ''both'') u) (\<lambda>manifest.
        bindR (client_entity a) (\<lambda>cliententity.
        bindR (if select a \<noteq> ''beh'' \<and> filename (modelFile a) \<noteq> [] \<and> filename (textureFile a) \<noteq> []
               then genRenderControllers (get_ename (e_identifier a)) else Inr (jv_object [])) (\<lambda>rendercontr.
        bindR (genBehBasic (e_identifier a) (isSpawnable a) (isSummonable a) (isExperimental a)) (\<lambda>beh.
        bindR (seqR (pack_directories a @ upload_files a @
                 [whenR (select a \<noteq> ''beh'')
                    (resource_files a (member ''rp'' manifest) cliententity rendercontr),
                  whenR (select a \<noteq> ''res'') (behaviour_files a (member ''bp'' manifest) beh)])
               (file_dir [] [])) (\<lambda>jszobject.
          Inr (set_filename (pack_filename a) jszobject))))))
      else Inr (set_filename [] (file_dir [] [])))"

section \<open>The identifier expression\<close>

text \<open>The language of the expression, with its two groups.\<close>

definition id_match :: "string \<Rightarrow> string \<Rightarrow> string \<Rightarrow> bool" where
  "id_match s g1 g2 \<longleftrightarrow> s = g1 @ CHR '':'' # g2 \<and>
     (\<exists>c r. g1 = c # r \<and> id_first c \<and> list_all id_rest r) \<and> g2 \<noteq> [] \<and> list_all id_name g2"

lemma id_name_no_colon: "list_all id_name g \<Longrightarrow> CHR '':'' \<notin> set g"
  by (auto simp: list_all_iff id_name_def)

lemma id_groups_iff: "id_groups s = Some (g1, g2) \<longleftrightarrow> id_match s g1 g2"
proof
  assume g: "id_groups s = Some (g1, g2)"
  then obtain x r where d: "dropWhile (\<lambda>c. c \<noteq> CHR '':'') (rev s) = x # r"
    and n: "g2 = rev (takeWhile (\<lambda>c. c \<noteq> CHR '':'') (rev s))"
    and ok: "rev r = g1" "\<exists>c t. g1 = c # t \<and> id_first c \<and> list_all id_rest t" "g2 \<noteq> []"
      "list_all id_name g2"
    by (auto simp: id_groups_def Let_def split: list.splits if_splits)
  have "x = CHR '':''" using d by (simp add: dropWhile_eq_Cons_conv)
  moreover have "rev s = takeWhile (\<lambda>c. c \<noteq> CHR '':'') (rev s) @ x # r"
    using takeWhile_dropWhile_id [of "\<lambda>c. c \<noteq> CHR '':''" "rev s"] by (simp only: d)
  then have "rev (rev s) = rev (takeWhile (\<lambda>c. c \<noteq> CHR '':'') (rev s) @ x # r)" by (rule arg_cong)
  then have "s = rev r @ x # g2" by (simp add: n)
  ultimately show "id_match s g1 g2" using ok by (simp add: id_match_def)
next
  assume m: "id_match s g1 g2"
  then have s: "rev s = rev g2 @ CHR '':'' # rev g1" by (simp add: id_match_def)
  have c: "\<forall>c \<in> set (rev g2). c \<noteq> CHR '':''" using m id_name_no_colon by (auto simp: id_match_def)
  then have "takeWhile (\<lambda>c. c \<noteq> CHR '':'') (rev s) = rev g2"
    "dropWhile (\<lambda>c. c \<noteq> CHR '':'') (rev s) = CHR '':'' # rev g1"
    unfolding s by (subst takeWhile_append2, use c in simp, simp)
      (subst dropWhile_append2, use c in simp, simp)
  then show "id_groups s = Some (g1, g2)"
    using m by (auto simp: id_groups_def Let_def id_match_def)
qed

section \<open>Templates of the documents\<close>

definition gm_template :: "string \<Rightarrow> string \<Rightarrow> string \<Rightarrow> json_value \<Rightarrow> json_value \<Rightarrow> (string \<times> json_value) list \<Rightarrow> json_value" where
  "gm_template name description type header_uuid module_uuid deps = jv_object (
     [(''format_version'', jv_int 2),
      (''header'', jv_object
        [(''name'', jv_string name), (''description'', jv_string description), (''uuid'', header_uuid),
         (''version'', version_value 0 0 1), (''min_engine_version'', version_value 1 16 0)]),
      (''modules'', jv_list [jv_object
        [(''type'', jv_string type), (''uuid'', module_uuid), (''version'', version_value 0 0 1)]])] @ deps)"

definition gm_link_template :: "bool \<Rightarrow> json_value \<Rightarrow> (string \<times> json_value) list" where
  "gm_link_template select_both uuid = optional select_both
     (''dependencies'', jv_list [jv_object [(''uuid'', uuid), (''version'', version_value 0 0 1)]])"

definition behaviour_manifest :: "bool \<Rightarrow> (nat \<Rightarrow> nat \<Rightarrow> nat) \<Rightarrow> json_value" where
  "behaviour_manifest select_both u =
     gm_template ''BP'' ''BP Description'' ''data'' (uuid_value u 0) (uuid_value u 2)
       (gm_link_template select_both (uuid_value u 1))"

definition resource_manifest :: "bool \<Rightarrow> (nat \<Rightarrow> nat \<Rightarrow> nat) \<Rightarrow> json_value" where
  "resource_manifest select_both u =
     gm_template ''RP'' ''RP Description'' ''resources'' (uuid_value u 1) (uuid_value u 3)
       (gm_link_template select_both (uuid_value u 0))"

lemmas run_simps = assign_def push_back_def obj_updR_eq jv_cstring_eq

lemma gm_open_run:
  "seqR (gm_open n d t hu mu) (jv_object []) = Inr (gm_template n d t hu mu [])"
  by (simp add: gm_open_def gm_template_def run_simps version_value_def)

lemma gm_link_run:
  "gm_link (gm_template n d t hu mu [], gm_template n' d' t' hu' mu' [])
     = Inr (gm_template n d t hu mu (gm_link_template True hu'),
            gm_template n' d' t' hu' mu' (gm_link_template True hu))"
  by (simp add: gm_link_def gm_template_def gm_link_template_def run_simps fetch_def version_value_def)

lemma genManifest_run:
  "genManifest select_both u = Inr (jv_object
     [(''rp'', resource_manifest select_both u), (''bp'', behaviour_manifest select_both u)])"
  by (cases select_both)
    (simp_all add: genManifest_def gm_open_run gm_link_run run_simps resource_manifest_def
      behaviour_manifest_def, simp_all add: gm_link_template_def)

definition render_controllers_template :: "string \<Rightarrow> json_value" where
  "render_controllers_template idv1 = jv_object
     [(''format_version'', jv_string ''1.10.0''),
      (''render_controllers'', jv_object [(''controller.render.'' @ idv1, jv_object
        [(''geometry'', jv_string ''geometry.default''),
         (''materials'', jv_list [jv_object [(''*'', jv_string ''material.default'')]]),
         (''textures'', jv_list [jv_string ''texture.default''])])])]"

lemma genRenderControllers_run: "genRenderControllers idv1 = Inr (render_controllers_template idv1)"
  by (simp add: genRenderControllers_def Let_def render_controllers_template_def run_simps)

definition behaviour_template :: "string \<Rightarrow> bool \<Rightarrow> bool \<Rightarrow> bool \<Rightarrow> json_value" where
  "behaviour_template ident spawnable summonable experimental = jv_object
     [(''minecraft:entity'', jv_object
       [(''description'', jv_object
          [(''identifier'', jv_string ident), (''is_spawnable'', jv_bool spawnable),
           (''is_summonable'', jv_bool summonable), (''is_experimental'', jv_bool experimental)]),
        (''components'', jv_object
          [(''minecraft:health'', jv_object [(''value'', jv_int 20)]),
           (''minecraft:physics'', jv_object [])])])]"

lemma genBehBasic_run: "genBehBasic i s m e = Inr (behaviour_template i s m e)"
  by (simp add: genBehBasic_def Let_def behaviour_template_def run_simps)

definition client_template :: "entity_args \<Rightarrow> string \<Rightarrow> json_value" where
  "client_template a geo = jv_object
     [(''format_version'', jv_string ''1.10.0''),
      (''minecraft:client_entity'', jv_object [(''description'', jv_object (
        [(''identifier'', jv_string (e_identifier a))] @
        optional (isSpawnable a) (''spawn_egg'', jv_object
          [(''overlay_color'', jv_string (spawnEggOverlay a)),
           (''base_color'', jv_string (spawnEggBase a))]) @
        optional (filename (textureFile a) \<noteq> []) (''textures'', jv_object
          [(''default'', jv_string (''textures/entity/'' @ strippng (filename (textureFile a))))]) @
        [(''materials'', jv_object [(''default'', jv_string (material a))])] @
        optional (filename (modelFile a) \<noteq> [])
          (''geometry'', jv_object [(''default'', jv_string (to_lower geo))]) @
        [(''render_controllers'', jv_list
           [jv_string (''controller.render.'' @ get_ename (e_identifier a))])]))])]"

text \<open>The geometry that is looked up: none without a model file.\<close>

definition pack_geometry :: "entity_args \<Rightarrow> string result" where
  "pack_geometry a =
     (if filename (modelFile a) \<noteq> [] then getGeo (text_contents (modelFile a)) else Inr [])"

lemma client_entity_run:
  "client_entity a = bindR (pack_geometry a) (\<lambda>geo. Inr (client_template a geo))"
  by (cases "isSpawnable a"; cases "filename (textureFile a) = []"; cases "filename (modelFile a) = []";
      cases "getGeo (text_contents (modelFile a))")
    (simp_all add: client_entity_def client_of_def client_geometry_def pack_geometry_def
      client_template_def run_simps)


section \<open>The tree of the pack\<close>

definition resource_entries :: "entity_args \<Rightarrow> (nat \<Rightarrow> nat \<Rightarrow> nat) \<Rightarrow> string \<Rightarrow> pack_file list" where
  "resource_entries a u geo =
     (let ename = get_ename (e_identifier a)
      in optional (filename (textureFile a) \<noteq> [])
           (file_dir ''textures'' [file_dir ''entity'' [textureFile a]]) @
         optional (filename (modelFile a) \<noteq> [])
           (file_dir ''models'' [file_dir ''entity'' [modelFile a]]) @
         [file_text ''manifest.json'' (repr (resource_manifest (select a = ''both'') u)),
          file_dir ''texts''
            [file_text ''en_US.lang'' (''entity'' @ e_identifier a @ ''.name='' @ ename)],
          file_dir ''entity'' [file_text (ename @ ''.client.json'') (repr (client_template a geo))],
          file_dir ''render_controllers'' [file_text (ename @ ''.render_controllers.json'')
            (repr (if filename (modelFile a) \<noteq> [] \<and> filename (textureFile a) \<noteq> []
               then render_controllers_template ename else jv_object []))]])"

definition behaviour_entries :: "entity_args \<Rightarrow> (nat \<Rightarrow> nat \<Rightarrow> nat) \<Rightarrow> pack_file list" where
  "behaviour_entries a u =
     [file_text ''manifest.json'' (repr (behaviour_manifest (select a = ''both'') u)),
      file_dir ''entities'' [file_text (get_ename (e_identifier a) @ ''.json'')
        (repr (behaviour_template (e_identifier a) (isSpawnable a) (isSummonable a) (isExperimental a)))]]"

text \<open>A value of \<open>select\<close> other than the three named ones gives one directory with both sets.\<close>

definition pack_tree :: "entity_args \<Rightarrow> (nat \<Rightarrow> nat \<Rightarrow> nat) \<Rightarrow> string \<Rightarrow> pack_file list" where
  "pack_tree a u geo =
     (if select a = ''beh'' then [file_dir ''behavior_pack'' (behaviour_entries a u)]
      else if select a = ''res'' then [file_dir ''resource_pack'' (resource_entries a u geo)]
      else if select a = ''both'' then
        [file_dir ''resource_pack'' (resource_entries a u geo),
         file_dir ''behavior_pack'' (behaviour_entries a u)]
      else [file_dir ''resource_pack'' (resource_entries a u geo @ behaviour_entries a u)])"

lemma sound_version_value [simp]: "sound (version_value a b c)"
  by (simp add: version_value_def)

lemma sound_uuid_value [simp]: "sound (uuid_value u k)"
  by (simp add: uuid_value_def)

lemma sound_templates [simp]:
  "sound (resource_manifest b u)" "sound (behaviour_manifest b u)"
  "sound (render_controllers_template i)" "sound (behaviour_template i s m e)"
  "sound (client_template a geo)"
  by (simp_all add: resource_manifest_def behaviour_manifest_def gm_template_def gm_link_template_def
      render_controllers_template_def behaviour_template_def client_template_def obj_keys_simps)

lemma printed_sound:
  "sound doc \<Longrightarrow> printed mk doc i = push_file_in i (mk (repr doc))"
  by (rule ext) (simp add: printed_def sound_get_repr)

lemma make_entity_run:
  assumes "verifyIdentifier (e_identifier a)"
  shows "make_entity a u = bindR (pack_geometry a) (\<lambda>geo. Inr (file_dir (pack_filename a) (pack_tree a u geo)))"
proof (cases "pack_geometry a")
  case (Inl e)
  then show ?thesis using assms by (simp add: make_entity_def genManifest_run client_entity_run)
next
  case (Inr geo)
  show ?thesis
    using assms Inr
    by (cases "select a = ''beh''"; cases "select a = ''res''"; cases "select a = ''both''";
        cases "filename (textureFile a) = []"; cases "filename (modelFile a) = []")
      (simp_all add: make_entity_def genManifest_run client_entity_run genBehBasic_run
        genRenderControllers_run pack_directories_def upload_files_def resource_files_def
        behaviour_files_def printed_sound push_file_in_def push_file_def member_def
        pack_tree_def resource_entries_def behaviour_entries_def Let_def obj_keys_simps)
qed


section \<open>Properties\<close>

text \<open>C36: An entity identifier is accepted exactly when it is in the language of the identifier
  expression and its name space is neither \<open>minecraft\<close> nor \<open>minecon\<close>; the scanner finds
  exactly the two groups of the expression.\<close>

theorem verifyIdentifier_language:
  "verifyIdentifier s = (\<exists>ns name. id_match s ns name \<and> ns \<noteq> ''minecraft'' \<and> ns \<noteq> ''minecon'') \<and>
   (id_groups s = Some (g1, g2)) = id_match s g1 g2"
  by (cases "id_groups s") (auto simp: verifyIdentifier_def id_groups_iff [symmetric])

text \<open>C27: \<open>make\<close> on every input: an invalid identifier gives an empty tree without a name; a
  valid one gives exactly the packs of the template, under the file name that belongs to
  \<open>select\<close>, or the exception of reading the model file; the documents are printed whole.\<close>

theorem make_entity_functional:
  "make_entity a u =
     (if verifyIdentifier (e_identifier a) then
        bindR (pack_geometry a) (\<lambda>geo. Inr (file_dir (pack_filename a) (pack_tree a u geo)))
      else Inr (file_dir [] []))"
  by (simp add: make_entity_run) (simp add: make_entity_def)

text \<open>The archive of a full entity add-on has exactly these eight files, and no path twice.\<close>

theorem entity_addon_paths:
  assumes "select a = ''both''" "filename (textureFile a) \<noteq> []" "filename (modelFile a) \<noteq> []"
    and "filetype (textureFile a) = 0" "filetype (modelFile a) = 1"
  shows "let n = get_ename (e_identifier a); f = file_dir (pack_filename a) (pack_tree a u geo)
    in map (\<lambda>l. join_path (fst l)) (leaf_paths f) =
      [''resource_pack/textures/entity/'' @ filename (textureFile a),
       ''resource_pack/models/entity/'' @ filename (modelFile a),
       ''resource_pack/manifest.json'',
       ''resource_pack/texts/en_US.lang'',
       ''resource_pack/entity/'' @ n @ ''.client.json'',
       ''resource_pack/render_controllers/'' @ n @ ''.render_controllers.json'',
       ''behavior_pack/manifest.json'',
       ''behavior_pack/entities/'' @ n @ ''.json''] \<and>
      distinct (map (\<lambda>l. join_path (fst l)) (leaf_paths f))"
proof -
  have d: "leaf_paths (file_dir n ds)
      = concat (map (\<lambda>g. map (\<lambda>(p, mc). (filename g # p, mc)) (leaf_paths g)) ds)" for n ds
    by (subst leaf_paths.simps) (simp add: file_dir_def)
  have t: "leaf_paths (file_text n c) = [([], 0, c)]" "filename (file_text n c) = n" for n c
    by (subst leaf_paths.simps, simp add: file_text_def) (simp add: file_text_def)
  have x: "leaf_paths (textureFile a) = [([], 8, binary_contents (textureFile a))]"
    "leaf_paths (modelFile a) = [([], 0, text_contents (modelFile a))]"
    using assms by (subst leaf_paths.simps, simp)+
  show ?thesis
    using assms
    by (simp add: d t x pack_tree_def resource_entries_def behaviour_entries_def Let_def)
qed

theorem entity_addon_paths_witness:
  "let n = get_ename ''a:b''; f = file_dir ''b.mcaddon''
      (pack_tree \<lparr>e_identifier = ''a:b'', textureFile = File 0 ''x'' [] [] ''t.png'',
         modelFile = file_text ''m.json'' [], isSpawnable = True, isSummonable = True,
         isExperimental = False, spawnEggOverlay = [], spawnEggBase = [], material = ''entity'',
         select = ''both''\<rparr> (\<lambda>_ _. 0) [])
    in map (\<lambda>l. join_path (fst l)) (leaf_paths f) =
      [''resource_pack/textures/entity/t.png'', ''resource_pack/models/entity/m.json'',
       ''resource_pack/manifest.json'', ''resource_pack/texts/en_US.lang'',
       ''resource_pack/entity/b.client.json'',
       ''resource_pack/render_controllers/b.render_controllers.json'',
       ''behavior_pack/manifest.json'', ''behavior_pack/entities/b.json'']"
proof -
  have n: "get_ename ''a:b'' = ''b''" by code_simp
  show ?thesis
    using entity_addon_paths [of "\<lparr>e_identifier = ''a:b'', textureFile = File 0 ''x'' [] [] ''t.png'',
         modelFile = file_text ''m.json'' [], isSpawnable = True, isSummonable = True,
         isExperimental = False, spawnEggOverlay = [], spawnEggBase = [], material = ''entity'',
         select = ''both''\<rparr>" "\<lambda>_ _. 0" "[]"]
    by (simp add: Let_def file_text_def pack_filename_def n)
qed

end
