(* ===== verification/Item.thy ===== *)
theory Item
  imports Entity
begin

text \<open>
  The class \<open>generatelibs::item\<close> of generate_libs/item.cpp.  \<open>writeItem\<close> is cut at its
  blocks: each block adds at most one component to the item's document, and the definitions follow
  the source block by block.  The parameters are a record with the names of the source.
\<close>

section \<open>Parameters\<close>

record item_args =
  formatVersion :: string
  i_identifier :: string
  category :: string
  isExp :: bool
  icon :: string
  displayName :: string
  maxStackSize :: int
  useAnimCheckbox :: bool
  useAnim :: string
  foil :: bool
  useDuration :: double
  stackedData :: bool
  handEquipped :: bool
  destroyInC :: bool
  ccategoryCheckbox :: bool
  ccategory :: string
  foodCheckbox :: bool
  foodNutr :: double
  foodSatu :: string
  foodCanA :: bool
  foodConvert :: string
  isexplod :: bool
  allowOffHand :: bool
  wearableCheckbox :: bool
  wearableSlot :: string
  armorProtection :: int
  cooldownCheckbox :: bool
  cooldownCategory :: string
  cooldownDuration :: double
  damage :: int
  blockPlacerCheckbox :: bool
  blockPlacerBlock :: string
  blockPlacerDes :: bool
  entityPlacerCheckbox :: bool
  entityPlacerEntity :: string
  entityPlacerUseon :: "json_value list"
  entityPlacerDison :: "json_value list"
  enchantableCheckbox :: bool
  enchantableSlot :: string
  enchantableValue :: int
  shooterCheckbox :: bool
  shooterMaxDraw :: double
  shooterCharge :: bool
  shooterScale :: bool
  shooterAmmoCheckbox :: bool
  shooterAmmoInven :: bool
  shooterAmmoItem :: string
  shooterAmmoHand :: bool
  shooterAmmoCreative :: bool
  fertilizer :: int
  ignPerms :: bool
  miningSpeed :: int
  liquidClipped :: bool
  shouldDespawn :: bool
  mirroredArt :: bool
  projectileCheckbox :: bool
  projectileEntity :: string
  projectilePower :: double
  dyeCheckbox :: bool
  dyePowder :: string
  throwableCheckbox :: bool
  throwableSwing :: bool
  throwableDraw :: double
  throwablePower :: bool
  knockbackResis :: double
  fuel :: double
  recordCheckbox :: bool
  recordSound :: string
  recordDuration :: int
  recordSignal :: int
  itemIcon :: pack_file
  enable_itematlas :: bool

section \<open>Names\<close>

text \<open>The class repeats the identifier expression and the slash expression of its neighbours.\<close>

definition item_verifyIdentifier :: "string \<Rightarrow> bool" where
  "item_verifyIdentifier ident =
     (case id_groups ident of
        None \<Rightarrow> False
      | Some (ns, name) \<Rightarrow> ns \<noteq> ''minecraft'' \<and> ns \<noteq> ''minecon'')"

definition get_iname :: "string \<Rightarrow> string" where
  "get_iname ident = (case id_groups ident of None \<Rightarrow> [] | Some (ns, name) \<Rightarrow> name)"

text \<open>Here the letters move down by 32, out of the alphabet.\<close>

definition item_to_lower :: "string \<Rightarrow> string" where
  "item_to_lower a = map (\<lambda>c. if 64 < schar c \<and> schar c < 91 then to_char (schar c - 32) else c) a"

section \<open>The manifest\<close>

definition item_genManifest :: "(nat \<Rightarrow> nat \<Rightarrow> nat) \<Rightarrow> json_value result" where
  "item_genManifest u =
     bindR (seqR (gm_open ''Item behaviorpack''
         ''Behavior pack required for the item to work, generated not using https://tools.pixelpoly.co/item-generator''
         ''data'' (uuid_value u 0) (uuid_value u 2)) (jv_object [])) (\<lambda>bp.
     bindR (seqR (gm_open ''Item resourcepack''
         ''Resource pack required for the item to work, generated not using https://tools.pixelpoly.co/item-generator''
         ''resources'' (uuid_value u 1) (uuid_value u 3)) (jv_object [])) (\<lambda>rp.
     bindR (gm_link (bp, rp)) (\<lambda>(bp, rp).
       seqR [assign [Key ''rp''] rp, assign [Key ''bp''] bp] (jv_object []))))"

section \<open>The item document\<close>

definition component :: "string \<Rightarrow> link list" where
  "component k = [Key ''minecraft:item'', Key ''components'', Key k]"

definition description_of :: "string \<Rightarrow> link list" where
  "description_of k = [Key ''minecraft:item'', Key ''description'', Key k]"

definition item_head :: "item_args \<Rightarrow> (json_value \<Rightarrow> json_value result) list" where
  "item_head a =
     [assign [Key ''format_version''] (jv_string (formatVersion a)),
      assign [Key ''minecraft:item''] (jv_object []),
      assign [Key ''minecraft:item'', Key ''description''] (jv_object []),
      whenR (item_verifyIdentifier (i_identifier a))
        [assign (description_of ''identifier'') (jv_string (item_to_lower (i_identifier a)))],
      assign (description_of ''category'') (jv_string (category a)),
      whenR (isExp a) [assign (description_of ''is_experimental'') (jv_bool (isExp a))],
      assign [Key ''minecraft:item'', Key ''components''] (jv_object [])]"

text \<open>The components, in the order of the source.\<close>

definition icon_block :: "item_args \<Rightarrow> json_value \<Rightarrow> json_value result" where
  "icon_block a = whenR (icon a \<noteq> [] \<and> item_verifyIdentifier (i_identifier a))
     [assign (component ''minecraft:icon'') (jv_object []),
      assign (component ''minecraft:icon'' @ [Key ''texture'']) (jv_string (item_to_lower (get_iname (i_identifier a) @ ''.texture'')))]"

definition display_name_block :: "item_args \<Rightarrow> json_value \<Rightarrow> json_value result" where
  "display_name_block a = whenR (displayName a \<noteq> [])
     [assign (component ''minecraft:display_name'') (jv_object []),
      assign (component ''minecraft:display_name'' @ [Key ''value'']) (jv_string (displayName a))]"

definition max_stack_size_block :: "item_args \<Rightarrow> json_value \<Rightarrow> json_value result" where
  "max_stack_size_block a = whenR (1 \<le> maxStackSize a \<and> maxStackSize a \<le> 64)
     [assign (component ''minecraft:max_stack_size'') (jv_llint (maxStackSize a))]"

definition foil_block :: "item_args \<Rightarrow> json_value \<Rightarrow> json_value result" where
  "foil_block a = whenR (foil a)
     [assign (component ''minecraft:foil'') (jv_bool (foil a))]"

definition use_animation_block :: "item_args \<Rightarrow> json_value \<Rightarrow> json_value result" where
  "use_animation_block a = whenR (useAnimCheckbox a \<and> useAnim a \<noteq> ''none'')
     [assign (component ''minecraft:use_animation'') (jv_string (useAnim a))]"

definition use_duration_block :: "item_args \<Rightarrow> json_value \<Rightarrow> json_value result" where
  "use_duration_block a = whenR (d_nonzero (useDuration a))
     [assign (component ''minecraft:use_duration'') (jv_double (useDuration a))]"

definition stacked_by_data_block :: "item_args \<Rightarrow> json_value \<Rightarrow> json_value result" where
  "stacked_by_data_block a = whenR (stackedData a)
     [assign (component ''minecraft:stacked_by_data'') (jv_bool (stackedData a))]"

definition hand_equipped_block :: "item_args \<Rightarrow> json_value \<Rightarrow> json_value result" where
  "hand_equipped_block a = whenR (handEquipped a)
     [assign (component ''minecraft:hand_equipped'') (jv_bool (handEquipped a))]"

definition can_destroy_block :: "item_args \<Rightarrow> json_value \<Rightarrow> json_value result" where
  "can_destroy_block a = whenR (\<not> destroyInC a)
     [assign (component ''minecraft:can_destroy_in_creative'') (jv_bool (destroyInC a))]"

definition creative_category_block :: "item_args \<Rightarrow> json_value \<Rightarrow> json_value result" where
  "creative_category_block a = whenR (ccategoryCheckbox a)
     [assign (component ''minecraft:creative_category'') (jv_object []),
      whenR (ccategory a \<noteq> ''none'')
        [assign (component ''minecraft:creative_category'' @ [Key ''parent'']) (jv_string (ccategory a))]]"

definition food_block :: "item_args \<Rightarrow> json_value \<Rightarrow> json_value result" where
  "food_block a = whenR (foodCheckbox a)
     [assign (component ''minecraft:food'') (jv_object []),
      whenR (d_ge (foodNutr a) 0)
        [assign (component ''minecraft:food'' @ [Key ''nutrition'']) (jv_double (foodNutr a))],
      whenR (foodSatu a \<noteq> [])
        [assign (component ''minecraft:food'' @ [Key ''saturation_modifier'']) (jv_string (foodSatu a))],
      assign (component ''minecraft:food'' @ [Key ''can_always_eat'']) (jv_bool (foodCanA a)),
      whenR (foodConvert a \<noteq> [])
        [assign (component ''minecraft:food'' @ [Key ''using_converts_to'']) (jv_string (foodConvert a))]]"

definition explodable_block :: "item_args \<Rightarrow> json_value \<Rightarrow> json_value result" where
  "explodable_block a = whenR (\<not> isexplod a)
     [assign (component ''minecraft:explodable'') (jv_bool (isexplod a))]"

definition allow_off_hand_block :: "item_args \<Rightarrow> json_value \<Rightarrow> json_value result" where
  "allow_off_hand_block a = whenR (\<not> allowOffHand a)
     [assign (component ''minecraft:allow_off_hand'') (jv_bool (allowOffHand a))]"

definition wearable_block :: "item_args \<Rightarrow> json_value \<Rightarrow> json_value result" where
  "wearable_block a = whenR (wearableCheckbox a)
     [assign (component ''minecraft:wearable'') (jv_object []),
      whenR (wearableSlot a \<noteq> ''none'')
        [assign (component ''minecraft:wearable'' @ [Key ''slot'']) (jv_string (''slot.armor.'' @ wearableSlot a))]]"

definition armor_block :: "item_args \<Rightarrow> json_value \<Rightarrow> json_value result" where
  "armor_block a = whenR (0 \<le> armorProtection a \<and> armorProtection a \<le> 20)
     [assign (component ''minecraft:armor'') (jv_object []),
      assign (component ''minecraft:armor'' @ [Key ''protection'']) (jv_llint (armorProtection a))]"

definition cooldown_block :: "item_args \<Rightarrow> json_value \<Rightarrow> json_value result" where
  "cooldown_block a = whenR (cooldownCheckbox a)
     [assign (component ''minecraft:cooldown'') (jv_object []),
      whenR (cooldownCategory a \<noteq> [])
        [assign (component ''minecraft:cooldown'' @ [Key ''category'']) (jv_string (cooldownCategory a))],
      whenR (d_ge (cooldownDuration a) 0)
        [assign (component ''minecraft:cooldown'' @ [Key ''duration'']) (jv_double (cooldownDuration a))]]"

definition damage_block :: "item_args \<Rightarrow> json_value \<Rightarrow> json_value result" where
  "damage_block a = whenR (0 \<le> damage a)
     [assign (component ''minecraft:damage'') (jv_llint (damage a))]"

definition block_placer_block :: "item_args \<Rightarrow> json_value \<Rightarrow> json_value result" where
  "block_placer_block a = whenR (blockPlacerCheckbox a)
     [assign (component ''minecraft:block_placer'') (jv_object []),
      whenR (blockPlacerBlock a \<noteq> [])
        [assign (component ''minecraft:block_placer'' @ [Key ''block'']) (jv_string (blockPlacerBlock a))],
      whenR (blockPlacerDes a)
        [assign (component ''minecraft:block_placer'' @ [Key ''use_block_description'']) (jv_bool (blockPlacerDes a))]]"

definition entity_placer_block :: "item_args \<Rightarrow> json_value \<Rightarrow> json_value result" where
  "entity_placer_block a = whenR (entityPlacerCheckbox a)
     [assign (component ''minecraft:entity_placer'') (jv_object []),
      whenR (entityPlacerEntity a \<noteq> [])
        [assign (component ''minecraft:entity_placer'' @ [Key ''entity'']) (jv_string (entityPlacerEntity a))],
      whenR (entityPlacerUseon a \<noteq> [])
        [assign (component ''minecraft:entity_placer'' @ [Key ''use_on'']) (jv_list (entityPlacerUseon a))],
      whenR (entityPlacerDison a \<noteq> [])
        [assign (component ''minecraft:entity_placer'' @ [Key ''dispense_on'']) (jv_list (entityPlacerDison a))]]"

definition enchantable_block :: "item_args \<Rightarrow> json_value \<Rightarrow> json_value result" where
  "enchantable_block a = whenR (enchantableCheckbox a)
     [assign (component ''minecraft:enchantable'') (jv_object []),
      whenR (enchantableSlot a \<noteq> ''none'')
        [assign (component ''minecraft:enchantable'' @ [Key ''slot'']) (jv_string (enchantableSlot a))],
      whenR (enchantableValue a \<noteq> - 1)
        [assign (component ''minecraft:enchantable'' @ [Key ''value'']) (jv_llint (enchantableValue a))]]"

text \<open>The ammunition is a list of one object.\<close>

definition ammunition_block :: "item_args \<Rightarrow> json_value \<Rightarrow> json_value result" where
  "ammunition_block a =
     (let ammunition = component ''minecraft:shooter'' @ [Key ''ammunition'']
      in whenR (shooterAmmoCheckbox a)
        [assign ammunition (jv_list [jv_object []]),
         assign (ammunition @ [Idx 0, Key ''search_inventory'']) (jv_bool (shooterAmmoInven a)),
         whenR (shooterAmmoItem a \<noteq> [])
           [assign (ammunition @ [Idx 0, Key ''item'']) (jv_string (shooterAmmoItem a))],
         assign (ammunition @ [Idx 0, Key ''use_offhand'']) (jv_bool (shooterAmmoHand a)),
         assign (ammunition @ [Idx 0, Key ''use_in_creative'']) (jv_bool (shooterAmmoCreative a))])"

definition shooter_block :: "item_args \<Rightarrow> json_value \<Rightarrow> json_value result" where
  "shooter_block a = whenR (shooterCheckbox a)
     [assign (component ''minecraft:shooter'') (jv_object []),
      whenR (d_ge (shooterMaxDraw a) 1)
        [assign (component ''minecraft:shooter'' @ [Key ''max_draw_duration''])
           (jv_double (shooterMaxDraw a))],
      assign (component ''minecraft:shooter'' @ [Key ''charge_on_draw'']) (jv_bool (shooterCharge a)),
      assign (component ''minecraft:shooter'' @ [Key ''scale_power_by_draw_duration''])
        (jv_bool (shooterScale a)),
      ammunition_block a]"

definition fertilizer_block :: "item_args \<Rightarrow> json_value \<Rightarrow> json_value result" where
  "fertilizer_block a = whenR (0 \<le> fertilizer a)
     [assign (component ''minecraft:fertilizer'') (jv_object []),
      assign (component ''minecraft:fertilizer'' @ [Key ''duration'']) (jv_llint (fertilizer a))]"

definition ignores_permission_block :: "item_args \<Rightarrow> json_value \<Rightarrow> json_value result" where
  "ignores_permission_block a = whenR (ignPerms a)
     [assign (component ''minecraft:ignores_permission'') (jv_bool (ignPerms a))]"

definition mining_speed_block :: "item_args \<Rightarrow> json_value \<Rightarrow> json_value result" where
  "mining_speed_block a = whenR (0 \<le> miningSpeed a)
     [assign (component ''minecraft:mining_speed'') (jv_llint (miningSpeed a))]"

definition liquid_clipped_block :: "item_args \<Rightarrow> json_value \<Rightarrow> json_value result" where
  "liquid_clipped_block a = whenR (liquidClipped a)
     [assign (component ''minecraft:liquid_clipped'') (jv_bool (liquidClipped a))]"

definition should_despawn_block :: "item_args \<Rightarrow> json_value \<Rightarrow> json_value result" where
  "should_despawn_block a = whenR (\<not> shouldDespawn a)
     [assign (component ''minecraft:should_despawn'') (jv_bool (shouldDespawn a))]"

definition mirrored_art_block :: "item_args \<Rightarrow> json_value \<Rightarrow> json_value result" where
  "mirrored_art_block a = whenR (mirroredArt a)
     [assign (component ''minecraft:mirrored_art'') (jv_bool (mirroredArt a))]"

definition projectile_block :: "item_args \<Rightarrow> json_value \<Rightarrow> json_value result" where
  "projectile_block a = whenR (projectileCheckbox a)
     [assign (component ''minecraft:projectile'') (jv_object []),
      whenR (projectileEntity a \<noteq> [])
        [assign (component ''minecraft:projectile'' @ [Key ''projectile_entity'']) (jv_string (projectileEntity a))],
      whenR (d_ge (projectilePower a) 0)
        [assign (component ''minecraft:projectile'' @ [Key ''minimum_critical_power'']) (jv_double (projectilePower a))]]"

definition dye_powder_block :: "item_args \<Rightarrow> json_value \<Rightarrow> json_value result" where
  "dye_powder_block a = whenR (dyeCheckbox a)
     [assign (component ''minecraft:dye_powder'') (jv_object []),
      assign (component ''minecraft:dye_powder'' @ [Key ''color'']) (jv_string (dyePowder a))]"

definition throwable_block :: "item_args \<Rightarrow> json_value \<Rightarrow> json_value result" where
  "throwable_block a = whenR (throwableCheckbox a)
     [assign (component ''minecraft:throwable'') (jv_object []),
      assign (component ''minecraft:throwable'' @ [Key ''do_swing_animation'']) (jv_bool (throwableSwing a)),
      whenR (d_ge (throwableDraw a) 0)
        [assign (component ''minecraft:throwable'' @ [Key ''max_draw_duration'']) (jv_double (throwableDraw a))],
      assign (component ''minecraft:throwable'' @ [Key ''scale_power_by_draw_duration'']) (jv_bool (throwablePower a))]"

definition knockback_block :: "item_args \<Rightarrow> json_value \<Rightarrow> json_value result" where
  "knockback_block a = whenR (d_ge (knockbackResis a) 0 \<and> d_le (knockbackResis a) 1)
     [assign (component ''minecraft:knockback_resistance'') (jv_object []),
      assign (component ''minecraft:knockback_resistance'' @ [Key ''protection'']) (jv_double (knockbackResis a))]"

definition fuel_block :: "item_args \<Rightarrow> json_value \<Rightarrow> json_value result" where
  "fuel_block a = whenR (d_ge (fuel a) 0)
     [assign (component ''minecraft:fuel'') (jv_object []),
      assign (component ''minecraft:fuel'' @ [Key ''duration'']) (jv_double (fuel a))]"

definition record_block :: "item_args \<Rightarrow> json_value \<Rightarrow> json_value result" where
  "record_block a = whenR (recordCheckbox a)
     [assign (component ''minecraft:record'') (jv_object []),
      whenR (recordSound a \<noteq> [])
        [assign (component ''minecraft:record'' @ [Key ''sound_event'']) (jv_string (recordSound a))],
      whenR (0 \<le> recordDuration a)
        [assign (component ''minecraft:record'' @ [Key ''duration'']) (jv_llint (recordDuration a))],
      whenR (0 \<le> recordSignal a \<and> recordSignal a \<le> 15)
        [assign (component ''minecraft:record'' @ [Key ''comparator_signal'']) (jv_llint (recordSignal a))]]"

definition item_components :: "item_args \<Rightarrow> (json_value \<Rightarrow> json_value result) list" where
  "item_components a =
     [icon_block a, display_name_block a, max_stack_size_block a, foil_block a,
      use_animation_block a, use_duration_block a, stacked_by_data_block a,
      hand_equipped_block a, can_destroy_block a, creative_category_block a, food_block a,
      explodable_block a, allow_off_hand_block a, wearable_block a, armor_block a,
      cooldown_block a, damage_block a, block_placer_block a, entity_placer_block a,
      enchantable_block a, shooter_block a, fertilizer_block a, ignores_permission_block a,
      mining_speed_block a, liquid_clipped_block a, should_despawn_block a,
      mirrored_art_block a, projectile_block a, dye_powder_block a, throwable_block a,
      knockback_block a, fuel_block a, record_block a]"

definition item_doc :: "item_args \<Rightarrow> json_value result" where
  "item_doc a = seqR (item_head a @ item_components a) (jv_object [])"

text \<open>The texture atlas is built between the icon and the display name; the two documents share
  nothing.\<close>

definition item_atlas :: "item_args \<Rightarrow> json_value result" where
  "item_atlas a =
     (let texture = [Key ''texture_data'', Key (get_iname (i_identifier a) @ ''.texture'')]
      in whenR (enable_itematlas a \<and> icon a \<noteq> [])
        [assign [Key ''resource_pack_name''] (jv_string ''vanilla''),
         assign [Key ''texture_name''] (jv_string ''atlas.items''),
         assign [Key ''texture_data''] (jv_object []),
         whenR (item_verifyIdentifier (i_identifier a))
           [assign texture (jv_object []),
            assign (texture @ [Key ''textures'']) (jv_string (icon a))]]
        (jv_object []))"

section \<open>The pack\<close>

definition item_filename :: "item_args \<Rightarrow> string" where
  "item_filename a =
     (if i_identifier a \<noteq> [] then get_iname (i_identifier a) @ ''.mcaddon'' else ''item.mcaddon'')"

text \<open>The tree of the pack, with the atlas and the texture where there is an icon.\<close>

definition item_pack :: "item_args \<Rightarrow> string \<Rightarrow> string \<Rightarrow> string \<Rightarrow> json_value \<Rightarrow> pack_file result" where
  "item_pack a rp bp item_text itemAtlas =
     (let behavior = file_dir ''behavior''
            [file_text ''manifest.json'' bp,
             file_dir ''items'' [file_text (get_iname (i_identifier a) @ ''.item.json'') item_text]]
      in if filename (itemIcon a) \<noteq> [] then
           bindR (get_repr itemAtlas) (\<lambda>atlas_text.
             Inr (file_dir (item_filename a)
               [file_dir ''resource''
                  [file_text ''manifest.json'' rp,
                   file_dir ''textures'' [file_text ''item_texture.json'' atlas_text],
                   set_filename (truncate_slashes (item_to_lower (icon a) @ ''.png'')) (itemIcon a)],
                behavior]))
         else Inr (file_dir (item_filename a)
               [file_dir ''resource'' [file_text ''manifest.json'' rp], behavior]))"

definition writeItem :: "item_args \<Rightarrow> (nat \<Rightarrow> nat \<Rightarrow> nat) \<Rightarrow> pack_file result" where
  "writeItem a u =
     bindR (item_doc a) (\<lambda>item.
     bindR (item_atlas a) (\<lambda>itemAtlas.
     bindR (item_genManifest u) (\<lambda>p.
     bindR (get_repr (member ''rp'' p)) (\<lambda>rp.
     bindR (get_repr (member ''bp'' p)) (\<lambda>bp.
     bindR (get_repr item) (\<lambda>item_text.
       item_pack a rp bp item_text itemAtlas))))))"

section \<open>Templates of the components\<close>

text \<open>
  The abstract specification of the document: the list of the components with the condition under
  which each is present and the members it then has.
\<close>

definition icon_template :: "item_args \<Rightarrow> (string \<times> json_value) list" where
  "icon_template a = optional (icon a \<noteq> [] \<and> item_verifyIdentifier (i_identifier a)) (''minecraft:icon'', jv_object (
        [(''texture'', jv_string (item_to_lower (get_iname (i_identifier a) @ ''.texture'')))]))"

definition display_name_template :: "item_args \<Rightarrow> (string \<times> json_value) list" where
  "display_name_template a = optional (displayName a \<noteq> []) (''minecraft:display_name'', jv_object (
        [(''value'', jv_string (displayName a))]))"

definition max_stack_size_template :: "item_args \<Rightarrow> (string \<times> json_value) list" where
  "max_stack_size_template a = optional (1 \<le> maxStackSize a \<and> maxStackSize a \<le> 64) (''minecraft:max_stack_size'', jv_llint (maxStackSize a))"

definition foil_template :: "item_args \<Rightarrow> (string \<times> json_value) list" where
  "foil_template a = optional (foil a) (''minecraft:foil'', jv_bool (foil a))"

definition use_animation_template :: "item_args \<Rightarrow> (string \<times> json_value) list" where
  "use_animation_template a = optional (useAnimCheckbox a \<and> useAnim a \<noteq> ''none'') (''minecraft:use_animation'', jv_string (useAnim a))"

definition use_duration_template :: "item_args \<Rightarrow> (string \<times> json_value) list" where
  "use_duration_template a = optional (d_nonzero (useDuration a)) (''minecraft:use_duration'', jv_double (useDuration a))"

definition stacked_by_data_template :: "item_args \<Rightarrow> (string \<times> json_value) list" where
  "stacked_by_data_template a = optional (stackedData a) (''minecraft:stacked_by_data'', jv_bool (stackedData a))"

definition hand_equipped_template :: "item_args \<Rightarrow> (string \<times> json_value) list" where
  "hand_equipped_template a = optional (handEquipped a) (''minecraft:hand_equipped'', jv_bool (handEquipped a))"

definition can_destroy_template :: "item_args \<Rightarrow> (string \<times> json_value) list" where
  "can_destroy_template a = optional (\<not> destroyInC a) (''minecraft:can_destroy_in_creative'', jv_bool (destroyInC a))"

definition creative_category_template :: "item_args \<Rightarrow> (string \<times> json_value) list" where
  "creative_category_template a = optional (ccategoryCheckbox a) (''minecraft:creative_category'', jv_object (
        optional (ccategory a \<noteq> ''none'') (''parent'', jv_string (ccategory a))))"

definition food_template :: "item_args \<Rightarrow> (string \<times> json_value) list" where
  "food_template a = optional (foodCheckbox a) (''minecraft:food'', jv_object (
        optional (d_ge (foodNutr a) 0) (''nutrition'', jv_double (foodNutr a)) @
        optional (foodSatu a \<noteq> []) (''saturation_modifier'', jv_string (foodSatu a)) @
        [(''can_always_eat'', jv_bool (foodCanA a))] @
        optional (foodConvert a \<noteq> []) (''using_converts_to'', jv_string (foodConvert a))))"

definition explodable_template :: "item_args \<Rightarrow> (string \<times> json_value) list" where
  "explodable_template a = optional (\<not> isexplod a) (''minecraft:explodable'', jv_bool (isexplod a))"

definition allow_off_hand_template :: "item_args \<Rightarrow> (string \<times> json_value) list" where
  "allow_off_hand_template a = optional (\<not> allowOffHand a) (''minecraft:allow_off_hand'', jv_bool (allowOffHand a))"

definition wearable_template :: "item_args \<Rightarrow> (string \<times> json_value) list" where
  "wearable_template a = optional (wearableCheckbox a) (''minecraft:wearable'', jv_object (
        optional (wearableSlot a \<noteq> ''none'') (''slot'', jv_string (''slot.armor.'' @ wearableSlot a))))"

definition armor_template :: "item_args \<Rightarrow> (string \<times> json_value) list" where
  "armor_template a = optional (0 \<le> armorProtection a \<and> armorProtection a \<le> 20) (''minecraft:armor'', jv_object (
        [(''protection'', jv_llint (armorProtection a))]))"

definition cooldown_template :: "item_args \<Rightarrow> (string \<times> json_value) list" where
  "cooldown_template a = optional (cooldownCheckbox a) (''minecraft:cooldown'', jv_object (
        optional (cooldownCategory a \<noteq> []) (''category'', jv_string (cooldownCategory a)) @
        optional (d_ge (cooldownDuration a) 0) (''duration'', jv_double (cooldownDuration a))))"

definition damage_template :: "item_args \<Rightarrow> (string \<times> json_value) list" where
  "damage_template a = optional (0 \<le> damage a) (''minecraft:damage'', jv_llint (damage a))"

definition block_placer_template :: "item_args \<Rightarrow> (string \<times> json_value) list" where
  "block_placer_template a = optional (blockPlacerCheckbox a) (''minecraft:block_placer'', jv_object (
        optional (blockPlacerBlock a \<noteq> []) (''block'', jv_string (blockPlacerBlock a)) @
        optional (blockPlacerDes a) (''use_block_description'', jv_bool (blockPlacerDes a))))"

definition entity_placer_template :: "item_args \<Rightarrow> (string \<times> json_value) list" where
  "entity_placer_template a = optional (entityPlacerCheckbox a) (''minecraft:entity_placer'', jv_object (
        optional (entityPlacerEntity a \<noteq> []) (''entity'', jv_string (entityPlacerEntity a)) @
        optional (entityPlacerUseon a \<noteq> []) (''use_on'', jv_list (entityPlacerUseon a)) @
        optional (entityPlacerDison a \<noteq> []) (''dispense_on'', jv_list (entityPlacerDison a))))"

definition enchantable_template :: "item_args \<Rightarrow> (string \<times> json_value) list" where
  "enchantable_template a = optional (enchantableCheckbox a) (''minecraft:enchantable'', jv_object (
        optional (enchantableSlot a \<noteq> ''none'') (''slot'', jv_string (enchantableSlot a)) @
        optional (enchantableValue a \<noteq> - 1) (''value'', jv_llint (enchantableValue a))))"

definition shooter_template :: "item_args \<Rightarrow> (string \<times> json_value) list" where
  "shooter_template a = optional (shooterCheckbox a) (''minecraft:shooter'', jv_object (
        optional (d_ge (shooterMaxDraw a) 1) (''max_draw_duration'', jv_double (shooterMaxDraw a)) @
        [(''charge_on_draw'', jv_bool (shooterCharge a)),
         (''scale_power_by_draw_duration'', jv_bool (shooterScale a))] @
        optional (shooterAmmoCheckbox a) (''ammunition'', jv_list [jv_object (
          [(''search_inventory'', jv_bool (shooterAmmoInven a))] @
          optional (shooterAmmoItem a \<noteq> []) (''item'', jv_string (shooterAmmoItem a)) @
          [(''use_offhand'', jv_bool (shooterAmmoHand a)),
           (''use_in_creative'', jv_bool (shooterAmmoCreative a))])])))"

definition fertilizer_template :: "item_args \<Rightarrow> (string \<times> json_value) list" where
  "fertilizer_template a = optional (0 \<le> fertilizer a) (''minecraft:fertilizer'', jv_object (
        [(''duration'', jv_llint (fertilizer a))]))"

definition ignores_permission_template :: "item_args \<Rightarrow> (string \<times> json_value) list" where
  "ignores_permission_template a = optional (ignPerms a) (''minecraft:ignores_permission'', jv_bool (ignPerms a))"

definition mining_speed_template :: "item_args \<Rightarrow> (string \<times> json_value) list" where
  "mining_speed_template a = optional (0 \<le> miningSpeed a) (''minecraft:mining_speed'', jv_llint (miningSpeed a))"

definition liquid_clipped_template :: "item_args \<Rightarrow> (string \<times> json_value) list" where
  "liquid_clipped_template a = optional (liquidClipped a) (''minecraft:liquid_clipped'', jv_bool (liquidClipped a))"

definition should_despawn_template :: "item_args \<Rightarrow> (string \<times> json_value) list" where
  "should_despawn_template a = optional (\<not> shouldDespawn a) (''minecraft:should_despawn'', jv_bool (shouldDespawn a))"

definition mirrored_art_template :: "item_args \<Rightarrow> (string \<times> json_value) list" where
  "mirrored_art_template a = optional (mirroredArt a) (''minecraft:mirrored_art'', jv_bool (mirroredArt a))"

definition projectile_template :: "item_args \<Rightarrow> (string \<times> json_value) list" where
  "projectile_template a = optional (projectileCheckbox a) (''minecraft:projectile'', jv_object (
        optional (projectileEntity a \<noteq> []) (''projectile_entity'', jv_string (projectileEntity a)) @
        optional (d_ge (projectilePower a) 0) (''minimum_critical_power'', jv_double (projectilePower a))))"

definition dye_powder_template :: "item_args \<Rightarrow> (string \<times> json_value) list" where
  "dye_powder_template a = optional (dyeCheckbox a) (''minecraft:dye_powder'', jv_object (
        [(''color'', jv_string (dyePowder a))]))"

definition throwable_template :: "item_args \<Rightarrow> (string \<times> json_value) list" where
  "throwable_template a = optional (throwableCheckbox a) (''minecraft:throwable'', jv_object (
        [(''do_swing_animation'', jv_bool (throwableSwing a))] @
        optional (d_ge (throwableDraw a) 0) (''max_draw_duration'', jv_double (throwableDraw a)) @
        [(''scale_power_by_draw_duration'', jv_bool (throwablePower a))]))"

definition knockback_template :: "item_args \<Rightarrow> (string \<times> json_value) list" where
  "knockback_template a = optional (d_ge (knockbackResis a) 0 \<and> d_le (knockbackResis a) 1) (''minecraft:knockback_resistance'', jv_object (
        [(''protection'', jv_double (knockbackResis a))]))"

definition fuel_template :: "item_args \<Rightarrow> (string \<times> json_value) list" where
  "fuel_template a = optional (d_ge (fuel a) 0) (''minecraft:fuel'', jv_object (
        [(''duration'', jv_double (fuel a))]))"

definition record_template :: "item_args \<Rightarrow> (string \<times> json_value) list" where
  "record_template a = optional (recordCheckbox a) (''minecraft:record'', jv_object (
        optional (recordSound a \<noteq> []) (''sound_event'', jv_string (recordSound a)) @
        optional (0 \<le> recordDuration a) (''duration'', jv_llint (recordDuration a)) @
        optional (0 \<le> recordSignal a \<and> recordSignal a \<le> 15) (''comparator_signal'', jv_llint (recordSignal a))))"

definition components_template :: "item_args \<Rightarrow> (string \<times> json_value) list" where
  "components_template a =
     icon_template a @ display_name_template a @ max_stack_size_template a @ foil_template a @
     use_animation_template a @ use_duration_template a @ stacked_by_data_template a @
     hand_equipped_template a @ can_destroy_template a @ creative_category_template a @
     food_template a @ explodable_template a @ allow_off_hand_template a @
     wearable_template a @ armor_template a @ cooldown_template a @ damage_template a @
     block_placer_template a @ entity_placer_template a @ enchantable_template a @
     shooter_template a @ fertilizer_template a @ ignores_permission_template a @
     mining_speed_template a @ liquid_clipped_template a @ should_despawn_template a @
     mirrored_art_template a @ projectile_template a @ dye_powder_template a @
     throwable_template a @ knockback_template a @ fuel_template a @ record_template a"

text \<open>The shape all blocks work on: the document with the components \<open>cs\<close> so far.\<close>

definition item_shape :: "json_value \<Rightarrow> json_value \<Rightarrow> (string \<times> json_value) list \<Rightarrow> json_value" where
  "item_shape f d cs = jv_object [(''format_version'', f), (''minecraft:item'',
     jv_object [(''description'', d), (''components'', jv_object cs)])]"

lemma assign_steps:
  "assign [] w v = Inr w"
  "assign (Key k # p) w (jv_object o') = bindR (assign p w (obj_get jv_default k o'))
     (\<lambda>v. Inr (jv_object (obj_put k v o')))"
  "i < length xs \<Longrightarrow> assign (Idx i # p) w (jv_list xs) = bindR (assign p w (xs ! i))
     (\<lambda>v. Inr (jv_list (xs[i := v])))"
  by (simp_all add: assign_def obj_updR_eq bindR_assoc)

lemma component_fresh:
  "k \<notin> set (obj_keys cs) \<Longrightarrow>
     assign (component k) w (item_shape f d cs) = Inr (item_shape f d (cs @ [(k, w)]))"
  by (simp add: component_def item_shape_def run_simps obj_put_fresh)

lemma component_member:
  "k \<notin> set (obj_keys cs) \<Longrightarrow>
     assign (component k @ p) w (item_shape f d (cs @ [(k, v)]))
       = bindR (assign p w v) (\<lambda>v'. Inr (item_shape f d (cs @ [(k, v')])))"
  by (simp add: component_def item_shape_def assign_def obj_updR_eq obj_put_snoc obj_get_fresh bindR_assoc)

lemmas block_simps = component_fresh component_member assign_steps

lemma icon_run:
  "''minecraft:icon'' \<notin> set (obj_keys cs) \<Longrightarrow>
     icon_block a (item_shape f d cs) = Inr (item_shape f d (cs @ icon_template a))"
  by (cases "icon a \<noteq> []"; cases "item_verifyIdentifier (i_identifier a)")
    (simp_all add: icon_block_def icon_template_def block_simps)

lemma display_name_run:
  "''minecraft:display_name'' \<notin> set (obj_keys cs) \<Longrightarrow>
     display_name_block a (item_shape f d cs) = Inr (item_shape f d (cs @ display_name_template a))"
  by (cases "displayName a \<noteq> []")
    (simp_all add: display_name_block_def display_name_template_def block_simps)

lemma max_stack_size_run:
  "''minecraft:max_stack_size'' \<notin> set (obj_keys cs) \<Longrightarrow>
     max_stack_size_block a (item_shape f d cs) = Inr (item_shape f d (cs @ max_stack_size_template a))"
  by (cases "1 \<le> maxStackSize a"; cases "maxStackSize a \<le> 64")
    (simp_all add: max_stack_size_block_def max_stack_size_template_def block_simps)

lemma foil_run:
  "''minecraft:foil'' \<notin> set (obj_keys cs) \<Longrightarrow>
     foil_block a (item_shape f d cs) = Inr (item_shape f d (cs @ foil_template a))"
  by (cases "foil a")
    (simp_all add: foil_block_def foil_template_def block_simps)

lemma use_animation_run:
  "''minecraft:use_animation'' \<notin> set (obj_keys cs) \<Longrightarrow>
     use_animation_block a (item_shape f d cs) = Inr (item_shape f d (cs @ use_animation_template a))"
  by (cases "useAnimCheckbox a"; cases "useAnim a \<noteq> ''none''")
    (simp_all add: use_animation_block_def use_animation_template_def block_simps)

lemma use_duration_run:
  "''minecraft:use_duration'' \<notin> set (obj_keys cs) \<Longrightarrow>
     use_duration_block a (item_shape f d cs) = Inr (item_shape f d (cs @ use_duration_template a))"
  by (cases "d_nonzero (useDuration a)")
    (simp_all add: use_duration_block_def use_duration_template_def block_simps)

lemma stacked_by_data_run:
  "''minecraft:stacked_by_data'' \<notin> set (obj_keys cs) \<Longrightarrow>
     stacked_by_data_block a (item_shape f d cs) = Inr (item_shape f d (cs @ stacked_by_data_template a))"
  by (cases "stackedData a")
    (simp_all add: stacked_by_data_block_def stacked_by_data_template_def block_simps)

lemma hand_equipped_run:
  "''minecraft:hand_equipped'' \<notin> set (obj_keys cs) \<Longrightarrow>
     hand_equipped_block a (item_shape f d cs) = Inr (item_shape f d (cs @ hand_equipped_template a))"
  by (cases "handEquipped a")
    (simp_all add: hand_equipped_block_def hand_equipped_template_def block_simps)

lemma can_destroy_run:
  "''minecraft:can_destroy_in_creative'' \<notin> set (obj_keys cs) \<Longrightarrow>
     can_destroy_block a (item_shape f d cs) = Inr (item_shape f d (cs @ can_destroy_template a))"
  by (cases "\<not> destroyInC a")
    (simp_all add: can_destroy_block_def can_destroy_template_def block_simps)

lemma creative_category_run:
  "''minecraft:creative_category'' \<notin> set (obj_keys cs) \<Longrightarrow>
     creative_category_block a (item_shape f d cs) = Inr (item_shape f d (cs @ creative_category_template a))"
  by (cases "ccategoryCheckbox a"; cases "ccategory a \<noteq> ''none''")
    (simp_all add: creative_category_block_def creative_category_template_def block_simps)

lemma food_run:
  "''minecraft:food'' \<notin> set (obj_keys cs) \<Longrightarrow>
     food_block a (item_shape f d cs) = Inr (item_shape f d (cs @ food_template a))"
  by (cases "foodCheckbox a"; cases "d_ge (foodNutr a) 0"; cases "foodSatu a \<noteq> []"; cases "foodConvert a \<noteq> []")
    (simp_all add: food_block_def food_template_def block_simps)

lemma explodable_run:
  "''minecraft:explodable'' \<notin> set (obj_keys cs) \<Longrightarrow>
     explodable_block a (item_shape f d cs) = Inr (item_shape f d (cs @ explodable_template a))"
  by (cases "\<not> isexplod a")
    (simp_all add: explodable_block_def explodable_template_def block_simps)

lemma allow_off_hand_run:
  "''minecraft:allow_off_hand'' \<notin> set (obj_keys cs) \<Longrightarrow>
     allow_off_hand_block a (item_shape f d cs) = Inr (item_shape f d (cs @ allow_off_hand_template a))"
  by (cases "\<not> allowOffHand a")
    (simp_all add: allow_off_hand_block_def allow_off_hand_template_def block_simps)

lemma wearable_run:
  "''minecraft:wearable'' \<notin> set (obj_keys cs) \<Longrightarrow>
     wearable_block a (item_shape f d cs) = Inr (item_shape f d (cs @ wearable_template a))"
  by (cases "wearableCheckbox a"; cases "wearableSlot a \<noteq> ''none''")
    (simp_all add: wearable_block_def wearable_template_def block_simps)

lemma armor_run:
  "''minecraft:armor'' \<notin> set (obj_keys cs) \<Longrightarrow>
     armor_block a (item_shape f d cs) = Inr (item_shape f d (cs @ armor_template a))"
  by (cases "0 \<le> armorProtection a"; cases "armorProtection a \<le> 20")
    (simp_all add: armor_block_def armor_template_def block_simps)

lemma cooldown_run:
  "''minecraft:cooldown'' \<notin> set (obj_keys cs) \<Longrightarrow>
     cooldown_block a (item_shape f d cs) = Inr (item_shape f d (cs @ cooldown_template a))"
  by (cases "cooldownCheckbox a"; cases "cooldownCategory a \<noteq> []"; cases "d_ge (cooldownDuration a) 0")
    (simp_all add: cooldown_block_def cooldown_template_def block_simps)

lemma damage_run:
  "''minecraft:damage'' \<notin> set (obj_keys cs) \<Longrightarrow>
     damage_block a (item_shape f d cs) = Inr (item_shape f d (cs @ damage_template a))"
  by (cases "0 \<le> damage a")
    (simp_all add: damage_block_def damage_template_def block_simps)

lemma block_placer_run:
  "''minecraft:block_placer'' \<notin> set (obj_keys cs) \<Longrightarrow>
     block_placer_block a (item_shape f d cs) = Inr (item_shape f d (cs @ block_placer_template a))"
  by (cases "blockPlacerCheckbox a"; cases "blockPlacerBlock a \<noteq> []"; cases "blockPlacerDes a")
    (simp_all add: block_placer_block_def block_placer_template_def block_simps)

lemma entity_placer_run:
  "''minecraft:entity_placer'' \<notin> set (obj_keys cs) \<Longrightarrow>
     entity_placer_block a (item_shape f d cs) = Inr (item_shape f d (cs @ entity_placer_template a))"
  by (cases "entityPlacerCheckbox a"; cases "entityPlacerEntity a \<noteq> []"; cases "entityPlacerUseon a \<noteq> []"; cases "entityPlacerDison a \<noteq> []")
    (simp_all add: entity_placer_block_def entity_placer_template_def block_simps)

lemma enchantable_run:
  "''minecraft:enchantable'' \<notin> set (obj_keys cs) \<Longrightarrow>
     enchantable_block a (item_shape f d cs) = Inr (item_shape f d (cs @ enchantable_template a))"
  by (cases "enchantableCheckbox a"; cases "enchantableSlot a \<noteq> ''none''"; cases "enchantableValue a \<noteq> - 1")
    (simp_all add: enchantable_block_def enchantable_template_def block_simps)

lemma shooter_run:
  "''minecraft:shooter'' \<notin> set (obj_keys cs) \<Longrightarrow>
     shooter_block a (item_shape f d cs) = Inr (item_shape f d (cs @ shooter_template a))"
  by (cases "shooterCheckbox a"; cases "d_ge (shooterMaxDraw a) 1"; cases "shooterAmmoCheckbox a";
      cases "shooterAmmoItem a = []")
    (simp_all add: shooter_block_def ammunition_block_def shooter_template_def Let_def block_simps)

lemma fertilizer_run:
  "''minecraft:fertilizer'' \<notin> set (obj_keys cs) \<Longrightarrow>
     fertilizer_block a (item_shape f d cs) = Inr (item_shape f d (cs @ fertilizer_template a))"
  by (cases "0 \<le> fertilizer a")
    (simp_all add: fertilizer_block_def fertilizer_template_def block_simps)

lemma ignores_permission_run:
  "''minecraft:ignores_permission'' \<notin> set (obj_keys cs) \<Longrightarrow>
     ignores_permission_block a (item_shape f d cs) = Inr (item_shape f d (cs @ ignores_permission_template a))"
  by (cases "ignPerms a")
    (simp_all add: ignores_permission_block_def ignores_permission_template_def block_simps)

lemma mining_speed_run:
  "''minecraft:mining_speed'' \<notin> set (obj_keys cs) \<Longrightarrow>
     mining_speed_block a (item_shape f d cs) = Inr (item_shape f d (cs @ mining_speed_template a))"
  by (cases "0 \<le> miningSpeed a")
    (simp_all add: mining_speed_block_def mining_speed_template_def block_simps)

lemma liquid_clipped_run:
  "''minecraft:liquid_clipped'' \<notin> set (obj_keys cs) \<Longrightarrow>
     liquid_clipped_block a (item_shape f d cs) = Inr (item_shape f d (cs @ liquid_clipped_template a))"
  by (cases "liquidClipped a")
    (simp_all add: liquid_clipped_block_def liquid_clipped_template_def block_simps)

lemma should_despawn_run:
  "''minecraft:should_despawn'' \<notin> set (obj_keys cs) \<Longrightarrow>
     should_despawn_block a (item_shape f d cs) = Inr (item_shape f d (cs @ should_despawn_template a))"
  by (cases "\<not> shouldDespawn a")
    (simp_all add: should_despawn_block_def should_despawn_template_def block_simps)

lemma mirrored_art_run:
  "''minecraft:mirrored_art'' \<notin> set (obj_keys cs) \<Longrightarrow>
     mirrored_art_block a (item_shape f d cs) = Inr (item_shape f d (cs @ mirrored_art_template a))"
  by (cases "mirroredArt a")
    (simp_all add: mirrored_art_block_def mirrored_art_template_def block_simps)

lemma projectile_run:
  "''minecraft:projectile'' \<notin> set (obj_keys cs) \<Longrightarrow>
     projectile_block a (item_shape f d cs) = Inr (item_shape f d (cs @ projectile_template a))"
  by (cases "projectileCheckbox a"; cases "projectileEntity a \<noteq> []"; cases "d_ge (projectilePower a) 0")
    (simp_all add: projectile_block_def projectile_template_def block_simps)

lemma dye_powder_run:
  "''minecraft:dye_powder'' \<notin> set (obj_keys cs) \<Longrightarrow>
     dye_powder_block a (item_shape f d cs) = Inr (item_shape f d (cs @ dye_powder_template a))"
  by (cases "dyeCheckbox a")
    (simp_all add: dye_powder_block_def dye_powder_template_def block_simps)

lemma throwable_run:
  "''minecraft:throwable'' \<notin> set (obj_keys cs) \<Longrightarrow>
     throwable_block a (item_shape f d cs) = Inr (item_shape f d (cs @ throwable_template a))"
  by (cases "throwableCheckbox a"; cases "d_ge (throwableDraw a) 0")
    (simp_all add: throwable_block_def throwable_template_def block_simps)

lemma knockback_run:
  "''minecraft:knockback_resistance'' \<notin> set (obj_keys cs) \<Longrightarrow>
     knockback_block a (item_shape f d cs) = Inr (item_shape f d (cs @ knockback_template a))"
  by (cases "d_ge (knockbackResis a) 0"; cases "d_le (knockbackResis a) 1")
    (simp_all add: knockback_block_def knockback_template_def block_simps)

lemma fuel_run:
  "''minecraft:fuel'' \<notin> set (obj_keys cs) \<Longrightarrow>
     fuel_block a (item_shape f d cs) = Inr (item_shape f d (cs @ fuel_template a))"
  by (cases "d_ge (fuel a) 0")
    (simp_all add: fuel_block_def fuel_template_def block_simps)

lemma record_run:
  "''minecraft:record'' \<notin> set (obj_keys cs) \<Longrightarrow>
     record_block a (item_shape f d cs) = Inr (item_shape f d (cs @ record_template a))"
  by (cases "recordCheckbox a"; cases "recordSound a \<noteq> []"; cases "0 \<le> recordDuration a"; cases "0 \<le> recordSignal a"; cases "recordSignal a \<le> 15")
    (simp_all add: record_block_def record_template_def block_simps)

lemmas component_runs = icon_run display_name_run max_stack_size_run foil_run use_animation_run use_duration_run
  stacked_by_data_run hand_equipped_run can_destroy_run creative_category_run food_run explodable_run
  allow_off_hand_run wearable_run armor_run cooldown_run damage_run block_placer_run
  entity_placer_run enchantable_run shooter_run fertilizer_run ignores_permission_run mining_speed_run
  liquid_clipped_run should_despawn_run mirrored_art_run projectile_run dye_powder_run throwable_run
  knockback_run fuel_run record_run

lemmas component_templates = icon_template_def display_name_template_def max_stack_size_template_def foil_template_def
  use_animation_template_def use_duration_template_def stacked_by_data_template_def hand_equipped_template_def
  can_destroy_template_def creative_category_template_def food_template_def explodable_template_def
  allow_off_hand_template_def wearable_template_def armor_template_def cooldown_template_def
  damage_template_def block_placer_template_def entity_placer_template_def enchantable_template_def
  shooter_template_def fertilizer_template_def ignores_permission_template_def mining_speed_template_def
  liquid_clipped_template_def should_despawn_template_def mirrored_art_template_def projectile_template_def
  dye_powder_template_def throwable_template_def knockback_template_def fuel_template_def
  record_template_def

text \<open>Each template holds at most its own key.\<close>

lemma template_keys:
  "k \<in> set (obj_keys (icon_template a)) \<longleftrightarrow> (icon a \<noteq> [] \<and> item_verifyIdentifier (i_identifier a)) \<and> k = ''minecraft:icon''"
  "k \<in> set (obj_keys (display_name_template a)) \<longleftrightarrow> (displayName a \<noteq> []) \<and> k = ''minecraft:display_name''"
  "k \<in> set (obj_keys (max_stack_size_template a)) \<longleftrightarrow> (1 \<le> maxStackSize a \<and> maxStackSize a \<le> 64) \<and> k = ''minecraft:max_stack_size''"
  "k \<in> set (obj_keys (foil_template a)) \<longleftrightarrow> (foil a) \<and> k = ''minecraft:foil''"
  "k \<in> set (obj_keys (use_animation_template a)) \<longleftrightarrow> (useAnimCheckbox a \<and> useAnim a \<noteq> ''none'') \<and> k = ''minecraft:use_animation''"
  "k \<in> set (obj_keys (use_duration_template a)) \<longleftrightarrow> (d_nonzero (useDuration a)) \<and> k = ''minecraft:use_duration''"
  "k \<in> set (obj_keys (stacked_by_data_template a)) \<longleftrightarrow> (stackedData a) \<and> k = ''minecraft:stacked_by_data''"
  "k \<in> set (obj_keys (hand_equipped_template a)) \<longleftrightarrow> (handEquipped a) \<and> k = ''minecraft:hand_equipped''"
  "k \<in> set (obj_keys (can_destroy_template a)) \<longleftrightarrow> (\<not> destroyInC a) \<and> k = ''minecraft:can_destroy_in_creative''"
  "k \<in> set (obj_keys (creative_category_template a)) \<longleftrightarrow> (ccategoryCheckbox a) \<and> k = ''minecraft:creative_category''"
  "k \<in> set (obj_keys (food_template a)) \<longleftrightarrow> (foodCheckbox a) \<and> k = ''minecraft:food''"
  "k \<in> set (obj_keys (explodable_template a)) \<longleftrightarrow> (\<not> isexplod a) \<and> k = ''minecraft:explodable''"
  "k \<in> set (obj_keys (allow_off_hand_template a)) \<longleftrightarrow> (\<not> allowOffHand a) \<and> k = ''minecraft:allow_off_hand''"
  "k \<in> set (obj_keys (wearable_template a)) \<longleftrightarrow> (wearableCheckbox a) \<and> k = ''minecraft:wearable''"
  "k \<in> set (obj_keys (armor_template a)) \<longleftrightarrow> (0 \<le> armorProtection a \<and> armorProtection a \<le> 20) \<and> k = ''minecraft:armor''"
  "k \<in> set (obj_keys (cooldown_template a)) \<longleftrightarrow> (cooldownCheckbox a) \<and> k = ''minecraft:cooldown''"
  "k \<in> set (obj_keys (damage_template a)) \<longleftrightarrow> (0 \<le> damage a) \<and> k = ''minecraft:damage''"
  "k \<in> set (obj_keys (block_placer_template a)) \<longleftrightarrow> (blockPlacerCheckbox a) \<and> k = ''minecraft:block_placer''"
  "k \<in> set (obj_keys (entity_placer_template a)) \<longleftrightarrow> (entityPlacerCheckbox a) \<and> k = ''minecraft:entity_placer''"
  "k \<in> set (obj_keys (enchantable_template a)) \<longleftrightarrow> (enchantableCheckbox a) \<and> k = ''minecraft:enchantable''"
  "k \<in> set (obj_keys (shooter_template a)) \<longleftrightarrow> (shooterCheckbox a) \<and> k = ''minecraft:shooter''"
  "k \<in> set (obj_keys (fertilizer_template a)) \<longleftrightarrow> (0 \<le> fertilizer a) \<and> k = ''minecraft:fertilizer''"
  "k \<in> set (obj_keys (ignores_permission_template a)) \<longleftrightarrow> (ignPerms a) \<and> k = ''minecraft:ignores_permission''"
  "k \<in> set (obj_keys (mining_speed_template a)) \<longleftrightarrow> (0 \<le> miningSpeed a) \<and> k = ''minecraft:mining_speed''"
  "k \<in> set (obj_keys (liquid_clipped_template a)) \<longleftrightarrow> (liquidClipped a) \<and> k = ''minecraft:liquid_clipped''"
  "k \<in> set (obj_keys (should_despawn_template a)) \<longleftrightarrow> (\<not> shouldDespawn a) \<and> k = ''minecraft:should_despawn''"
  "k \<in> set (obj_keys (mirrored_art_template a)) \<longleftrightarrow> (mirroredArt a) \<and> k = ''minecraft:mirrored_art''"
  "k \<in> set (obj_keys (projectile_template a)) \<longleftrightarrow> (projectileCheckbox a) \<and> k = ''minecraft:projectile''"
  "k \<in> set (obj_keys (dye_powder_template a)) \<longleftrightarrow> (dyeCheckbox a) \<and> k = ''minecraft:dye_powder''"
  "k \<in> set (obj_keys (throwable_template a)) \<longleftrightarrow> (throwableCheckbox a) \<and> k = ''minecraft:throwable''"
  "k \<in> set (obj_keys (knockback_template a)) \<longleftrightarrow> (d_ge (knockbackResis a) 0 \<and> d_le (knockbackResis a) 1) \<and> k = ''minecraft:knockback_resistance''"
  "k \<in> set (obj_keys (fuel_template a)) \<longleftrightarrow> (d_ge (fuel a) 0) \<and> k = ''minecraft:fuel''"
  "k \<in> set (obj_keys (record_template a)) \<longleftrightarrow> (recordCheckbox a) \<and> k = ''minecraft:record''"
  by (simp_all add: component_templates)

lemma template_distinct:
  "distinct (obj_keys (components_template a))"
  by (simp add: components_template_def obj_keys_simps)
    (simp add: component_templates)

definition description_template :: "item_args \<Rightarrow> json_value" where
  "description_template a = jv_object (
     optional (item_verifyIdentifier (i_identifier a))
       (''identifier'', jv_string (item_to_lower (i_identifier a))) @
     [(''category'', jv_string (category a))] @
     optional (isExp a) (''is_experimental'', jv_bool True))"

definition item_template :: "item_args \<Rightarrow> json_value" where
  "item_template a = item_shape (jv_string (formatVersion a)) (description_template a) (components_template a)"

lemma item_head_run:
  "seqR (item_head a) (jv_object []) = Inr (item_shape (jv_string (formatVersion a)) (description_template a) [])"
  by (cases "item_verifyIdentifier (i_identifier a)"; cases "isExp a")
    (simp_all add: item_head_def description_of_def description_template_def item_shape_def assign_steps)

lemma item_components_run:
  "seqR (item_components a) (item_shape f d []) = Inr (item_shape f d (components_template a))"
  by (simp add: item_components_def component_runs obj_keys_simps template_keys components_template_def)

lemma item_doc_run: "item_doc a = Inr (item_template a)"
  unfolding item_doc_def
  by (subst seqR_eqI [OF item_head_run]) (simp add: item_components_run item_template_def)

definition atlas_template :: "item_args \<Rightarrow> json_value" where
  "atlas_template a = jv_object (if enable_itematlas a \<and> icon a \<noteq> [] then
     [(''resource_pack_name'', jv_string ''vanilla''), (''texture_name'', jv_string ''atlas.items''),
      (''texture_data'', jv_object (optional (item_verifyIdentifier (i_identifier a))
        (get_iname (i_identifier a) @ ''.texture'', jv_object [(''textures'', jv_string (icon a))])))]
     else [])"

lemma item_atlas_run: "item_atlas a = Inr (atlas_template a)"
  by (cases "enable_itematlas a"; cases "icon a = []"; cases "item_verifyIdentifier (i_identifier a)")
    (simp_all add: item_atlas_def atlas_template_def Let_def assign_steps)

definition item_behaviour_manifest :: "(nat \<Rightarrow> nat \<Rightarrow> nat) \<Rightarrow> json_value" where
  "item_behaviour_manifest u = gm_template ''Item behaviorpack''
     ''Behavior pack required for the item to work, generated not using https://tools.pixelpoly.co/item-generator''
     ''data'' (uuid_value u 0) (uuid_value u 2) (gm_link_template True (uuid_value u 1))"

definition item_resource_manifest :: "(nat \<Rightarrow> nat \<Rightarrow> nat) \<Rightarrow> json_value" where
  "item_resource_manifest u = gm_template ''Item resourcepack''
     ''Resource pack required for the item to work, generated not using https://tools.pixelpoly.co/item-generator''
     ''resources'' (uuid_value u 1) (uuid_value u 3) (gm_link_template True (uuid_value u 0))"

lemma item_genManifest_run: "item_genManifest u = Inr (jv_object
    [(''rp'', item_resource_manifest u), (''bp'', item_behaviour_manifest u)])"
  unfolding item_genManifest_def gm_open_run
  by (simp add: gm_link_run assign_steps item_resource_manifest_def item_behaviour_manifest_def)

lemma sound_gm_template:
  "sound hu \<Longrightarrow> sound mu \<Longrightarrow> sound w \<Longrightarrow> sound (gm_template n d t hu mu (gm_link_template b w))"
  by (simp add: gm_template_def gm_link_template_def obj_keys_simps)

lemma sound_components:
  assumes "list_all sound (entityPlacerUseon a)" "list_all sound (entityPlacerDison a)"
  shows "list_all (\<lambda>kv. sound (snd kv)) (components_template a)"
  using assms by (simp add: components_template_def component_templates obj_keys_simps)

lemma sound_item_template:
  assumes "list_all sound (entityPlacerUseon a)" "list_all sound (entityPlacerDison a)"
  shows "sound (item_template a)"
  using sound_components [OF assms] template_distinct [of a]
  by (simp add: item_template_def item_shape_def description_template_def obj_keys_simps)

lemma sound_atlas_template: "sound (atlas_template a)"
  by (simp add: atlas_template_def obj_keys_simps)

section \<open>The tree of the pack\<close>

definition item_tree :: "item_args \<Rightarrow> (nat \<Rightarrow> nat \<Rightarrow> nat) \<Rightarrow> pack_file list" where
  "item_tree a u =
     [file_dir ''resource''
        (file_text ''manifest.json'' (repr (item_resource_manifest u)) #
         (if filename (itemIcon a) \<noteq> [] then
            [file_dir ''textures'' [file_text ''item_texture.json'' (repr (atlas_template a))],
             set_filename (truncate_slashes (item_to_lower (icon a) @ ''.png'')) (itemIcon a)]
          else [])),
      file_dir ''behavior''
        [file_text ''manifest.json'' (repr (item_behaviour_manifest u)),
         file_dir ''items''
           [file_text (get_iname (i_identifier a) @ ''.item.json'') (repr (item_template a))]]]"

lemma writeItem_run:
  assumes "list_all sound (entityPlacerUseon a)" "list_all sound (entityPlacerDison a)"
  shows "writeItem a u = Inr (file_dir (item_filename a) (item_tree a u))"
proof -
  have "sound (item_resource_manifest u)" "sound (item_behaviour_manifest u)"
    by (simp_all add: item_resource_manifest_def item_behaviour_manifest_def sound_gm_template)
  then show ?thesis
    using sound_item_template [OF assms] sound_atlas_template [of a]
    by (simp add: writeItem_def item_pack_def item_doc_run item_atlas_run item_genManifest_run member_def
        sound_get_repr item_tree_def Let_def)
qed

section \<open>Properties\<close>

definition sample_item :: item_args where
  "sample_item = \<lparr>
    formatVersion = ''1.16.100'', i_identifier = ''my:sword'', category = [], isExp = False,
    icon = [], displayName = ''Sword'', maxStackSize = 1, useAnimCheckbox = False, useAnim = [],
    foil = False, useDuration = Double False 0 0, stackedData = False, handEquipped = False,
    destroyInC = False, ccategoryCheckbox = False, ccategory = [], foodCheckbox = False,
    foodNutr = Double False 0 0, foodSatu = [], foodCanA = False, foodConvert = [],
    isexplod = False, allowOffHand = False, wearableCheckbox = False, wearableSlot = [],
    armorProtection = 0, cooldownCheckbox = False, cooldownCategory = [],
    cooldownDuration = Double False 0 0, damage = 0, blockPlacerCheckbox = False,
    blockPlacerBlock = [], blockPlacerDes = False, entityPlacerCheckbox = False,
    entityPlacerEntity = [], entityPlacerUseon = [jv_string ''stone''], entityPlacerDison = [],
    enchantableCheckbox = False, enchantableSlot = [], enchantableValue = 0,
    shooterCheckbox = False, shooterMaxDraw = Double False 0 0, shooterCharge = False,
    shooterScale = False, shooterAmmoCheckbox = False, shooterAmmoInven = False,
    shooterAmmoItem = [], shooterAmmoHand = False, shooterAmmoCreative = False, fertilizer = 0,
    ignPerms = False, miningSpeed = 0, liquidClipped = False, shouldDespawn = False,
    mirroredArt = False, projectileCheckbox = False, projectileEntity = [],
    projectilePower = Double False 0 0, dyeCheckbox = False, dyePowder = [],
    throwableCheckbox = False, throwableSwing = False, throwableDraw = Double False 0 0,
    throwablePower = False, knockbackResis = Double False 0 0, fuel = Double False 0 0,
    recordCheckbox = False, recordSound = [], recordDuration = 0, recordSignal = 0,
    itemIcon = file_empty, enable_itematlas = False\<rparr>"

text \<open>C21: \<open>writeItem\<close> succeeds on every combination of its seventy-two parameters and returns
  exactly the pack of the template: the item document holds, in the order of the source, one
  component for each condition that holds and nothing for the others; an icon brings the atlas
  and the texture along.\<close>

theorem writeItem_functional:
  assumes "list_all sound (entityPlacerUseon a)" "list_all sound (entityPlacerDison a)"
  shows "item_doc a = Inr (item_template a) \<and>
    writeItem a u = Inr (file_dir (item_filename a) (item_tree a u))"
  using writeItem_run [OF assms] item_doc_run [of a] by simp

theorem writeItem_functional_witness:
  "item_doc sample_item = Inr (item_template sample_item) \<and>
     writeItem sample_item (\<lambda>_ _. 0)
       = Inr (file_dir (item_filename sample_item) (item_tree sample_item (\<lambda>_ _. 0)))"
  by (rule writeItem_functional) (simp_all add: sample_item_def)

text \<open>The bounds of the components that have one.\<close>

definition component_in_range :: "string \<times> json_value \<Rightarrow> bool" where
  "component_in_range kv = (case kv of (k, v) \<Rightarrow>
     if k = ''minecraft:max_stack_size'' then \<exists>n. v = jv_llint n \<and> 1 \<le> n \<and> n \<le> 64
     else if k = ''minecraft:armor'' then
       \<exists>n. v = jv_object [(''protection'', jv_llint n)] \<and> 0 \<le> n \<and> n \<le> 20
     else if k = ''minecraft:damage'' \<or> k = ''minecraft:mining_speed'' then \<exists>n. v = jv_llint n \<and> 0 \<le> n
     else if k = ''minecraft:fertilizer'' then \<exists>n. v = jv_object [(''duration'', jv_llint n)] \<and> 0 \<le> n
     else if k = ''minecraft:record'' then list_all (\<lambda>(k', w).
       if k' = ''comparator_signal'' then \<exists>n. w = jv_llint n \<and> 0 \<le> n \<and> n \<le> 15 else True) (val_object v)
     else True)"

lemma components_in_range: "list_all component_in_range (components_template a)"
  unfolding component_in_range_def
  by (simp add: components_template_def component_templates, auto simp: jv_llint_def jv_object_def)

lemma item_doc_components:
  "\<exists>doc. item_doc a = Inr doc \<and>
     val_object (member ''components'' (member ''minecraft:item'' doc)) = components_template a"
  by (simp add: item_doc_run item_template_def item_shape_def member_def jv_object_def)

text \<open>C32: The item document that the generator builds, statement by statement, for any arguments: it
  is built without an error, no two of its components share a name, and every bounded component that
  is present is in its range: stack sizes from 1 to 64, armour from 0 to 20, no negative damage,
  mining speed or fertilizer, comparator signals from 0 to 15.\<close>

theorem item_components_in_range:
  "\<exists>doc components. item_doc a = Inr doc \<and>
   components = val_object (member ''components'' (member ''minecraft:item'' doc)) \<and>
   distinct (obj_keys components) \<and> list_all component_in_range components"
proof -
  obtain doc where doc: "item_doc a = Inr doc"
    "val_object (member ''components'' (member ''minecraft:item'' doc)) = components_template a"
    using item_doc_components by blast
  then show ?thesis
    using template_distinct [of a] components_in_range [of a]
    by (intro exI [of _ doc] exI [of _ "components_template a"]) simp
qed

text \<open>The case conversion of the item generator does not lower capital letters, it replaces
  each by a character that is no letter at all, while the one of the entity generator maps it to
  its small letter.\<close>

theorem item_to_lower_leaves_alphabet:
  assumes "65 \<le> schar c" "schar c \<le> 90"
  shows "\<exists>d e. to_lower [c] = [d] \<and> schar d = schar c + 32 \<and>
    item_to_lower [c] = [e] \<and> schar e = schar c - 32 \<and> schar e < 65"
proof -
  have "schar (to_char i) = i" if "0 \<le> i" "i < 128" for i
    using that by (simp add: schar_def uchar_to_char)
  then show ?thesis using assms by (simp add: to_lower_def item_to_lower_def)
qed

theorem item_to_lower_leaves_alphabet_witness:
  "\<exists>d e. to_lower ''A'' = [d] \<and> schar d = schar CHR ''A'' + 32 \<and>
    item_to_lower ''A'' = [e] \<and> schar e = schar CHR ''A'' - 32 \<and> schar e < 65"
  by (rule item_to_lower_leaves_alphabet) (simp_all add: schar_def uchar_def)

end
