(* ===== verification/Interaction.thy ===== *)
theory Interaction
  imports Http Obfuscator Entity Item
begin

text \<open>
  \<open>restapi::respond_interaction\<close> of pilepoxyl/httpapi.cpp, one group of definitions per command.
  A command either answers by itself (it then returns early and yields \<open>None\<close>) or leaves the
  document that the end of the function posts.  Reads of the payload go through
  \<open>operator[]\<close> of a local copy, so they are reads with a default; the one insertion that is
  visible, the step file member of the item steps, is kept.  The two maps of the class,
  \<open>notifmsg\<close> and the parameters \<open>witdt\<close>, are read with the default their
  \<open>operator[]\<close> would insert.
\<close>

section \<open>The surroundings\<close>

record restapi =
  bot_token :: string
  notifmsg :: "string \<Rightarrow> string option"

text \<open>Network, disk, clock and the random picks of the pack and of its archive name.\<close>

record environment =
  net :: network
  files :: disk
  now :: tm_zip
  picks :: "nat \<Rightarrow> nat \<Rightarrow> nat"
  zip_picks :: "nat \<Rightarrow> nat"

definition notif :: "restapi \<Rightarrow> string \<Rightarrow> string" where
  "notif api k = map_get [] k (notifmsg api)"

definition attachment_of :: "json_value \<Rightarrow> string \<Rightarrow> json_value" where
  "attachment_of payload value_id =
     member value_id (member ''attachments'' (member ''resolved'' (member ''data'' payload)))"

definition text_of :: "string \<Rightarrow> json_value \<Rightarrow> string" where
  "text_of k v = val_string (member k v)"

text \<open>An \<open>int\<close> that is passed as a \<open>bool\<close>.\<close>

definition as_bool :: "json_value \<Rightarrow> bool result" where
  "as_bool v = bindR (read_field (val_int v)) (\<lambda>i. Inr (i \<noteq> 0))"

text \<open>Setting the text of the answer, and marking it as visible to its reader only.\<close>

definition set_content :: "string \<Rightarrow> json_value \<Rightarrow> json_value option io" where
  "set_content content data_json =
     bindIO (liftR (assign [Key ''data'', Key ''content''] (jv_string content) data_json))
       (\<lambda>d. returnIO (Some d))"

definition set_error :: "string \<Rightarrow> json_value \<Rightarrow> json_value option io" where
  "set_error content data_json =
     bindIO (liftR (seqR [assign [Key ''data'', Key ''content''] (jv_string content),
                          assign [Key ''data'', Key ''flags''] (jv_int 64)] data_json))
       (\<lambda>d. returnIO (Some d))"

text \<open>Packing a tree, sending the archive under a name and deleting it.\<close>

definition send_pack :: "environment \<Rightarrow> restapi \<Rightarrow> string \<Rightarrow> string \<Rightarrow> string \<Rightarrow> pack_file \<Rightarrow> json_value option io" where
  "send_pack env api link shown_name msgcntn tree =
     (case make_zip (now env) (zip_picks env) ''.zip'' tree of (archive, calls, _) \<Rightarrow>
        bindIO (emit (WriteZip archive calls)) (\<lambda>_.
        bindIO (upload_file_df (bot_token api) link shown_name archive msgcntn) (\<lambda>_.
        bindIO (emit (RemoveFile (c_str archive))) (\<lambda>_. returnIO None))))"

section \<open>obfuscate\<close>

definition minify_option :: "json_value \<Rightarrow> bool result" where
  "minify_option payload =
     (let options = val_list (member ''options'' (member ''data'' payload))
      in if 2 \<le> length options then as_bool (member ''value'' (options ! 1)) else Inr False)"

definition obfuscate_command :: "environment \<Rightarrow> restapi \<Rightarrow> string \<Rightarrow> json_value \<Rightarrow> json_value \<Rightarrow> json_value option io" where
  "obfuscate_command env api link payload data_json =
     bindIO (liftR (peek [Key ''data'', Key ''options'', Idx 0, Key ''value''] payload)) (\<lambda>v.
       let attachment = attachment_of payload (val_string v);
           ctbd = identify_filetype (text_of ''content_type'' attachment)
       in if fst ctbd \<noteq> ''application/json'' then set_error (notif api ''obfuscator_invfex'') data_json
          else
            bindIO (liftR (minify_option payload)) (\<lambda>minify'.
            let cset_warn = (if snd ctbd \<noteq> ''utf-8'' then notif api ''obfuscator_noutf8''
                             else notif api ''splash'')
            in bindIO (fetch_url (net env) (text_of ''url'' attachment)) (\<lambda>json_file.
               bindIO (liftR (obfuscateMain json_file minify')) (\<lambda>result.
               bindIO (upload_data_df (bot_token api) link (text_of ''filename'' attachment) result cset_warn)
                 (\<lambda>_. returnIO None)))))"

section \<open>manifest\<close>

type_synonym parameters = "string \<Rightarrow> json_value option"

definition param :: "parameters \<Rightarrow> string \<Rightarrow> json_value" where
  "param witdt k = map_get jv_default k witdt"

definition param_text :: "parameters \<Rightarrow> string \<Rightarrow> string" where
  "param_text witdt k = val_string (param witdt k)"

definition param_bool :: "parameters \<Rightarrow> string \<Rightarrow> bool result" where
  "param_bool witdt k = as_bool (param witdt k)"

record manifest_state =
  witdt :: parameters
  folder_name :: string
  fetch_file :: string
  msgcntn :: string

text \<open>The icon attachment: a PNG is remembered, anything else is remarked on.\<close>

definition manifest_icon :: "restapi \<Rightarrow> json_value \<Rightarrow> json_value \<Rightarrow> manifest_state \<Rightarrow> manifest_state" where
  "manifest_icon api payload valu st =
     (let icon_atch = attachment_of payload (val_string valu)
      in if text_of ''content_type'' icon_atch = ''image/png''
         then st\<lparr>fetch_file := text_of ''url'' icon_atch\<rparr>
         else st\<lparr>msgcntn := notif api ''manifest_ivpico'' @ [CHR 0x0A] @ msgcntn st\<rparr>)"

definition independent_option :: "restapi \<Rightarrow> json_value \<Rightarrow> json_value \<Rightarrow> manifest_state \<Rightarrow> manifest_state" where
  "independent_option api payload option st0 =
     (let key = text_of ''name'' option; valu = member ''value'' option;
          st = (if key = ''pack_type'' \<and> val_string valu = ''data'' then st0\<lparr>folder_name := ''bp''\<rparr> else st0)
      in if key = ''pack_icon'' then manifest_icon api payload valu st
         else st\<lparr>witdt := map_put key valu (witdt st)\<rparr>)"

definition dependent_option :: "restapi \<Rightarrow> json_value \<Rightarrow> json_value \<Rightarrow> manifest_state \<Rightarrow> manifest_state" where
  "dependent_option api payload option st =
     (let key = text_of ''name'' option; valu = member ''value'' option
      in if key = ''pack_icon'' then manifest_icon api payload valu st
         else st\<lparr>witdt := map_put key valu (witdt st)\<rparr>)"

definition independent_defaults :: parameters where
  "independent_defaults = map_of
     [(''pack_type'', jv_cstring ''data''), (''pack_name'', jv_cstring ''manifest''),
      (''pack_description'', jv_cstring []), (''pack_version'', jv_cstring ''1.17.0''),
      (''pack_use_metadata'', jv_bool False), (''pack_authors'', jv_cstring []),
      (''pack_author_url'', jv_cstring []), (''pack_use_gametest'', jv_bool False),
      (''pack_gametest_entry_file'', jv_cstring ''modules/Main.js'')]"

definition dependent_defaults :: parameters where
  "dependent_defaults = map_of
     [(''bp_name'', jv_cstring ''manifest''), (''bp_description'', jv_cstring []),
      (''bp_version'', jv_cstring ''1.17.0''), (''bp_use_metadata'', jv_bool False),
      (''bp_authors'', jv_cstring []), (''bp_author_url'', jv_cstring []),
      (''bp_use_gametest'', jv_bool False), (''bp_gametest_entry_file'', jv_cstring ''modules/Main.js''),
      (''bp_use_scripts'', jv_bool False), (''rp_name'', jv_cstring ''manifest''),
      (''rp_description'', jv_cstring []), (''rp_version'', jv_cstring ''1.17.0''),
      (''rp_use_metadata'', jv_bool False), (''rp_authors'', jv_cstring []),
      (''rp_author_url'', jv_cstring []), (''rp_use_ui'', jv_bool False)]"

text \<open>The arguments of the generators.\<close>

definition independent_arguments :: "parameters \<Rightarrow> nondependent result" where
  "independent_arguments w =
     bindR (split_version (param_text w ''pack_version'')) (\<lambda>version.
     bindR (param_bool w ''pack_use_metadata'') (\<lambda>metadata.
     bindR (param_bool w ''pack_use_gametest'') (\<lambda>gametest.
       Inr \<lparr>pack_type = param_text w ''pack_type'', pack_name = param_text w ''pack_name'',
         pack_description = param_text w ''pack_description'', pack_version = version,
         pack_use_metadata = metadata,
         pack_authors = split_authors (param_text w ''pack_authors'') CHR '','',
         pack_author_url = param_text w ''pack_author_url'', pack_use_gametest = gametest,
         pack_gametest_entry_file = param_text w ''pack_gametest_entry_file''\<rparr>)))"

definition dependent_arguments :: "parameters \<Rightarrow> dependent result" where
  "dependent_arguments w =
     bindR (split_version (param_text w ''bp_version'')) (\<lambda>bp_ver.
     bindR (param_bool w ''bp_use_scripts'') (\<lambda>scripts.
     bindR (param_bool w ''bp_use_metadata'') (\<lambda>bp_meta.
     bindR (split_version (param_text w ''rp_version'')) (\<lambda>rp_ver.
     bindR (param_bool w ''rp_use_metadata'') (\<lambda>rp_meta.
     bindR (param_bool w ''rp_use_ui'') (\<lambda>ui.
     bindR (param_bool w ''bp_use_gametest'') (\<lambda>gametest.
       Inr \<lparr>bp_name = param_text w ''bp_name'', bp_description = param_text w ''bp_description'',
         bp_version = bp_ver, bp_use_scripts = scripts, bp_use_metadata = bp_meta,
         bp_authors = split_authors (param_text w ''bp_authors'') CHR '','',
         bp_author_url = param_text w ''bp_author_url'', rp_name = param_text w ''rp_name'',
         rp_description = param_text w ''rp_description'', rp_version = rp_ver,
         rp_use_metadata = rp_meta,
         rp_authors = split_authors (param_text w ''rp_authors'') CHR '','',
         rp_author_url = param_text w ''rp_author_url'', rp_use_ui = ui, bp_use_gametest = gametest,
         bp_gametest_entry_file = param_text w ''bp_gametest_entry_file''\<rparr>)))))))"

text \<open>The icon of a pack, fetched when one was given.\<close>

definition pack_icon :: "environment \<Rightarrow> string \<Rightarrow> pack_file list io" where
  "pack_icon env url =
     (if url \<noteq> [] then bindIO (raw_fetch (net env) url) (\<lambda>bytes.
        returnIO [File 0 bytes [] [] ''pack_icon.png''])
      else returnIO [])"

definition independent_command :: "environment \<Rightarrow> restapi \<Rightarrow> string \<Rightarrow> json_value \<Rightarrow> json_value \<Rightarrow> json_value option io" where
  "independent_command env api link payload mpload =
     (let st = fold (independent_option api payload) (val_list (member ''options'' mpload))
            \<lparr>witdt = independent_defaults, folder_name = ''rp'', fetch_file = [],
             msgcntn = notif api ''manifest_splash''\<rparr>
      in bindIO (liftR (bindR (independent_arguments (witdt st)) (\<lambda>a. generate_nondependent a (picks env))))
           (\<lambda>result.
         bindIO (pack_icon env (fetch_file st)) (\<lambda>icons.
           send_pack env api link (param_text (witdt st) ''pack_name'' @ ''.mcpack'') (msgcntn st)
             (file_dir [] [file_dir (folder_name st) (file_text ''manifest.json'' result # icons)]))))"

definition dependent_command :: "environment \<Rightarrow> restapi \<Rightarrow> string \<Rightarrow> json_value \<Rightarrow> json_value \<Rightarrow> json_value option io" where
  "dependent_command env api link payload mpload =
     (let st = fold (dependent_option api payload) (val_list (member ''options'' mpload))
            \<lparr>witdt = dependent_defaults, folder_name = [], fetch_file = [],
             msgcntn = notif api ''manifest_splash''\<rparr>
      in bindIO (liftR (bindR (dependent_arguments (witdt st)) (\<lambda>a. generate_dependent a (picks env))))
           (\<lambda>result.
         bindIO (liftR (vec_at result 0)) (\<lambda>bp. bindIO (liftR (vec_at result 1)) (\<lambda>rp.
         bindIO (pack_icon env (fetch_file st)) (\<lambda>icons.
           send_pack env api link (param_text (witdt st) ''rp_name'' @ ''.mcpack'') (msgcntn st)
             (file_dir [] [file_dir ''rp'' (file_text ''manifest.json'' rp # icons),
                           file_dir ''bp'' (file_text ''manifest.json'' bp # icons)]))))))"

text \<open>An unknown subcommand sets the text of the answer and then returns without sending it.\<close>

definition manifest_command :: "environment \<Rightarrow> restapi \<Rightarrow> string \<Rightarrow> json_value \<Rightarrow> json_value \<Rightarrow> json_value option io" where
  "manifest_command env api link payload data_json =
     bindIO (liftR (peek [Key ''data'', Key ''options'', Idx 0] payload)) (\<lambda>mpload.
       if text_of ''name'' mpload = ''independent'' then independent_command env api link payload mpload
       else if text_of ''name'' mpload = ''dependent'' then dependent_command env api link payload mpload
       else bindIO (set_content (notif api ''manifest_nonext'') data_json) (\<lambda>_. returnIO None))"

section \<open>item\<close>

text \<open>
  The three steps.  The first stores the reduced options in a file; the second and the third
  fetch the file of the step before and put its members in front of their own.
\<close>

definition item_start :: "restapi \<Rightarrow> string \<Rightarrow> json_value \<Rightarrow> json_value option io" where
  "item_start api link mpload =
     bindIO (liftR (get_repr (reduce_options (member ''options'' mpload)))) (\<lambda>step1_repr.
     bindIO (upload_data_df (bot_token api) link ''step1.json'' step1_repr (notif api ''item_step1_snotif''))
       (\<lambda>_. returnIO None))"

text \<open>
  The read of the step file's identifier creates the member when it is missing.
\<close>

definition step_file :: "string \<Rightarrow> json_value \<Rightarrow> string \<times> json_value" where
  "step_file k step_json =
     (case obj_index jv_default k (val_object step_json) of
        (v, o') \<Rightarrow> (val_string v, set_val_object o' step_json))"

definition merge_steps :: "json_value \<Rightarrow> json_value \<Rightarrow> json_value" where
  "merge_steps old new = set_val_object (val_object old @ val_object new) new"

definition item_checkpoint :: "environment \<Rightarrow> restapi \<Rightarrow> string \<Rightarrow> json_value \<Rightarrow> json_value \<Rightarrow> json_value \<Rightarrow> json_value option io" where
  "item_checkpoint env api link payload mpload data_json =
     (case step_file ''step1_file'' (reduce_options (member ''options'' mpload)) of (value_id, step2_json) \<Rightarrow>
        let step1_atch = attachment_of payload value_id;
            ctbd = identify_filetype (text_of ''content_type'' step1_atch)
        in if fst ctbd = ''application/json'' then
             bindIO (fetch_url (net env) (text_of ''url'' step1_atch)) (\<lambda>step1_data.
             bindIO (liftR (parse step1_data)) (\<lambda>step1_json.
             bindIO (liftR (get_repr (merge_steps step1_json step2_json))) (\<lambda>step2_repr.
             bindIO (upload_data_df (bot_token api) link ''step2.json'' step2_repr
               (notif api ''item_step2_snotif'')) (\<lambda>_. returnIO None))))
           else set_error (notif api ''item_stepg_ivlfmt'') data_json)"

text \<open>The defaults and the arguments of the item generator.\<close>

definition item_defaults :: parameters where
  "item_defaults = map_of
     [(''format_version'', jv_cstring ''1.16.100''),
      (''identifier'', jv_cstring ''custom:item''), (''category'', jv_cstring ''Items''),
      (''is_experimental'', jv_bool False),
      (''texture_path'', jv_cstring ''textures/items/my_item''),
      (''generate_item_atlas'', jv_bool False), (''display_name'', jv_cstring ''Nice item''),
      (''max_stack_size'', jv_llint 0), (''is_enchanted'', jv_bool False),
      (''use_animation'', jv_cstring ''none''), (''use_duration'', jv_double (double_of_int 32)),
      (''stacked_by_data'', jv_bool False), (''hand_equipped'', jv_bool False),
      (''can_destroy_in_creative'', jv_bool True), (''creative_category'', jv_cstring ''none''),
      (''is_food'', jv_bool False), (''food_nutrition'', jv_double (double_of_int (- 1))),
      (''food_saturation_modifier'', jv_cstring ''low''),
      (''food_can_always_eat'', jv_bool False), (''food_using_converts_to'', jv_cstring []),
      (''is_explodable'', jv_bool True), (''allow_in_off_hand'', jv_bool False),
      (''wearable_slot'', jv_cstring ''none''), (''armor_protection'', jv_llint (- 1)),
      (''cooldown'', jv_bool False), (''cooldown_category'', jv_cstring []),
      (''cooldown_duration'', jv_double (double_of_int (- 1))), (''damage'', jv_llint (- 1)),
      (''place_block'', jv_bool False), (''block_to_place'', jv_cstring []),
      (''use_block_description'', jv_bool False), (''place_entity'', jv_bool False),
      (''entity_to_place'', jv_cstring []), (''entity_use_on'', jv_cstring []),
      (''entity_dispense_on'', jv_cstring []), (''enchantable'', jv_bool False),
      (''enchantable_slot'', jv_cstring ''none''), (''enchantable_value'', jv_llint (- 1)),
      (''can_shoot'', jv_bool False),
      (''shooter_max_draw_duration'', jv_double (double_of_int 0)),
      (''shooter_charge_on_draw'', jv_bool False),
      (''shooter_scale_power_on_duration'', jv_bool False),
      (''shooter_use_ammo'', jv_bool False),
      (''shooter_ammo_search_in_inventory'', jv_bool False),
      (''shooter_ammo_item_to_use'', jv_cstring []),
      (''shooter_ammo_use_offhand'', jv_bool False),
      (''shooter_ammo_use_in_creative'', jv_bool False),
      (''fertilizer_duration'', jv_llint (- 1)), (''ignore_permission'', jv_bool False),
      (''mining_speed'', jv_llint (- 1)), (''liquid_clipped'', jv_bool False),
      (''should_despawn'', jv_bool True), (''mirrored_art'', jv_bool False),
      (''projectile'', jv_bool False), (''projectile_entity'', jv_bool False),
      (''projectile_min_crit_power'', jv_double (double_of_int (- 1))),
      (''dye_powder'', jv_cstring []), (''throwable'', jv_bool False),
      (''throwable_do_swing_animation'', jv_bool False),
      (''throwable_max_draw_duration'', jv_double (double_of_int (- 1))),
      (''throwable_scale_pow_by_draw_dura'', jv_bool False),
      (''knockback_resistance'', jv_double (double_of_int (- 1))),
      (''fuel_duration'', jv_double (double_of_int (- 1))), (''record'', jv_bool False),
      (''record_sound_event'', jv_cstring []), (''record_duration'', jv_llint (- 1)),
      (''record_comparator_signal'', jv_bool False), (''item_icon'', jv_cstring [])]"

text \<open>The members of the merged document over the defaults.\<close>

definition item_parameters :: "json_value \<Rightarrow> parameters" where
  "item_parameters step3_json =
     fold (\<lambda>(key, valu). map_put key valu) (val_object step3_json) item_defaults"

definition item_arguments :: "parameters \<Rightarrow> pack_file \<Rightarrow> item_args result" where
  "item_arguments w ab =
     bindR (param_bool w ''is_experimental'') (\<lambda>v_isExp.
     bindR (lick (param w ''max_stack_size'')) (\<lambda>v_maxStackSize.
     bindR (param_bool w ''is_enchanted'') (\<lambda>v_foil.
     bindR (ding (param w ''use_duration'')) (\<lambda>v_useDuration.
     bindR (param_bool w ''stacked_by_data'') (\<lambda>v_stackedData.
     bindR (param_bool w ''hand_equipped'') (\<lambda>v_handEquipped.
     bindR (param_bool w ''can_destroy_in_creative'') (\<lambda>v_destroyInC.
     bindR (param_bool w ''is_food'') (\<lambda>v_foodCheckbox.
     bindR (ding (param w ''food_nutrition'')) (\<lambda>v_foodNutr.
     bindR (param_bool w ''food_can_always_eat'') (\<lambda>v_foodCanA.
     bindR (param_bool w ''is_explodable'') (\<lambda>v_isexplod.
     bindR (param_bool w ''allow_in_off_hand'') (\<lambda>v_allowOffHand.
     bindR (lick (param w ''armor_protection'')) (\<lambda>v_armorProtection.
     bindR (param_bool w ''cooldown'') (\<lambda>v_cooldownCheckbox.
     bindR (ding (param w ''cooldown_duration'')) (\<lambda>v_cooldownDuration.
     bindR (lick (param w ''damage'')) (\<lambda>v_damage.
     bindR (param_bool w ''place_block'') (\<lambda>v_blockPlacerCheckbox.
     bindR (param_bool w ''use_block_description'') (\<lambda>v_blockPlacerDes.
     bindR (param_bool w ''place_entity'') (\<lambda>v_entityPlacerCheckbox.
     bindR (param_bool w ''enchantable'') (\<lambda>v_enchantableCheckbox.
     bindR (lick (param w ''enchantable_value'')) (\<lambda>v_enchantableValue.
     bindR (param_bool w ''can_shoot'') (\<lambda>v_shooterCheckbox.
     bindR (ding (param w ''shooter_max_draw_duration'')) (\<lambda>v_shooterMaxDraw.
     bindR (param_bool w ''shooter_charge_on_draw'') (\<lambda>v_shooterCharge.
     bindR (param_bool w ''shooter_scale_power_on_duration'') (\<lambda>v_shooterScale.
     bindR (param_bool w ''shooter_use_ammo'') (\<lambda>v_shooterAmmoCheckbox.
     bindR (param_bool w ''shooter_ammo_search_in_inventory'') (\<lambda>v_shooterAmmoInven.
     bindR (param_bool w ''shooter_ammo_use_offhand'') (\<lambda>v_shooterAmmoHand.
     bindR (param_bool w ''shooter_ammo_use_in_creative'') (\<lambda>v_shooterAmmoCreative.
     bindR (lick (param w ''fertilizer_duration'')) (\<lambda>v_fertilizer.
     bindR (param_bool w ''ignore_permission'') (\<lambda>v_ignPerms.
     bindR (lick (param w ''mining_speed'')) (\<lambda>v_miningSpeed.
     bindR (param_bool w ''liquid_clipped'') (\<lambda>v_liquidClipped.
     bindR (param_bool w ''should_despawn'') (\<lambda>v_shouldDespawn.
     bindR (param_bool w ''mirrored_art'') (\<lambda>v_mirroredArt.
     bindR (param_bool w ''projectile'') (\<lambda>v_projectileCheckbox.
     bindR (ding (param w ''projectile_min_crit_power'')) (\<lambda>v_projectilePower.
     bindR (param_bool w ''throwable'') (\<lambda>v_throwableCheckbox.
     bindR (param_bool w ''throwable_do_swing_animation'') (\<lambda>v_throwableSwing.
     bindR (ding (param w ''throwable_max_draw_duration'')) (\<lambda>v_throwableDraw.
     bindR (param_bool w ''throwable_scale_pow_by_draw_dura'') (\<lambda>v_throwablePower.
     bindR (ding (param w ''knockback_resistance'')) (\<lambda>v_knockbackResis.
     bindR (ding (param w ''fuel_duration'')) (\<lambda>v_fuel.
     bindR (param_bool w ''record'') (\<lambda>v_recordCheckbox.
     bindR (lick (param w ''record_duration'')) (\<lambda>v_recordDuration.
     bindR (lick (param w ''record_comparator_signal'')) (\<lambda>v_recordSignal.
     bindR (param_bool w ''generate_item_atlas'') (\<lambda>v_enable_itematlas.
       Inr \<lparr>formatVersion = param_text w ''format_version'',
         i_identifier = param_text w ''identifier'',
         category = param_text w ''category'',
         isExp = v_isExp,
         icon = param_text w ''texture_path'',
         displayName = param_text w ''display_name'',
         maxStackSize = v_maxStackSize,
         useAnimCheckbox = (param_text w ''use_animation'' \<noteq> ''none''),
         useAnim = param_text w ''use_animation'',
         foil = v_foil,
         useDuration = v_useDuration,
         stackedData = v_stackedData,
         handEquipped = v_handEquipped,
         destroyInC = v_destroyInC,
         ccategoryCheckbox = (param_text w ''creative_category'' \<noteq> ''none''),
         ccategory = param_text w ''creative_category'',
         foodCheckbox = v_foodCheckbox,
         foodNutr = v_foodNutr,
         foodSatu = param_text w ''food_saturation_modifier'',
         foodCanA = v_foodCanA,
         foodConvert = param_text w ''food_using_converts_to'',
         isexplod = v_isexplod,
         allowOffHand = v_allowOffHand,
         wearableCheckbox = (param_text w ''wearable_slot'' \<noteq> ''none''),
         wearableSlot = param_text w ''wearable_slot'',
         armorProtection = v_armorProtection,
         cooldownCheckbox = v_cooldownCheckbox,
         cooldownCategory = param_text w ''cooldown_category'',
         cooldownDuration = v_cooldownDuration,
         damage = v_damage,
         blockPlacerCheckbox = v_blockPlacerCheckbox,
         blockPlacerBlock = param_text w ''block_to_place'',
         blockPlacerDes = v_blockPlacerDes,
         entityPlacerCheckbox = v_entityPlacerCheckbox,
         entityPlacerEntity = param_text w ''entity_to_place'',
         entityPlacerUseon = split_authors (param_text w ''entity_use_on'') CHR '','',
         entityPlacerDison = split_authors (param_text w ''entity_dispense_on'') CHR '','',
         enchantableCheckbox = v_enchantableCheckbox,
         enchantableSlot = param_text w ''enchantable_slot'',
         enchantableValue = v_enchantableValue,
         shooterCheckbox = v_shooterCheckbox,
         shooterMaxDraw = v_shooterMaxDraw,
         shooterCharge = v_shooterCharge,
         shooterScale = v_shooterScale,
         shooterAmmoCheckbox = v_shooterAmmoCheckbox,
         shooterAmmoInven = v_shooterAmmoInven,
         shooterAmmoItem = param_text w ''shooter_ammo_item_to_use'',
         shooterAmmoHand = v_shooterAmmoHand,
         shooterAmmoCreative = v_shooterAmmoCreative,
         fertilizer = v_fertilizer,
         ignPerms = v_ignPerms,
         miningSpeed = v_miningSpeed,
         liquidClipped = v_liquidClipped,
         shouldDespawn = v_shouldDespawn,
         mirroredArt = v_mirroredArt,
         projectileCheckbox = v_projectileCheckbox,
         projectileEntity = param_text w ''projectile_entity'',
         projectilePower = v_projectilePower,
         dyeCheckbox = (param_text w ''dye_powder'' \<noteq> ''none''),
         dyePowder = param_text w ''dye_powder'',
         throwableCheckbox = v_throwableCheckbox,
         throwableSwing = v_throwableSwing,
         throwableDraw = v_throwableDraw,
         throwablePower = v_throwablePower,
         knockbackResis = v_knockbackResis,
         fuel = v_fuel,
         recordCheckbox = v_recordCheckbox,
         recordSound = param_text w ''record_sound_event'',
         recordDuration = v_recordDuration,
         recordSignal = v_recordSignal,
         itemIcon = ab,
         enable_itematlas = v_enable_itematlas\<rparr>)))))))))))))))))))))))))))))))))))))))))))))))"

text \<open>The icon of the item and the remark when it is not a PNG.\<close>

definition item_icon :: "environment \<Rightarrow> restapi \<Rightarrow> json_value \<Rightarrow> parameters \<Rightarrow> string \<Rightarrow> (pack_file \<times> string) io" where
  "item_icon env api payload w msgcntn' =
     (let ab = file_text [] []; icon_atch = attachment_of payload (param_text w ''item_icon'')
      in if param_text w ''item_icon'' = [] then returnIO (ab, msgcntn')
         else if text_of ''content_type'' icon_atch = ''image/png'' then
           bindIO (raw_fetch (net env) (text_of ''url'' icon_atch)) (\<lambda>bytes.
             returnIO (File 0 bytes [] [] ''brillium.png'', msgcntn'))
         else returnIO (ab, notif api ''item_step3_imgerr'' @ [CHR 0x0A] @ msgcntn'))"

definition item_finish :: "environment \<Rightarrow> restapi \<Rightarrow> string \<Rightarrow> json_value \<Rightarrow> json_value \<Rightarrow> json_value \<Rightarrow> json_value option io" where
  "item_finish env api link payload mpload data_json =
     (case step_file ''step2_file'' (reduce_options (member ''options'' mpload)) of (value_id, step3_json) \<Rightarrow>
        let step2_atch = attachment_of payload value_id;
            ctbd = identify_filetype (text_of ''content_type'' step2_atch)
        in if fst ctbd = ''application/json'' then
             bindIO (fetch_url (net env) (text_of ''url'' step2_atch)) (\<lambda>step2_data.
             bindIO (liftR (parse step2_data)) (\<lambda>step2_json.
             let w = item_parameters (merge_steps step2_json step3_json)
             in bindIO (item_icon env api payload w (notif api ''item_step3_splash'')) (\<lambda>(ab, msgcntn').
                bindIO (liftR (bindR (item_arguments w ab) (\<lambda>a. writeItem a (picks env)))) (\<lambda>target_file.
                let iname = get_iname (param_text w ''identifier'');
                    fname = (if length iname = 0 then ''item'' else iname)
                in send_pack env api link (fname @ ''.mcaddon'') msgcntn' target_file))))
           else set_error (notif api ''item_stepg_ivlfmt'') data_json)"

definition item_command :: "environment \<Rightarrow> restapi \<Rightarrow> string \<Rightarrow> json_value \<Rightarrow> json_value \<Rightarrow> json_value option io" where
  "item_command env api link payload data_json =
     bindIO (liftR (peek [Key ''data'', Key ''options'', Idx 0] payload)) (\<lambda>mpload.
       let sfuncname = text_of ''name'' mpload
       in if sfuncname = ''start'' then item_start api link mpload
          else if sfuncname = ''checkpoint'' then item_checkpoint env api link payload mpload data_json
          else if sfuncname = ''finish'' then item_finish env api link payload mpload data_json
          else set_content (notif api ''item_stepg_nonext'') data_json)"

section \<open>entity\<close>

definition entity_defaults :: parameters where
  "entity_defaults = map_of
     [(''generate'', jv_int 0), (''identifier'', jv_cstring []), (''texture_file'', jv_cstring []),
      (''model_file'', jv_cstring []), (''is_spawnable'', jv_bool True), (''is_experimental'', jv_bool False),
      (''is_summonable'', jv_bool False), (''basic_beh'', jv_bool True),
      (''spawn_egg_overlay'', jv_cstring ''#563d7c''), (''spawn_egg_base'', jv_cstring ''#21367c''),
      (''material'', jv_cstring ''entity_alphatest'')]"

text \<open>The two uploads, each with the message so far.\<close>

definition entity_texture :: "environment \<Rightarrow> restapi \<Rightarrow> json_value \<Rightarrow> parameters \<Rightarrow> (pack_file \<times> string) io" where
  "entity_texture env api payload w =
     (let tf = file_text [] []; icon_atch = attachment_of payload (param_text w ''texture_file'')
      in if param_text w ''texture_file'' = [] then returnIO (tf, [])
         else if text_of ''content_type'' icon_atch = ''image/png'' then
           bindIO (raw_fetch (net env) (text_of ''url'' icon_atch)) (\<lambda>bytes.
             returnIO (File 0 bytes [] [] (text_of ''filename'' icon_atch), []))
         else returnIO (tf, notif api ''entity_textr_ivfmt'' @ [CHR 0x0A]))"

definition entity_model :: "environment \<Rightarrow> restapi \<Rightarrow> json_value \<Rightarrow> parameters \<Rightarrow> string \<Rightarrow> (pack_file \<times> string) io" where
  "entity_model env api payload w msgcntn' =
     (let mf = file_text [] []; icon_atch = attachment_of payload (param_text w ''model_file'')
      in if param_text w ''model_file'' = [] then returnIO (mf, msgcntn')
         else if fst (identify_filetype (text_of ''content_type'' icon_atch)) = ''application/json'' then
           bindIO (fetch_url (net env) (text_of ''url'' icon_atch)) (\<lambda>text.
             returnIO (file_text (text_of ''filename'' icon_atch) text, msgcntn'))
         else returnIO (mf, notif api ''entity_model_ivfmt'' @ [CHR 0x0A] @ msgcntn'))"

definition entity_arguments :: "parameters \<Rightarrow> pack_file \<Rightarrow> pack_file \<Rightarrow> entity_args result" where
  "entity_arguments w tf mf =
     bindR (param_bool w ''is_spawnable'') (\<lambda>spawnable.
     bindR (param_bool w ''is_summonable'') (\<lambda>summonable.
     bindR (param_bool w ''is_experimental'') (\<lambda>experimental.
       Inr \<lparr>e_identifier = param_text w ''identifier'', textureFile = tf, modelFile = mf,
         isSpawnable = spawnable, isSummonable = summonable, isExperimental = experimental,
         spawnEggOverlay = param_text w ''spawn_egg_overlay'',
         spawnEggBase = param_text w ''spawn_egg_base'', material = param_text w ''material'',
         select = param_text w ''generate''\<rparr>)))"

definition entity_command :: "environment \<Rightarrow> restapi \<Rightarrow> string \<Rightarrow> json_value \<Rightarrow> json_value \<Rightarrow> json_value option io" where
  "entity_command env api link payload data_json =
     (let w = fold (\<lambda>option. map_put (text_of ''name'' option) (member ''value'' option))
            (val_list (member ''options'' (member ''data'' payload))) entity_defaults
      in bindIO (entity_texture env api payload w) (\<lambda>(tf, msg).
         bindIO (entity_model env api payload w msg) (\<lambda>(mf, msg).
         bindIO (liftR (bindR (entity_arguments w tf mf) (\<lambda>a. make_entity a (picks env)))) (\<lambda>januszobj.
         bindIO (liftR (param_bool w ''basic_beh'')) (\<lambda>basic_beh.
           if \<not> basic_beh then set_error (notif api ''entity_bb_disabled'') data_json
           else if filename januszobj \<noteq> [] then send_pack env api link (filename januszobj) msg januszobj
           else set_error (notif api ''entity_invalid_idr'') data_json)))))"

section \<open>help\<close>

definition help_command :: "json_value \<Rightarrow> json_value option io" where
  "help_command data_json =
     bindIO (liftR (bindR (make_help_with_selection [] 0 0) (\<lambda>rows. seqR
       [assign [Key ''data'', Key ''embeds''] (jv_list []),
        push_back [Key ''data'', Key ''embeds''] (jv_object []),
        assign [Key ''data'', Key ''embeds'', Idx 0, Key ''title'']
          (jv_cstring ''Creator Tools for Minecraft Bedrock Edition''),
        assign [Key ''data'', Key ''embeds'', Idx 0, Key ''description'']
          (jv_cstring ''**Not** made by PixelPoly''),
        assign [Key ''data'', Key ''embeds'', Idx 0, Key ''color''] (jv_int 16777215),
        assign [Key ''data'', Key ''components''] (jv_list rows)] data_json)))
       (\<lambda>d. returnIO (Some d))"

text \<open>A text file of the disk, parsed.\<close>

definition read_json :: "disk \<Rightarrow> string \<Rightarrow> json_value result" where
  "read_json d fname = bindR (read_file d fname False file_empty) (\<lambda>f. parse (text_contents f))"

text \<open>The statements that put page \<open>page\<close> of \<open>topic\<close> into the answer.\<close>

definition help_page :: "disk \<Rightarrow> string \<Rightarrow> int \<Rightarrow> json_value \<Rightarrow> int \<Rightarrow> string \<Rightarrow> json_value \<Rightarrow> json_value result" where
  "help_page d topic page hmjson max_pages footer data_json =
     bindR (read_json d (''data/'' @ topic @ ''_'' @ show_int page @ ''.json'')) (\<lambda>help_data.
     bindR (make_help_with_selection topic page max_pages) (\<lambda>rows. seqR
       [assign [Key ''data''] help_data,
        assign [Key ''data'', Key ''embeds'', Idx 0, Key ''color''] (member ''color'' hmjson),
        assign [Key ''data'', Key ''embeds'', Idx 0, Key ''footer''] (jv_object []),
        assign [Key ''data'', Key ''embeds'', Idx 0, Key ''footer'', Key ''text''] (jv_string footer),
        assign [Key ''data'', Key ''components''] (jv_list rows)] data_json))"

definition select_topic :: "disk \<Rightarrow> json_value \<Rightarrow> json_value \<Rightarrow> json_value result" where
  "select_topic d payload data_json =
     bindR (peek [Key ''data'', Key ''values'', Idx 0] payload) (\<lambda>v.
     let selection = val_string v
     in bindR (read_json d (''data/'' @ selection @ ''_0.json'')) (\<lambda>hmjson.
        bindR (read_field (val_int (member ''length'' hmjson))) (\<lambda>max_pages.
          help_page d selection 1 hmjson max_pages (''Page 1/'' @ show_int max_pages) data_json)))"

definition turn_page :: "disk \<Rightarrow> string \<Rightarrow> json_value \<Rightarrow> json_value result" where
  "turn_page d custom_id data_json =
     bindR (parse_hpcid (drop 3 custom_id)) (\<lambda>(topic, n).
     bindR (read_json d (''data/'' @ topic @ ''_0.json'')) (\<lambda>hmjson.
     bindR (read_field (val_int (member ''length'' hmjson))) (\<lambda>max_pages.
     let page = (if n = 2147483646 then 1 else if n = 2147483647 then max_pages else n)
     in help_page d topic page hmjson max_pages
          (''Page '' @ show_int page @ ''/'' @ show_int max_pages) data_json)))"

section \<open>The dispatcher\<close>

definition run_command :: "environment \<Rightarrow> restapi \<Rightarrow> string \<Rightarrow> json_value \<Rightarrow> json_value \<Rightarrow> json_value option io" where
  "run_command env api link payload data_json =
     (let funcname = text_of ''name'' (member ''data'' payload)
      in if funcname = ''hello'' then set_content ''Hello!'' data_json
         else if funcname = ''obfuscate'' then obfuscate_command env api link payload data_json
         else if funcname = ''manifest'' then manifest_command env api link payload data_json
         else if funcname = ''item'' then item_command env api link payload data_json
         else if funcname = ''entity'' then entity_command env api link payload data_json
         else if funcname = ''help'' then help_command data_json
         else set_content (notif api ''missing_command'') data_json)"

definition run_component :: "environment \<Rightarrow> json_value \<Rightarrow> json_value \<Rightarrow> json_value option io" where
  "run_component env payload data_json =
     (let funcname = text_of ''custom_id'' (member ''data'' payload)
      in bindIO (liftR
           (if funcname = ''help_commands'' then select_topic (files env) payload data_json
            else if take 3 funcname = ''hp_'' then turn_page (files env) funcname data_json
            else Inr data_json)) (\<lambda>d. returnIO (Some d)))"

definition open_answer :: "int \<Rightarrow> json_value" where
  "open_answer type = jv_object [(''type'', jv_int type), (''data'', jv_object [])]"

definition respond_interaction :: "environment \<Rightarrow> restapi \<Rightarrow> json_value \<Rightarrow> unit io" where
  "respond_interaction env api payload =
     (let channel_link = ''https://discord.com/api/v10/interactions/'' @ text_of ''id'' payload @ ''/'' @
            text_of ''token'' payload @ ''/callback''
      in bindIO (liftR (read_field (val_int (member ''type'' payload)))) (\<lambda>response_type.
         bindIO (if response_type = 2 then run_command env api channel_link payload (open_answer 4)
                 else if response_type = 3 then run_component env payload (open_answer 7)
                 else returnIO (Some (jv_object []))) (\<lambda>answer.
           case answer of
             None \<Rightarrow> returnIO ()
           | Some data_json \<Rightarrow>
               bindIO (liftR (get_repr data_json)) (\<lambda>text. post_json (bot_token api) channel_link text))))"


section \<open>Who answers, and how often\<close>

definition is_get :: "action \<Rightarrow> bool" where
  "is_get a = (case a of HttpGet _ \<Rightarrow> True | _ \<Rightarrow> False)"

lemma is_get_simps [simp]:
  "is_get (HttpGet u)" "\<not> is_get (HttpPost u h t)" "\<not> is_get (HttpForm u h ps)"
  "\<not> is_get (WriteZip n c)" "\<not> is_get (RemoveFile n)"
  by (simp_all add: is_get_def)

text \<open>
  A delivery: after some downloads one form to the callback, possibly with an archive that is
  written before it and deleted behind it.
\<close>

definition delivery :: "string \<Rightarrow> action list \<Rightarrow> bool" where
  "delivery link as \<longleftrightarrow> (\<exists>g h ps. list_all is_get g \<and> as = g @ [HttpForm (c_str link) h ps]) \<or>
     (\<exists>g n c h ps. list_all is_get g \<and>
        as = g @ [WriteZip n c, HttpForm (c_str link) h ps, RemoveFile (c_str n)])"

lemma delivery_prefix: "list_all is_get g \<Longrightarrow> delivery link as \<Longrightarrow> delivery link (g @ as)"
proof -
  assume g: "list_all is_get g" and d: "delivery link as"
  from d consider g' h ps where "list_all is_get g'" "as = g' @ [HttpForm (c_str link) h ps]"
    | g' n c h ps where "list_all is_get g'"
        "as = g' @ [WriteZip n c, HttpForm (c_str link) h ps, RemoveFile (c_str n)]"
    unfolding delivery_def by blast
  then show ?thesis
  proof cases
    case 1
    with g have "list_all is_get (g @ g') \<and> g @ as = (g @ g') @ [HttpForm (c_str link) h ps]" by simp
    then show ?thesis unfolding delivery_def by blast
  next
    case 2
    with g have "list_all is_get (g @ g') \<and>
        g @ as = (g @ g') @ [WriteZip n c, HttpForm (c_str link) h ps, RemoveFile (c_str n)]" by simp
    then show ?thesis unfolding delivery_def by blast
  qed
qed

text \<open>
  A command that returns has either delivered, or only downloaded and left a document.
\<close>

definition handled :: "string \<Rightarrow> json_value option io \<Rightarrow> bool" where
  "handled link m \<longleftrightarrow> (\<forall>r. snd m = Inr r \<longrightarrow>
     (case r of None \<Rightarrow> delivery link (fst m) | Some _ \<Rightarrow> list_all is_get (fst m)))"

definition quiet_io :: "'a io \<Rightarrow> bool" where
  "quiet_io m \<longleftrightarrow> list_all is_get (fst m)"

lemma quiet_io_simps [simp]:
  "quiet_io (liftR r)" "quiet_io (returnIO x)"
  by (simp_all add: quiet_io_def liftR_def returnIO_def)

lemma quiet_bind: "quiet_io m \<Longrightarrow> (\<And>x. quiet_io (f x)) \<Longrightarrow> quiet_io (bindIO m f)"
  by (auto simp: quiet_io_def bindIO_def split: prod.splits sum.splits)
    (metis fst_conv)

lemma quiet_fetch [simp]: "quiet_io (fetch_url n u)" "quiet_io (raw_fetch n u)"
  by (simp_all add: quiet_io_def raw_fetch_eq fetch_url_eq)


lemma handled_bind:
  assumes "quiet_io m" "\<And>x. handled link (f x)"
  shows "handled link (bindIO m f)"
proof (cases "snd m")
  case (Inl e)
  then show ?thesis by (cases m) (simp add: handled_def bindIO_def)
next
  case (Inr x)
  then have b: "bindIO m f = (fst m @ fst (f x), snd (f x))"
    by (cases m) (simp add: bindIO_def split: prod.split)
  have g: "list_all is_get (fst m)" using assms(1) by (simp add: quiet_io_def)
  show ?thesis
    using assms(2) [of x] g delivery_prefix [OF g]
    by (auto simp: handled_def b split: option.splits)
qed

lemma handled_liftR: "handled link (bindIO (liftR r) f) \<longleftrightarrow> (\<forall>x. r = Inr x \<longrightarrow> handled link (f x))"
  by (cases r) (simp_all add: handled_def)

lemma handled_return [simp]: "handled link (returnIO (Some d))"
  by (simp add: handled_def returnIO_def)

lemma handled_content [simp]: "handled link (set_content t d)" "handled link (set_error t d)"
  unfolding set_content_def set_error_def by (simp_all add: handled_liftR)

lemma handled_upload [simp]:
  "handled link (bindIO (upload token link fname msg att) (\<lambda>_. returnIO None))"
  by (simp add: handled_def upload_run bindIO_def returnIO_def delivery_def)

lemma handled_upload_data [simp]:
  "handled link (bindIO (upload_data_df token link fname fdata msg) (\<lambda>_. returnIO None))"
  by (simp add: upload_data_df_def)

lemma send_pack_run:
  "\<exists>n c h ps. send_pack env api link shown msg tree
     = ([WriteZip n c, HttpForm (c_str link) h ps, RemoveFile (c_str n)], Inr None)"
  by (simp add: send_pack_def make_zip_def Let_def upload_file_df_def upload_run)
    (simp add: bindIO_def returnIO_def emit_def)

lemma handled_send_pack [simp]: "handled link (send_pack env api link shown msg tree)"
proof -
  obtain n c h ps where "send_pack env api link shown msg tree
     = ([WriteZip n c, HttpForm (c_str link) h ps, RemoveFile (c_str n)], Inr None)"
    using send_pack_run by blast
  then show ?thesis
    unfolding handled_def delivery_def by (auto intro: exI [of _ "[]"])
qed


lemma quiet_helpers [simp]:
  "quiet_io (pack_icon env url)" "quiet_io (item_icon env api payload w msg)"
  "quiet_io (entity_texture env api payload w)" "quiet_io (entity_model env api payload w msg)"
  by (simp_all add: pack_icon_def item_icon_def entity_texture_def entity_model_def Let_def quiet_bind)

lemma handled_if: "(b \<Longrightarrow> handled link m) \<Longrightarrow> (\<not> b \<Longrightarrow> handled link m') \<Longrightarrow> handled link (if b then m else m')"
  by simp

lemmas handled_rules =
  handled_content handled_upload_data handled_send_pack handled_return handled_bind handled_if

lemma handled_obfuscate: "handled link (obfuscate_command env api link payload d)"
  unfolding obfuscate_command_def Let_def by (intro handled_rules) simp_all

lemma handled_independent: "handled link (independent_command env api link payload mpload)"
  unfolding independent_command_def Let_def by (intro handled_rules) simp_all

lemma handled_dependent: "handled link (dependent_command env api link payload mpload)"
  unfolding dependent_command_def Let_def by (intro handled_rules) simp_all

lemma handled_item: "handled link (item_command env api link payload d)"
  unfolding item_command_def item_start_def item_checkpoint_def item_finish_def Let_def split_def
  by (intro handled_rules) simp_all

lemma handled_entity: "handled link (entity_command env api link payload d)"
  unfolding entity_command_def Let_def split_def by (intro handled_rules) simp_all

lemma handled_help: "handled link (help_command d)"
  unfolding help_command_def by (intro handled_rules) simp_all

text \<open>The one subcommand that returns without an answer.\<close>

definition silent_command :: "json_value \<Rightarrow> bool" where
  "silent_command payload \<longleftrightarrow> text_of ''name'' (member ''data'' payload) = ''manifest'' \<and>
     (case peek [Key ''data'', Key ''options'', Idx 0] payload of
        Inl _ \<Rightarrow> False | Inr mpload \<Rightarrow> text_of ''name'' mpload \<notin> {''independent'', ''dependent''})"

lemma handled_manifest:
  assumes "text_of ''name'' (member ''data'' payload) = ''manifest''" "\<not> silent_command payload"
  shows "handled link (manifest_command env api link payload d)"
  unfolding manifest_command_def handled_liftR
  using assms by (auto simp: silent_command_def handled_independent handled_dependent)

lemma handled_command:
  "\<not> silent_command payload \<Longrightarrow> handled link (run_command env api link payload d)"
  unfolding run_command_def Let_def
  by (intro handled_if) (simp_all add: handled_obfuscate handled_manifest handled_item handled_entity
      handled_help)

lemma silent_manifest:
  assumes "silent_command payload"
  shows "run_command env api link payload (open_answer t) = ([], Inr None)"
proof -
  have "\<exists>d'. assign [Key ''data'', Key ''content''] (jv_string c) (open_answer t) = Inr d'" for c
    by (simp add: open_answer_def assign_def)
  then show ?thesis
    using assms
    by (auto simp: silent_command_def run_command_def manifest_command_def set_content_def
        bindIO_assoc split: sum.splits) (metis bindIO_liftR(1) bindIO_returnIO returnIO_def)
qed

lemma handled_component: "handled link (run_component env payload d)"
  unfolding run_component_def Let_def by (intro handled_rules) simp_all

section \<open>One answer\<close>

definition callback_link :: "json_value \<Rightarrow> string" where
  "callback_link payload = ''https://discord.com/api/v10/interactions/'' @ text_of ''id'' payload @ ''/'' @
     text_of ''token'' payload @ ''/callback''"

lemma finish_answered:
  assumes "handled link m"
    and "bindIO m (\<lambda>answer. case answer of None \<Rightarrow> returnIO ()
      | Some d \<Rightarrow> bindIO (liftR (get_repr d)) (\<lambda>text. post_json token link text)) = (as, Inr u)"
  shows "delivery link as \<or> (\<exists>g h text. list_all is_get g \<and> as = g @ [HttpPost (c_str link) h text])"
proof -
  obtain bs a where m: "m = (bs, a)" by (cases m)
  show ?thesis
  proof (cases a)
    case (Inl e)
    with assms(2) show ?thesis by (simp add: m bindIO_def)
  next
    case (Inr answer)
    show ?thesis
    proof (cases answer)
      case None
      with assms Inr show ?thesis by (simp add: m handled_def bindIO_def returnIO_def)
    next
      case (Some d)
      with assms(1) Inr have "list_all is_get bs" by (simp add: m handled_def)
      moreover from assms(2) Inr Some obtain answer_text where
        "as = bs @ [HttpPost (c_str link) [user_agent, json_content, auth_header token] answer_text]"
        by (cases "get_repr d") (auto simp: m bindIO_def liftR_def post_json_def emit_def)
      ultimately show ?thesis by blast
    qed
  qed
qed

text \<open>A call that returns has answered, or was the silent command.\<close>

lemma respond_interaction_answers:
  "case respond_interaction env api payload of (as, r) \<Rightarrow>
     (case r of
        Inl e \<Rightarrow> True
      | Inr _ \<Rightarrow>
          if val_int (member ''type'' payload) = Some 2 \<and> silent_command payload then as = []
          else delivery (callback_link payload) as \<or>
            (\<exists>g h text. list_all is_get g \<and> as = g @ [HttpPost (c_str (callback_link payload)) h text]))"
proof (cases "val_int (member ''type'' payload)")
  case None
  then show ?thesis by (simp add: respond_interaction_def)
next
  case (Some t)
  let ?link = "callback_link payload"
  let ?cmd = "if t = 2 then run_command env api ?link payload (open_answer 4)
    else if t = 3 then run_component env payload (open_answer 7) else returnIO (Some (jv_object []))"
  have r: "respond_interaction env api payload = bindIO ?cmd (\<lambda>answer. case answer of None \<Rightarrow> returnIO ()
    | Some d \<Rightarrow> bindIO (liftR (get_repr d)) (\<lambda>text. post_json (bot_token api) ?link text))"
    unfolding respond_interaction_def callback_link_def [symmetric] Let_def by (simp add: Some)
  show ?thesis
  proof (cases "t = 2 \<and> silent_command payload")
    case True
    then show ?thesis by (simp add: r Some silent_manifest) (simp add: Some bindIO_def returnIO_def)
  next
    case False
    then have "handled ?link ?cmd" by (simp add: handled_command handled_component)
    with False Some show ?thesis
      unfolding r by (auto split: prod.split sum.split dest: finish_answered)
  qed
qed

text \<open>C2: Whatever the interaction, the network and the disk: a call of \<open>respond_interaction\<close>
  that returns has sent exactly one answer, to the callback address of that interaction, as its
  last request: a posted document, or a form with a file whose archive, if there is one, is
  written before and deleted afterwards; everything in front of it is a download.  The only
  exception is an unknown subcommand of \<open>manifest\<close>, which sends nothing at all.\<close>

theorem one_answer_per_interaction:
  "case respond_interaction env api payload of (as, r) \<Rightarrow>
     (case r of
        Inl e \<Rightarrow> True
      | Inr _ \<Rightarrow>
          if val_int (member ''type'' payload) = Some 2 \<and> silent_command payload then as = []
          else delivery (callback_link payload) as \<or>
            (\<exists>g h text. list_all is_get g \<and> as = g @ [HttpPost (c_str (callback_link payload)) h text]))"
  by (rule respond_interaction_answers)


section \<open>The parameters of the item steps\<close>

lemma set_val_object_objects [simp]: "val_object (set_val_object o' v) = o'"
  by (cases v) (simp add: set_val_object_def)

lemma lick_jv_bool [simp]: "lick (jv_bool b) = Inl Undefined_behaviour"
  by (simp add: lick_def jv_bool_def)

text \<open>The reads of the arguments fail in one way only.\<close>

definition ub_only :: "'a result \<Rightarrow> bool" where
  "ub_only r \<longleftrightarrow> (\<forall>e. r = Inl e \<longrightarrow> e = Undefined_behaviour)"

lemma ub_only_reads [simp]:
  "ub_only (read_field x)" "ub_only (Inr y)" "ub_only (Inl Undefined_behaviour)"
  by (cases x; simp add: ub_only_def)+

lemma ub_only_bind: "ub_only r \<Longrightarrow> (\<And>x. ub_only (f x)) \<Longrightarrow> ub_only (bindR r f)"
  by (cases r) (simp_all add: ub_only_def)

lemma ub_only_numbers [simp]: "ub_only (lick v)" "ub_only (ding v)" "ub_only (param_bool w k)"
  by (auto simp: lick_def ding_def param_bool_def as_bool_def d_trunc_def Let_def intro!: ub_only_bind)

lemma ub_bind: "ub_only r \<Longrightarrow> (\<And>x. f x = Inl Undefined_behaviour) \<Longrightarrow> bindR r f = Inl Undefined_behaviour"
  by (cases r) (simp_all add: ub_only_def)

lemma item_arguments_signal:
  assumes "lick (param w ''record_comparator_signal'') = Inl Undefined_behaviour"
  shows "item_arguments w ab = Inl Undefined_behaviour"
  unfolding item_arguments_def assms bindR_simps
  by (intro ub_bind ub_only_numbers) (rule refl)

lemma item_parameters_merge:
  "item_parameters (merge_steps older newer) k =
     (case map_of (rev (val_object newer)) k of
        Some v \<Rightarrow> Some v
      | None \<Rightarrow> (case map_of (rev (val_object older)) k of
                  Some v \<Rightarrow> Some v
                | None \<Rightarrow> item_defaults k))"
proof -
  have "fold (\<lambda>(key, valu). map_put key valu) kvs m k =
      (case map_of (rev kvs) k of Some v \<Rightarrow> Some v | None \<Rightarrow> m k)" for kvs and m :: parameters
    by (induction kvs arbitrary: m) (auto simp: map_put_def map_add_def split: option.splits)
  then show ?thesis
    by (auto simp: item_parameters_def merge_steps_def map_add_def split: option.splits)
qed

text \<open>What the last step of the item command generates from.  The members of the files of the
  steps are written over the defaults in the order of the steps, so the newest step that names a
  parameter decides it, and within a step its last mention; a parameter that no step names has its
  default.\<close>

theorem item_parameters_newest_wins:
  "item_parameters (merge_steps older newer) k =
     (case map_of (rev (val_object newer)) k of
        Some v \<Rightarrow> Some v
      | None \<Rightarrow> (case map_of (rev (val_object older)) k of
                  Some v \<Rightarrow> Some v
                | None \<Rightarrow> item_defaults k))"
  by (rule item_parameters_merge)

text \<open>C39: The default of the comparator signal is made from a \<open>bool\<close> but read as a
  \<open>long long\<close>: a user who never states the signal in any step makes the bot read an
  uninitialised member, whatever the other parameters are.\<close>

theorem item_needs_comparator_signal:
  assumes "''record_comparator_signal'' \<notin> fst ` set (val_object older)"
    and "''record_comparator_signal'' \<notin> fst ` set (val_object newer)"
  shows "item_arguments (item_parameters (merge_steps older newer)) ab = Inl Undefined_behaviour"
proof (rule item_arguments_signal)
  have d: "map_get jv_default ''record_comparator_signal'' item_defaults = jv_bool False"
    by (simp add: map_get_def item_defaults_def)
  have "param (item_parameters (merge_steps older newer)) ''record_comparator_signal'' = jv_bool False"
    using assms unfolding param_def item_parameters_def merge_steps_def
    by (subst std_map.get_put_all_fresh) (auto simp: d)
  then show "lick (param (item_parameters (merge_steps older newer)) ''record_comparator_signal'')
      = Inl Undefined_behaviour" by simp
qed

lemma item_needs_comparator_signal_witness:
  "item_arguments (item_parameters (merge_steps
     (jv_object [(''identifier'', jv_string ''my:axe'')])
     (jv_object [(''damage'', jv_int 3)]))) file_empty = Inl Undefined_behaviour"
  by (rule item_needs_comparator_signal) (simp_all add: jv_object_def)

section \<open>Turning pages\<close>

lemma turn_page_id:
  assumes "read_json d (''data/'' @ topic @ ''_0.json'') = Inr hmjson"
    and "val_int (member ''length'' hmjson) = Some m" "int32 n"
  shows "turn_page d (''hp_'' @ topic @ ''_'' @ show_int n) answer =
     (let page = (if n = 2147483646 then 1 else if n = 2147483647 then m else n)
      in help_page d topic page hmjson m (''Page '' @ show_int page @ ''/'' @ show_int m) answer)"
proof -
  have "parse_hpcid (topic @ ''_'' @ show_int n) = Inr (topic, n)"
    using parse_hpcid_show [OF assms(3)] by simp
  then show ?thesis using assms(1,2) by (simp add: turn_page_def)
qed

lemma button_reads:
  "text_of ''custom_id'' (button_template i label d) = i"
  "val_int (member ''disabled'' (button_template i label d)) = Some 1 \<longleftrightarrow> d"
  by (simp_all add: button_template_def text_of_def member_def jv_defs) (simp add: optional_def)

text \<open>
  The button \<open>b\<close> shows \<open>page\<close>: an interaction with a component that carries the identifier of
  the button puts that page into the answer.
\<close>

definition button_shows :: "environment \<Rightarrow> json_value \<Rightarrow> json_value \<Rightarrow> json_value result \<Rightarrow> bool" where
  "button_shows env answer b page \<longleftrightarrow>
     (\<forall>payload. text_of ''custom_id'' (member ''data'' payload) = text_of ''custom_id'' b \<longrightarrow>
        run_component env payload answer = bindIO (liftR page) (\<lambda>d. returnIO (Some d)))"

lemma button_turns:
  assumes "text_of ''custom_id'' b = ''hp_'' @ i" "turn_page (files env) (''hp_'' @ i) answer = page"
  shows "button_shows env answer b page"
  using assms by (simp add: button_shows_def run_component_def)

text \<open>C31: The four buttons that \<open>make_help_with_selection\<close> puts below page \<open>n\<close> of a topic, pressed:
  the first shows what selecting the topic in the menu shows, the second and the third the pages
  before and after, the fourth the last page that the topic's index announces.  The first two are
  disabled exactly on the first page, the others exactly on the last.\<close>

theorem help_buttons_turn_pages:
  assumes "read_json (files env) (''data/'' @ topic @ ''_0.json'') = Inr hmjson"
    and "val_int (member ''length'' hmjson) = Some m"
    and "1 \<le> n" "n < 2147483645"
    and "peek [Key ''data'', Key ''values'', Idx 0] payload = Inr (jv_string topic)"
  shows "\<exists>row menu b1 b2 b3 b4. make_help_with_selection topic n m = Inr [row, menu] \<and>
    val_list (member ''components'' row) = [b1, b2, b3, b4] \<and>
    button_shows env answer b1 (select_topic (files env) payload answer) \<and>
    button_shows env answer b2 (help_page (files env) topic (n - 1) hmjson m
      (''Page '' @ show_int (n - 1) @ ''/'' @ show_int m) answer) \<and>
    button_shows env answer b3 (help_page (files env) topic (n + 1) hmjson m
      (''Page '' @ show_int (n + 1) @ ''/'' @ show_int m) answer) \<and>
    button_shows env answer b4 (help_page (files env) topic m hmjson m
      (''Page '' @ show_int m @ ''/'' @ show_int m) answer) \<and>
    (\<forall>b \<in> {b1, b2}. val_int (member ''disabled'' b) = Some 1 \<longleftrightarrow> n = 1) \<and>
    (\<forall>b \<in> {b3, b4}. val_int (member ''disabled'' b) = Some 1 \<longleftrightarrow> n = m)"
proof -
  let ?d = "files env"
  have ids: "''_2147483646'' = ''_'' @ show_int 2147483646" "''_2147483647'' = ''_'' @ show_int 2147483647"
    and one: "''Page 1/'' = ''Page '' @ show_int 1 @ ''/''"
    by (simp_all add: show_int_def show_nat_def show_base.simps digit_char_def)
  have range: "int32 2147483646" "int32 2147483647" "int32 (n - 1)" "int32 (n + 1)"
    using assms(3,4) by (simp_all add: int32_def)
  note turn = turn_page_id [OF assms(1,2), of _ answer, unfolded Let_def]
  have select: "select_topic ?d payload answer =
      help_page ?d topic 1 hmjson m (''Page 1/'' @ show_int m) answer"
    using assms(1,2,5) by (simp add: select_topic_def jv_string_def)
  have t: "turn_page ?d (''hp_'' @ topic @ ''_2147483646'') answer = select_topic ?d payload answer"
    "turn_page ?d (''hp_'' @ topic @ ''_'' @ show_int (n - 1)) answer =
      help_page ?d topic (n - 1) hmjson m (''Page '' @ show_int (n - 1) @ ''/'' @ show_int m) answer"
    "turn_page ?d (''hp_'' @ topic @ ''_'' @ show_int (n + 1)) answer =
      help_page ?d topic (n + 1) hmjson m (''Page '' @ show_int (n + 1) @ ''/'' @ show_int m) answer"
    "turn_page ?d (''hp_'' @ topic @ ''_2147483647'') answer =
      help_page ?d topic m hmjson m (''Page '' @ show_int m @ ''/'' @ show_int m) answer"
    subgoal unfolding select ids one turn [OF range(1)] append_assoc by (simp only: simp_thms if_True)
    using turn [OF range(3)] turn [OF range(4)] assms(3,4) apply (simp, simp)
    unfolding ids turn [OF range(2)] by simp
  have "make_help_with_selection topic n m = Inr [row_template topic n m, menu_template]"
    using assms(3) range(3,4) by (simp add: make_help_run has_neighbours_def)
  moreover have "val_list (member ''components'' (row_template topic n m)) =
      [button_template (''hp_'' @ topic @ ''_2147483646'') [CHR 0xE2, CHR 0x8F, CHR 0xAE] (n = 1),
       button_template (''hp_'' @ topic @ ''_'' @ show_int (n - 1)) [CHR 0xE2, CHR 0x97, CHR 0x80] (n = 1),
       button_template (''hp_'' @ topic @ ''_'' @ show_int (n + 1)) [CHR 0xE2, CHR 0x96, CHR 0xB6] (n = m),
       button_template (''hp_'' @ topic @ ''_2147483647'') [CHR 0xE2, CHR 0x8F, CHR 0xAD] (n = m)]"
    by (simp add: row_template_def member_def jv_object_def jv_list_def)
  ultimately show ?thesis
    using t by (intro exI conjI) (assumption | rule button_turns, rule button_reads, assumption | simp add: button_reads)+
qed

definition sample_disk :: disk where
  "sample_disk fname = (if fname = ''data/item_0.json''
     then Some ([CHR ''{'', CHR 0x22] @ ''length'' @ [CHR 0x22, CHR '':''] @ ''3}'') else None)"

definition help_env :: environment where
  "help_env = \<lparr>net = (\<lambda>_. []), files = sample_disk,
     now = \<lparr>tm_sec = 0, tm_min = 0, tm_hour = 0, tm_mday = 0, tm_mon = 0, tm_year = 0\<rparr>,
     picks = (\<lambda>_ _. 0), zip_picks = (\<lambda>_. 0)\<rparr>"

lemma sample_index:
  "read_json sample_disk (''data/'' @ ''item'' @ ''_0.json'') =
     Inr (JV 3 (Some 0) None None [] [] [(''length'', JV 0 (Some 3) (Some 3) None [] [] [])])"
  by code_simp

theorem help_buttons_turn_pages_witness:
  "\<exists>row menu b1 b2 b3 b4. make_help_with_selection ''item'' 2 3 = Inr [row, menu] \<and>
     val_list (member ''components'' row) = [b1, b2, b3, b4] \<and>
     button_shows help_env (open_answer 7) b3 (help_page sample_disk ''item'' (2 + 1)
       (JV 3 (Some 0) None None [] [] [(''length'', JV 0 (Some 3) (Some 3) None [] [] [])]) 3
       (''Page '' @ show_int (2 + 1) @ ''/'' @ show_int 3) (open_answer 7)) \<and>
     (val_int (member ''disabled'' b3) = Some 1 \<longleftrightarrow> (2 :: int) = 3)"
proof -
  have f: "files help_env = sample_disk" by (simp add: help_env_def)
  have p: "peek [Key ''data'', Key ''values'', Idx 0]
      (jv_object [(''data'', jv_object [(''values'', jv_list [jv_string ''item''])])]) = Inr (jv_string ''item'')"
    by (simp add: member_def jv_defs vec_at_def)
  have l: "val_int (member ''length'' (JV 3 (Some 0) None None [] []
      [(''length'', JV 0 (Some 3) (Some 3) None [] [] [])])) = Some 3" by (simp add: member_def)
  have n: "(1 :: int) \<le> 2" "(2 :: int) < 2147483645" by simp_all
  from help_buttons_turn_pages [of help_env, unfolded f, OF sample_index l n p, of "open_answer 7"] show ?thesis
    by (elim exE conjE) (intro exI conjI, assumption, assumption, assumption, simp only: ball_simps insert_iff)
qed

end
