(* ===== verification/Readback.thy ===== *)
theory Readback
  imports JsonProperties Interaction
begin

text \<open>
  Documents that the program prints and its own parser reads back: which values can be sent as a file
  and received again without a loss, the texts that are free of NUL bytes, and the generated
  manifest as the first of these documents.
\<close>

section \<open>Documents that survive a transfer\<close>

text \<open>A text that the printer writes and the parser reads unchanged.\<close>

definition plain_text :: "string \<Rightarrow> bool" where
  "plain_text s \<longleftrightarrow> (\<forall>c \<in> set s. \<not> is_bracket c \<and> printable_char c)"

text \<open>A document whose printed text is read back.\<close>

definition readback :: "json_value \<Rightarrow> bool" where
  "readback v \<longleftrightarrow> describable v \<and> clean (describe v) \<and> sendable (describe v)"

lemma readback_jv:
  "int32 i \<Longrightarrow> readback (jv_int i)" "plain_text s \<Longrightarrow> readback (jv_string s)"
  "readback (jv_list vs) \<longleftrightarrow> vs \<noteq> [] \<and> (\<forall>v \<in> set vs. readback v \<and> no_comma (describe v))"
  "readback (jv_object kvs) \<longleftrightarrow> kvs \<noteq> [] \<and> distinct (obj_keys kvs) \<and>
     (\<forall>kv \<in> set kvs. plain_text (fst kv) \<and> readback (snd kv))"
  by (auto simp: readback_def plain_text_def list_all_iff obj_keys_def o_def int32_def int64_def)

lemma readback_double: "readback (jv_double d) \<longleftrightarrow> six_digits_suffice d \<and> clean (double_json d)"
proof -
  have "sendable (double_json d)" by (simp add: double_json_def number_json_def split: option.split)
  then show ?thesis by (auto simp: readback_def)
qed

lemma no_comma_jv [simp]: "no_comma (describe (jv_object kvs))" "no_comma (describe (jv_int i))"
  "no_comma (describe (jv_string s)) \<longleftrightarrow> CHR '','' \<notin> set s"
  by simp_all

text \<open>
  Documents that are described, built and described again: a number with a fraction or an exponent is
  written the way the printer writes its double.
\<close>

fun exact :: "json \<Rightarrow> bool" where
  "exact (Num i) = True"
| "exact (Real t) = ((nt_frac t \<noteq> None \<or> nt_exp t \<noteq> None) \<and>
     (case stod t of Inl e \<Rightarrow> False | Inr d \<Rightarrow> scan_number (show_double d) = Some t))"
| "exact (Str s) = True"
| "exact (Bool b) = True"
| "exact Null = True"
| "exact (Arr js) = (\<forall>j \<in> set js. exact j)"
| "exact (Obj kjs) = (\<forall>kj \<in> set kjs. exact (snd kj))"

lemma describe_build: "exact j \<Longrightarrow> describe (build j) = j \<and> describable (build j)"
proof (induction j)
  case (Arr js)
  then have "map (\<lambda>x. describe (build x)) js = js" by (intro map_idI) simp
  with Arr show ?case
    by (simp add: describe.simps [of "JV _ _ _ _ _ _ _"] describable.simps [of "JV _ _ _ _ _ _ _"]
        list_all_iff o_def)
next
  case (Obj kjs)
  then have b: "describe (build (snd kj)) = snd kj \<and> describable (build (snd kj))" if "kj \<in> set kjs" for kj
    using that by (cases kj) auto
  then have "map (\<lambda>kj. (fst kj, describe (build (snd kj)))) kjs = kjs"
    by (intro map_idI) (simp add: prod_eq_iff)
  with b show ?case
    by (simp add: describe.simps [of "JV _ _ _ _ _ _ _"] describable.simps [of "JV _ _ _ _ _ _ _"]
        list_all_iff o_def)
next
  case (Real t)
  then obtain d where "stod t = Inr d" "scan_number (show_double d) = Some t" by (auto split: sum.splits)
  with Real show ?case
    by (simp add: describe.simps [of "JV _ _ _ _ _ _ _"] describable.simps [of "JV _ _ _ _ _ _ _"]
        double_json_def number_json_def six_digits_suffice_def del: not_None_eq)
qed (auto simp: describe.simps [of "JV _ _ _ _ _ _ _"] describable.simps [of "JV _ _ _ _ _ _ _"])

lemma exact_double: "six_digits_suffice d \<Longrightarrow> exact (double_json d)"
  by (auto simp: six_digits_suffice_def double_json_def number_json_def split: option.splits if_splits)

lemma exact_describe: "describable v \<Longrightarrow> exact (describe v)"
proof (induction v rule: describe.induct)
  case (1 v)
  then show ?case
    by (subst describe.simps) (auto simp: describable.simps [of v] list_all_iff exact_double split: option.splits)
qed

text \<open>
  A file is uploaded as a C string: it arrives whole when no text of the document holds a NUL byte.
\<close>

fun nul_free :: "json \<Rightarrow> bool" where
  "nul_free (Str s) = (CHR 0x00 \<notin> set s)"
| "nul_free (Arr js) = (\<forall>j \<in> set js. nul_free j)"
| "nul_free (Obj kjs) = (\<forall>kj \<in> set kjs. CHR 0x00 \<notin> set (fst kj) \<and> nul_free (snd kj))"
| "nul_free _ = True"

lemma literal_nul_free: "literal s l \<Longrightarrow> CHR 0x00 \<notin> set s \<Longrightarrow> CHR 0x00 \<notin> set l"
proof -
  have "body s b \<Longrightarrow> CHR 0x00 \<notin> set s \<Longrightarrow> CHR 0x00 \<notin> set b" for b
    by (induction rule: body.induct) (auto simp: encodes_def escapes_def)
  then show "literal s l \<Longrightarrow> CHR 0x00 \<notin> set s \<Longrightarrow> CHR 0x00 \<notin> set l" by (auto simp: literal_def)
qed

lemma ws_nul_free: "all_ws w \<Longrightarrow> CHR 0x00 \<notin> set w"
  unfolding all_ws_def by (rule notI, drule (1) bspec) (simp add: is_ws_def)

lemma number_nul_free: "number_text n t \<Longrightarrow> CHR 0x00 \<notin> set t"
  by (rule notI, drule (1) number_text_chars) (simp add: number_char_def is_digit_def)

lemma core_nul_free:
  shows "core j t \<Longrightarrow> nul_free j \<Longrightarrow> CHR 0x00 \<notin> set t"
    and "elems js u \<Longrightarrow> \<forall>j \<in> set js. nul_free j \<Longrightarrow> CHR 0x00 \<notin> set u"
    and "members ms u \<Longrightarrow> \<forall>m \<in> set ms. CHR 0x00 \<notin> set (fst m) \<and> nul_free (snd m) \<Longrightarrow> CHR 0x00 \<notin> set u"
  by (induction rule: core_elems_members.inducts)
    (simp_all add: literal_nul_free ws_nul_free number_nul_free number_nul_free [OF show_int_number_text])

definition portable :: "json_value \<Rightarrow> bool" where
  "portable v \<longleftrightarrow> readback v \<and> nul_free (describe v)"

text \<open>What a value is after the transfer.\<close>

definition received :: "json_value \<Rightarrow> json_value" where
  "received v = build (describe v)"

lemma portable_text:
  assumes "portable v"
  shows "get_repr v = Inr (repr v)" "c_str (repr v) = repr v" "parse (repr v) = Inr (received v)"
proof -
  from assms have v: "describable v" "clean (describe v)" "sendable (describe v)" "nul_free (describe v)"
    by (simp_all add: portable_def readback_def)
  show "get_repr v = Inr (repr v)" using v(1) by (rule get_repr_describable)
  show "parse (repr v) = Inr (received v)"
    unfolding received_def using v(1-3) by (rule parse_described)
  show "c_str (repr v) = repr v"
    using core_nul_free(1) [OF describe_core [OF v(1,3)] v(4)] by (rule c_str_id)
qed

text \<open>The readers of a value see no difference.\<close>

lemma received_reads:
  "val_string (received (jv_string s)) = s" "int64 i \<Longrightarrow> lick (received (jv_int i)) = Inr i"
  "as_bool (received (jv_bool b)) = Inr b"
  by (simp_all add: received_def lick_def as_bool_def)

lemma received_double: "six_digits_suffice d \<Longrightarrow> ding (received (jv_double d)) = Inr d"
  by (auto simp: received_def double_json_def number_json_def six_digits_suffice_def ding_def
      split: option.splits if_splits)

lemma received_object:
  "received (jv_object kvs) = JV 3 (Some 0) None None [] [] (map (\<lambda>kv. (fst kv, received (snd kv))) kvs)"
  by (simp add: received_def o_def)

lemma received_again: "describable v \<Longrightarrow> describe (received v) = describe v \<and> describable (received v)"
  unfolding received_def by (intro describe_build exact_describe)

text \<open>
  The documents that are handed on unchanged, when a value the parser has built of them is printed,
  sent as a file and parsed again.
\<close>

definition handed_on :: "json \<Rightarrow> bool" where
  "handed_on j \<longleftrightarrow> clean j \<and> sendable j \<and> exact j \<and> nul_free j"

lemma handed_on_unchanged: "handed_on j \<Longrightarrow> portable (build j) \<and> received (build j) = build j"
  using describe_build [of j] by (simp add: handed_on_def portable_def readback_def received_def)

section \<open>Manifests are read back\<close>

lemma hex_printable: "list_all (\<lambda>c. \<not> is_bracket c \<and> printable_char c) (CHR ''-'' # uuid_hex)"
  by code_simp

lemma uuid_chars: "hex_picks p \<Longrightarrow> set (generate_uuid p) \<subseteq> set (CHR ''-'' # uuid_hex)"
proof
  fix c assume "hex_picks p" and c: "c \<in> set (generate_uuid p)"
  then have u: "uuid_like (generate_uuid p)" by (blast intro: generate_uuid_like)
  with c obtain i where "i < 36" "c = generate_uuid p ! i"
    by (auto simp: in_set_conv_nth uuid_like_def)
  then show "c \<in> set (CHR ''-'' # uuid_hex)"
    using u by (cases "i \<in> {8, 13, 18, 23}") (auto simp: uuid_like_def)
qed

lemma plain_uuid: "hex_picks p \<Longrightarrow> plain_text (generate_uuid p)"
  using uuid_chars [of p] hex_printable by (auto simp: plain_text_def list_all_iff)

lemma describe_uuid [simp]:
  "describe (uuid_value u k) = Str (generate_uuid (u k))" "describable (uuid_value u k)"
  "describe (version_value i j l) = Arr [Num i, Num j, Num l]" "describable (version_value i j l)"
  by (simp_all add: uuid_value_def version_value_def)

lemma describable_nondependent:
  assumes "list_all describable (pack_version a)" "list_all describable (pack_authors a)"
  shows "describable (nondependent_template a u)"
  using assms by (simp add: nondependent_template_def header_template_def metadata_template_def
      engine_template_def module_template_def dependency_template_def nd_modules_template_def
      nd_script_template_def)

lemma plain_text_append: "plain_text (s @ t) \<longleftrightarrow> plain_text s \<and> plain_text t"
  by (auto simp: plain_text_def)

lemma plain_literals:
  "plain_text ''scripts/''" "plain_text ''data''" "plain_text ''client_data''" "plain_text ''javascript''"
  "plain_text ''Minecraft module, required to use the Minecraft module''"
  "plain_text ''GameTest module, required to use the GameTest module''"
  "plain_text ''format_version''" "plain_text ''header''" "plain_text ''modules''"
  "plain_text ''metadata''" "plain_text ''dependencies''" "plain_text ''name''"
  "plain_text ''description''" "plain_text ''uuid''" "plain_text ''version''"
  "plain_text ''min_engine_version''" "plain_text ''authors''" "plain_text ''url''"
  "plain_text ''type''" "plain_text ''entry''"
  unfolding plain_text_def by code_simp+

lemma plain_script_path:
  "plain_text (CHR ''s'' # CHR ''c'' # CHR ''r'' # CHR ''i'' # CHR ''p'' # CHR ''t'' # CHR ''s'' # CHR ''/'' # s)
     \<longleftrightarrow> plain_text s"
  using plain_text_append [of "''scripts/''" s] plain_literals(1) by simp

lemma readback_parts:
  "hex_picks (u k) \<Longrightarrow> readback (uuid_value u k)"
  "readback (version_value 1 0 0)" "readback (version_value 0 1 0)"
  by (simp_all add: uuid_value_def version_value_def readback_jv plain_uuid int32_def)

definition manifest_texts :: "nondependent \<Rightarrow> bool" where
  "manifest_texts a \<longleftrightarrow> list_all plain_text [pack_name a, pack_description a, pack_type a,
     pack_author_url a, pack_gametest_entry_file a]"

lemma readback_nondependent:
  assumes "\<forall>k. hex_picks (u k)" "manifest_texts a"
    and "pack_version a = map jv_int vs" "vs \<noteq> []" "\<forall>i \<in> set vs. int32 i"
    and "pack_authors a = map jv_string names" "\<forall>n \<in> set names. plain_text n \<and> CHR '','' \<notin> set n"
    and "pack_use_metadata a \<Longrightarrow> names \<noteq> [] \<or> pack_author_url a \<noteq> []"
  shows "readback (nondependent_template a u)"
proof -
  have t: "plain_text (pack_name a)" "plain_text (pack_description a)" "plain_text (pack_type a)"
    "plain_text (pack_author_url a)" "plain_text (pack_gametest_entry_file a)"
    using assms(2) by (simp_all add: manifest_texts_def)
  note parts = readback_jv readback_parts plain_literals plain_script_path obj_keys_simps t assms(1)
  have version: "readback (jv_list (pack_version a))"
    using assms(3-5) by (auto simp: readback_jv)
  have "pack_authors a \<noteq> [] \<Longrightarrow> readback (jv_list (pack_authors a))"
    using assms(6,7) by (auto simp: readback_jv)
  then have metadata: "pack_use_metadata a \<Longrightarrow> readback (jv_object
      (optional (pack_authors a \<noteq> []) (''authors'', jv_list (pack_authors a)) @
       optional (pack_author_url a \<noteq> []) (''url'', jv_string (pack_author_url a))))"
    using assms(6,8) by (auto simp: parts optional_def)
  have header: "readback (jv_object (header_template (pack_name a) d (uuid_value u 0) @
      engine_template (pack_version a) b))" if "plain_text d" for b d
    using that version by (simp add: header_template_def engine_template_def parts) (auto simp: parts)
  have modules: "readback (jv_list (nd_modules_template a u @ nd_script_template a u))"
    by (simp add: nd_modules_template_def nd_script_template_def module_template_def parts)
  have dependencies: "readback (jv_list
       [dependency_template ''Minecraft module, required to use the Minecraft module'' (uuid_value u 3),
        dependency_template ''GameTest module, required to use the GameTest module'' (uuid_value u 4)])"
    by (simp add: dependency_template_def parts)
  have "plain_text (if pack_type a = ''skin_pack'' then [] else pack_description a)"
    using t(2) by (simp add: plain_text_def)
  note h = header [OF this, of "pack_type a \<noteq> ''skin_pack''"]
  show ?thesis
    unfolding nondependent_template_def metadata_template_def
    by (subst readback_jv(4))
      (auto simp: readback_jv(1) plain_literals obj_keys_simps int32_def modules dependencies metadata h)
qed

lemma member_built:
  "member k (build (describe (jv_object kvs))) = (case map_of kvs k of None \<Rightarrow> jv_default | Some v \<Rightarrow> build (describe v))"
  by (induction kvs) (auto simp: member_def)

lemma map_of_optional [simp]:
  "map_of (optional b (k', v)) k = (if b \<and> k = k' then Some v else None)"
  by (cases b) auto

text \<open>C23: An independent manifest that is printed and read back by the program's own parser is the same
  document, under these conditions: its texts hold no bracket and no control character without a short
  escape, its version is not empty and of 32 bit numbers, its authors hold no comma, and when metadata
  is requested there are authors or a URL (without both the generator prints an empty object, which
  the parser reads as one with a member).  The parser then accepts what the generator prints, and finds
  the header's identifier and name and the type of the first module in it.\<close>

theorem independent_manifest_reads_back:
  assumes "\<forall>k. hex_picks (u k)" "manifest_texts a"
    and "pack_version a = map jv_int vs" "vs \<noteq> []" "\<forall>i \<in> set vs. int32 i"
    and "pack_authors a = map jv_string names" "\<forall>n \<in> set names. plain_text n \<and> CHR '','' \<notin> set n"
    and "pack_use_metadata a \<Longrightarrow> names \<noteq> [] \<or> pack_author_url a \<noteq> []"
  shows "\<exists>v. bindR (generate_nondependent a u) parse = Inr v \<and>
    denotes v (describe (nondependent_template a u)) \<and>
    text_of ''uuid'' (member ''header'' v) = generate_uuid (u 0) \<and>
    text_of ''name'' (member ''header'' v) = pack_name a \<and>
    text_of ''type'' (hd (val_list (member ''modules'' v))) =
      (if pack_type a = ''scripts'' then ''data'' else pack_type a)"
proof (intro exI conjI)
  let ?t = "nondependent_template a u"
  have r: "describable ?t" "clean (describe ?t)" "sendable (describe ?t)"
    using readback_nondependent [OF assms] by (simp_all add: readback_def)
  have "version_ok (pack_version a)"
    using assms(3,4) by (cases vs) (simp_all add: version_ok_def jv_int_def)
  then have "generate_nondependent a u = get_repr ?t"
    using nondependent_doc_eq [of a u] by (simp add: generate_nondependent_def version_ok_def)
  then show "bindR (generate_nondependent a u) parse = Inr (build (describe ?t))"
    using parse_described [OF r] get_repr_describable [OF r(1)] by simp
  show "denotes (build (describe ?t)) (describe ?t)" by (rule denotes_build [OF r(2)])
  have h: "member ''header'' (build (describe ?t)) = build (describe (jv_object
      (header_template (pack_name a) (if pack_type a = ''skin_pack'' then [] else pack_description a)
        (uuid_value u 0) @ engine_template (pack_version a) (pack_type a \<noteq> ''skin_pack''))))"
    and m: "member ''modules'' (build (describe ?t)) =
      build (describe (jv_list (nd_modules_template a u @ nd_script_template a u)))"
    unfolding nondependent_template_def member_built by simp_all
  show "text_of ''uuid'' (member ''header'' (build (describe ?t))) = generate_uuid (u 0)"
    unfolding text_of_def h member_built
    by (simp add: header_template_def engine_template_def map_add_def uuid_value_def)
  show "text_of ''name'' (member ''header'' (build (describe ?t))) = pack_name a"
    unfolding text_of_def h member_built
    by (simp add: header_template_def engine_template_def map_add_def jv_default_def)
  show "text_of ''type'' (hd (val_list (member ''modules'' (build (describe ?t))))) =
      (if pack_type a = ''scripts'' then ''data'' else pack_type a)"
    unfolding m by (simp add: nd_modules_template_def module_template_def text_of_def member_def)
qed

definition sample_pack :: nondependent where
  "sample_pack = \<lparr>pack_type = ''data'', pack_name = ''My pack'', pack_description = ''A pack, really'',
     pack_version = map jv_int [1, 17, 0], pack_use_metadata = True,
     pack_authors = map jv_string [''ann''], pack_author_url = [], pack_use_gametest = True,
     pack_gametest_entry_file = ''modules/Main.js''\<rparr>"

theorem independent_manifest_reads_back_witness:
  "\<exists>v. bindR (generate_nondependent sample_pack (\<lambda>_ _. 10)) parse = Inr v \<and>
    denotes v (describe (nondependent_template sample_pack (\<lambda>_ _. 10))) \<and>
    text_of ''uuid'' (member ''header'' v) = generate_uuid (\<lambda>_. 10) \<and>
    text_of ''name'' (member ''header'' v) = pack_name sample_pack \<and>
    text_of ''type'' (hd (val_list (member ''modules'' v))) =
      (if pack_type sample_pack = ''scripts'' then ''data'' else pack_type sample_pack)"
proof (rule independent_manifest_reads_back)
  show "manifest_texts sample_pack"
    unfolding manifest_texts_def sample_pack_def plain_text_def by code_simp
  show "pack_version sample_pack = map jv_int [1, 17, 0]" "pack_authors sample_pack = map jv_string [''ann'']"
    by (simp_all add: sample_pack_def)
  show "\<forall>n \<in> set [''ann'']. plain_text n \<and> CHR '','' \<notin> set n"
    unfolding plain_text_def by code_simp
qed (simp_all add: hex_picks_def int32_def)

end
