(* ===== verification/Commands.thy ===== *)
theory Commands
  imports Readback
begin

text \<open>
  The commands of the bot end to end: from the interaction that Discord delivers, through the
  generators, to the requests that leave the bot.  Each result is put together from the contract of
  the component: what the generator makes of its arguments (Manifest, Entity, Item, Obfuscator), what
  the archive of a tree holds (Files), what a transfer returns and what an upload sends (Http), and
  that the parser reads what the printer writes (JsonCorrect).
\<close>

section \<open>From a command to the requests\<close>

text \<open>What an interaction of type 2 does, by the outcome of its command.\<close>

lemma respond_command:
  assumes "val_int (member ''type'' payload) = Some 2"
    and "run_command env api (callback_link payload) payload (open_answer 4) = (acts, r)"
  shows "respond_interaction env api payload =
    (case r of
       Inl e \<Rightarrow> (acts, Inl e)
     | Inr None \<Rightarrow> (acts, Inr ())
     | Inr (Some d) \<Rightarrow>
         (case get_repr d of
            Inl e \<Rightarrow> (acts, Inl e)
          | Inr t \<Rightarrow> (acts @ [HttpPost (c_str (callback_link payload))
                              [user_agent, json_content, auth_header (bot_token api)] t], Inr ())))"
  unfolding respond_interaction_def callback_link_def [symmetric] Let_def
  using assms
  by (auto simp: bindIO_def returnIO_def liftR_def post_json_def emit_def
      split: sum.splits option.splits)

text \<open>A delivered archive: what is written, sent and deleted, by the leaves of the tree.\<close>

definition archive_name :: "environment \<Rightarrow> string" where
  "archive_name env = ''tmp/'' @ generate_uuid (zip_picks env) @ ''.zip''"

definition archive_calls :: "environment \<Rightarrow> (string list \<times> nat \<times> string) list \<Rightarrow> zip_call list" where
  "archive_calls env entries = [ZipOpen (c_str (archive_name env))] @
     concat (map (\<lambda>(p, m, c). zip_entry (initialize_zfi (now env)) m (join_path p) c) entries) @ [ZipClose]"

definition form_sent :: "restapi \<Rightarrow> string \<Rightarrow> string \<Rightarrow> string \<Rightarrow> part \<Rightarrow> action" where
  "form_sent api link shown msg attachment =
     HttpForm (c_str link) [user_agent, auth_header (bot_token api)]
       [[Mime_name ''payload_json'', Mime_data (c_str (repr (wrapper_template shown msg)))], attachment]"

definition pack_sent :: "environment \<Rightarrow> restapi \<Rightarrow> string \<Rightarrow> string \<Rightarrow> string \<Rightarrow>
    (string list \<times> nat \<times> string) list \<Rightarrow> action list" where
  "pack_sent env api link shown msg entries =
     [WriteZip (archive_name env) (archive_calls env entries),
      form_sent api link shown msg (file_part (c_str shown) (c_str (archive_name env))),
      RemoveFile (c_str (archive_name env))]"

lemma send_pack_sent:
  "named tree \<Longrightarrow> send_pack env api link shown msg tree = (pack_sent env api link shown msg (leaf_paths tree), Inr None)"
  by (simp add: send_pack_def make_zip_run upload_file_df_def upload_run pack_sent_def archive_calls_def
      archive_name_def form_sent_def) (simp add: bindIO_def returnIO_def emit_def)

lemma upload_data_sent:
  "upload_data_df (bot_token api) link shown filedata msg =
     ([form_sent api link shown msg (data_part (c_str shown) (c_str filedata))], Inr ())"
  by (simp add: upload_data_df_def upload_run form_sent_def)

text \<open>
  The name under which the receiver sees the archive is that of the temporary file, whatever name was
  set before the file was given.
\<close>

lemma base_name_below: "CHR ''/'' \<notin> set s \<Longrightarrow> base_name (t @ CHR ''/'' # s) = s"
proof -
  assume "CHR ''/'' \<notin> set s"
  then have "takeWhile (\<lambda>c. c \<noteq> CHR ''/'') (rev s @ CHR ''/'' # rev t) = rev s"
    by (subst takeWhile_append2) auto
  then show ?thesis by (simp add: base_name_def)
qed

lemma archive_base_name:
  assumes "hex_picks (zip_picks env)"
  shows "base_name (c_str (archive_name env)) = generate_uuid (zip_picks env) @ ''.zip''"
proof -
  let ?z = "generate_uuid (zip_picks env) @ ''.zip''"
  have "list_all (\<lambda>c. c \<noteq> CHR ''/'' \<and> c \<noteq> CHR 0x00) (CHR ''-'' # uuid_hex)" by code_simp
  with uuid_chars [OF assms] have c: "CHR ''/'' \<notin> set ?z" "CHR 0x00 \<notin> set ?z"
    by (auto simp: list_all_iff)
  have a: "archive_name env = ''tmp'' @ CHR ''/'' # ?z" by (simp add: archive_name_def)
  have "c_str (archive_name env) = ''tmp'' @ CHR ''/'' # ?z"
    unfolding a by (rule c_str_id) (use c(2) in simp)
  then show ?thesis using base_name_below [OF c(1), of "''tmp''"] by simp
qed

lemma pack_sent_files:
  "hex_picks (zip_picks env) \<Longrightarrow>
     file_names (pack_sent env api link shown msg entries) = [generate_uuid (zip_picks env) @ ''.zip'']"
  by (simp add: pack_sent_def form_sent_def archive_base_name)

text \<open>The downloads of an optional attachment, and the leaf it becomes.\<close>

definition icon_gets :: "string \<Rightarrow> action list" where
  "icon_gets url = optional (url \<noteq> []) (HttpGet (c_str url))"

lemma icon_gets_files [simp]: "file_names (icon_gets url) = []"
  by (simp add: icon_gets_def optional_def)

definition icon_leaf :: "environment \<Rightarrow> string \<Rightarrow> string \<Rightarrow> (string list \<times> nat \<times> string) list" where
  "icon_leaf env folder url =
     optional (url \<noteq> []) ([folder, ''pack_icon.png''], 8, concat (net env (c_str url)))"

definition icon_files :: "environment \<Rightarrow> string \<Rightarrow> pack_file list" where
  "icon_files env url =
     optional (url \<noteq> []) (File 0 (concat (net env (c_str url))) [] [] ''pack_icon.png'')"

lemma pack_icon_run: "pack_icon env url = (icon_gets url, Inr (icon_files env url))"
  by (simp add: pack_icon_def icon_gets_def icon_files_def raw_fetch_eq bindIO_def returnIO_def)

lemma filename_File [simp]: "filename (File k b t ds n) = n"
  by simp

lemma icon_files_tree [simp]:
  "\<forall>g \<in> set (icon_files env url). filename g \<noteq> [] \<and> named g"
  "map (\<lambda>(p, mc). (folder # p, mc)) (concat (map (\<lambda>g. map (\<lambda>(p, mc). (filename g # p, mc)) (leaf_paths g))
     (icon_files env url))) = icon_leaf env folder url"
  by (auto simp: icon_files_def icon_leaf_def optional_def)

section \<open>manifest\<close>

lemma manifest_respond:
  assumes "val_int (member ''type'' payload) = Some 2"
    and "text_of ''name'' (member ''data'' payload) = ''manifest''"
    and "peek [Key ''data'', Key ''options'', Idx 0] payload = Inr mpload"
    and "text_of ''name'' mpload = ''independent'' \<and>
        independent_command env api (callback_link payload) payload mpload = (acts, Inr None) \<or>
      text_of ''name'' mpload = ''dependent'' \<and>
        dependent_command env api (callback_link payload) payload mpload = (acts, Inr None)"
  shows "respond_interaction env api payload = (acts, Inr ())"
proof -
  have "run_command env api (callback_link payload) payload (open_answer 4) = (acts, Inr None)"
    using assms(4) unfolding run_command_def assms(2) manifest_command_def assms(3) bindIO_liftR
    by auto
  from respond_command [OF assms(1) this] show ?thesis by simp
qed

text \<open>The options of a manifest command, collected.\<close>

definition independent_state :: "restapi \<Rightarrow> json_value \<Rightarrow> json_value \<Rightarrow> manifest_state" where
  "independent_state api payload mpload =
     fold (independent_option api payload) (val_list (member ''options'' mpload))
       \<lparr>witdt = independent_defaults, folder_name = ''rp'', fetch_file = [],
        msgcntn = notif api ''manifest_splash''\<rparr>"

definition dependent_state :: "restapi \<Rightarrow> json_value \<Rightarrow> json_value \<Rightarrow> manifest_state" where
  "dependent_state api payload mpload =
     fold (dependent_option api payload) (val_list (member ''options'' mpload))
       \<lparr>witdt = dependent_defaults, folder_name = [], fetch_file = [],
        msgcntn = notif api ''manifest_splash''\<rparr>"

lemma independent_folder: "folder_name (independent_state api payload mpload) \<in> {''rp'', ''bp''}"
proof -
  have "folder_name st \<in> {''rp'', ''bp''} \<Longrightarrow>
      folder_name (fold (independent_option api payload) os st) \<in> {''rp'', ''bp''}" for os st
    by (induction os arbitrary: st) (simp_all add: independent_option_def manifest_icon_def Let_def)
  then show ?thesis by (simp add: independent_state_def)
qed

text \<open>What a user writes gives values the printer can read.\<close>

lemma split_version_sound: "split_version s = Inr vs \<Longrightarrow> list_all sound vs"
  by (auto simp: split_version_def bindR_eq_Inr elim!: mapR_all)

lemma split_authors_sound: "list_all sound (split_authors s d)"
  by (auto simp: split_authors_eq list_all_iff)

lemma independent_arguments_sound:
  "independent_arguments w = Inr a \<Longrightarrow> list_all sound (pack_version a) \<and> list_all sound (pack_authors a)
     \<and> pack_name a = param_text w ''pack_name''"
  by (auto simp: independent_arguments_def bindR_eq_Inr split_version_sound split_authors_sound)

lemma dependent_arguments_sound:
  "dependent_arguments w = Inr a \<Longrightarrow> list_all sound (bp_version a) \<and> list_all sound (bp_authors a) \<and>
     list_all sound (rp_version a) \<and> list_all sound (rp_authors a) \<and> rp_name a = param_text w ''rp_name''"
  by (auto simp: dependent_arguments_def bindR_eq_Inr split_version_sound split_authors_sound)

lemma independent_template_sound:
  "independent_arguments w = Inr a \<Longrightarrow> sound (nondependent_template a u)"
  by (auto dest!: independent_arguments_sound simp: nondependent_template_def header_template_def
      metadata_template_def engine_template_def module_template_def dependency_template_def
      nd_modules_template_def nd_script_template_def obj_keys_simps)

lemma dependent_template_sound:
  assumes "dependent_arguments w = Inr a"
  shows "sound (behaviorpack_template a u)" "sound (resourcepack_template a u)"
  using dependent_arguments_sound [OF assms]
  by (auto simp: behaviorpack_template_def resourcepack_template_def dep_header_template_def header_template_def
      metadata_template_def engine_template_def module_template_def dependency_template_def
      link_template_def obj_keys_simps)

text \<open>C6: The command \<open>manifest independent\<close> from the interaction to the archive: the bot fetches the icon
  when a PNG is attached, writes one archive whose only entries are the manifest of the chosen
  options, in the folder of its type, and the icon beside it, sends it with the collected remarks to the
  callback of this interaction, and deletes it.  The document in front of the archive and the first
  of the two names that are set for it are the name of the pack; the receiver sees the archive under
  the second, the identifier that names the temporary file.\<close>

theorem independent_manifest_pack:
  assumes "val_int (member ''type'' payload) = Some 2"
    and "text_of ''name'' (member ''data'' payload) = ''manifest''"
    and "peek [Key ''data'', Key ''options'', Idx 0] payload = Inr mpload"
    and "text_of ''name'' mpload = ''independent''"
    and "st = independent_state api payload mpload"
    and "independent_arguments (witdt st) = Inr a" "version_ok (pack_version a)"
    and "hex_picks (zip_picks env)"
  shows "respond_interaction env api payload =
    (icon_gets (fetch_file st) @
     pack_sent env api (callback_link payload) (pack_name a @ ''.mcpack'') (msgcntn st)
       (([folder_name st, ''manifest.json''], 0, repr (nondependent_template a (picks env))) #
        icon_leaf env (folder_name st) (fetch_file st)), Inr ()) \<and>
    file_names (fst (respond_interaction env api payload)) = [generate_uuid (zip_picks env) @ ''.zip'']"
proof -
  have doc: "generate_nondependent a (picks env) = Inr (repr (nondependent_template a (picks env)))"
    using nondependent_doc_eq [of a "picks env"] assms(7) sound_get_repr [OF independent_template_sound [OF assms(6)]]
    by (simp add: generate_nondependent_def version_ok_def)
  have "folder_name st \<noteq> []" using independent_folder [of api payload mpload] assms(5) by auto
  then have "independent_command env api (callback_link payload) payload mpload =
    (icon_gets (fetch_file st) @
     pack_sent env api (callback_link payload) (pack_name a @ ''.mcpack'') (msgcntn st)
       (([folder_name st, ''manifest.json''], 0, repr (nondependent_template a (picks env))) #
        icon_leaf env (folder_name st) (fetch_file st)), Inr None)"
    using independent_arguments_sound [OF assms(6)]
    unfolding independent_command_def independent_state_def [symmetric] assms(5) [symmetric] Let_def
    by (simp add: assms(6) doc pack_icon_run effect_simps send_pack_sent)
  with assms(4) have "respond_interaction env api payload =
    (icon_gets (fetch_file st) @
     pack_sent env api (callback_link payload) (pack_name a @ ''.mcpack'') (msgcntn st)
       (([folder_name st, ''manifest.json''], 0, repr (nondependent_template a (picks env))) #
        icon_leaf env (folder_name st) (fetch_file st)), Inr ())"
    by (intro manifest_respond [OF assms(1-3)]) simp
  then show ?thesis by (simp add: pack_sent_files [OF assms(8)])
qed

text \<open>C7: The command \<open>manifest dependent\<close> from the interaction to the archive: one archive with the
  two linked manifests, each in the folder of its pack with a copy of the icon beside it, the
  resource pack first.  The document in front of the archive announces it under the name of the
  resource pack; the receiver sees it under the identifier that names the temporary file.\<close>

theorem dependent_manifest_pack:
  assumes "val_int (member ''type'' payload) = Some 2"
    and "text_of ''name'' (member ''data'' payload) = ''manifest''"
    and "peek [Key ''data'', Key ''options'', Idx 0] payload = Inr mpload"
    and "text_of ''name'' mpload = ''dependent''"
    and "st = dependent_state api payload mpload"
    and "dependent_arguments (witdt st) = Inr a" "version_ok (bp_version a)" "version_ok (rp_version a)"
    and "hex_picks (zip_picks env)"
  shows "respond_interaction env api payload =
    (icon_gets (fetch_file st) @
     pack_sent env api (callback_link payload) (rp_name a @ ''.mcpack'') (msgcntn st)
       ([([''rp'', ''manifest.json''], 0, repr (resourcepack_template a (picks env)))] @
        icon_leaf env ''rp'' (fetch_file st) @
        [([''bp'', ''manifest.json''], 0, repr (behaviorpack_template a (picks env)))] @
        icon_leaf env ''bp'' (fetch_file st)), Inr ()) \<and>
    file_names (fst (respond_interaction env api payload)) = [generate_uuid (zip_picks env) @ ''.zip'']"
proof -
  have doc: "generate_dependent a (picks env) =
      Inr [repr (behaviorpack_template a (picks env)), repr (resourcepack_template a (picks env))]"
    using assms(7,8) dependent_template_sound [OF assms(6)]
    by (simp add: generate_dependent_def dependent_docs_eq sound_get_repr)
  have "dependent_command env api (callback_link payload) payload mpload =
    (icon_gets (fetch_file st) @
     pack_sent env api (callback_link payload) (rp_name a @ ''.mcpack'') (msgcntn st)
       ([([''rp'', ''manifest.json''], 0, repr (resourcepack_template a (picks env)))] @
        icon_leaf env ''rp'' (fetch_file st) @
        [([''bp'', ''manifest.json''], 0, repr (behaviorpack_template a (picks env)))] @
        icon_leaf env ''bp'' (fetch_file st)), Inr None)"
    using dependent_arguments_sound [OF assms(6)]
    unfolding dependent_command_def dependent_state_def [symmetric] assms(5) [symmetric] Let_def
    by (simp add: assms(6) doc vec_at_def pack_icon_run effect_simps send_pack_sent)
  with assms(4) have "respond_interaction env api payload =
    (icon_gets (fetch_file st) @
     pack_sent env api (callback_link payload) (rp_name a @ ''.mcpack'') (msgcntn st)
       ([([''rp'', ''manifest.json''], 0, repr (resourcepack_template a (picks env)))] @
        icon_leaf env ''rp'' (fetch_file st) @
        [([''bp'', ''manifest.json''], 0, repr (behaviorpack_template a (picks env)))] @
        icon_leaf env ''bp'' (fetch_file st)), Inr ())"
    by (intro manifest_respond [OF assms(1-3)]) simp
  then show ?thesis by (simp add: pack_sent_files [OF assms(9)])
qed

section \<open>entity\<close>

definition entity_parameters :: "json_value \<Rightarrow> parameters" where
  "entity_parameters payload = fold (\<lambda>option. map_put (text_of ''name'' option) (member ''value'' option))
     (val_list (member ''options'' (member ''data'' payload))) entity_defaults"

text \<open>
  The two attachments of the command: which is fetched, the file it becomes, and the remark on one of
  the wrong type.
\<close>

definition texture_url :: "json_value \<Rightarrow> parameters \<Rightarrow> string option" where
  "texture_url payload w =
     (let atch = attachment_of payload (param_text w ''texture_file'')
      in if param_text w ''texture_file'' \<noteq> [] \<and> text_of ''content_type'' atch = ''image/png''
         then Some (text_of ''url'' atch) else None)"

definition model_url :: "json_value \<Rightarrow> parameters \<Rightarrow> string option" where
  "model_url payload w =
     (let atch = attachment_of payload (param_text w ''model_file'')
      in if param_text w ''model_file'' \<noteq> [] \<and>
            fst (identify_filetype (text_of ''content_type'' atch)) = ''application/json''
         then Some (text_of ''url'' atch) else None)"

definition download_of :: "string option \<Rightarrow> action list" where
  "download_of url = (case url of None \<Rightarrow> [] | Some u \<Rightarrow> [HttpGet (c_str u)])"

lemma download_of_files [simp]: "file_names (download_of url) = []"
  by (simp add: download_of_def split: option.split)

definition texture_given :: "environment \<Rightarrow> json_value \<Rightarrow> parameters \<Rightarrow> pack_file" where
  "texture_given env payload w =
     (case texture_url payload w of
        None \<Rightarrow> file_text [] []
      | Some u \<Rightarrow> File 0 (concat (net env (c_str u))) [] []
                    (text_of ''filename'' (attachment_of payload (param_text w ''texture_file''))))"

definition model_given :: "environment \<Rightarrow> json_value \<Rightarrow> parameters \<Rightarrow> pack_file" where
  "model_given env payload w =
     (case model_url payload w of
        None \<Rightarrow> file_text [] []
      | Some u \<Rightarrow> file_text (text_of ''filename'' (attachment_of payload (param_text w ''model_file'')))
                    (c_str (concat (net env (c_str u)))))"

definition remark :: "restapi \<Rightarrow> string \<Rightarrow> string \<Rightarrow> string option \<Rightarrow> string" where
  "remark api k attached url = (if attached \<noteq> [] \<and> url = None then notif api k @ [CHR 0x0A] else [])"

definition entity_remarks :: "restapi \<Rightarrow> json_value \<Rightarrow> parameters \<Rightarrow> string" where
  "entity_remarks api payload w =
     remark api ''entity_model_ivfmt'' (param_text w ''model_file'') (model_url payload w) @
     remark api ''entity_textr_ivfmt'' (param_text w ''texture_file'') (texture_url payload w)"

lemma entity_texture_run:
  "entity_texture env api payload w = (download_of (texture_url payload w), Inr (texture_given env payload w,
     remark api ''entity_textr_ivfmt'' (param_text w ''texture_file'') (texture_url payload w)))"
  by (simp add: remark_def entity_texture_def texture_url_def texture_given_def download_of_def Let_def raw_fetch_eq
      effect_simps)

lemma entity_model_run:
  assumes "\<And>u. model_url payload w = Some u \<Longrightarrow> net env (c_str u) \<noteq> []"
  shows "entity_model env api payload w msg = (download_of (model_url payload w), Inr (model_given env payload w,
     remark api ''entity_model_ivfmt'' (param_text w ''model_file'') (model_url payload w) @ msg))"
  using assms
  by (simp add: remark_def entity_model_def model_url_def model_given_def download_of_def Let_def fetch_url_eq
      effect_simps)

text \<open>The tree of an entity pack has no unnamed files.\<close>

lemma get_ename_named: "verifyIdentifier s \<Longrightarrow> get_ename s \<noteq> []"
proof -
  assume "verifyIdentifier s"
  then obtain ns name where "id_groups s = Some (ns, name)"
    by (auto simp: verifyIdentifier_def split: option.splits)
  then show ?thesis using id_groups_iff [of s ns name] by (simp add: get_ename_def id_match_def)
qed

lemma named_entity:
  assumes "named (textureFile a)" "named (modelFile a)"
  shows "named (file_dir n (pack_tree a u geo))"
  using assms by (auto simp: pack_tree_def resource_entries_def behaviour_entries_def Let_def)

lemma named_given [simp]: "named (texture_given env payload w)" "named (model_given env payload w)"
  by (simp_all add: texture_given_def model_given_def split: option.split)

lemma entity_arguments_files:
  "entity_arguments w tf mf = Inr a \<Longrightarrow> textureFile a = tf \<and> modelFile a = mf"
  by (auto simp: entity_arguments_def bindR_eq_Inr)

text \<open>The answer that only its reader sees.\<close>

definition error_template :: "int \<Rightarrow> string \<Rightarrow> json_value" where
  "error_template t content = jv_object [(''type'', jv_int t),
     (''data'', jv_object [(''content'', jv_string content), (''flags'', jv_int 64)])]"

lemma set_error_run: "set_error content (open_answer t) = ([], Inr (Some (error_template t content)))"
  by (simp add: set_error_def open_answer_def error_template_def assign_def obj_updR_eq effect_simps)

lemma get_repr_error: "get_repr (error_template t content) = Inr (repr (error_template t content))"
  by (rule sound_get_repr) (simp add: error_template_def obj_keys_simps)

definition answer_sent :: "restapi \<Rightarrow> string \<Rightarrow> json_value \<Rightarrow> action" where
  "answer_sent api link d = HttpPost (c_str link) [user_agent, json_content, auth_header (bot_token api)] (repr d)"

text \<open>C8: The command \<open>entity\<close> from the interaction to the archive: with basic behaviour switched on, a
  valid identifier and a known kind of pack, the bot fetches the texture and the model when they have
  the right types, packs exactly the tree of the generator's template and sends it, announced under the name that
  belongs to the kind of pack and seen by the receiver under the identifier that names the temporary
  file, with a remark for each attachment of the wrong type; an invalid identifier, after the same
  downloads, is answered with a message only the user sees, and nothing is packed.\<close>

theorem entity_command_outcome:
  assumes "val_int (member ''type'' payload) = Some 2"
    and "text_of ''name'' (member ''data'' payload) = ''entity''"
    and "w = entity_parameters payload" "param_bool w ''basic_beh'' = Inr True"
    and "entity_arguments w (texture_given env payload w) (model_given env payload w) = Inr a"
    and "\<And>u. model_url payload w = Some u \<Longrightarrow> net env (c_str u) \<noteq> []"
    and "pack_geometry a = Inr geo" "select a \<in> {''beh'', ''res'', ''both''}" "hex_picks (zip_picks env)"
  shows "respond_interaction env api payload =
    (download_of (texture_url payload w) @ download_of (model_url payload w) @
     (if verifyIdentifier (e_identifier a)
      then pack_sent env api (callback_link payload) (pack_filename a) (entity_remarks api payload w)
             (leaf_paths (file_dir (pack_filename a) (pack_tree a (picks env) geo)))
      else [answer_sent api (callback_link payload) (error_template 4 (notif api ''entity_invalid_idr''))]),
     Inr ()) \<and>
    file_names (fst (respond_interaction env api payload)) =
      optional (verifyIdentifier (e_identifier a)) (generate_uuid (zip_picks env) @ ''.zip'')"
proof -
  let ?fetched = "download_of (texture_url payload w) @ download_of (model_url payload w)"
  note files = entity_arguments_files [OF assms(5)]
  have command: "run_command env api link payload d = entity_command env api link payload d" for link d
    by (simp add: run_command_def assms(2))
  let ?rest = "\<lambda>link d. bindIO ([], make_entity a (picks env)) (\<lambda>j.
    if filename j \<noteq> [] then send_pack env api link (filename j) (entity_remarks api payload w) j
    else set_error (notif api ''entity_invalid_idr'') d)"
  have start: "entity_command env api link payload d = (?fetched @ fst (?rest link d), snd (?rest link d))"
    for link d
    unfolding entity_command_def entity_parameters_def [symmetric] assms(3) [symmetric] Let_def
      entity_remarks_def
    by (simp add: entity_texture_run entity_model_run [OF assms(6)] assms(4,5) effect_simps)
  show ?thesis
  proof (cases "verifyIdentifier (e_identifier a)")
    case True
    then have "pack_filename a \<noteq> []" using assms(8) by (auto simp: pack_filename_def)
    have tree: "named (file_dir (pack_filename a) (pack_tree a (picks env) geo))"
      by (rule named_entity) (simp_all add: files)
    with True \<open>pack_filename a \<noteq> []\<close> have "run_command env api (callback_link payload) payload (open_answer 4) = (?fetched @
        pack_sent env api (callback_link payload) (pack_filename a) (entity_remarks api payload w)
          (leaf_paths (file_dir (pack_filename a) (pack_tree a (picks env) geo))), Inr None)"
      unfolding command start
      by (simp add: bindIO_pair make_entity_run assms(7) send_pack_sent [OF tree])
    from respond_command [OF assms(1) this] True show ?thesis
      by (simp add: pack_sent_files [OF assms(9)] optional_def)
  next
    case False
    then have "run_command env api (callback_link payload) payload (open_answer 4) = (?fetched @ [],
        Inr (Some (error_template 4 (notif api ''entity_invalid_idr''))))"
      unfolding command start
      by (simp add: bindIO_pair make_entity_def set_error_run)
    from respond_command [OF assms(1) this] False show ?thesis
      by (simp add: get_repr_error answer_sent_def optional_def)
  qed
qed

section \<open>obfuscate\<close>

text \<open>C10: The command \<open>obfuscate\<close> from the interaction to the answer.  An attachment of another type
  than JSON is not fetched, and its owner alone is told.  A JSON attachment is fetched, obfuscated,
  minified when the user asks for it, and sent back under its own name.  When the option cannot be read
  nothing is fetched, and when the transfer has no body or the obfuscation fails nothing is sent; the
  failure then leaves the handler.  The remark with the file is the message \<open>obfuscator_noutf8\<close>
  unless the character set is declared as \<open>utf-8\<close>, and then the message \<open>splash\<close>, if
  there is one: the messages the program ships with call it \<open>obfuscator_splash\<close>, so that with them
  the remark is empty.\<close>

theorem obfuscate_command_outcome:
  assumes "val_int (member ''type'' payload) = Some 2"
    and "text_of ''name'' (member ''data'' payload) = ''obfuscate''"
    and "peek [Key ''data'', Key ''options'', Idx 0, Key ''value''] payload = Inr v"
    and "atch = attachment_of payload (val_string v)" "url = c_str (text_of ''url'' atch)"
    and "identify_filetype (text_of ''content_type'' atch) = (kind, charset)"
  shows "respond_interaction env api payload =
    (if kind \<noteq> ''application/json''
     then ([answer_sent api (callback_link payload) (error_template 4 (notif api ''obfuscator_invfex''))], Inr ())
     else case minify_option payload of
       Inl e \<Rightarrow> ([], Inl e)
     | Inr wanted \<Rightarrow>
         (if net env url = [] then ([HttpGet url], Inl Logic_error)
          else case obfuscateMain (c_str (concat (net env url))) wanted of
            Inl e \<Rightarrow> ([HttpGet url], Inl e)
          | Inr result \<Rightarrow>
              ([HttpGet url,
                form_sent api (callback_link payload) (text_of ''filename'' atch)
                  (if charset \<noteq> ''utf-8'' then notif api ''obfuscator_noutf8''
                   else case notifmsg api ''splash'' of None \<Rightarrow> [] | Some t \<Rightarrow> t)
                  (data_part (c_str (text_of ''filename'' atch)) (c_str result))], Inr ())))"
proof -
  let ?bad = "error_template 4 (notif api ''obfuscator_invfex'')"
  let ?form = "\<lambda>result. form_sent api (callback_link payload) (text_of ''filename'' atch)
    (if charset \<noteq> ''utf-8'' then notif api ''obfuscator_noutf8''
     else case notifmsg api ''splash'' of None \<Rightarrow> [] | Some t \<Rightarrow> t)
    (data_part (c_str (text_of ''filename'' atch)) (c_str result))"
  have splash: "notif api ''splash'' = (case notifmsg api ''splash'' of None \<Rightarrow> [] | Some t \<Rightarrow> t)"
    by (simp add: notif_def map_get_def)
  have command: "run_command env api (callback_link payload) payload (open_answer 4) =
    obfuscate_command env api (callback_link payload) payload (open_answer 4)"
    by (simp add: run_command_def assms(2))
  show ?thesis
  proof (cases "kind = ''application/json''")
    case True
    have run: "run_command env api (callback_link payload) payload (open_answer 4) =
      bindIO (liftR (minify_option payload)) (\<lambda>wanted.
        bindIO (fetch_url (net env) (text_of ''url'' atch)) (\<lambda>json_file.
        bindIO (liftR (obfuscateMain json_file wanted)) (\<lambda>result.
          ([?form result], Inr None))))"
      unfolding command obfuscate_command_def assms(3) bindIO_liftR Let_def assms(4) [symmetric] assms(6)
        upload_data_sent splash
      using True by (simp add: bindIO_def returnIO_def)
    note answer = respond_command [OF assms(1) run [THEN trans, OF prod.collapse [symmetric]]]
    show ?thesis
      unfolding answer using True
      by (cases "minify_option payload"; cases "obfuscateMain (c_str (concat (net env url))) (projr (minify_option payload))")
        (simp_all add: effect_simps fetch_url_eq assms(5))
  next
    case False
    then have "run_command env api (callback_link payload) payload (open_answer 4) = ([], Inr (Some ?bad))"
      unfolding command obfuscate_command_def assms(3) bindIO_liftR Let_def assms(4) [symmetric] assms(6)
      by (simp add: set_error_run)
    from respond_command [OF assms(1) this] False show ?thesis by (simp add: get_repr_error answer_sent_def)
  qed
qed

section \<open>item\<close>

text \<open>The steps of the item command read the documents that the steps before them sent.\<close>

lemma item_respond:
  assumes "val_int (member ''type'' payload) = Some 2"
    and "text_of ''name'' (member ''data'' payload) = ''item''"
    and "peek [Key ''data'', Key ''options'', Idx 0] payload = Inr mpload"
    and "text_of ''name'' mpload = ''start'' \<and> item_start api (callback_link payload) mpload = (acts, Inr None) \<or>
      text_of ''name'' mpload = ''checkpoint'' \<and>
        item_checkpoint env api (callback_link payload) payload mpload (open_answer 4) = (acts, Inr None) \<or>
      text_of ''name'' mpload = ''finish'' \<and>
        item_finish env api (callback_link payload) payload mpload (open_answer 4) = (acts, Inr None)"
  shows "respond_interaction env api payload = (acts, Inr ())"
proof -
  have "run_command env api (callback_link payload) payload (open_answer 4) = (acts, Inr None)"
    using assms(4) unfolding run_command_def assms(2) item_command_def assms(3) bindIO_liftR Let_def
    by auto
  from respond_command [OF assms(1) this] show ?thesis by simp
qed

definition item_step :: "string \<Rightarrow> json_value \<Rightarrow> json_value \<Rightarrow> bool" where
  "item_step name payload mpload \<longleftrightarrow> val_int (member ''type'' payload) = Some 2 \<and>
     text_of ''name'' (member ''data'' payload) = ''item'' \<and>
     peek [Key ''data'', Key ''options'', Idx 0] payload = Inr mpload \<and> text_of ''name'' mpload = name"

definition given_options :: "json_value \<Rightarrow> (string \<times> json_value) list" where
  "given_options mpload = val_object (reduce_options (member ''options'' mpload))"

lemma reduce_options_given: "reduce_options (member ''options'' mpload) = jv_object (given_options mpload)"
  by (simp add: given_options_def reduce_options_def jv_object_def)

text \<open>
  The attachment that the option \<open>k\<close> names, as a file of type JSON with the given text, however the
  network cuts it.
\<close>

definition step_attachment :: "string \<Rightarrow> json_value \<Rightarrow> json_value \<Rightarrow> json_value" where
  "step_attachment k payload mpload =
     attachment_of payload (val_string (obj_get jv_default k (given_options mpload)))"

definition delivers :: "environment \<Rightarrow> json_value \<Rightarrow> string \<Rightarrow> bool" where
  "delivers env atch text \<longleftrightarrow> fst (identify_filetype (text_of ''content_type'' atch)) = ''application/json'' \<and>
     net env (c_str (text_of ''url'' atch)) \<noteq> [] \<and> concat (net env (c_str (text_of ''url'' atch))) = text"

lemma delivers_fetch:
  "delivers env atch text \<Longrightarrow> c_str text = text \<Longrightarrow>
     fetch_url (net env) (text_of ''url'' atch) = ([HttpGet (c_str (text_of ''url'' atch))], Inr text)"
  by (simp add: delivers_def fetch_url_eq)

lemma step_file_given:
  "k \<in> set (obj_keys kvs) \<Longrightarrow>
     step_file k (jv_object kvs) = (val_string (obj_get jv_default k kvs), jv_object kvs)"
  by (simp add: step_file_def obj_index_def obj_put_id jv_object_def set_val_object_def)

lemma merge_received:
  "merge_steps (received (jv_object older)) (jv_object newer)
     = jv_object (map (\<lambda>kv. (fst kv, received (snd kv))) older @ newer)"
  unfolding received_object by (simp add: merge_steps_def set_val_object_def jv_object_def)

text \<open>Two steps with different names together are a document that can be sent again.\<close>

lemma portable_object:
  "portable (jv_object kvs) \<longleftrightarrow> kvs \<noteq> [] \<and> distinct (obj_keys kvs) \<and>
     (\<forall>kv \<in> set kvs. plain_text (fst kv) \<and> CHR 0x00 \<notin> set (fst kv) \<and> portable (snd kv))"
  by (auto simp: portable_def readback_jv)

lemma portable_received:
  "portable v \<Longrightarrow> portable (received v)" "portable v \<Longrightarrow> received (received v) = received v"
  using received_again [of v] by (auto simp: portable_def readback_def received_def)

lemma portable_merged:
  assumes "portable (jv_object older)" "portable (jv_object newer)"
    and "set (obj_keys older) \<inter> set (obj_keys newer) = {}"
  shows "portable (merge_steps (received (jv_object older)) (jv_object newer))"
  using assms by (auto simp: merge_received portable_object portable_received obj_keys_def comp_def)

lemma received_merged:
  assumes "portable (jv_object older)"
  shows "received (merge_steps (received (jv_object older)) (jv_object newer)) =
    JV 3 (Some 0) None None [] [] (map (\<lambda>kv. (fst kv, received (snd kv))) (older @ newer))"
  unfolding merge_received unfolding received_object
  using assms by (auto simp: portable_object portable_received)

lemma item_start_run:
  assumes "item_step ''start'' payload mpload" "portable (jv_object (given_options mpload))"
  shows "respond_interaction env api payload =
    ([form_sent api (callback_link payload) ''step1.json'' (notif api ''item_step1_snotif'')
        (data_part ''step1.json'' (repr (jv_object (given_options mpload))))], Inr ())"
proof -
  have "c_str ''step1.json'' = ''step1.json''" by (rule c_str_id) simp
  then have "item_start api (callback_link payload) mpload =
    ([form_sent api (callback_link payload) ''step1.json'' (notif api ''item_step1_snotif'')
        (data_part ''step1.json'' (repr (jv_object (given_options mpload))))], Inr None)"
    using portable_text [OF assms(2)]
    by (simp add: item_start_def reduce_options_given upload_data_sent effect_simps)
  with assms(1) show ?thesis unfolding item_step_def by (intro item_respond) auto
qed

lemma item_checkpoint_run:
  assumes "item_step ''checkpoint'' payload mpload"
    and "portable (jv_object older)" "portable (jv_object (given_options mpload))"
    and "set (obj_keys older) \<inter> set (obj_keys (given_options mpload)) = {}"
    and "''step1_file'' \<in> set (obj_keys (given_options mpload))"
    and "delivers env (step_attachment ''step1_file'' payload mpload) (repr (jv_object older))"
  shows "respond_interaction env api payload =
    ([HttpGet (c_str (text_of ''url'' (step_attachment ''step1_file'' payload mpload))),
      form_sent api (callback_link payload) ''step2.json'' (notif api ''item_step2_snotif'')
        (data_part ''step2.json''
          (repr (merge_steps (received (jv_object older)) (jv_object (given_options mpload)))))], Inr ())"
proof -
  let ?merged = "merge_steps (received (jv_object older)) (jv_object (given_options mpload))"
  have "c_str ''step2.json'' = ''step2.json''" by (rule c_str_id) simp
  moreover have "get_repr ?merged = Inr (repr ?merged)" "c_str (repr ?merged) = repr ?merged"
    using portable_text [OF portable_merged [OF assms(2-4)]] by simp_all
  moreover have "fst (identify_filetype (text_of ''content_type''
      (step_attachment ''step1_file'' payload mpload))) = ''application/json''"
    using assms(6) by (simp add: delivers_def)
  ultimately have "item_checkpoint env api (callback_link payload) payload mpload (open_answer 4) =
    ([HttpGet (c_str (text_of ''url'' (step_attachment ''step1_file'' payload mpload))),
      form_sent api (callback_link payload) ''step2.json'' (notif api ''item_step2_snotif'')
        (data_part ''step2.json'' (repr ?merged))], Inr None)"
    using portable_text [OF assms(2)]
    by (simp add: item_checkpoint_def reduce_options_given step_file_given [OF assms(5)]
        delivers_fetch [OF assms(6)] upload_data_sent effect_simps Let_def
        flip: step_attachment_def)
  with assms(1) show ?thesis unfolding item_step_def by (intro item_respond) auto
qed

lemma map_of_rev_distinct: "distinct (map fst xs) \<Longrightarrow> map_of (rev xs) k = map_of xs k"
proof -
  assume d: "distinct (map fst xs)"
  then have "distinct (map fst (rev xs))" by (simp add: rev_map [symmetric])
  with d have "map_of (rev xs) k = Some v \<longleftrightarrow> map_of xs k = Some v" for v
    by (simp add: map_of_eq_Some_iff)
  then show ?thesis by (cases "map_of xs k") auto
qed

lemma map_of_received:
  "map_of (map (\<lambda>kv. (fst kv, received (snd kv))) kvs) k = map_option received (map_of kvs k)"
  by (induction kvs) auto

lemma item_steps_received:
  assumes "item_step ''start'' payload1 mpload1" "item_step ''checkpoint'' payload2 mpload2"
    and "portable (jv_object (given_options mpload1))" "portable (jv_object (given_options mpload2))"
    and "set (obj_keys (given_options mpload1)) \<inter> set (obj_keys (given_options mpload2)) = {}"
    and "''step1_file'' \<in> set (obj_keys (given_options mpload2))"
    and "delivers env2 (step_attachment ''step1_file'' payload2 mpload2) (repr (jv_object (given_options mpload1)))"
  shows "\<exists>step1 step2 sent. respond_interaction env1 api payload1 =
      ([form_sent api (callback_link payload1) ''step1.json'' (notif api ''item_step1_snotif'')
          (data_part ''step1.json'' step1)], Inr ()) \<and>
    delivers env2 (step_attachment ''step1_file'' payload2 mpload2) step1 \<and>
    respond_interaction env2 api payload2 =
      ([HttpGet (c_str (text_of ''url'' (step_attachment ''step1_file'' payload2 mpload2))),
        form_sent api (callback_link payload2) ''step2.json'' (notif api ''item_step2_snotif'')
          (data_part ''step2.json'' step2)], Inr ()) \<and>
    parse step2 = Inr sent \<and>
    (\<forall>step3_json k. item_parameters (merge_steps sent step3_json) k =
       (case map_of (rev (val_object step3_json)) k of Some v \<Rightarrow> Some v
        | None \<Rightarrow> (case map_of (given_options mpload1 @ given_options mpload2) k of
                    Some v \<Rightarrow> Some (received v) | None \<Rightarrow> item_defaults k)))"
proof (intro exI conjI allI)
  let ?both = "given_options mpload1 @ given_options mpload2"
  let ?merged = "merge_steps (received (jv_object (given_options mpload1))) (jv_object (given_options mpload2))"
  show "parse (repr ?merged) = Inr (received ?merged)"
    by (rule portable_text(3) [OF portable_merged [OF assms(3-5)]])
  have "distinct (map fst (map (\<lambda>kv. (fst kv, received (snd kv))) ?both))"
    using assms(3-5) by (simp add: portable_object obj_keys_def comp_def)
  then have r: "map_of (rev (map (\<lambda>kv. (fst kv, received (snd kv))) ?both)) k = map_option received (map_of ?both k)" for k
    using map_of_received [of ?both] by (simp only: map_of_rev_distinct)
  show "item_parameters (merge_steps (received ?merged) step3_json) k =
      (case map_of (rev (val_object step3_json)) k of Some v \<Rightarrow> Some v
       | None \<Rightarrow> (case map_of ?both k of Some v \<Rightarrow> Some (received v) | None \<Rightarrow> item_defaults k))" for step3_json k
    unfolding item_parameters_merge received_merged [OF assms(3)] json_value.sel r
    by (cases "map_of ?both k") (simp_all only: option.map option.case)
qed (rule item_start_run [OF assms(1,3)] assms(7) item_checkpoint_run [OF assms(2-7)])+

text \<open>The options as the parser has built them of the documents of the interaction.\<close>

definition built :: "(string \<times> json) list \<Rightarrow> (string \<times> json_value) list" where
  "built kjs = map (\<lambda>kj. (fst kj, build (snd kj))) kjs"

lemma portable_built: "handed_on (Obj kjs) \<Longrightarrow> portable (jv_object (built kjs))"
proof -
  assume h: "handed_on (Obj kjs)"
  then have "describe (build (snd kj)) = snd kj \<and> describable (build (snd kj))" if "kj \<in> set kjs" for kj
    using describe_build [of "snd kj"] that by (auto simp: handed_on_def)
  then have "describable (jv_object (built kjs)) \<and> describe (jv_object (built kjs)) = Obj kjs"
    by (auto simp: built_def list_all_iff intro!: map_idI)
  with h show ?thesis by (simp add: handed_on_def portable_def readback_def)
qed

lemma built_keys: "obj_keys (built kjs) = map fst kjs"
  by (simp add: built_def obj_keys_def)

lemma map_of_built: "map_of (built kjs) k = map_option build (map_of kjs k)"
  by (induction kjs) (auto simp: built_def)

lemma built_received:
  assumes "handed_on (Obj kjs)" "map_of kjs k = Some j"
  shows "received (build j) = build j"
proof -
  have "(k, j) \<in> set kjs" using assms(2) by (rule map_of_SomeD)
  with assms(1) have "exact j" by (force simp: handed_on_def)
  then show ?thesis using describe_build by (simp add: received_def)
qed

text \<open>C5: The three steps of the item command hand the user's parameters on through files: the first sends a
  document of its options; the second, given that file however the network cuts it, sends a document
  of both steps; and the last step, given what was sent, generates from exactly the newest value the
  user has stated for each parameter, and from the default of those never stated.  A value is handed on
  as it was received, under these conditions: no text of the options holds a bracket, a NUL byte or
  another control character without a short escape, and a number with a fraction is written the way
  the program prints it, so that its six digits determine it; the two steps have different options,
  among them the file of the first step.\<close>

theorem item_steps_hand_over:
  assumes "item_step ''start'' payload1 mpload1" "item_step ''checkpoint'' payload2 mpload2"
    and "given_options mpload1 = built older" "given_options mpload2 = built newer"
    and "handed_on (Obj older)" "handed_on (Obj newer)"
    and "set (map fst older) \<inter> set (map fst newer) = {}" "''step1_file'' \<in> set (map fst newer)"
    and "delivers env2 (step_attachment ''step1_file'' payload2 mpload2) (repr (jv_object (built older)))"
  shows "\<exists>step1 step2 sent. respond_interaction env1 api payload1 =
      ([form_sent api (callback_link payload1) ''step1.json'' (notif api ''item_step1_snotif'')
          (data_part ''step1.json'' step1)], Inr ()) \<and>
    delivers env2 (step_attachment ''step1_file'' payload2 mpload2) step1 \<and>
    respond_interaction env2 api payload2 =
      ([HttpGet (c_str (text_of ''url'' (step_attachment ''step1_file'' payload2 mpload2))),
        form_sent api (callback_link payload2) ''step2.json'' (notif api ''item_step2_snotif'')
          (data_part ''step2.json'' step2)], Inr ()) \<and>
    parse step2 = Inr sent \<and>
    (\<forall>step3_json k. item_parameters (merge_steps sent step3_json) k =
       (case map_of (rev (val_object step3_json)) k of Some v \<Rightarrow> Some v
        | None \<Rightarrow> (case map_of (older @ newer) k of Some j \<Rightarrow> Some (build j) | None \<Rightarrow> item_defaults k)))"
proof -
  have keys: "set (obj_keys (given_options mpload1)) \<inter> set (obj_keys (given_options mpload2)) = {}"
    "''step1_file'' \<in> set (obj_keys (given_options mpload2))"
    using assms(7,8) by (simp_all add: assms(3,4) built_keys)
  have newest: "(case map_of (given_options mpload1 @ given_options mpload2) k of Some v \<Rightarrow> Some (received v)
      | None \<Rightarrow> item_defaults k) = (case map_of (older @ newer) k of Some j \<Rightarrow> Some (build j) | None \<Rightarrow> item_defaults k)"
    for k
    by (cases "map_of newer k"; cases "map_of older k")
      (simp_all add: assms(3,4) map_of_built map_add_def built_received [OF assms(5)] built_received [OF assms(6)])
  show ?thesis
    using item_steps_received [OF assms(1,2) portable_built [OF assms(5), folded assms(3)]
        portable_built [OF assms(6), folded assms(4)] keys assms(9) [folded assms(3)], of env1 api]
    unfolding newest .
qed

text \<open>The icon of the last step, which is fetched only when it is a PNG.\<close>

definition item_icon_url :: "json_value \<Rightarrow> parameters \<Rightarrow> string option" where
  "item_icon_url payload w =
     (let atch = attachment_of payload (param_text w ''item_icon'')
      in if param_text w ''item_icon'' \<noteq> [] \<and> text_of ''content_type'' atch = ''image/png''
         then Some (text_of ''url'' atch) else None)"

definition item_icon_given :: "environment \<Rightarrow> json_value \<Rightarrow> parameters \<Rightarrow> pack_file" where
  "item_icon_given env payload w =
     (case item_icon_url payload w of
        None \<Rightarrow> file_text [] []
      | Some u \<Rightarrow> File 0 (concat (net env (c_str u))) [] [] ''brillium.png'')"

lemma item_icon_run:
  "item_icon env api payload w msg = (download_of (item_icon_url payload w), Inr (item_icon_given env payload w,
     remark api ''item_step3_imgerr'' (param_text w ''item_icon'') (item_icon_url payload w) @ msg))"
  by (simp add: item_icon_def item_icon_url_def item_icon_given_def download_of_def remark_def Let_def
      raw_fetch_eq effect_simps)

lemma truncate_slashes_nonempty: "s \<noteq> [] \<Longrightarrow> truncate_slashes s \<noteq> []"
  by (simp add: truncate_slashes_def)

lemma named_item:
  assumes "named (itemIcon a)"
  shows "named (file_dir n (item_tree a u))"
proof -
  have "named (set_filename m (itemIcon a))" for m
    using assms by (subst named.simps) (simp add: named.simps [of "itemIcon a"] set_filename_def)
  then show ?thesis
    using truncate_slashes_nonempty [of "item_to_lower (icon a) @ ''.png''"]
    by (auto simp: item_tree_def set_filename_def)
qed

lemma item_arguments_parts:
  assumes "item_arguments w ab = Inr a"
  shows "itemIcon a = ab" "list_all sound (entityPlacerUseon a)" "list_all sound (entityPlacerDison a)"
    "i_identifier a = param_text w ''identifier''"
proof -
  have "itemIcon a = ab \<and> i_identifier a = param_text w ''identifier'' \<and>
      entityPlacerUseon a = split_authors (param_text w ''entity_use_on'') CHR '','' \<and>
      entityPlacerDison a = split_authors (param_text w ''entity_dispense_on'') CHR '','' "
    using assms unfolding item_arguments_def bindR_eq_Inr by (elim exE conjE) auto
  then show "itemIcon a = ab" "list_all sound (entityPlacerUseon a)" "list_all sound (entityPlacerDison a)"
    "i_identifier a = param_text w ''identifier''"
    by (auto simp: split_authors_sound)
qed

lemma item_arguments_offhand:
  "item_arguments (w(''allow_in_offhand'' := v)) ab = item_arguments w ab"
proof -
  have "map_get d k (w(''allow_in_offhand'' := v)) = map_get d k w" if "k \<noteq> ''allow_in_offhand''"
    for d :: json_value and k
    using that by (simp add: map_get_def)
  then show ?thesis by (simp add: item_arguments_def param_bool_def param_text_def param_def)
qed

text \<open>C9: The last step of the item command from the interaction to the archive: the bot fetches the document
  of the steps before and the icon when it is a PNG, packs exactly the tree of the generator's template
  for the collected parameters, sends it announced under the name in the identifier, or as \<open>item\<close>
  when there is none, with a remark on an icon of another type, and deletes it; the receiver sees it
  under the identifier that names the temporary file.  The option \<open>allow_in_offhand\<close>, the name
  under which the command is registered with it, does not reach the generator, which reads
  \<open>allow_in_off_hand\<close>: whatever its value, the arguments are the same.\<close>

theorem item_finish_pack:
  assumes "item_step ''finish'' payload mpload" "''step2_file'' \<in> set (obj_keys (given_options mpload))"
    and "delivers env (step_attachment ''step2_file'' payload mpload) text" "c_str text = text"
    and "parse text = Inr sent"
    and "w = item_parameters (merge_steps sent (jv_object (given_options mpload)))"
    and "item_arguments w (item_icon_given env payload w) = Inr a" "hex_picks (zip_picks env)"
  shows "respond_interaction env api payload =
    ([HttpGet (c_str (text_of ''url'' (step_attachment ''step2_file'' payload mpload)))] @
     download_of (item_icon_url payload w) @
     pack_sent env api (callback_link payload)
       ((if get_iname (i_identifier a) = [] then ''item'' else get_iname (i_identifier a)) @ ''.mcaddon'')
       (remark api ''item_step3_imgerr'' (param_text w ''item_icon'') (item_icon_url payload w) @
        notif api ''item_step3_splash'')
       (leaf_paths (file_dir (item_filename a) (item_tree a (picks env)))), Inr ()) \<and>
    file_names (fst (respond_interaction env api payload)) = [generate_uuid (zip_picks env) @ ''.zip''] \<and>
    (\<forall>v. item_arguments (w(''allow_in_offhand'' := v)) (item_icon_given env payload w) = Inr a)"
proof -
  note parts = item_arguments_parts [OF assms(7)]
  have tree: "named (file_dir (item_filename a) (item_tree a (picks env)))"
    by (rule named_item) (simp add: parts(1) item_icon_given_def split: option.split)
  have "fst (identify_filetype (text_of ''content_type''
      (step_attachment ''step2_file'' payload mpload))) = ''application/json''"
    using assms(3) by (simp add: delivers_def)
  then have "item_finish env api (callback_link payload) payload mpload (open_answer 4) =
    ([HttpGet (c_str (text_of ''url'' (step_attachment ''step2_file'' payload mpload)))] @
     download_of (item_icon_url payload w) @
     pack_sent env api (callback_link payload)
       ((if get_iname (i_identifier a) = [] then ''item'' else get_iname (i_identifier a)) @ ''.mcaddon'')
       (remark api ''item_step3_imgerr'' (param_text w ''item_icon'') (item_icon_url payload w) @
        notif api ''item_step3_splash'')
       (leaf_paths (file_dir (item_filename a) (item_tree a (picks env)))), Inr None)"
    unfolding item_finish_def reduce_options_given step_file_given [OF assms(2)]
    by (simp add: delivers_fetch [OF assms(3,4)] assms(5) effect_simps Let_def item_icon_run
        writeItem_run [OF parts(2,3)] send_pack_sent [OF tree] parts(4) assms(7)
        flip: step_attachment_def assms(6))
  with assms(1) have "respond_interaction env api payload =
    ([HttpGet (c_str (text_of ''url'' (step_attachment ''step2_file'' payload mpload)))] @
     download_of (item_icon_url payload w) @
     pack_sent env api (callback_link payload)
       ((if get_iname (i_identifier a) = [] then ''item'' else get_iname (i_identifier a)) @ ''.mcaddon'')
       (remark api ''item_step3_imgerr'' (param_text w ''item_icon'') (item_icon_url payload w) @
        notif api ''item_step3_splash'')
       (leaf_paths (file_dir (item_filename a) (item_tree a (picks env)))), Inr ())"
    unfolding item_step_def by (intro item_respond) auto
  then show ?thesis by (simp add: pack_sent_files [OF assms(8)] item_arguments_offhand assms(7))
qed

section \<open>Sample interactions\<close>

definition request :: "string \<Rightarrow> json_value list \<Rightarrow> (string \<times> json_value) list \<Rightarrow> json_value" where
  "request name options atchs = jv_object
     [(''type'', jv_int 2), (''id'', jv_string ''1''), (''token'', jv_string ''t''),
      (''data'', jv_object [(''name'', jv_string name), (''options'', jv_list options),
         (''resolved'', jv_object [(''attachments'', jv_object atchs)])])]"

definition option_of :: "string \<Rightarrow> json_value \<Rightarrow> json_value" where
  "option_of k v = jv_object [(''name'', jv_string k), (''value'', v)]"

definition group_of :: "string \<Rightarrow> json_value list \<Rightarrow> json_value" where
  "group_of k options = jv_object [(''name'', jv_string k), (''options'', jv_list options)]"

definition json_attachment :: json_value where
  "json_attachment = jv_object [(''content_type'', jv_string ''application/json''),
     (''url'', jv_string ''u''), (''filename'', jv_string ''f.json'')]"

text \<open>A network that delivers one text in two chunks from everywhere.\<close>

definition serving :: "string \<Rightarrow> environment" where
  "serving text = \<lparr>net = (\<lambda>_. [take 3 text, drop 3 text]), files = (\<lambda>_. None),
     now = \<lparr>tm_sec = 0, tm_min = 0, tm_hour = 0, tm_mday = 0, tm_mon = 0, tm_year = 0\<rparr>,
     picks = (\<lambda>_ _. 0), zip_picks = (\<lambda>_. 0)\<rparr>"

definition sample_api :: restapi where
  "sample_api = \<lparr>bot_token = ''abc'', notifmsg = (\<lambda>_. Some ''Here you are'')\<rparr>"

lemma object_reads [simp]:
  "member k (jv_object kvs) = obj_get jv_default k kvs" "val_list (jv_list vs) = vs"
  "val_string (jv_string s) = s" "val_int (jv_int i) = Some i" "val_object (jv_object kvs) = kvs"
  by (simp_all add: member_def jv_defs)

lemma request_reads [simp]:
  "val_int (member ''type'' (request n os as)) = Some 2"
  "text_of ''name'' (member ''data'' (request n os as)) = n"
  "val_list (member ''options'' (member ''data'' (request n os as))) = os"
  "peek [Key ''data'', Key ''options'', Idx 0] (request n (v # os) as) = Inr v"
  "peek [Key ''data'', Key ''options'', Idx 0, Key ''value''] (request n (option_of k v # os) as) = Inr v"
  "attachment_of (request n os as) k = obj_get jv_default k as"
  by (simp_all add: request_def option_of_def text_of_def attachment_of_def vec_at_def)

lemma option_reads [simp]:
  "text_of ''name'' (option_of k v) = k" "member ''value'' (option_of k v) = v"
  "text_of ''name'' (group_of k os) = k" "val_list (member ''options'' (group_of k os)) = os"
  by (simp_all add: option_of_def group_of_def text_of_def)

lemma serving_reads [simp]:
  "net (serving text) u \<noteq> []" "concat (net (serving text) u) = text"
  by (simp_all add: serving_def)

lemma sample_split: "split_version ''1.17.0'' = Inr (map jv_int [1, 17, 0])"
  by code_simp

lemmas parameter_reads = param_def param_text_def param_bool_def as_bool_def map_get_def map_put_def jv_defs

theorem independent_manifest_pack_witness:
  "\<exists>a. respond_interaction (serving []) sample_api (request ''manifest'' [group_of ''independent''
       [option_of ''pack_type'' (jv_string ''data'')]] []) =
    (pack_sent (serving []) sample_api (callback_link (request ''manifest'' [group_of ''independent''
       [option_of ''pack_type'' (jv_string ''data'')]] [])) ''manifest.mcpack'' ''Here you are''
       [([''bp'', ''manifest.json''], 0, repr (nondependent_template a (\<lambda>_ _. 0)))], Inr ())"
proof -
  let ?m = "group_of ''independent'' [option_of ''pack_type'' (jv_string ''data'')]"
  let ?p = "request ''manifest'' [?m] []"
  let ?st = "\<lparr>witdt = independent_defaults(''pack_type'' \<mapsto> jv_string ''data''), folder_name = ''bp'',
    fetch_file = [], msgcntn = ''Here you are''\<rparr>"
  let ?a = "\<lparr>pack_type = ''data'', pack_name = ''manifest'', pack_description = [],
     pack_version = map jv_int [1, 17, 0], pack_use_metadata = False, pack_authors = [],
     pack_author_url = [], pack_use_gametest = False, pack_gametest_entry_file = ''modules/Main.js''\<rparr>"
  have st: "?st = independent_state sample_api ?p ?m"
    by (simp add: independent_state_def independent_option_def notif_def map_get_def map_put_def sample_api_def)
  have args: "independent_arguments (witdt ?st) = Inr ?a"
    by (simp add: independent_arguments_def independent_defaults_def parameter_reads
        sample_split [unfolded jv_defs] split_authors_def)
  have v: "version_ok (map jv_int [1, 17, 0])" by (simp add: version_ok_def jv_int_def)
  show ?thesis
    using independent_manifest_pack [OF request_reads(1,2,4) option_reads(3) st args, of "serving []"] v
    by (intro exI [of _ ?a]) (simp add: icon_gets_def icon_leaf_def serving_def hex_picks_def)
qed

theorem dependent_manifest_pack_witness:
  "\<exists>a. respond_interaction (serving []) sample_api (request ''manifest'' [group_of ''dependent''
       [option_of ''rp_name'' (jv_string ''Pair'')]] []) =
    (pack_sent (serving []) sample_api (callback_link (request ''manifest'' [group_of ''dependent''
       [option_of ''rp_name'' (jv_string ''Pair'')]] [])) ''Pair.mcpack'' ''Here you are''
       [([''rp'', ''manifest.json''], 0, repr (resourcepack_template a (\<lambda>_ _. 0))),
        ([''bp'', ''manifest.json''], 0, repr (behaviorpack_template a (\<lambda>_ _. 0)))], Inr ())"
proof -
  let ?m = "group_of ''dependent'' [option_of ''rp_name'' (jv_string ''Pair'')]"
  let ?p = "request ''manifest'' [?m] []"
  let ?st = "\<lparr>witdt = dependent_defaults(''rp_name'' \<mapsto> jv_string ''Pair''), folder_name = [],
    fetch_file = [], msgcntn = ''Here you are''\<rparr>"
  let ?a = "\<lparr>bp_name = ''manifest'', bp_description = [], bp_version = map jv_int [1, 17, 0],
     bp_use_scripts = False, bp_use_metadata = False, bp_authors = [], bp_author_url = [],
     rp_name = ''Pair'', rp_description = [], rp_version = map jv_int [1, 17, 0],
     rp_use_metadata = False, rp_authors = [], rp_author_url = [], rp_use_ui = False,
     bp_use_gametest = False, bp_gametest_entry_file = ''modules/Main.js''\<rparr>"
  have st: "?st = dependent_state sample_api ?p ?m"
    by (simp add: dependent_state_def dependent_option_def notif_def map_get_def map_put_def sample_api_def)
  have args: "dependent_arguments (witdt ?st) = Inr ?a"
    by (simp add: dependent_arguments_def dependent_defaults_def parameter_reads
        sample_split [unfolded jv_defs] split_authors_def)
  have v: "version_ok (map jv_int [1, 17, 0])" by (simp add: version_ok_def jv_int_def)
  show ?thesis
    using dependent_manifest_pack [OF request_reads(1,2,4) option_reads(3) st args, of "serving []"] v
    by (intro exI [of _ ?a]) (simp add: icon_gets_def icon_leaf_def serving_def hex_picks_def)
qed

lemma json_kind: "identify_filetype ''application/json'' = (''application/json'', [])"
  by code_simp

lemma json_attachment_reads [simp]:
  "text_of ''content_type'' json_attachment = ''application/json''"
  "text_of ''url'' json_attachment = ''u''" "text_of ''filename'' json_attachment = ''f.json''"
  by (simp_all add: json_attachment_def text_of_def)

definition sample_json :: string where
  "sample_json = [CHR ''['', CHR '' '', CHR 0x22, CHR ''a'', CHR 0x22, CHR '' '', CHR '']'']"

definition sample_obfuscate :: json_value where
  "sample_obfuscate = request ''obfuscate''
     [option_of ''file'' (jv_string ''9''), option_of ''minify'' (jv_bool True)] [(''9'', json_attachment)]"

theorem obfuscate_command_outcome_witness:
  "\<exists>result. obfuscateMain sample_json True = Inr result \<and>
    respond_interaction (serving sample_json) sample_api sample_obfuscate =
    ([HttpGet ''u'', form_sent sample_api (callback_link sample_obfuscate) ''f.json'' ''Here you are''
       (data_part ''f.json'' (c_str result))], Inr ())"
proof -
  have c: "c_str ''u'' = ''u''" "c_str ''f.json'' = ''f.json''" "c_str sample_json = sample_json"
    by (rule c_str_id, simp add: sample_json_def)+
  have "isl (obfuscateMain sample_json True) = False" by code_simp
  then obtain result where r: "obfuscateMain sample_json True = Inr result"
    by (cases "obfuscateMain sample_json True") simp_all
  have reads: "val_int (member ''type'' sample_obfuscate) = Some 2"
    "text_of ''name'' (member ''data'' sample_obfuscate) = ''obfuscate''"
    "peek [Key ''data'', Key ''options'', Idx 0, Key ''value''] sample_obfuscate = Inr (jv_string ''9'')"
    unfolding sample_obfuscate_def request_reads by simp_all
  have a: "json_attachment = attachment_of sample_obfuscate (val_string (jv_string ''9''))"
    by (simp add: sample_obfuscate_def)
  have u: "''u'' = c_str (text_of ''url'' json_attachment)" by (simp add: c)
  have k: "identify_filetype (text_of ''content_type'' json_attachment) = (''application/json'', [])"
    by (simp add: json_kind)
  have m: "minify_option sample_obfuscate = Inr True"
    by (simp add: minify_option_def as_bool_def jv_bool_def sample_obfuscate_def)
  show ?thesis
    using obfuscate_command_outcome [OF reads a u k, of "serving sample_json" sample_api]
    by (intro exI [of _ result]) (simp add: c r m notif_def map_get_def sample_api_def)
qed

definition sample_entity_options :: "json_value list" where
  "sample_entity_options = [option_of ''identifier'' (jv_string ''my:cat''), option_of ''generate'' (jv_string ''both'')]"

theorem entity_command_outcome_witness:
  "\<exists>a. e_identifier a = ''my:cat'' \<and>
    respond_interaction (serving []) sample_api (request ''entity'' sample_entity_options []) =
    (pack_sent (serving []) sample_api (callback_link (request ''entity'' sample_entity_options []))
       ''cat.mcaddon'' [] (leaf_paths (file_dir ''cat.mcaddon'' (pack_tree a (\<lambda>_ _. 0) []))), Inr ())"
proof -
  let ?p = "request ''entity'' sample_entity_options []"
  let ?w = "entity_defaults(''identifier'' \<mapsto> jv_string ''my:cat'', ''generate'' \<mapsto> jv_string ''both'')"
  let ?a = "\<lparr>e_identifier = ''my:cat'', textureFile = file_text [] [], modelFile = file_text [] [],
    isSpawnable = True, isSummonable = False, isExperimental = False, spawnEggOverlay = ''#563d7c'',
    spawnEggBase = ''#21367c'', material = ''entity_alphatest'', select = ''both''\<rparr>"
  have w: "?w = entity_parameters ?p"
    by (simp add: entity_parameters_def sample_entity_options_def map_put_def)
  have beh: "param_bool ?w ''basic_beh'' = Inr True" and none: "param_text ?w ''texture_file'' = []"
    "param_text ?w ''model_file'' = []"
    by (simp_all add: parameter_reads entity_defaults_def)
  then have u: "texture_url ?p ?w = None" "model_url ?p ?w = None"
    by (simp_all add: texture_url_def model_url_def)
  then have args: "entity_arguments ?w (texture_given (serving []) ?p ?w) (model_given (serving []) ?p ?w) = Inr ?a"
    by (simp add: entity_arguments_def texture_given_def model_given_def) (simp add: parameter_reads entity_defaults_def)
  have "verifyIdentifier ''my:cat''" and n: "get_ename ''my:cat'' = ''cat''" by code_simp+
  then show ?thesis
    using entity_command_outcome [OF request_reads(1,2) w beh args _ _, of "[]" sample_api] u none hex_picks_def
    by (intro exI [of _ ?a])
      (simp add: pack_geometry_def pack_filename_def download_of_def entity_remarks_def remark_def serving_def)
qed

text \<open>The options of two steps, among them a number with a fraction.\<close>

definition number_of :: "string \<Rightarrow> json" where
  "number_of t = (case scan_number t of Some n \<Rightarrow> Real n | None \<Rightarrow> Null)"

definition sample_older :: "(string \<times> json) list" where
  "sample_older = [(''identifier'', Str ''my:axe''), (''damage'', Num 3), (''use_duration'', number_of ''1.5'')]"

definition sample_newer :: "(string \<times> json) list" where
  "sample_newer = [(''step1_file'', Str ''9''), (''record_comparator_signal'', Num 5)]"

definition sample_start :: json_value where
  "sample_start = group_of ''start'' (map (\<lambda>(k, v). option_of k v) (built sample_older))"

definition sample_checkpoint :: json_value where
  "sample_checkpoint = group_of ''checkpoint'' (map (\<lambda>(k, v). option_of k v) (built sample_newer))"

lemma sample_given:
  "given_options sample_start = built sample_older" "given_options sample_checkpoint = built sample_newer"
  by (simp_all add: given_options_def sample_start_def sample_checkpoint_def reduce_options_def jv_object_def
      sample_older_def sample_newer_def built_def option_of_def group_of_def member_def jv_list_def jv_string_def)

lemma scan_half: "scan_number ''1.5'' = Some \<lparr>nt_neg = False, nt_int = ''1'', nt_frac = Some ''5'', nt_exp = None\<rparr>"
  by code_simp

lemma stod_half: "stod \<lparr>nt_neg = False, nt_int = ''1'', nt_frac = Some ''5'', nt_exp = None\<rparr>
    = Inr (Double False 6755399441055744 (- 52))"
proof -
  have r: "read_nat (''1'' @ ''5'') = 15" by (simp add: read_nat_def digit_val_def)
  have b: "bit_length 15 = 4" "bit_length 10 = 4" by (simp_all add: bit_length.simps)
  have e: "double_exponent 15 10 = - 52"
    by (simp add: double_exponent_def b scaled_def)
  show ?thesis
    unfolding stod_def Let_def number_token.simps option.case r
    by (simp add: nearest_double_def e scaled_def round_quot_def)
qed

lemma shown_half: "show_nat (Suc 0) = ''1''" "show_nat 150000 = ''150000''"
  by (simp_all add: show_nat_rec [of "Suc 0"] show_nat_rec [of 1] show_nat_rec [of 150000] show_nat_rec [of 15000] show_nat_rec [of 1500]
    show_nat_rec [of 150] show_nat_rec [of 15]  digit_char_def)

lemma show_half: "show_double (Double False 6755399441055744 (- 52)) = ''1.5''"
proof -
  have "six_digits 6755399441055744 4503599627370496 = (150000, 0)"
    using shown_half(1) by (simp add: six_digits_def floor_log10_def round_quot_def)
  then show ?thesis
    by (simp add: show_double_def d_num_def d_den_def show_g_def shown_half with_fraction_def strip_zeros_def)
qed

lemma sample_plain_texts:
  "list_all (\<lambda>s. plain_text s \<and> CHR 0x00 \<notin> set s)
     [''identifier'', ''my:axe'', ''damage'', ''use_duration'', ''step1_file'', ''9'', ''record_comparator_signal'']"
  unfolding plain_text_def by code_simp

lemma handed_on_parts:
  "handed_on (Str s) \<longleftrightarrow> plain_text s \<and> CHR 0x00 \<notin> set s" "handed_on (Num i) \<longleftrightarrow> int64 i"
  "handed_on (Obj kjs) \<longleftrightarrow> kjs \<noteq> [] \<and> distinct (map fst kjs) \<and>
     (\<forall>kj \<in> set kjs. plain_text (fst kj) \<and> CHR 0x00 \<notin> set (fst kj) \<and> handed_on (snd kj))"
  by (auto simp: handed_on_def plain_text_def)

lemma sample_half: "handed_on (number_of ''1.5'')"
  by (simp add: handed_on_def number_of_def scan_half stod_half show_half)

lemma sample_handed_on: "handed_on (Obj sample_older)" "handed_on (Obj sample_newer)"
  using sample_plain_texts
  by (simp_all add: handed_on_parts sample_half sample_older_def sample_newer_def int64_def)

lemma portable_leaves:
  "plain_text s \<Longrightarrow> CHR 0x00 \<notin> set s \<Longrightarrow> portable (jv_string s)" "int32 i \<Longrightarrow> portable (jv_int i)"
  by (simp_all add: portable_def readback_jv)

lemma sample_attachment:
  "step_attachment ''step1_file'' (request ''item'' [sample_checkpoint] [(''9'', json_attachment)]) sample_checkpoint
     = json_attachment"
  by (simp add: step_attachment_def sample_given sample_newer_def built_def)

lemma json_delivers: "delivers (serving text) json_attachment text"
  by (simp add: delivers_def json_kind)

theorem item_steps_hand_over_witness:
  "\<exists>step1 step2 sent.
    respond_interaction (serving []) sample_api (request ''item'' [sample_start] []) =
      ([form_sent sample_api (callback_link (request ''item'' [sample_start] [])) ''step1.json'' ''Here you are''
          (data_part ''step1.json'' step1)], Inr ()) \<and>
    respond_interaction (serving step1) sample_api (request ''item'' [sample_checkpoint] [(''9'', json_attachment)]) =
      ([HttpGet (c_str ''u''),
        form_sent sample_api (callback_link (request ''item'' [sample_checkpoint] [(''9'', json_attachment)]))
          ''step2.json'' ''Here you are'' (data_part ''step2.json'' step2)], Inr ()) \<and>
    parse step2 = Inr sent \<and>
    item_parameters (merge_steps sent (jv_object [])) ''damage'' = Some (build (Num 3)) \<and>
    item_parameters (merge_steps sent (jv_object [])) ''use_duration'' = Some (build (number_of ''1.5''))"
proof -
  let ?p1 = "request ''item'' [sample_start] []"
  let ?p2 = "request ''item'' [sample_checkpoint] [(''9'', json_attachment)]"
  let ?t = "repr (jv_object (built sample_older))"
  have steps: "item_step ''start'' ?p1 sample_start" "item_step ''checkpoint'' ?p2 sample_checkpoint"
    unfolding item_step_def request_reads by (simp_all add: sample_start_def sample_checkpoint_def)
  have keys: "set (map fst sample_older) \<inter> set (map fst sample_newer) = {}" "''step1_file'' \<in> set (map fst sample_newer)"
    by (simp_all add: sample_older_def sample_newer_def)
  have d: "delivers (serving ?t) (step_attachment ''step1_file'' ?p2 sample_checkpoint) ?t"
    unfolding sample_attachment by (rule json_delivers)
  have n: "notif sample_api k = ''Here you are''" for k
    by (simp add: notif_def map_get_def sample_api_def)
  from item_steps_hand_over [OF steps sample_given sample_handed_on keys d, of "serving []" sample_api]
  obtain step1 step2 sent where h:
    "respond_interaction (serving []) sample_api ?p1 = ([form_sent sample_api (callback_link ?p1) ''step1.json''
       ''Here you are'' (data_part ''step1.json'' step1)], Inr ())"
    "delivers (serving ?t) json_attachment step1"
    "respond_interaction (serving ?t) sample_api ?p2 = ([HttpGet (c_str ''u''), form_sent sample_api
       (callback_link ?p2) ''step2.json'' ''Here you are'' (data_part ''step2.json'' step2)], Inr ())"
    "parse step2 = Inr sent"
    "\<And>k. item_parameters (merge_steps sent (jv_object [])) k =
       (case map_of (sample_older @ sample_newer) k of Some j \<Rightarrow> Some (build j) | None \<Rightarrow> item_defaults k)"
    unfolding sample_attachment n json_attachment_reads by fastforce
  moreover have "step1 = ?t" using h(2) by (simp add: delivers_def)
  ultimately show ?thesis
    by (intro exI [of _ step1] exI [of _ step2] exI [of _ sent]) (simp add: sample_older_def sample_newer_def del: build.simps)
qed

definition sample_finish :: json_value where
  "sample_finish = group_of ''finish'' [option_of ''step2_file'' (jv_string ''9'')]"

definition sample_step2 :: json_value where
  "sample_step2 = jv_object [(''identifier'', jv_string ''my:axe''), (''record_comparator_signal'', jv_int 5)]"

lemma sample_finish_given: "given_options sample_finish = [(''step2_file'', jv_string ''9'')]"
  by (simp add: given_options_def sample_finish_def reduce_options_def jv_object_def option_of_def group_of_def
      member_def jv_list_def jv_string_def)

lemma sample_step2_portable: "portable sample_step2"
  using sample_plain_texts
  by (simp add: sample_step2_def portable_object portable_leaves int32_def obj_keys_simps)

lemma sample_collected:
  "item_parameters (merge_steps (received sample_step2) (jv_object (given_options sample_finish))) =
     item_defaults(''step2_file'' \<mapsto> jv_string ''9'', ''identifier'' \<mapsto> received (jv_string ''my:axe''),
       ''record_comparator_signal'' \<mapsto> received (jv_int 5))"
  by (rule ext) (simp add: item_parameters_merge sample_step2_def received_object sample_finish_given)

text \<open>The parameters of the generator by the type they are read with.\<close>

definition reads_ok :: "'a result \<Rightarrow> bool" where
  "reads_ok r \<longleftrightarrow> (\<exists>x. r = Inr x)"

lemma reads_ok_bind: "reads_ok r \<Longrightarrow> (\<And>x. reads_ok (f x)) \<Longrightarrow> reads_ok (bindR r f)"
  by (auto simp: reads_ok_def)

lemma reads_ok_Inr: "reads_ok (Inr x)"
  by (simp add: reads_ok_def)

text \<open>Whether a value can be read as a \<open>bool\<close>, by \<open>lick\<close> without a rounding, and by \<open>ding\<close>.\<close>

definition reads_as :: "json_value \<Rightarrow> bool \<times> bool \<times> bool" where
  "reads_as v = (val_int v \<noteq> None,
     val_type v = 0 \<and> val_int v \<noteq> None \<or> val_type v \<noteq> 0 \<and> val_type v \<noteq> 5 \<and> val_llint v \<noteq> None,
     val_type v = 5 \<and> val_float v \<noteq> None)"

definition given_as :: "parameters \<Rightarrow> string \<Rightarrow> bool \<times> bool \<times> bool" where
  "given_as w k = (case w k of None \<Rightarrow> (False, False, False) | Some v \<Rightarrow> reads_as v)"

lemma given_reads:
  "fst (given_as w k) \<Longrightarrow> reads_ok (param_bool w k)"
  "fst (snd (given_as w k)) \<Longrightarrow> reads_ok (lick (param w k))"
  "snd (snd (given_as w k)) \<Longrightarrow> reads_ok (ding (param w k))"
  by (auto simp: given_as_def reads_as_def reads_ok_def param_bool_def param_def map_get_def as_bool_def
      lick_def ding_def split: option.splits)

lemma given_as_map_of:
  "given_as (map_of xs) k = (case map_of (map (\<lambda>(k, v). (k, reads_as v)) xs) k of
     None \<Rightarrow> (False, False, False) | Some t \<Rightarrow> t)"
  by (induction xs) (auto simp: given_as_def)

lemma reads_as_jv:
  "reads_as (jv_bool b) = (True, False, False)" "reads_as (jv_llint i) = (False, True, False)"
  "reads_as (jv_double d) = (False, False, True)" "reads_as (jv_cstring s) = (False, False, False)"
  "reads_as (jv_string s) = (False, False, False)" "reads_as (received (jv_string s)) = (True, False, False)"
  "int32 n \<Longrightarrow> reads_as (received (jv_int n)) = (True, True, False)"
proof -
  have "received (jv_string s) = JV 1 (Some 0) None None s [] []"
    "int32 n \<Longrightarrow> received (jv_int n) = JV 0 (Some n) (Some n) None [] [] []"
    by (simp_all add: received_def)
  then show "reads_as (received (jv_string s)) = (True, False, False)"
    "int32 n \<Longrightarrow> reads_as (received (jv_int n)) = (True, True, False)"
    by (simp_all add: reads_as_def)
qed (simp_all add: reads_as_def jv_defs)

lemma item_arguments_ok:
  assumes "list_all (\<lambda>k. fst (given_as w k))
     [''is_experimental'', ''is_enchanted'', ''stacked_by_data'', ''hand_equipped'',
      ''can_destroy_in_creative'', ''is_food'', ''food_can_always_eat'', ''is_explodable'',
      ''allow_in_off_hand'', ''cooldown'', ''place_block'', ''use_block_description'',
      ''place_entity'', ''enchantable'', ''can_shoot'', ''shooter_charge_on_draw'',
      ''shooter_scale_power_on_duration'', ''shooter_use_ammo'',
      ''shooter_ammo_search_in_inventory'', ''shooter_ammo_use_offhand'',
      ''shooter_ammo_use_in_creative'', ''ignore_permission'', ''liquid_clipped'',
      ''should_despawn'', ''mirrored_art'', ''projectile'', ''throwable'',
      ''throwable_do_swing_animation'', ''throwable_scale_pow_by_draw_dura'', ''record'',
      ''generate_item_atlas'']"
    and "list_all (\<lambda>k. fst (snd (given_as w k)))
     [''max_stack_size'', ''armor_protection'', ''damage'', ''enchantable_value'',
      ''fertilizer_duration'', ''mining_speed'', ''record_duration'', ''record_comparator_signal'']"
    and "list_all (\<lambda>k. snd (snd (given_as w k)))
     [''use_duration'', ''food_nutrition'', ''cooldown_duration'', ''shooter_max_draw_duration'',
      ''projectile_min_crit_power'', ''throwable_max_draw_duration'', ''knockback_resistance'',
      ''fuel_duration'']"
  shows "reads_ok (item_arguments w ab)"
  unfolding item_arguments_def
  by (intro reads_ok_bind reads_ok_Inr given_reads(1) given_reads(2) given_reads(3))
    (use assms in \<open>simp_all only: list.pred_inject\<close>)

lemma sample_item_arguments:
  "reads_ok (item_arguments (item_defaults(''step2_file'' \<mapsto> jv_string ''9'',
     ''identifier'' \<mapsto> received (jv_string ''my:axe''), ''record_comparator_signal'' \<mapsto> received (jv_int 5))) ab)"
proof -
  have upd: "(map_of xs)(k \<mapsto> v) = map_of ((k, v) # xs)" for k :: string and v :: json_value and xs
    by simp
  have five: "reads_as (received (jv_int 5)) = (True, True, False)" by (rule reads_as_jv) (simp add: int32_def)
  show ?thesis
    unfolding item_defaults_def upd
    by (rule item_arguments_ok; unfold given_as_map_of list.map prod.case reads_as_jv(1-6) five; code_simp)
qed

theorem item_finish_pack_witness:
  "\<exists>a. i_identifier a = ''my:axe'' \<and>
    respond_interaction (serving (repr sample_step2)) sample_api
      (request ''item'' [sample_finish] [(''9'', json_attachment)]) =
    ([HttpGet (c_str ''u'')] @
     pack_sent (serving (repr sample_step2)) sample_api
       (callback_link (request ''item'' [sample_finish] [(''9'', json_attachment)])) ''axe.mcaddon'' ''Here you are''
       (leaf_paths (file_dir (item_filename a) (item_tree a (\<lambda>_ _. 0)))), Inr ())"
proof -
  let ?p = "request ''item'' [sample_finish] [(''9'', json_attachment)]"
  let ?w = "item_parameters (merge_steps (received sample_step2) (jv_object (given_options sample_finish)))"
  let ?e = "serving (repr sample_step2)"
  have atch: "step_attachment ''step2_file'' ?p sample_finish = json_attachment"
    by (simp add: step_attachment_def sample_finish_given)
  have s: "item_step ''finish'' ?p sample_finish"
    unfolding item_step_def request_reads by (simp add: sample_finish_def)
  have k: "''step2_file'' \<in> set (obj_keys (given_options sample_finish))"
    by (simp add: sample_finish_given obj_keys_simps)
  have icon: "param_text ?w ''item_icon'' = []"
    by (simp add: sample_collected) (simp add: param_text_def param_def map_get_def item_defaults_def
        jv_cstring_def)
  then have u: "item_icon_url ?p ?w = None" by (simp add: item_icon_url_def)
  then have "item_icon_given ?e ?p ?w = file_text [] []" by (simp add: item_icon_given_def)
  then obtain a where a: "item_arguments ?w (item_icon_given ?e ?p ?w) = Inr a"
    using sample_item_arguments by (auto simp: sample_collected reads_ok_def)
  have i: "i_identifier a = ''my:axe''"
    using item_arguments_parts(4) [OF a] by (simp add: sample_collected) (simp add: param_text_def param_def map_get_def received_reads)
  have "get_iname ''my:axe'' = ''axe''" by code_simp
  moreover have "delivers ?e (step_attachment ''step2_file'' ?p sample_finish) (repr sample_step2)"
    unfolding atch by (rule json_delivers)
  ultimately show ?thesis
    using item_finish_pack [OF s k _ portable_text(2,3) [OF sample_step2_portable] refl a, of sample_api] i u icon
    by (intro exI [of _ a])
      (simp add: atch download_of_def remark_def notif_def map_get_def sample_api_def serving_def
        hex_picks_def)
qed

end
