(* ===== verification/Lws.thy ===== *)
theory Lws
  imports Prelude
begin

text \<open>
  The declarations of the WebSocket library that the gateway is written against, from the headers
  under winext/include/libwebsockets: the reasons of its callbacks with their numbers, by the
  sections of the header, the close codes, the connection record and the space in front
  of a frame.  The library's functions are not here: what they do is left to the environment.
\<close>

section \<open>Callback reasons\<close>

datatype wsi_callbacks =
    LWS_CALLBACK_PROTOCOL_INIT | LWS_CALLBACK_PROTOCOL_DESTROY | LWS_CALLBACK_WSI_CREATE
  | LWS_CALLBACK_WSI_DESTROY | LWS_CALLBACK_WSI_TX_CREDIT_GET

fun wsi_callback_number :: "wsi_callbacks \<Rightarrow> int" where
  "wsi_callback_number LWS_CALLBACK_PROTOCOL_INIT = 27"
| "wsi_callback_number LWS_CALLBACK_PROTOCOL_DESTROY = 28"
| "wsi_callback_number LWS_CALLBACK_WSI_CREATE = 29"
| "wsi_callback_number LWS_CALLBACK_WSI_DESTROY = 30"
| "wsi_callback_number LWS_CALLBACK_WSI_TX_CREDIT_GET = 103"

datatype server_tls_callbacks =
    LWS_CALLBACK_OPENSSL_LOAD_EXTRA_CLIENT_VERIFY_CERTS
  | LWS_CALLBACK_OPENSSL_LOAD_EXTRA_SERVER_VERIFY_CERTS
  | LWS_CALLBACK_OPENSSL_PERFORM_CLIENT_CERT_VERIFICATION | LWS_CALLBACK_SSL_INFO

fun server_tls_callback_number :: "server_tls_callbacks \<Rightarrow> int" where
  "server_tls_callback_number LWS_CALLBACK_OPENSSL_LOAD_EXTRA_CLIENT_VERIFY_CERTS = 21"
| "server_tls_callback_number LWS_CALLBACK_OPENSSL_LOAD_EXTRA_SERVER_VERIFY_CERTS = 22"
| "server_tls_callback_number LWS_CALLBACK_OPENSSL_PERFORM_CLIENT_CERT_VERIFICATION = 23"
| "server_tls_callback_number LWS_CALLBACK_SSL_INFO = 67"

datatype client_tls_callbacks =
    LWS_CALLBACK_OPENSSL_PERFORM_SERVER_CERT_VERIFICATION

fun client_tls_callback_number :: "client_tls_callbacks \<Rightarrow> int" where
  "client_tls_callback_number LWS_CALLBACK_OPENSSL_PERFORM_SERVER_CERT_VERIFICATION = 58"

datatype http_server_callbacks =
    LWS_CALLBACK_SERVER_NEW_CLIENT_INSTANTIATED | LWS_CALLBACK_HTTP | LWS_CALLBACK_HTTP_BODY
  | LWS_CALLBACK_HTTP_BODY_COMPLETION | LWS_CALLBACK_HTTP_FILE_COMPLETION
  | LWS_CALLBACK_HTTP_WRITEABLE | LWS_CALLBACK_CLOSED_HTTP | LWS_CALLBACK_FILTER_HTTP_CONNECTION
  | LWS_CALLBACK_ADD_HEADERS | LWS_CALLBACK_VERIFY_BASIC_AUTHORIZATION
  | LWS_CALLBACK_CHECK_ACCESS_RIGHTS | LWS_CALLBACK_PROCESS_HTML | LWS_CALLBACK_HTTP_BIND_PROTOCOL
  | LWS_CALLBACK_HTTP_DROP_PROTOCOL | LWS_CALLBACK_HTTP_CONFIRM_UPGRADE

fun http_server_callback_number :: "http_server_callbacks \<Rightarrow> int" where
  "http_server_callback_number LWS_CALLBACK_SERVER_NEW_CLIENT_INSTANTIATED = 19"
| "http_server_callback_number LWS_CALLBACK_HTTP = 12"
| "http_server_callback_number LWS_CALLBACK_HTTP_BODY = 13"
| "http_server_callback_number LWS_CALLBACK_HTTP_BODY_COMPLETION = 14"
| "http_server_callback_number LWS_CALLBACK_HTTP_FILE_COMPLETION = 15"
| "http_server_callback_number LWS_CALLBACK_HTTP_WRITEABLE = 16"
| "http_server_callback_number LWS_CALLBACK_CLOSED_HTTP = 5"
| "http_server_callback_number LWS_CALLBACK_FILTER_HTTP_CONNECTION = 18"
| "http_server_callback_number LWS_CALLBACK_ADD_HEADERS = 53"
| "http_server_callback_number LWS_CALLBACK_VERIFY_BASIC_AUTHORIZATION = 102"
| "http_server_callback_number LWS_CALLBACK_CHECK_ACCESS_RIGHTS = 51"
| "http_server_callback_number LWS_CALLBACK_PROCESS_HTML = 52"
| "http_server_callback_number LWS_CALLBACK_HTTP_BIND_PROTOCOL = 49"
| "http_server_callback_number LWS_CALLBACK_HTTP_DROP_PROTOCOL = 50"
| "http_server_callback_number LWS_CALLBACK_HTTP_CONFIRM_UPGRADE = 86"

datatype http_client_callbacks =
    LWS_CALLBACK_ESTABLISHED_CLIENT_HTTP | LWS_CALLBACK_CLOSED_CLIENT_HTTP
  | LWS_CALLBACK_RECEIVE_CLIENT_HTTP_READ | LWS_CALLBACK_RECEIVE_CLIENT_HTTP
  | LWS_CALLBACK_COMPLETED_CLIENT_HTTP | LWS_CALLBACK_CLIENT_HTTP_WRITEABLE
  | LWS_CALLBACK_CLIENT_HTTP_REDIRECT | LWS_CALLBACK_CLIENT_HTTP_BIND_PROTOCOL
  | LWS_CALLBACK_CLIENT_HTTP_DROP_PROTOCOL

fun http_client_callback_number :: "http_client_callbacks \<Rightarrow> int" where
  "http_client_callback_number LWS_CALLBACK_ESTABLISHED_CLIENT_HTTP = 44"
| "http_client_callback_number LWS_CALLBACK_CLOSED_CLIENT_HTTP = 45"
| "http_client_callback_number LWS_CALLBACK_RECEIVE_CLIENT_HTTP_READ = 48"
| "http_client_callback_number LWS_CALLBACK_RECEIVE_CLIENT_HTTP = 46"
| "http_client_callback_number LWS_CALLBACK_COMPLETED_CLIENT_HTTP = 47"
| "http_client_callback_number LWS_CALLBACK_CLIENT_HTTP_WRITEABLE = 57"
| "http_client_callback_number LWS_CALLBACK_CLIENT_HTTP_REDIRECT = 104"
| "http_client_callback_number LWS_CALLBACK_CLIENT_HTTP_BIND_PROTOCOL = 85"
| "http_client_callback_number LWS_CALLBACK_CLIENT_HTTP_DROP_PROTOCOL = 76"

datatype ws_server_callbacks =
    LWS_CALLBACK_ESTABLISHED | LWS_CALLBACK_CLOSED | LWS_CALLBACK_SERVER_WRITEABLE
  | LWS_CALLBACK_RECEIVE | LWS_CALLBACK_RECEIVE_PONG | LWS_CALLBACK_WS_PEER_INITIATED_CLOSE
  | LWS_CALLBACK_FILTER_PROTOCOL_CONNECTION | LWS_CALLBACK_CONFIRM_EXTENSION_OKAY
  | LWS_CALLBACK_WS_SERVER_BIND_PROTOCOL | LWS_CALLBACK_WS_SERVER_DROP_PROTOCOL

fun ws_server_callback_number :: "ws_server_callbacks \<Rightarrow> int" where
  "ws_server_callback_number LWS_CALLBACK_ESTABLISHED = 0"
| "ws_server_callback_number LWS_CALLBACK_CLOSED = 4"
| "ws_server_callback_number LWS_CALLBACK_SERVER_WRITEABLE = 11"
| "ws_server_callback_number LWS_CALLBACK_RECEIVE = 6"
| "ws_server_callback_number LWS_CALLBACK_RECEIVE_PONG = 7"
| "ws_server_callback_number LWS_CALLBACK_WS_PEER_INITIATED_CLOSE = 38"
| "ws_server_callback_number LWS_CALLBACK_FILTER_PROTOCOL_CONNECTION = 20"
| "ws_server_callback_number LWS_CALLBACK_CONFIRM_EXTENSION_OKAY = 25"
| "ws_server_callback_number LWS_CALLBACK_WS_SERVER_BIND_PROTOCOL = 77"
| "ws_server_callback_number LWS_CALLBACK_WS_SERVER_DROP_PROTOCOL = 78"

datatype ws_client_callbacks =
    LWS_CALLBACK_CLIENT_CONNECTION_ERROR | LWS_CALLBACK_CLIENT_FILTER_PRE_ESTABLISH
  | LWS_CALLBACK_CLIENT_ESTABLISHED | LWS_CALLBACK_CLIENT_CLOSED
  | LWS_CALLBACK_CLIENT_APPEND_HANDSHAKE_HEADER | LWS_CALLBACK_CLIENT_RECEIVE
  | LWS_CALLBACK_CLIENT_RECEIVE_PONG | LWS_CALLBACK_CLIENT_WRITEABLE
  | LWS_CALLBACK_CLIENT_CONFIRM_EXTENSION_SUPPORTED | LWS_CALLBACK_WS_EXT_DEFAULTS
  | LWS_CALLBACK_FILTER_NETWORK_CONNECTION | LWS_CALLBACK_WS_CLIENT_BIND_PROTOCOL
  | LWS_CALLBACK_WS_CLIENT_DROP_PROTOCOL

fun ws_client_callback_number :: "ws_client_callbacks \<Rightarrow> int" where
  "ws_client_callback_number LWS_CALLBACK_CLIENT_CONNECTION_ERROR = 1"
| "ws_client_callback_number LWS_CALLBACK_CLIENT_FILTER_PRE_ESTABLISH = 2"
| "ws_client_callback_number LWS_CALLBACK_CLIENT_ESTABLISHED = 3"
| "ws_client_callback_number LWS_CALLBACK_CLIENT_CLOSED = 75"
| "ws_client_callback_number LWS_CALLBACK_CLIENT_APPEND_HANDSHAKE_HEADER = 24"
| "ws_client_callback_number LWS_CALLBACK_CLIENT_RECEIVE = 8"
| "ws_client_callback_number LWS_CALLBACK_CLIENT_RECEIVE_PONG = 9"
| "ws_client_callback_number LWS_CALLBACK_CLIENT_WRITEABLE = 10"
| "ws_client_callback_number LWS_CALLBACK_CLIENT_CONFIRM_EXTENSION_SUPPORTED = 26"
| "ws_client_callback_number LWS_CALLBACK_WS_EXT_DEFAULTS = 39"
| "ws_client_callback_number LWS_CALLBACK_FILTER_NETWORK_CONNECTION = 17"
| "ws_client_callback_number LWS_CALLBACK_WS_CLIENT_BIND_PROTOCOL = 79"
| "ws_client_callback_number LWS_CALLBACK_WS_CLIENT_DROP_PROTOCOL = 80"

datatype poll_callbacks =
    LWS_CALLBACK_GET_THREAD_ID | LWS_CALLBACK_ADD_POLL_FD | LWS_CALLBACK_DEL_POLL_FD
  | LWS_CALLBACK_CHANGE_MODE_POLL_FD | LWS_CALLBACK_LOCK_POLL | LWS_CALLBACK_UNLOCK_POLL

fun poll_callback_number :: "poll_callbacks \<Rightarrow> int" where
  "poll_callback_number LWS_CALLBACK_GET_THREAD_ID = 31"
| "poll_callback_number LWS_CALLBACK_ADD_POLL_FD = 32"
| "poll_callback_number LWS_CALLBACK_DEL_POLL_FD = 33"
| "poll_callback_number LWS_CALLBACK_CHANGE_MODE_POLL_FD = 34"
| "poll_callback_number LWS_CALLBACK_LOCK_POLL = 35"
| "poll_callback_number LWS_CALLBACK_UNLOCK_POLL = 36"

datatype cgi_callbacks =
    LWS_CALLBACK_CGI | LWS_CALLBACK_CGI_TERMINATED | LWS_CALLBACK_CGI_STDIN_DATA
  | LWS_CALLBACK_CGI_STDIN_COMPLETED | LWS_CALLBACK_CGI_PROCESS_ATTACH

fun cgi_callback_number :: "cgi_callbacks \<Rightarrow> int" where
  "cgi_callback_number LWS_CALLBACK_CGI = 40"
| "cgi_callback_number LWS_CALLBACK_CGI_TERMINATED = 41"
| "cgi_callback_number LWS_CALLBACK_CGI_STDIN_DATA = 42"
| "cgi_callback_number LWS_CALLBACK_CGI_STDIN_COMPLETED = 43"
| "cgi_callback_number LWS_CALLBACK_CGI_PROCESS_ATTACH = 70"

datatype session_callbacks =
    LWS_CALLBACK_SESSION_INFO | LWS_CALLBACK_GS_EVENT | LWS_CALLBACK_HTTP_PMO

fun session_callback_number :: "session_callbacks \<Rightarrow> int" where
  "session_callback_number LWS_CALLBACK_SESSION_INFO = 54"
| "session_callback_number LWS_CALLBACK_GS_EVENT = 55"
| "session_callback_number LWS_CALLBACK_HTTP_PMO = 56"

datatype raw_proxy_callbacks =
    LWS_CALLBACK_RAW_PROXY_CLI_RX | LWS_CALLBACK_RAW_PROXY_SRV_RX
  | LWS_CALLBACK_RAW_PROXY_CLI_CLOSE | LWS_CALLBACK_RAW_PROXY_SRV_CLOSE
  | LWS_CALLBACK_RAW_PROXY_CLI_WRITEABLE | LWS_CALLBACK_RAW_PROXY_SRV_WRITEABLE
  | LWS_CALLBACK_RAW_PROXY_CLI_ADOPT | LWS_CALLBACK_RAW_PROXY_SRV_ADOPT
  | LWS_CALLBACK_RAW_PROXY_CLI_BIND_PROTOCOL | LWS_CALLBACK_RAW_PROXY_SRV_BIND_PROTOCOL
  | LWS_CALLBACK_RAW_PROXY_CLI_DROP_PROTOCOL | LWS_CALLBACK_RAW_PROXY_SRV_DROP_PROTOCOL

fun raw_proxy_callback_number :: "raw_proxy_callbacks \<Rightarrow> int" where
  "raw_proxy_callback_number LWS_CALLBACK_RAW_PROXY_CLI_RX = 89"
| "raw_proxy_callback_number LWS_CALLBACK_RAW_PROXY_SRV_RX = 90"
| "raw_proxy_callback_number LWS_CALLBACK_RAW_PROXY_CLI_CLOSE = 91"
| "raw_proxy_callback_number LWS_CALLBACK_RAW_PROXY_SRV_CLOSE = 92"
| "raw_proxy_callback_number LWS_CALLBACK_RAW_PROXY_CLI_WRITEABLE = 93"
| "raw_proxy_callback_number LWS_CALLBACK_RAW_PROXY_SRV_WRITEABLE = 94"
| "raw_proxy_callback_number LWS_CALLBACK_RAW_PROXY_CLI_ADOPT = 95"
| "raw_proxy_callback_number LWS_CALLBACK_RAW_PROXY_SRV_ADOPT = 96"
| "raw_proxy_callback_number LWS_CALLBACK_RAW_PROXY_CLI_BIND_PROTOCOL = 97"
| "raw_proxy_callback_number LWS_CALLBACK_RAW_PROXY_SRV_BIND_PROTOCOL = 98"
| "raw_proxy_callback_number LWS_CALLBACK_RAW_PROXY_CLI_DROP_PROTOCOL = 99"
| "raw_proxy_callback_number LWS_CALLBACK_RAW_PROXY_SRV_DROP_PROTOCOL = 100"

datatype raw_socket_callbacks =
    LWS_CALLBACK_RAW_RX | LWS_CALLBACK_RAW_CLOSE | LWS_CALLBACK_RAW_WRITEABLE
  | LWS_CALLBACK_RAW_ADOPT | LWS_CALLBACK_RAW_CONNECTED | LWS_CALLBACK_RAW_SKT_BIND_PROTOCOL
  | LWS_CALLBACK_RAW_SKT_DROP_PROTOCOL

fun raw_socket_callback_number :: "raw_socket_callbacks \<Rightarrow> int" where
  "raw_socket_callback_number LWS_CALLBACK_RAW_RX = 59"
| "raw_socket_callback_number LWS_CALLBACK_RAW_CLOSE = 60"
| "raw_socket_callback_number LWS_CALLBACK_RAW_WRITEABLE = 61"
| "raw_socket_callback_number LWS_CALLBACK_RAW_ADOPT = 62"
| "raw_socket_callback_number LWS_CALLBACK_RAW_CONNECTED = 101"
| "raw_socket_callback_number LWS_CALLBACK_RAW_SKT_BIND_PROTOCOL = 81"
| "raw_socket_callback_number LWS_CALLBACK_RAW_SKT_DROP_PROTOCOL = 82"

datatype raw_file_callbacks =
    LWS_CALLBACK_RAW_ADOPT_FILE | LWS_CALLBACK_RAW_RX_FILE | LWS_CALLBACK_RAW_WRITEABLE_FILE
  | LWS_CALLBACK_RAW_CLOSE_FILE | LWS_CALLBACK_RAW_FILE_BIND_PROTOCOL
  | LWS_CALLBACK_RAW_FILE_DROP_PROTOCOL

fun raw_file_callback_number :: "raw_file_callbacks \<Rightarrow> int" where
  "raw_file_callback_number LWS_CALLBACK_RAW_ADOPT_FILE = 63"
| "raw_file_callback_number LWS_CALLBACK_RAW_RX_FILE = 64"
| "raw_file_callback_number LWS_CALLBACK_RAW_WRITEABLE_FILE = 65"
| "raw_file_callback_number LWS_CALLBACK_RAW_CLOSE_FILE = 66"
| "raw_file_callback_number LWS_CALLBACK_RAW_FILE_BIND_PROTOCOL = 83"
| "raw_file_callback_number LWS_CALLBACK_RAW_FILE_DROP_PROTOCOL = 84"

datatype generic_callbacks =
    LWS_CALLBACK_TIMER | LWS_CALLBACK_EVENT_WAIT_CANCELLED | LWS_CALLBACK_CHILD_CLOSING
  | LWS_CALLBACK_CONNECTING

fun generic_callback_number :: "generic_callbacks \<Rightarrow> int" where
  "generic_callback_number LWS_CALLBACK_TIMER = 73"
| "generic_callback_number LWS_CALLBACK_EVENT_WAIT_CANCELLED = 71"
| "generic_callback_number LWS_CALLBACK_CHILD_CLOSING = 69"
| "generic_callback_number LWS_CALLBACK_CONNECTING = 105"

datatype certificate_callbacks =
    LWS_CALLBACK_VHOST_CERT_AGING | LWS_CALLBACK_VHOST_CERT_UPDATE

fun certificate_callback_number :: "certificate_callbacks \<Rightarrow> int" where
  "certificate_callback_number LWS_CALLBACK_VHOST_CERT_AGING = 72"
| "certificate_callback_number LWS_CALLBACK_VHOST_CERT_UPDATE = 74"

datatype mqtt_callbacks =
    LWS_CALLBACK_MQTT_NEW_CLIENT_INSTANTIATED | LWS_CALLBACK_MQTT_IDLE
  | LWS_CALLBACK_MQTT_CLIENT_ESTABLISHED | LWS_CALLBACK_MQTT_SUBSCRIBED
  | LWS_CALLBACK_MQTT_CLIENT_WRITEABLE | LWS_CALLBACK_MQTT_CLIENT_RX
  | LWS_CALLBACK_MQTT_UNSUBSCRIBED | LWS_CALLBACK_MQTT_DROP_PROTOCOL
  | LWS_CALLBACK_MQTT_CLIENT_CLOSED | LWS_CALLBACK_MQTT_ACK | LWS_CALLBACK_MQTT_RESEND
  | LWS_CALLBACK_MQTT_UNSUBSCRIBE_TIMEOUT | LWS_CALLBACK_MQTT_SHADOW_TIMEOUT

fun mqtt_callback_number :: "mqtt_callbacks \<Rightarrow> int" where
  "mqtt_callback_number LWS_CALLBACK_MQTT_NEW_CLIENT_INSTANTIATED = 200"
| "mqtt_callback_number LWS_CALLBACK_MQTT_IDLE = 201"
| "mqtt_callback_number LWS_CALLBACK_MQTT_CLIENT_ESTABLISHED = 202"
| "mqtt_callback_number LWS_CALLBACK_MQTT_SUBSCRIBED = 203"
| "mqtt_callback_number LWS_CALLBACK_MQTT_CLIENT_WRITEABLE = 204"
| "mqtt_callback_number LWS_CALLBACK_MQTT_CLIENT_RX = 205"
| "mqtt_callback_number LWS_CALLBACK_MQTT_UNSUBSCRIBED = 206"
| "mqtt_callback_number LWS_CALLBACK_MQTT_DROP_PROTOCOL = 207"
| "mqtt_callback_number LWS_CALLBACK_MQTT_CLIENT_CLOSED = 208"
| "mqtt_callback_number LWS_CALLBACK_MQTT_ACK = 209"
| "mqtt_callback_number LWS_CALLBACK_MQTT_RESEND = 210"
| "mqtt_callback_number LWS_CALLBACK_MQTT_UNSUBSCRIBE_TIMEOUT = 211"
| "mqtt_callback_number LWS_CALLBACK_MQTT_SHADOW_TIMEOUT = 212"

datatype lws_callback_reasons =
    Wsi_callback wsi_callbacks
  | Server_tls_callback server_tls_callbacks
  | Client_tls_callback client_tls_callbacks
  | Http_server_callback http_server_callbacks
  | Http_client_callback http_client_callbacks
  | Ws_server_callback ws_server_callbacks
  | Ws_client_callback ws_client_callbacks
  | Poll_callback poll_callbacks
  | Cgi_callback cgi_callbacks
  | Session_callback session_callbacks
  | Raw_proxy_callback raw_proxy_callbacks
  | Raw_socket_callback raw_socket_callbacks
  | Raw_file_callback raw_file_callbacks
  | Generic_callback generic_callbacks
  | Certificate_callback certificate_callbacks
  | Mqtt_callback mqtt_callbacks
  | User_callback nat

text \<open>The reasons from \<open>LWS_CALLBACK_USER\<close> on are left to the user.\<close>

fun reason_number :: "lws_callback_reasons \<Rightarrow> int" where
  "reason_number (Wsi_callback r) = wsi_callback_number r"
| "reason_number (Server_tls_callback r) = server_tls_callback_number r"
| "reason_number (Client_tls_callback r) = client_tls_callback_number r"
| "reason_number (Http_server_callback r) = http_server_callback_number r"
| "reason_number (Http_client_callback r) = http_client_callback_number r"
| "reason_number (Ws_server_callback r) = ws_server_callback_number r"
| "reason_number (Ws_client_callback r) = ws_client_callback_number r"
| "reason_number (Poll_callback r) = poll_callback_number r"
| "reason_number (Cgi_callback r) = cgi_callback_number r"
| "reason_number (Session_callback r) = session_callback_number r"
| "reason_number (Raw_proxy_callback r) = raw_proxy_callback_number r"
| "reason_number (Raw_socket_callback r) = raw_socket_callback_number r"
| "reason_number (Raw_file_callback r) = raw_file_callback_number r"
| "reason_number (Generic_callback r) = generic_callback_number r"
| "reason_number (Certificate_callback r) = certificate_callback_number r"
| "reason_number (Mqtt_callback r) = mqtt_callback_number r"
| "reason_number (User_callback n) = 1000 + int n"

section \<open>Codes\<close>

datatype lws_close_status =
    LWS_CLOSE_STATUS_NOSTATUS | LWS_CLOSE_STATUS_NORMAL | LWS_CLOSE_STATUS_GOINGAWAY
  | LWS_CLOSE_STATUS_PROTOCOL_ERR | LWS_CLOSE_STATUS_UNACCEPTABLE_OPCODE | LWS_CLOSE_STATUS_RESERVED
  | LWS_CLOSE_STATUS_NO_STATUS | LWS_CLOSE_STATUS_ABNORMAL_CLOSE | LWS_CLOSE_STATUS_INVALID_PAYLOAD
  | LWS_CLOSE_STATUS_POLICY_VIOLATION | LWS_CLOSE_STATUS_MESSAGE_TOO_LARGE
  | LWS_CLOSE_STATUS_EXTENSION_REQUIRED | LWS_CLOSE_STATUS_UNEXPECTED_CONDITION
  | LWS_CLOSE_STATUS_TLS_FAILURE | LWS_CLOSE_STATUS_CLIENT_TRANSACTION_DONE
  | LWS_CLOSE_STATUS_NOSTATUS_CONTEXT_DESTROY

fun close_status_number :: "lws_close_status \<Rightarrow> int" where
  "close_status_number LWS_CLOSE_STATUS_NOSTATUS = 0"
| "close_status_number LWS_CLOSE_STATUS_NORMAL = 1000"
| "close_status_number LWS_CLOSE_STATUS_GOINGAWAY = 1001"
| "close_status_number LWS_CLOSE_STATUS_PROTOCOL_ERR = 1002"
| "close_status_number LWS_CLOSE_STATUS_UNACCEPTABLE_OPCODE = 1003"
| "close_status_number LWS_CLOSE_STATUS_RESERVED = 1004"
| "close_status_number LWS_CLOSE_STATUS_NO_STATUS = 1005"
| "close_status_number LWS_CLOSE_STATUS_ABNORMAL_CLOSE = 1006"
| "close_status_number LWS_CLOSE_STATUS_INVALID_PAYLOAD = 1007"
| "close_status_number LWS_CLOSE_STATUS_POLICY_VIOLATION = 1008"
| "close_status_number LWS_CLOSE_STATUS_MESSAGE_TOO_LARGE = 1009"
| "close_status_number LWS_CLOSE_STATUS_EXTENSION_REQUIRED = 1010"
| "close_status_number LWS_CLOSE_STATUS_UNEXPECTED_CONDITION = 1011"
| "close_status_number LWS_CLOSE_STATUS_TLS_FAILURE = 1015"
| "close_status_number LWS_CLOSE_STATUS_CLIENT_TRANSACTION_DONE = 2000"
| "close_status_number LWS_CLOSE_STATUS_NOSTATUS_CONTEXT_DESTROY = 9999"

text \<open>The flag of a connection over TLS, and two constants of a context.\<close>

definition LCCSCF_USE_SSL :: int where
  "LCCSCF_USE_SSL = 1"

definition CONTEXT_PORT_NO_LISTEN :: int where
  "CONTEXT_PORT_NO_LISTEN = - 1"

definition LWS_SERVER_OPTION_DO_SSL_GLOBAL_INIT :: int where
  "LWS_SERVER_OPTION_DO_SSL_GLOBAL_INIT = 2 ^ 12"

section \<open>The connection record\<close>

text \<open>
  A C string is \<open>None\<close> when its pointer is null; of the other pointers it is only known
  whether they are set.  The members for fault injection and for MQTT are those of a build without
  these options.
\<close>

record lws_client_connect_info =
  ci_context :: bool
  ci_address :: "string option"
  ci_port :: int
  ci_ssl_connection :: int
  ci_path :: "string option"
  ci_host :: "string option"
  ci_origin :: "string option"
  ci_protocol :: "string option"
  ci_ietf_version_or_minus_one :: int
  ci_userdata :: bool
  ci_client_exts :: bool
  ci_method :: "string option"
  ci_parent_wsi :: bool
  ci_uri_replace_from :: "string option"
  ci_uri_replace_to :: "string option"
  ci_vhost :: bool
  ci_pwsi :: bool
  ci_iface :: "string option"
  ci_local_port :: int
  ci_local_protocol_name :: "string option"
  ci_alpn :: "string option"
  ci_opaque_user_data :: bool
  ci_retry_and_idle_policy :: bool
  ci_manual_initial_tx_credit :: int
  ci_sys_tls_client_cert :: nat
  ci_priority :: nat
  ci_mqtt_cp :: bool
  ci_fi_wsi_name :: "string option"
  ci_keep_warm_secs :: nat
  ci_log_cx :: bool

text \<open>What \<open>memset\<close> leaves.\<close>

definition zero_connect_info :: lws_client_connect_info where
  "zero_connect_info = \<lparr>ci_context = False, ci_address = None, ci_port = 0, ci_ssl_connection = 0,
     ci_path = None, ci_host = None, ci_origin = None, ci_protocol = None,
     ci_ietf_version_or_minus_one = 0, ci_userdata = False, ci_client_exts = False, ci_method = None,
     ci_parent_wsi = False, ci_uri_replace_from = None, ci_uri_replace_to = None, ci_vhost = False,
     ci_pwsi = False, ci_iface = None, ci_local_port = 0, ci_local_protocol_name = None,
     ci_alpn = None, ci_opaque_user_data = False, ci_retry_and_idle_policy = False,
     ci_manual_initial_tx_credit = 0, ci_sys_tls_client_cert = 0, ci_priority = 0,
     ci_mqtt_cp = False, ci_fi_wsi_name = None, ci_keep_warm_secs = 0, ci_log_cx = False\<rparr>"

section \<open>The space in front of a frame\<close>

text \<open>\<open>_LWS_PAD\<close> rounds up to a multiple of the pad size, 16 on the 64 bit platforms.\<close>

definition LWS_PAD :: "nat \<Rightarrow> nat \<Rightarrow> nat" where
  "LWS_PAD pad_size n = (if n mod pad_size \<noteq> 0 then n + (pad_size - n mod pad_size) else n)"

definition LWS_PRE :: nat where
  "LWS_PRE = LWS_PAD 16 (4 + 10 + 2)"

section \<open>Facts about the numbers\<close>

lemma LWS_PRE_value [simp]: "LWS_PRE = 16"
  by (simp add: LWS_PRE_def LWS_PAD_def)

text \<open>The padding does not depend on the platform: a pad size of 8 gives the same space.\<close>

lemma LWS_PRE_portable: "LWS_PAD 8 (4 + 10 + 2) = LWS_PRE"
  by (simp add: LWS_PAD_def)

text \<open>
  The numbers the gateway's callback switches on belong to one reason each, whatever else the
  library reports.
\<close>

lemma reason_number_cases:
  "reason_number r = 1 \<longleftrightarrow> r = Ws_client_callback LWS_CALLBACK_CLIENT_CONNECTION_ERROR"
  "reason_number r = 3 \<longleftrightarrow> r = Ws_client_callback LWS_CALLBACK_CLIENT_ESTABLISHED"
  "reason_number r = 8 \<longleftrightarrow> r = Ws_client_callback LWS_CALLBACK_CLIENT_RECEIVE"
  "reason_number r = 38 \<longleftrightarrow> r = Ws_server_callback LWS_CALLBACK_WS_PEER_INITIATED_CLOSE"
  "reason_number r = 75 \<longleftrightarrow> r = Ws_client_callback LWS_CALLBACK_CLIENT_CLOSED"
  by (cases r; (rename_tac x, case_tac x)?; simp)+

end
