(* ===== verification/Gateway.thy ===== *)
theory Gateway
  imports Interaction Lws
begin

text \<open>
  The WebSocket side: the class \<open>gateway\<close> of pilepoxyl/pilepoxyl.h and its functions in
  pilepoxyl/gateway.cpp.  The functions are definitions over the record of the class; the loop of
  \<open>connect_and_receive_events\<close> and the threads it starts are a step relation.
\<close>

section \<open>Sleep\<close>

text \<open>The seconds and the nanoseconds of the \<open>timespec\<close>; the division truncates.\<close>

definition Sleep :: "int \<Rightarrow> int \<times> int" where
  "Sleep dwMilliseconds =
     (let tv_sec = sgn dwMilliseconds * (\<bar>dwMilliseconds\<bar> div 1000)
      in (tv_sec, (dwMilliseconds - tv_sec * 1000) * 1000000))"

section \<open>The enumerations\<close>

datatype opcodes =
    GW_DISPATCH | GW_HRTBTSND | GW_IDENTIFY | GW_PRESCUPD | GW_VOISTUPD | GW_USRDEFED
  | GW_DORESUME | GW_RECONNEK | GW_REQGMEMB | GW_INVLSESS | GW_SAYHELLO | GW_HRTBTACK

definition all_opcodes :: "opcodes list" where
  "all_opcodes =
     [GW_DISPATCH, GW_HRTBTSND, GW_IDENTIFY, GW_PRESCUPD, GW_VOISTUPD, GW_USRDEFED,
      GW_DORESUME, GW_RECONNEK, GW_REQGMEMB, GW_INVLSESS, GW_SAYHELLO, GW_HRTBTACK]"

definition opcode :: "opcodes \<Rightarrow> int" where
  "opcode c = int (length (takeWhile (\<lambda>d. d \<noteq> c) all_opcodes))"

definition received_opcode :: "int \<Rightarrow> opcodes option" where
  "received_opcode n = (if 0 \<le> n \<and> n < 12 then Some (all_opcodes ! nat n) else None)"

text \<open>
  The opcodes are a finite type, so a statement about all of them is decided by evaluation: the number
  of an opcode is read back as that opcode.
\<close>

instantiation opcodes :: enum
begin

definition enum_opcodes :: "opcodes list" where
  "enum_opcodes = all_opcodes"

definition enum_all_opcodes :: "(opcodes \<Rightarrow> bool) \<Rightarrow> bool" where
  "enum_all_opcodes P = list_all P all_opcodes"

definition enum_ex_opcodes :: "(opcodes \<Rightarrow> bool) \<Rightarrow> bool" where
  "enum_ex_opcodes P = list_ex P all_opcodes"

instance
proof
  have "c \<in> set all_opcodes" for c by (cases c) (simp_all add: all_opcodes_def)
  then have U: "UNIV = set all_opcodes" by auto
  then show "(UNIV :: opcodes set) = set enum_class.enum" by (simp add: enum_opcodes_def)
  show "distinct (enum_class.enum :: opcodes list)" by (simp add: enum_opcodes_def all_opcodes_def)
  show "enum_class.enum_all P \<longleftrightarrow> Ball UNIV P" "enum_class.enum_ex P \<longleftrightarrow> Bex UNIV P"
    for P :: "opcodes \<Rightarrow> bool"
    unfolding U by (simp_all add: enum_all_opcodes_def enum_ex_opcodes_def list_all_iff list_ex_iff)
qed

end

lemma received_opcode_iff: "received_opcode n = Some c \<longleftrightarrow> n = opcode c"
proof
  assume "received_opcode n = Some c"
  then have n: "n = int (nat n)" "nat n \<in> set [0..<12]" "c = all_opcodes ! nat n"
    by (auto simp: received_opcode_def split: if_splits)
  have "list_all (\<lambda>i. int i = opcode (all_opcodes ! i)) [0..<12]"
    by (simp add: upt_rec opcode_def all_opcodes_def)
  then have "int (nat n) = opcode (all_opcodes ! nat n)" using n(2) unfolding list_all_iff by (rule bspec)
  with n(1,3) show "n = opcode c" by simp
next
  have "\<forall>c. received_opcode (opcode c) = Some c" by code_simp
  then show "n = opcode c \<Longrightarrow> received_opcode n = Some c" by simp
qed

datatype cecodes =
    GC_NOSTATUS | GC_HRTBTSKP | GC_GOINGAWY | GC_UNKWNERR | GC_UNKWNOPC | GC_DECODERR
  | GC_NOTAUTHD | GC_AUFAILED | GC_ALRDAUTH | GC_USRDEFED | GC_INVLDSEQ | GC_RATLIMIT
  | GC_SESTMOUT | GC_INVLDSRD | GC_SHRDREQD | GC_INVLDAPI | GC_INVLDINT | GC_DSALWINT

fun cecode :: "cecodes \<Rightarrow> int" where
  "cecode GC_NOSTATUS = 0" | "cecode GC_HRTBTSKP = 1000" | "cecode GC_GOINGAWY = 1001"
| "cecode GC_UNKWNERR = 4000" | "cecode GC_UNKWNOPC = 4001" | "cecode GC_DECODERR = 4002"
| "cecode GC_NOTAUTHD = 4003" | "cecode GC_AUFAILED = 4004" | "cecode GC_ALRDAUTH = 4005"
| "cecode GC_USRDEFED = 4006" | "cecode GC_INVLDSEQ = 4007" | "cecode GC_RATLIMIT = 4008"
| "cecode GC_SESTMOUT = 4009" | "cecode GC_INVLDSRD = 4010" | "cecode GC_SHRDREQD = 4011"
| "cecode GC_INVLDAPI = 4012" | "cecode GC_INVLDINT = 4013" | "cecode GC_DSALWINT = 4014"

section \<open>The state\<close>

text \<open>
  \<open>interface\<close> says whether the pointer to the connection is set.  Of the record a context is
  created with, \<open>info\<close>, the members the program sets are kept; \<open>context\<close> says
  whether the library has made one.
\<close>

record context_info =
  ctx_options :: int
  ctx_port :: int
  ctx_protocols :: bool
  ctx_fd_limit_per_thread :: nat

definition zero_context_info :: context_info where
  "zero_context_info = \<lparr>ctx_options = 0, ctx_port = 0, ctx_protocols = False, ctx_fd_limit_per_thread = 0\<rparr>"

text \<open>The one entry of \<open>protocols\<close>: its name and the size of the data of a connection.\<close>

definition protocols :: "(string \<times> nat) list" where
  "protocols = [(''myrobod'', 8)]"

record gateway =
  heartbeat_interval :: int
  event_order :: int
  sending_heartbeats :: bool
  new_payload :: bool
  new_chunk :: bool
  can_reconnect :: bool
  http_handler :: restapi
  config :: "string \<Rightarrow> string option"
  gateway_rcol :: curl_response
  interface :: bool
  received_message :: json_value
  reconnect_url :: string
  sessid :: string
  info :: context_info
  cc_info :: lws_client_connect_info

text \<open>
  What the gateway does to the outside: the requests of its HTTP handler, the frames with the
  opcode it logs for them, the opcodes it logs as received, and the calls into the library.
\<close>

datatype gw_action =
    Rest action
  | Received int
  | LwsWrite bool int string
  | LwsCloseReason lws_close_status
  | LwsConnect lws_client_connect_info
  | LwsDestroy
  | StartHeartbeats

definition relabel :: "('e \<Rightarrow> 'f) \<Rightarrow> ('e, 'a) effect \<Rightarrow> ('f, 'a) effect" where
  "relabel f m = (List.map f (fst m), snd m)"

section \<open>The callback\<close>

text \<open>Dereferencing the instance, and copying \<open>len\<close> bytes of the message.\<close>

definition deref :: "gateway option \<Rightarrow> gateway result" where
  "deref that = (case that of None \<Rightarrow> Inl Undefined_behaviour | Some g \<Rightarrow> Inr g)"

definition memcpy :: "string \<Rightarrow> nat \<Rightarrow> string result" where
  "memcpy mem n = (if n \<le> length mem then Inr (take n mem) else Inl Undefined_behaviour)"

definition append_chunk :: "string \<Rightarrow> nat \<Rightarrow> gateway \<Rightarrow> gateway result" where
  "append_chunk mem n g =
     (let r = gateway_rcol g; old = (case data r of None \<Rightarrow> [] | Some block \<Rightarrow> block)
      in bindR (memcpy mem n) (\<lambda>bytes.
           Inr (g\<lparr>gateway_rcol := \<lparr>data = Some (take (resp_size r) old @ bytes @ [CHR 0x00]),
                  resp_size = resp_size r + n\<rparr>\<rparr>)))"

definition collected :: "gateway \<Rightarrow> string result" where
  "collected g =
     (let r = gateway_rcol g
      in case data r of
           None \<Rightarrow> if resp_size r = 0 then Inr [] else Inl Logic_error
         | Some block \<Rightarrow> Inr (take (resp_size r) block))"

definition free_chunks :: "gateway \<Rightarrow> gateway" where
  "free_chunks g = g\<lparr>gateway_rcol := \<lparr>data = Some [CHR 0x00], resp_size = 0\<rparr>\<rparr>"

text \<open>A read through \<open>operator[]\<close> that stays in the document.\<close>

definition touch :: "string \<Rightarrow> json_value \<Rightarrow> json_value" where
  "touch k v = set_val_object (snd (obj_index jv_default k (val_object v))) v"

text \<open>The cases of a received message, by the opcode of what arrived.\<close>

definition receive_payload :: "json_value \<Rightarrow> string \<Rightarrow> nat \<Rightarrow> gateway \<Rightarrow> gateway result" where
  "receive_payload rcvdata mem len g =
     (if len = 4096 then
        bindR (append_chunk mem 4096 g) (\<lambda>g. Inr (g\<lparr>new_chunk := True\<rparr>))
      else if new_chunk g then
        bindR (append_chunk mem len g) (\<lambda>g.
        bindR (bindR (collected g) parse) (\<lambda>whole.
          Inr ((free_chunks (g\<lparr>received_message := whole\<rparr>))\<lparr>new_chunk := False, new_payload := True\<rparr>)))
      else Inr (g\<lparr>received_message := rcvdata, new_payload := True\<rparr>))"

definition client_receive :: "gateway option \<Rightarrow> string option \<Rightarrow> nat \<Rightarrow> (gw_action list \<times> int \<times> gateway option) result" where
  "client_receive that message len =
     (case message of
        None \<Rightarrow> Inl Logic_error
      | Some mem \<Rightarrow>
          if CHR 0x00 \<notin> set mem then Inl Undefined_behaviour
          else
            bindR (parse (c_str mem)) (\<lambda>rcvdata.
            bindR (read_field (val_int (member ''op'' rcvdata))) (\<lambda>op.
              if op = opcode GW_RECONNEK then Inr ([Received 7, LwsCloseReason LWS_CLOSE_STATUS_NOSTATUS], 7, that)
              else if op = opcode GW_INVLSESS then
                bindR (read_field (val_int (member ''d'' rcvdata))) (\<lambda>d.
                bindR (deref that) (\<lambda>g. Inr ([Received 9], 9, Some (g\<lparr>can_reconnect := d \<noteq> 0\<rparr>))))
              else
                bindR (deref that) (\<lambda>g.
                bindR (receive_payload (touch ''op'' rcvdata) mem len g) (\<lambda>g. Inr ([], 0, Some g))))))"

text \<open>
  \<open>that\<close> is the instance behind the user pointer, \<open>message\<close> the readable memory behind
  the message pointer (\<open>None\<close> for a null pointer), which may extend beyond \<open>len\<close>.
\<close>

definition say_hello ::
  "lws_callback_reasons \<Rightarrow> gateway option \<Rightarrow> string option \<Rightarrow> nat \<Rightarrow> (gw_action list \<times> int \<times> gateway option) result"
where
  "say_hello reason that message len =
     (case reason of
        Ws_client_callback LWS_CALLBACK_CLIENT_CONNECTION_ERROR \<Rightarrow>
          bindR (deref that) (\<lambda>g. Inr ([], 0, Some (g\<lparr>interface := False\<rparr>)))
      | Ws_client_callback LWS_CALLBACK_CLIENT_ESTABLISHED \<Rightarrow> Inr ([], 0, that)
      | Ws_server_callback LWS_CALLBACK_WS_PEER_INITIATED_CLOSE \<Rightarrow>
          (case message of
             None \<Rightarrow> Inl Undefined_behaviour
           | Some mem \<Rightarrow>
               bindR (vec_at mem 0) (\<lambda>hi. bindR (vec_at mem 1) (\<lambda>lo.
               let closecode = uchar hi * 256 + uchar lo
               in if closecode = cecode GC_AUFAILED then
                    bindR (deref that) (\<lambda>g. Inr ([], closecode, Some (g\<lparr>can_reconnect := False\<rparr>)))
                  else Inr ([], closecode, that))))
      | Ws_client_callback LWS_CALLBACK_CLIENT_RECEIVE \<Rightarrow> client_receive that message len
      | Ws_client_callback LWS_CALLBACK_CLIENT_CLOSED \<Rightarrow>
          bindR (deref that) (\<lambda>g. Inr ([], 0, Some (g\<lparr>interface := False\<rparr>)))
      | _ \<Rightarrow> Inr ([], 0, that))"


section \<open>Starting and restarting\<close>

definition config_defaults :: "string \<Rightarrow> string option" where
  "config_defaults = map_of [(''bot_token'', []), (''gateway_url'', ''gateway.discord.gg'')]"

definition notifmsg_defaults :: "string \<Rightarrow> string option" where
  "notifmsg_defaults = map_of
     [(''obfuscator_splash'', []), (''obfuscator_noutf8'', []), (''manifest_splash'', []),
      (''manifest_ivpico'', []), (''manifest_nonext'', []), (''item_step1_notif'', []),
      (''item_step2_notif'', []), (''item_stepg_ivfmt'', []), (''item_step3_splas'', []),
      (''item_step3_imger'', []), (''item_stepg_nonex'', []), (''entity_textr_ivfmt'', []),
      (''entity_model_ivfmt'', []), (''entity_invalid_idr'', []), (''entity_bb_disabled'', []),
      (''missing_command'', [])]"

text \<open>The loop over the members of a document that fills a map of strings.\<close>

definition read_strings :: "json_value \<Rightarrow> (string \<Rightarrow> string option) \<Rightarrow> string \<Rightarrow> string option" where
  "read_strings doc m =
     fold (\<lambda>(key, valu). map_put key valu) (List.map (\<lambda>(key, valu). (key, val_string valu)) (val_object doc)) m"

text \<open>
  The two records.  They are filled the same way by both functions; \<open>context_ok\<close> says whether
  the library makes a context, and without one the connection record stays zero.  The address is a
  C string, the host and the origin are the same pointer.
\<close>

definition make_context :: "gateway \<Rightarrow> gateway" where
  "make_context g = g\<lparr>info := zero_context_info\<lparr>ctx_options := LWS_SERVER_OPTION_DO_SSL_GLOBAL_INIT,
       ctx_port := CONTEXT_PORT_NO_LISTEN, ctx_protocols := True, ctx_fd_limit_per_thread := 3\<rparr>,
     cc_info := zero_connect_info\<rparr>"

definition connection_to :: "string \<Rightarrow> gateway \<Rightarrow> gateway" where
  "connection_to address g = g\<lparr>cc_info := (cc_info g)\<lparr>ci_context := True, ci_port := 443,
     ci_address := Some (c_str address), ci_path := Some ''/'', ci_host := Some (c_str address),
     ci_origin := Some (c_str address), ci_ssl_connection := LCCSCF_USE_SSL,
     ci_protocol := Some ''myrobod'', ci_pwsi := True\<rparr>\<rparr>"

text \<open>The result is the exit code, which no caller reads, and the state.\<close>

definition initialize :: "bool \<Rightarrow> string \<Rightarrow> string \<Rightarrow> gateway \<Rightarrow> (int \<times> gateway) result" where
  "initialize context_ok config_text notifmsg_text g =
     bindR (parse config_text) (\<lambda>jvcfg. bindR (parse notifmsg_text) (\<lambda>jvntf.
     let g1 = make_context (g\<lparr>config := read_strings jvcfg config_defaults,
                http_handler := (http_handler g)\<lparr>notifmsg := read_strings jvntf notifmsg_defaults\<rparr>,
                sending_heartbeats := False, can_reconnect := False, new_payload := False,
                new_chunk := False, event_order := 0, received_message := jv_cstring []\<rparr>)
     in if context_ok
        then Inr (0, connection_to (map_get [] ''gateway_url'' (config g1)) g1)
        else Inr (9001, g1)))"

definition reconnect_init :: "bool \<Rightarrow> gateway \<Rightarrow> int \<times> gateway" where
  "reconnect_init context_ok g =
     (let g1 = make_context (g\<lparr>sending_heartbeats := False, new_payload := False, event_order := 0,
                 received_message := jv_cstring []\<rparr>)
      in if context_ok then (0, connection_to (reconnect_url g1) g1) else (9001, g1))"

section \<open>Frames\<close>

text \<open>
  A C string that is copied behind the space for the library into a local array of the given size.
\<close>

definition frame_buffer :: "nat \<Rightarrow> string \<Rightarrow> string result" where
  "frame_buffer capacity text =
     (if LWS_PRE + length (c_str text) + 1 \<le> capacity then Inr (c_str text) else Inl Undefined_behaviour)"

definition heartbeat_text :: "gateway \<Rightarrow> string" where
  "heartbeat_text g = [CHR ''{'', CHR 0x22] @ ''op'' @ [CHR 0x22] @ '':1,'' @ [CHR 0x22] @ ''d'' @
     [CHR 0x22] @ '':'' @ show_int (event_order g) @ ''}''"

definition send_heartbeat :: "gateway \<Rightarrow> (gw_action, unit) effect" where
  "send_heartbeat g =
     bindIO (liftR (frame_buffer 100 (heartbeat_text g))) (\<lambda>payload.
       emit (LwsWrite (interface g) (opcode GW_HRTBTSND) payload))"

text \<open>One turn of \<open>send_heartbeat_loop\<close>, after its sleep.\<close>

definition heartbeat_turn :: "gateway \<Rightarrow> (gw_action, unit) effect" where
  "heartbeat_turn g = (if interface g \<and> sending_heartbeats g then send_heartbeat g else returnIO ())"

section \<open>Dispatching a message\<close>

text \<open>The payload that resumes a session, and the one that starts one.\<close>

definition resume_payload :: "gateway \<Rightarrow> json_value result" where
  "resume_payload g = seqR
     [assign [Key ''op''] (jv_int 6),
      assign [Key ''d''] (jv_object []),
      assign [Key ''d'', Key ''token''] (jv_string (bot_token (http_handler g))),
      assign [Key ''d'', Key ''seq''] (jv_int (event_order g)),
      assign [Key ''d'', Key ''session_id''] (jv_string (sessid g))] (jv_object [])"

definition identify_payload :: "gateway \<Rightarrow> json_value result" where
  "identify_payload g = seqR
     [assign [Key ''op''] (jv_int 2),
      assign [Key ''d''] (jv_object []),
      assign [Key ''d'', Key ''token''] (jv_string (bot_token (http_handler g))),
      assign [Key ''d'', Key ''intents''] (jv_int 0),
      assign [Key ''d'', Key ''properties''] (jv_object []),
      assign [Key ''d'', Key ''properties'', Key ''os''] (jv_cstring ''linux''),
      assign [Key ''d'', Key ''properties'', Key ''browser''] (jv_cstring ''libwebsockets''),
      assign [Key ''d'', Key ''properties'', Key ''device''] (jv_cstring ''libwebsockets''),
      assign [Key ''d'', Key ''presence''] (jv_object []),
      assign [Key ''d'', Key ''presence'', Key ''since''] (jv_bool False),
      modify [Key ''d'', Key ''presence'', Key ''since''] (\<lambda>v. Inr (set_val_int (- 1) v)),
      assign [Key ''d'', Key ''presence'', Key ''activities''] (jv_list []),
      assign [Key ''d'', Key ''presence'', Key ''status''] (jv_cstring ''online''),
      assign [Key ''d'', Key ''presence'', Key ''afk''] (jv_bool False)] (jv_object [])"

definition read_token :: "disk \<Rightarrow> gateway \<Rightarrow> gateway result" where
  "read_token d g =
     bindR (read_file d ''config/config.json'' False file_empty) (\<lambda>idpl.
     bindR (parse (text_contents idpl)) (\<lambda>configval.
       Inr (g\<lparr>http_handler := (http_handler g)\<lparr>bot_token := text_of ''bot_token'' configval\<rparr>\<rparr>)))"

definition hello :: "disk \<Rightarrow> json_value \<Rightarrow> gateway \<Rightarrow> (gw_action, gateway) effect" where
  "hello d json_msg g0 =
     bindIO (liftR (read_field (val_int (member ''heartbeat_interval'' (member ''d'' json_msg))))) (\<lambda>interval.
     bindIO (liftR (read_token d (g0\<lparr>heartbeat_interval := interval\<rparr>))) (\<lambda>g.
     bindIO (liftR (if can_reconnect g then bindR (resume_payload g) (\<lambda>p. Inr (p, g))
                    else bindR (identify_payload g) (\<lambda>p. Inr (p, g\<lparr>can_reconnect := True\<rparr>)))) (\<lambda>(p, g).
     bindIO (liftR (read_field (val_int (member ''op'' p)))) (\<lambda>op.
     bindIO (liftR (bindR (get_repr p) (frame_buffer 1000))) (\<lambda>payload.
     bindIO (emit (LwsWrite (interface g) op payload)) (\<lambda>_.
     bindIO (emit StartHeartbeats) (\<lambda>_. returnIO (g\<lparr>sending_heartbeats := True\<rparr>))))))))"

definition dispatch_event :: "environment \<Rightarrow> json_value \<Rightarrow> gateway \<Rightarrow> (gw_action, gateway) effect" where
  "dispatch_event env json_msg g =
     bindIO (if text_of ''t'' json_msg = ''READY'' then
               (let url = text_of ''resume_gateway_url'' (member ''d'' json_msg)
                in liftR (bindR (substr url 6 (length url)) (\<lambda>address.
                     Inr (g\<lparr>reconnect_url := address, sessid := text_of ''session_id'' (member ''d'' json_msg)\<rparr>))))
             else if text_of ''t'' json_msg = ''INTERACTION_CREATE'' then
               bindIO (relabel Rest (respond_interaction env (http_handler g) (member ''d'' json_msg)))
                 (\<lambda>_. returnIO g)
             else returnIO g) (\<lambda>g.
     bindIO (liftR (read_field (val_int (member ''s'' json_msg)))) (\<lambda>s.
       returnIO (g\<lparr>event_order := s\<rparr>)))"

definition determine_what_to_do :: "environment \<Rightarrow> json_value \<Rightarrow> gateway \<Rightarrow> (gw_action, gateway) effect" where
  "determine_what_to_do env json_msg g =
     bindIO (liftR (read_field (val_int (member ''op'' json_msg)))) (\<lambda>op.
     bindIO (emit (Received op)) (\<lambda>_.
       case received_opcode op of
         Some GW_DISPATCH \<Rightarrow> dispatch_event env json_msg g
       | Some GW_HRTBTSND \<Rightarrow> bindIO (send_heartbeat g) (\<lambda>_. returnIO g)
       | Some GW_SAYHELLO \<Rightarrow> hello (files env) json_msg g
       | _ \<Rightarrow> returnIO g))"

text \<open>The end of the five milliseconds a chunk waits for its successor.\<close>

definition chunk_timeout :: "environment \<Rightarrow> gateway \<Rightarrow> (gw_action, gateway) effect" where
  "chunk_timeout env g =
     (if new_chunk g \<and> \<not> new_payload g then
        bindIO (liftR (bindR (collected g) parse)) (\<lambda>rcvdata.
          determine_what_to_do env rcvdata (free_chunks (g\<lparr>new_chunk := False\<rparr>)))
      else returnIO g)"


section \<open>The connection loop and its threads\<close>

text \<open>
  The loop alternates between connecting, serving a connection and leaving it; it ends when the
  connection is lost and reconnecting is not allowed.  Detached threads run beside it: the timeouts
  of chunks, the handlers of messages and the heartbeat loops, which never end.  A thread is taken
  to run as one step (a heartbeat loop: one turn as one step) between the steps of the loop; an
  exception that leaves a thread or the loop ends the program, as does undefined behaviour here.
\<close>

datatype phase = Connecting | Serving | Finished | Crashed cpp_error

datatype thread_kind = Chunk_timeout | Handler json_value | Heartbeat_loop

record process =
  instance_of :: gateway
  loop_phase :: phase
  threads :: "thread_kind list"
  history :: "gw_action list"

text \<open>A callback of the library during one \<open>lws_service\<close>: reason, memory, length.\<close>

type_synonym service_call = "lws_callback_reasons \<times> string option \<times> nat"

fun run_callbacks :: "service_call list \<Rightarrow> gateway \<Rightarrow> (gw_action, gateway) effect" where
  "run_callbacks [] g = returnIO g"
| "run_callbacks ((reason, message, len) # calls) g =
     (case say_hello reason (Some g) message len of
        Inl e \<Rightarrow> liftR (Inl e)
      | Inr (acts, closecode, that) \<Rightarrow>
          bindIO (acts, deref that) (run_callbacks calls))"

text \<open>The result of an effect in the process: its actions are remembered, an error ends it.\<close>

definition finish_step :: "(gw_action, gateway) effect \<Rightarrow> (gateway \<Rightarrow> process \<Rightarrow> process) \<Rightarrow> process \<Rightarrow> process" where
  "finish_step m continue p =
     (let p' = p\<lparr>history := history p @ fst m\<rparr>
      in case snd m of Inl e \<Rightarrow> p'\<lparr>loop_phase := Crashed e\<rparr> | Inr g \<Rightarrow> continue g (p'\<lparr>instance_of := g\<rparr>))"

text \<open>
  Connecting needs a context and \<open>reached\<close>, that the library returns a connection; without one
  the program writes through the null pointer it takes the user data from.
\<close>

definition connect_step :: "bool \<Rightarrow> process \<Rightarrow> process" where
  "connect_step reached p =
     (let g = instance_of p; connected = (reached \<and> ci_context (cc_info g));
          p' = p\<lparr>instance_of := g\<lparr>gateway_rcol := no_response, interface := connected\<rparr>,
                 history := history p @ [LwsConnect (cc_info g)]\<rparr>
      in if connected then p'\<lparr>loop_phase := Serving\<rparr>
         else p'\<lparr>loop_phase := Crashed Undefined_behaviour\<rparr>)"

definition service_step :: "service_call list \<Rightarrow> process \<Rightarrow> process" where
  "service_step calls p =
     finish_step (run_callbacks calls (instance_of p))
       (\<lambda>g p. p\<lparr>threads := threads p @ optional (new_chunk g) Chunk_timeout @
                   optional (new_payload g) (Handler (received_message g)),
                instance_of := g\<lparr>new_payload := False\<rparr>\<rparr>) p"

definition leave_step :: "bool \<Rightarrow> process \<Rightarrow> process" where
  "leave_step context_ok p =
     (let g = (instance_of p)\<lparr>sending_heartbeats := False\<rparr>; p' = p\<lparr>history := history p @ [LwsDestroy]\<rparr>
      in if can_reconnect g
         then p'\<lparr>instance_of := snd (reconnect_init context_ok g), loop_phase := Connecting\<rparr>
         else p'\<lparr>instance_of := g, loop_phase := Finished\<rparr>)"

text \<open>Starting a heartbeat loop is visible in the actions of a handler.\<close>

definition run_thread :: "environment \<Rightarrow> thread_kind \<Rightarrow> gateway \<Rightarrow> (gw_action, gateway) effect" where
  "run_thread env t g =
     (case t of
        Chunk_timeout \<Rightarrow> chunk_timeout env g
      | Handler json_msg \<Rightarrow> determine_what_to_do env json_msg g
      | Heartbeat_loop \<Rightarrow> bindIO (heartbeat_turn g) (\<lambda>_. returnIO g))"

definition heartbeat_starts :: "gw_action list \<Rightarrow> nat" where
  "heartbeat_starts acts = length (List.filter (\<lambda>a. a = StartHeartbeats) acts)"

definition thread_step :: "environment \<Rightarrow> nat \<Rightarrow> process \<Rightarrow> process" where
  "thread_step env i p =
     (let t = threads p ! i; m = run_thread env t (instance_of p);
          rest = (if t = Heartbeat_loop then threads p else take i (threads p) @ drop (Suc i) (threads p))
      in finish_step m (\<lambda>g p. p\<lparr>threads := rest @ replicate (heartbeat_starts (fst m)) Heartbeat_loop\<rparr>) p)"

definition running :: "process \<Rightarrow> bool" where
  "running p \<longleftrightarrow> loop_phase p = Connecting \<or> loop_phase p = Serving"

inductive gw_step :: "environment \<Rightarrow> process \<Rightarrow> process \<Rightarrow> bool" for env :: environment where
  connect: "loop_phase p = Connecting \<Longrightarrow> gw_step env p (connect_step reached p)"
| service: "loop_phase p = Serving \<Longrightarrow> interface (instance_of p) \<Longrightarrow> gw_step env p (service_step calls p)"
| leave: "loop_phase p = Serving \<Longrightarrow> \<not> interface (instance_of p) \<Longrightarrow> gw_step env p (leave_step ok p)"
| thread: "running p \<Longrightarrow> i < length (threads p) \<Longrightarrow> gw_step env p (thread_step env i p)"

inductive_cases gw_stepE: "gw_step env p p'"

text \<open>The process after \<open>initialize\<close>, and what it can reach.\<close>

definition started :: "gateway \<Rightarrow> process" where
  "started g = \<lparr>instance_of = g, loop_phase = Connecting, threads = [], history = []\<rparr>"

inductive gw_reachable :: "environment \<Rightarrow> gateway \<Rightarrow> process \<Rightarrow> bool" for env :: environment and g :: gateway where
  start: "gw_reachable env g (started g)"
| step: "gw_reachable env g p \<Longrightarrow> gw_step env p p' \<Longrightarrow> gw_reachable env g p'"

text \<open>A program that calls the loop runs this: the process for a list of choices.\<close>

datatype choice = Connect bool | Service "service_call list" | Leave bool | Run nat

definition perform :: "environment \<Rightarrow> choice \<Rightarrow> process \<Rightarrow> process option" where
  "perform env c p =
     (case c of
        Connect reached \<Rightarrow> (if loop_phase p = Connecting then Some (connect_step reached p) else None)
      | Service calls \<Rightarrow> (if loop_phase p = Serving \<and> interface (instance_of p)
                           then Some (service_step calls p) else None)
      | Leave ok \<Rightarrow> (if loop_phase p = Serving \<and> \<not> interface (instance_of p)
                      then Some (leave_step ok p) else None)
      | Run i \<Rightarrow> (if running p \<and> i < length (threads p) then Some (thread_step env i p) else None))"

fun run_choices :: "environment \<Rightarrow> choice list \<Rightarrow> process \<Rightarrow> process option" where
  "run_choices env [] p = Some p"
| "run_choices env (c # cs) p = (case perform env c p of None \<Rightarrow> None | Some p' \<Rightarrow> run_choices env cs p')"

lemma perform_step: "perform env c p = Some p' \<Longrightarrow> gw_step env p p'"
  by (auto simp: perform_def split: choice.splits if_splits intro: gw_step.intros)

lemma run_choices_reachable:
  "gw_reachable env g p \<Longrightarrow> run_choices env cs p = Some p' \<Longrightarrow> gw_reachable env g p'"
  by (induction env cs p rule: run_choices.induct)
    (auto split: option.splits intro: gw_reachable.step perform_step)

end
