(* ===== verification/GatewayCorrect.thy ===== *)
theory GatewayCorrect
  imports Gateway
begin

text \<open>
  What holds of the gateway: the payloads of the handshake, a monitor that follows the actions of
  its handlers, the invariant of the process that the loop and its threads keep, the collection of
  chunks, and the properties with a run of the process as their witness.
\<close>

section \<open>The payloads of the handshake\<close>

definition resume_template :: "string \<Rightarrow> int \<Rightarrow> string \<Rightarrow> json_value" where
  "resume_template token seq session = jv_object [(''op'', jv_int 6), (''d'', jv_object
     [(''token'', jv_string token), (''seq'', jv_int seq), (''session_id'', jv_string session)])]"

definition identify_template :: "string \<Rightarrow> json_value" where
  "identify_template token = jv_object [(''op'', jv_int 2), (''d'', jv_object
     [(''token'', jv_string token), (''intents'', jv_int 0),
      (''properties'', jv_object [(''os'', jv_string ''linux''),
         (''browser'', jv_string ''libwebsockets''), (''device'', jv_string ''libwebsockets'')]),
      (''presence'', jv_object [(''since'', set_val_int (- 1) (jv_bool False)),
         (''activities'', jv_list []), (''status'', jv_string ''online''), (''afk'', jv_bool False)])])]"

lemma payload_run:
  "resume_payload g = Inr (resume_template (bot_token (http_handler g)) (event_order g) (sessid g))"
  "identify_payload g = Inr (identify_template (bot_token (http_handler g)))"
  by (simp_all add: resume_payload_def resume_template_def identify_payload_def identify_template_def
      assign_def obj_updR_eq jv_cstring_eq)

definition hello_template :: "gateway \<Rightarrow> json_value" where
  "hello_template g = (if can_reconnect g
     then resume_template (bot_token (http_handler g)) (event_order g) (sessid g)
     else identify_template (bot_token (http_handler g)))"

definition hello_opcode :: "gateway \<Rightarrow> int" where
  "hello_opcode g = (if can_reconnect g then 6 else 2)"

lemma hello_template_op: "val_int (member ''op'' (hello_template g)) = Some (hello_opcode g)"
  by (simp add: hello_template_def hello_opcode_def resume_template_def identify_template_def
      member_def jv_object_def jv_int_def)

lemma hello_run:
  "hello d json_msg g0 =
     bindIO (liftR (read_field (val_int (member ''heartbeat_interval'' (member ''d'' json_msg))))) (\<lambda>interval.
     bindIO (liftR (read_token d (g0\<lparr>heartbeat_interval := interval\<rparr>))) (\<lambda>g.
     bindIO (liftR (bindR (get_repr (hello_template g)) (frame_buffer 1000))) (\<lambda>payload.
       ([LwsWrite (interface g) (hello_opcode g) payload, StartHeartbeats],
        Inr (g\<lparr>can_reconnect := True, sending_heartbeats := True\<rparr>)))))"
proof -
  have "(if can_reconnect g then bindR (resume_payload g) (\<lambda>p. Inr (p, g))
      else bindR (identify_payload g) (\<lambda>p. Inr (p, g\<lparr>can_reconnect := True\<rparr>)))
    = Inr (hello_template g, g\<lparr>can_reconnect := True\<rparr>)" for g
    by (simp add: payload_run hello_template_def)
  then show ?thesis
    unfolding hello_def by (simp add: hello_template_op) (simp add: returnIO_def)
qed

section \<open>Watching the actions\<close>

text \<open>
  A monitor reads the actions of an effect: whether a session was opened (or the server said that
  it may be resumed), how many handshake frames were sent and how many heartbeat loops started.
  A frame that resumes is only allowed when a session was opened.
\<close>

record monitor =
  opened :: bool
  hellos :: nat
  loops :: nat

fun allowed :: "monitor \<Rightarrow> gw_action \<Rightarrow> bool" where
  "allowed c (LwsWrite b op t) = (op = 6 \<longrightarrow> opened c)"
| "allowed c _ = True"

fun advance :: "gw_action \<Rightarrow> monitor \<Rightarrow> monitor" where
  "advance (LwsWrite b op t) c =
     c\<lparr>opened := opened c \<or> op = 2, hellos := hellos c + (if op = 2 \<or> op = 6 then 1 else 0)\<rparr>"
| "advance (Received n) c = c\<lparr>opened := opened c \<or> n = 9\<rparr>"
| "advance StartHeartbeats c = c\<lparr>loops := Suc (loops c)\<rparr>"
| "advance _ c = c"

fun watch :: "monitor \<Rightarrow> gw_action list \<Rightarrow> monitor option" where
  "watch c [] = Some c"
| "watch c (a # as) = (if allowed c a then watch (advance a c) as else None)"

lemma watch_append: "watch c (as @ bs) = Option.bind (watch c as) (\<lambda>d. watch d bs)"
  by (induction as arbitrary: c) simp_all

definition during :: "monitor \<Rightarrow> (gw_action, 'a) effect \<Rightarrow> (monitor \<Rightarrow> 'a \<Rightarrow> bool) \<Rightarrow> bool" where
  "during c m Q \<longleftrightarrow> (\<exists>d. watch c (fst m) = Some d \<and> (\<forall>x. snd m = Inr x \<longrightarrow> Q d x))"

named_theorems during_rules \<open>how the monitor goes through effects\<close>

lemma during_bind [during_rules]:
  "during c m (\<lambda>d x. during d (f x) Q) \<Longrightarrow> during c (bindIO m f) Q"
  unfolding during_def
  by (cases m; cases "snd m") (fastforce simp: bindIO_def watch_append split: prod.split)+

lemma during_lift [during_rules]: "(\<And>x. r = Inr x \<Longrightarrow> Q c x) \<Longrightarrow> during c (liftR r) Q"
  by (simp add: during_def liftR_def)

lemma during_return [during_rules]: "Q c x \<Longrightarrow> during c (returnIO x) Q"
  by (simp add: during_def returnIO_def)

lemma during_emit [during_rules]: "allowed c a \<Longrightarrow> Q (advance a c) () \<Longrightarrow> during c (emit a) Q"
  by (auto simp: during_def emit_def)

lemma watch_rest: "watch c (List.map Rest as) = Some c"
  by (induction as) simp_all

lemma during_rest [during_rules]: "(\<And>x. Q c x) \<Longrightarrow> during c (relabel Rest m) Q"
  by (simp add: during_def relabel_def watch_rest)

lemma during_if [during_rules]:
  "(b \<Longrightarrow> during c m Q) \<Longrightarrow> (\<not> b \<Longrightarrow> during c m' Q) \<Longrightarrow> during c (if b then m else m') Q"
  by simp

text \<open>
  What a handler keeps: reconnecting is only planned when a session was opened, one heartbeat loop
  is started for each handshake frame, sending heartbeats implies that there is one, and the
  collected chunks are terminated by a NUL behind the size that is recorded.
\<close>

definition collector_ok :: "curl_response \<Rightarrow> bool" where
  "collector_ok r = (case data r of None \<Rightarrow> resp_size r = 0
     | Some block \<Rightarrow> length block = Suc (resp_size r) \<and> last block = CHR 0x00)"

definition gateway_inv :: "monitor \<Rightarrow> gateway \<Rightarrow> bool" where
  "gateway_inv c g \<longleftrightarrow> (can_reconnect g \<longrightarrow> opened c) \<and> hellos c = loops c \<and>
     (sending_heartbeats g \<longrightarrow> 0 < loops c) \<and> collector_ok (gateway_rcol g)"

lemma advance_other [simp]:
  "op \<noteq> 2 \<Longrightarrow> op \<noteq> 6 \<Longrightarrow> advance (LwsWrite b op t) c = c"
  "n \<noteq> 9 \<Longrightarrow> advance (Received n) c = c"
  by (cases c; simp)+

lemma gateway_inv_received: "gateway_inv c g \<Longrightarrow> gateway_inv (advance (Received n) c) g"
  by (cases c) (auto simp: gateway_inv_def)

lemma during_heartbeat [during_rules]: "Q c () \<Longrightarrow> during c (send_heartbeat g) Q"
  unfolding send_heartbeat_def
  by (intro during_rules) (simp_all add: opcode_def all_opcodes_def)

lemma during_turn [during_rules]: "Q c () \<Longrightarrow> during c (heartbeat_turn g) Q"
  unfolding heartbeat_turn_def by (intro during_rules)

lemma read_token_keeps:
  "read_token d g = Inr g' \<Longrightarrow> gateway_inv c g' = gateway_inv c g \<and> can_reconnect g' = can_reconnect g"
  by (auto simp: read_token_def bindR_eq_Inr gateway_inv_def)

lemma gateway_inv_frame:
  "gateway_inv c (g\<lparr>heartbeat_interval := i\<rparr>) = gateway_inv c g"
  "gateway_inv c (g\<lparr>event_order := i\<rparr>) = gateway_inv c g"
  "gateway_inv c (g\<lparr>reconnect_url := u, sessid := s\<rparr>) = gateway_inv c g"
  "gateway_inv c (g\<lparr>new_chunk := b\<rparr>) = gateway_inv c g"
  "gateway_inv c (g\<lparr>new_payload := b\<rparr>) = gateway_inv c g"
  "gateway_inv c (g\<lparr>received_message := v\<rparr>) = gateway_inv c g"
  "gateway_inv c (g\<lparr>received_message := v, new_payload := b\<rparr>) = gateway_inv c g"
  "gateway_inv c (g\<lparr>new_chunk := b, new_payload := b'\<rparr>) = gateway_inv c g"
  "gateway_inv c (g\<lparr>interface := b\<rparr>) = gateway_inv c g"
  "gateway_inv c g \<Longrightarrow> gateway_inv c (g\<lparr>sending_heartbeats := False\<rparr>)"
  "gateway_inv c g \<Longrightarrow> gateway_inv c (g\<lparr>can_reconnect := False\<rparr>)"
  "gateway_inv c g \<Longrightarrow> gateway_inv c (free_chunks g)"
  by (simp_all add: gateway_inv_def free_chunks_def collector_ok_def)

lemma during_hello: "gateway_inv c g \<Longrightarrow> during c (hello d json_msg g) gateway_inv"
  unfolding hello_run
  by (intro during_rules)
    (cases c, auto dest!: read_token_keeps simp: gateway_inv_frame during_def hello_opcode_def,
     auto simp: gateway_inv_def)

lemma during_dispatch: "gateway_inv c g \<Longrightarrow> during c (dispatch_event env json_msg g) gateway_inv"
  unfolding dispatch_event_def Let_def
  by (intro during_rules) (auto simp: bindR_eq_Inr gateway_inv_frame)

lemma during_determine: "gateway_inv c g \<Longrightarrow> during c (determine_what_to_do env json_msg g) gateway_inv"
  unfolding determine_what_to_do_def
proof (intro during_rules, simp, goal_cases)
  case (1 op)
  then have "gateway_inv (advance (Received op) c) g" by (simp only: gateway_inv_received)
  then show ?case
    by (auto split: option.split opcodes.split
        intro: during_hello during_dispatch during_return during_bind during_heartbeat)
qed

lemma during_thread: "gateway_inv c g \<Longrightarrow> during c (run_thread env t g) gateway_inv"
  by (cases t) (auto simp: run_thread_def chunk_timeout_def gateway_inv_frame
      intro!: during_rules during_determine)

lemma append_chunk_keeps:
  assumes "gateway_inv c g" "append_chunk mem n g = Inr g'"
  shows "gateway_inv c g'"
proof -
  from assms(2) obtain old where "length mem \<ge> n" and
    g': "g' = g\<lparr>gateway_rcol := \<lparr>data = Some (take (resp_size (gateway_rcol g)) old @ take n mem @ [CHR 0x00]),
                  resp_size = resp_size (gateway_rcol g) + n\<rparr>\<rparr>"
    and old: "old = (case data (gateway_rcol g) of None \<Rightarrow> [] | Some block \<Rightarrow> block)"
    by (auto simp: append_chunk_def memcpy_def Let_def split: if_splits)
  moreover have "resp_size (gateway_rcol g) \<le> length old"
    using assms(1) by (auto simp: old gateway_inv_def collector_ok_def split: option.splits)
  ultimately show ?thesis
    using assms(1) by (simp add: gateway_inv_def collector_ok_def min_def)
qed

lemma receive_payload_keeps:
  "gateway_inv c g \<Longrightarrow> receive_payload v mem n g = Inr g' \<Longrightarrow> gateway_inv c g'"
proof -
  assume inv: "gateway_inv c g" and r: "receive_payload v mem n g = Inr g'"
  consider "n = 4096" | "n \<noteq> 4096" "new_chunk g" | "n \<noteq> 4096" "\<not> new_chunk g" by blast
  then show ?thesis
  proof cases
    case 1
    with r obtain h where h: "append_chunk mem 4096 g = Inr h" and g': "g' = h\<lparr>new_chunk := True\<rparr>"
      by (simp add: receive_payload_def bindR_eq_Inr) metis
    show ?thesis unfolding g' gateway_inv_frame by (rule append_chunk_keeps [OF inv h])
  next
    case 2
    with r obtain h w where h: "append_chunk mem n g = Inr h"
      and g': "g' = (free_chunks (h\<lparr>received_message := w\<rparr>))\<lparr>new_chunk := False, new_payload := True\<rparr>"
      by (simp add: receive_payload_def bindR_eq_Inr) metis
    have "gateway_inv c (free_chunks (h\<lparr>received_message := w\<rparr>))"
      using append_chunk_keeps [OF inv h] by (simp add: gateway_inv_frame)
    then show ?thesis unfolding g' gateway_inv_frame .
  next
    case 3
    with r have "g' = g\<lparr>received_message := v, new_payload := True\<rparr>" by (simp add: receive_payload_def)
    then show ?thesis using inv by (simp add: gateway_inv_frame)
  qed
qed

lemma gateway_inv_session:
  "gateway_inv c g \<Longrightarrow> gateway_inv (advance (Received 9) c) (g\<lparr>can_reconnect := b\<rparr>)"
  by (cases c) (simp add: gateway_inv_def)

lemma client_receive_keeps:
  assumes "gateway_inv c g" "client_receive (Some g) message n = Inr (acts, closecode, that)"
  shows "\<exists>d g'. that = Some g' \<and> watch c acts = Some d \<and> gateway_inv d g' \<and> heartbeat_starts acts = 0"
proof -
  obtain mem v op where m: "message = Some mem" "CHR 0x00 \<in> set mem" "parse (c_str mem) = Inr v"
    "val_int (member ''op'' v) = Some op"
    using assms(2) by (auto simp: client_receive_def bindR_eq_Inr read_field_def split: option.splits if_splits)
  consider "op = opcode GW_RECONNEK" | "op \<noteq> opcode GW_RECONNEK" "op = opcode GW_INVLSESS"
    | "op \<noteq> opcode GW_RECONNEK" "op \<noteq> opcode GW_INVLSESS" by blast
  then show ?thesis
  proof cases
    case 1
    with assms m have "acts = [Received 7, LwsCloseReason LWS_CLOSE_STATUS_NOSTATUS]" "that = Some g" by (auto simp: client_receive_def)
    then show ?thesis using assms(1) by (simp add: heartbeat_starts_def)
  next
    case 2
    with assms(2) m obtain b where "acts = [Received 9]" "that = Some (g\<lparr>can_reconnect := b\<rparr>)"
      by (auto simp: client_receive_def deref_def bindR_eq_Inr)
    then show ?thesis using gateway_inv_session [OF assms(1)] by (simp add: heartbeat_starts_def)
  next
    case 3
    with assms(2) m obtain g' where "receive_payload (touch ''op'' v) mem n g = Inr g'"
      "acts = []" "that = Some g'"
      by (auto simp: client_receive_def deref_def bindR_eq_Inr)
    then show ?thesis using receive_payload_keeps [OF assms(1)] by (simp add: heartbeat_starts_def)
  qed
qed

lemma say_hello_keeps:
  assumes "gateway_inv c g" "say_hello reason (Some g) message n = Inr (acts, closecode, that)"
  shows "\<exists>d g'. that = Some g' \<and> watch c acts = Some d \<and> gateway_inv d g' \<and> heartbeat_starts acts = 0"
proof (cases "reason = Ws_client_callback LWS_CALLBACK_CLIENT_RECEIVE")
  case True
  with assms show ?thesis by (auto simp: say_hello_def intro: client_receive_keeps)
next
  case False
  with assms show ?thesis
    by (auto simp: say_hello_def deref_def bindR_eq_Inr Let_def gateway_inv_frame heartbeat_starts_def
        split: lws_callback_reasons.splits ws_client_callbacks.splits ws_server_callbacks.splits
          option.splits if_splits)
qed

lemma during_callbacks:
  "gateway_inv c g \<Longrightarrow> during c (run_callbacks calls g) gateway_inv \<and>
     heartbeat_starts (fst (run_callbacks calls g)) = 0"
proof (induction calls g arbitrary: c rule: run_callbacks.induct)
  case (1 g)
  then show ?case by (simp add: during_return) (simp add: returnIO_def heartbeat_starts_def)
next
  case (2 reason message n calls g)
  show ?case
  proof (cases "say_hello reason (Some g) message n")
    case (Inl e)
    then show ?thesis by (simp add: during_def liftR_def heartbeat_starts_def)
  next
    case (Inr r)
    then obtain acts code that where r: "say_hello reason (Some g) message n = Inr (acts, code, that)"
      by (cases r) auto
    with say_hello_keeps [OF "2.prems"] obtain d g' where
      h: "that = Some g'" "watch c acts = Some d" "gateway_inv d g'" "heartbeat_starts acts = 0" by blast
    have run: "run_callbacks ((reason, message, n) # calls) g = bindIO (acts, Inr g') (run_callbacks calls)"
      by (simp add: r h(1) deref_def)
    have ih: "during d (run_callbacks calls g') gateway_inv"
      "heartbeat_starts (fst (run_callbacks calls g')) = 0"
      using "2.IH" [OF r refl refl h(3)] by blast+
    have "during c (bindIO (acts, Inr g') (run_callbacks calls)) gateway_inv"
      by (rule during_bind) (simp add: during_def [of c] h(2) ih(1))
    moreover have "heartbeat_starts (fst (bindIO (acts, Inr g') (run_callbacks calls))) = 0"
      using ih(2) h(4) by (cases "run_callbacks calls g'") (simp add: bindIO_def heartbeat_starts_def)
    ultimately show ?thesis unfolding run by blast
  qed
qed

section \<open>Invariants of the process\<close>

text \<open>
  A property that holds at the start and is kept by every step holds in what the steps reach.
\<close>

locale safety =
  fixes step :: "'s \<Rightarrow> 's \<Rightarrow> bool" and initial :: 's and inv :: "'s \<Rightarrow> bool"
  assumes holds_initially: "inv initial"
    and step_keeps: "inv s \<Longrightarrow> step s t \<Longrightarrow> inv t"
begin

lemma holds_in_reachable: "step\<^sup>*\<^sup>* initial s \<Longrightarrow> inv s"
  by (induction rule: rtranclp_induct) (auto intro: holds_initially step_keeps)

lemma unreachable: "\<not> inv s \<Longrightarrow> \<not> step\<^sup>*\<^sup>* initial s"
  using holds_in_reachable by blast

end

lemma gw_reachable_steps: "gw_reachable env g p \<Longrightarrow> (gw_step env)\<^sup>*\<^sup>* (started g) p"
  by (induction rule: gw_reachable.induct) (auto intro: rtranclp.rtrancl_into_rtrancl)

definition heartbeat_loops :: "process \<Rightarrow> nat" where
  "heartbeat_loops p = length (List.filter (\<lambda>t. t = Heartbeat_loop) (threads p))"

definition alive :: "process \<Rightarrow> bool" where
  "alive p \<longleftrightarrow> (\<forall>e. loop_phase p \<noteq> Crashed e)"

definition process_inv :: "process \<Rightarrow> bool" where
  "process_inv p \<longleftrightarrow>
     (\<exists>c. watch \<lparr>opened = False, hellos = 0, loops = 0\<rparr> (history p) = Some c \<and>
        (alive p \<longrightarrow> gateway_inv c (instance_of p) \<and> loops c = heartbeat_loops p))"

lemma watch_loops: "watch c as = Some d \<Longrightarrow> loops d = loops c + heartbeat_starts as"
proof (induction as arbitrary: c)
  case (Cons a as)
  then show ?case by (cases a) (auto simp: heartbeat_starts_def split: if_splits)
qed (simp add: heartbeat_starts_def)

lemma finish_step_inv:
  assumes "watch \<lparr>opened = False, hellos = 0, loops = 0\<rparr> (history p) = Some c"
    and "during c m gateway_inv" and "loops c = heartbeat_loops p"
    and "\<And>g p'. instance_of p' = g \<Longrightarrow> history (continue g p') = history p' \<and>
      (\<forall>d. gateway_inv d (instance_of p') \<longrightarrow> gateway_inv d (instance_of (continue g p')))"
    and "\<And>g p'. threads p' = threads p \<Longrightarrow>
      heartbeat_loops (continue g p') = heartbeat_loops p + heartbeat_starts (fst m)"
  shows "process_inv (finish_step m continue p)"
proof -
  from assms(2) obtain d where d: "watch c (fst m) = Some d" "\<And>x. snd m = Inr x \<Longrightarrow> gateway_inv d x"
    by (auto simp: during_def)
  have w: "watch \<lparr>opened = False, hellos = 0, loops = 0\<rparr> (history p @ fst m) = Some d"
    by (simp add: watch_append assms(1) d(1))
  show ?thesis
  proof (cases "snd m")
    case (Inl e)
    with w show ?thesis by (simp add: finish_step_def process_inv_def alive_def)
  next
    case (Inr g)
    let ?p = "p\<lparr>history := history p @ fst m, instance_of := g\<rparr>"
    have f: "finish_step m continue p = continue g ?p" by (simp add: finish_step_def Inr Let_def)
    have "gateway_inv d (instance_of (continue g ?p))"
      using assms(4) [of ?p g] d(2) [OF Inr] by simp
    moreover have "loops d = heartbeat_loops (continue g ?p)"
      using assms(3,5) watch_loops [OF d(1)] by simp
    moreover have "history (continue g ?p) = history p @ fst m" using assms(4) [of ?p g] by simp
    ultimately show ?thesis using w unfolding process_inv_def f by auto
  qed
qed

lemma running_alive: "running p \<Longrightarrow> alive p"
  by (auto simp: running_def alive_def)

lemma process_inv_running:
  assumes "process_inv p" "running p"
  obtains c where "watch \<lparr>opened = False, hellos = 0, loops = 0\<rparr> (history p) = Some c"
    "gateway_inv c (instance_of p)" "loops c = heartbeat_loops p"
  using assms running_alive by (auto simp: process_inv_def)

lemma service_step_inv: "process_inv p \<Longrightarrow> running p \<Longrightarrow> process_inv (service_step calls p)"
  unfolding service_step_def
  by (erule process_inv_running, assumption)
    (rule finish_step_inv, auto simp: during_callbacks gateway_inv_frame heartbeat_loops_def)

lemma thread_step_inv:
  assumes "process_inv p" "running p" "i < length (threads p)"
  shows "process_inv (thread_step env i p)"
proof -
  let ?t = "threads p ! i" and ?m = "run_thread env (threads p ! i) (instance_of p)"
  let ?rest = "if ?t = Heartbeat_loop then threads p else take i (threads p) @ drop (Suc i) (threads p)"
  have count: "length (List.filter (\<lambda>t. t = Heartbeat_loop) ?rest) = heartbeat_loops p"
    using arg_cong [OF id_take_nth_drop [OF assms(3)], of "\<lambda>ts. length (List.filter (\<lambda>t. t = Heartbeat_loop) ts)"]
    by (auto simp: heartbeat_loops_def)
  from assms(1,2) obtain c where c: "watch \<lparr>opened = False, hellos = 0, loops = 0\<rparr> (history p) = Some c"
    "gateway_inv c (instance_of p)" "loops c = heartbeat_loops p" by (rule process_inv_running)
  show ?thesis
    unfolding thread_step_def Let_def
    by (rule finish_step_inv [OF c(1) during_thread [OF c(2)] c(3)])
      (use count in \<open>simp_all add: heartbeat_loops_def\<close>)
qed

lemma connect_step_inv: "process_inv p \<Longrightarrow> running p \<Longrightarrow> process_inv (connect_step reached p)"
  by (erule process_inv_running, assumption)
    (auto simp: process_inv_def connect_step_def Let_def watch_append heartbeat_loops_def
      gateway_inv_def collector_ok_def no_response_def alive_def)

lemma leave_step_inv: "process_inv p \<Longrightarrow> running p \<Longrightarrow> process_inv (leave_step ok p)"
  by (erule process_inv_running, assumption)
    (auto simp: process_inv_def leave_step_def reconnect_init_def make_context_def connection_to_def Let_def
      watch_append heartbeat_loops_def gateway_inv_def)

lemma gw_step_inv: "process_inv p \<Longrightarrow> gw_step env p p' \<Longrightarrow> process_inv p'"
  by (erule gw_stepE)
    (auto intro: service_step_inv thread_step_inv connect_step_inv leave_step_inv simp: running_def)

text \<open>The gateway that \<open>initialize\<close> leaves behind, with no chunk collected.\<close>

definition fresh :: "gateway \<Rightarrow> bool" where
  "fresh g \<longleftrightarrow> \<not> sending_heartbeats g \<and> \<not> can_reconnect g \<and> collector_ok (gateway_rcol g)"

lemma process_inv_started: "fresh g \<Longrightarrow> process_inv (started g)"
  by (simp add: process_inv_def started_def fresh_def gateway_inv_def heartbeat_loops_def)

lemma initialize_fresh:
  "collector_ok (gateway_rcol g0) \<Longrightarrow> initialize ok cfg ntf g0 = Inr rg \<Longrightarrow> fresh (snd rg)"
  unfolding initialize_def Let_def bindR_eq_Inr
  by (elim exE conjE, cases ok) (simp_all add: fresh_def make_context_def connection_to_def, (erule subst; simp)+)

text \<open>The start of a process: the fresh gateways, whatever else they hold.\<close>

definition booted :: gateway where
  "booted = \<lparr>heartbeat_interval = 0, event_order = 0, sending_heartbeats = False, new_payload = False,
     new_chunk = False, can_reconnect = False,
     http_handler = \<lparr>bot_token = [], notifmsg = notifmsg_defaults\<rparr>, config = config_defaults,
     gateway_rcol = no_response, interface = False, received_message = jv_cstring [],
     reconnect_url = [], sessid = [], info = zero_context_info,
     cc_info = zero_connect_info\<lparr>ci_context := True, ci_address := Some ''gateway.discord.gg''\<rparr>\<rparr>"

lemma booted_fresh: "fresh booted"
  by (simp add: fresh_def booted_def collector_ok_def no_response_def)

interpretation gateway_process: safety "gw_step env" "started g" "\<lambda>p. fresh g \<longrightarrow> process_inv p" for env g
  by unfold_locales (auto intro: process_inv_started gw_step_inv)

lemma opened_advance:
  "opened (advance a c) \<Longrightarrow> opened c \<or> (\<exists>b t. a = LwsWrite b 2 t) \<or> a = Received 9"
  by (cases a) auto

lemma watch_opened:
  "watch c as = Some d \<Longrightarrow> opened d \<Longrightarrow>
     opened c \<or> (\<exists>b t. LwsWrite b 2 t \<in> set as) \<or> Received 9 \<in> set as"
proof (induction as arbitrary: c)
  case (Cons a as)
  then have "watch (advance a c) as = Some d" by (simp split: if_splits)
  from Cons.IH [OF this Cons.prems(2)] opened_advance [of a c] show ?case by auto
qed simp

text \<open>The frames of the handshake.\<close>

definition handshake :: "gw_action \<Rightarrow> bool" where
  "handshake a = (case a of LwsWrite b op t \<Rightarrow> op = 2 \<or> op = 6 | _ \<Rightarrow> False)"

lemma watch_hellos: "watch c as = Some d \<Longrightarrow> hellos d = hellos c + length (List.filter handshake as)"
proof (induction as arbitrary: c)
  case (Cons a as)
  then show ?case by (cases a) (auto simp: handshake_def split: if_splits)
qed simp

section \<open>The handshake\<close>

lemma readable_leaf [simp]: "readable (JV 0 (Some i) l f s xs o')" "readable (JV 1 j l f s xs o')"
  "readable (JV 4 (Some i) l f s xs o')"
  by (simp_all add: readable.simps [of "JV 0 (Some i) l f s xs o'"] readable.simps [of "JV 1 j l f s xs o'"]
      readable.simps [of "JV 4 (Some i) l f s xs o'"])

lemma readable_containers [simp]:
  "readable (JV 2 i l f s xs o') \<longleftrightarrow> list_all readable xs"
  "readable (JV 3 i l f s xs o') \<longleftrightarrow> list_all (\<lambda>kv. readable (snd kv)) o'"
  by (simp_all add: readable.simps [of "JV 2 i l f s xs o'"] readable.simps [of "JV 3 i l f s xs o'"])

lemma readable_hello: "readable (hello_template g)"
  by (simp add: hello_template_def resume_template_def identify_template_def jv_defs set_val_int_def)

definition config_document :: "disk \<Rightarrow> json_value result" where
  "config_document d = read_json d ''config/config.json''"

lemma read_token_run:
  "config_document d = Inr cfg \<Longrightarrow>
     read_token d g = Inr (g\<lparr>http_handler := (http_handler g)\<lparr>bot_token := text_of ''bot_token'' cfg\<rparr>\<rparr>)"
  by (auto simp: read_token_def config_document_def read_json_def bindR_eq_Inr)

definition introduced :: "disk \<Rightarrow> int \<Rightarrow> gateway \<Rightarrow> gateway" where
  "introduced d interval g = g\<lparr>heartbeat_interval := interval, http_handler := (http_handler g)
     \<lparr>bot_token := (case config_document d of Inl e \<Rightarrow> [] | Inr cfg \<Rightarrow> text_of ''bot_token'' cfg)\<rparr>\<rparr>"

lemma hello_reply:
  assumes "config_document d = Inr cfg"
    and "val_int (member ''heartbeat_interval'' (member ''d'' json_msg)) = Some interval"
  shows "hello d json_msg g =
     (let g1 = introduced d interval g; text = c_str (repr (hello_template g1))
      in if length text \<le> 983
         then ([LwsWrite (interface g) (hello_opcode g) text, StartHeartbeats],
               Inr (g1\<lparr>can_reconnect := True, sending_heartbeats := True\<rparr>))
         else ([], Inl Undefined_behaviour))"
  unfolding hello_run assms(2)
  by (simp add: read_token_run [OF assms(1)] introduced_def assms(1) get_repr_def readable_hello Let_def
      frame_buffer_def)
    (auto simp: hello_opcode_def)

lemma hello_dispatch:
  assumes "config_document (files env) = Inr cfg"
    and "val_int (member ''op'' json_msg) = Some 10"
    and "val_int (member ''heartbeat_interval'' (member ''d'' json_msg)) = Some interval"
  shows "determine_what_to_do env json_msg g =
     (let g1 = introduced (files env) interval g; text = c_str (repr (hello_template g1))
      in if length text \<le> 983
         then ([Received 10, LwsWrite (interface g) (hello_opcode g) text, StartHeartbeats],
               Inr (g1\<lparr>can_reconnect := True, sending_heartbeats := True\<rparr>))
         else ([Received 10], Inl Undefined_behaviour))"
  using hello_reply [OF assms(1,3), of g]
  by (simp add: determine_what_to_do_def assms(2) received_opcode_def all_opcodes_def Let_def)

section \<open>Chunks\<close>

text \<open>A chunk that the callback only collects: it parses, and not as a request to reconnect.\<close>

definition plain_chunk :: "string \<Rightarrow> bool" where
  "plain_chunk c \<longleftrightarrow> CHR 0x00 \<notin> set c \<and>
     (case parse c of Inl e \<Rightarrow> False
      | Inr v \<Rightarrow> (case val_int (member ''op'' v) of None \<Rightarrow> False | Some op \<Rightarrow> op \<noteq> 7 \<and> op \<noteq> 9))"

text \<open>The library's call for a chunk: the bytes with the NUL it puts behind them.\<close>

definition chunk_call :: "string \<Rightarrow> service_call" where
  "chunk_call c = (Ws_client_callback LWS_CALLBACK_CLIENT_RECEIVE, Some (c @ [CHR 0x00]), length c)"

definition collects :: "string \<Rightarrow> gateway \<Rightarrow> bool" where
  "collects t g \<longleftrightarrow> resp_size (gateway_rcol g) = length t \<and>
     (data (gateway_rcol g) = Some (t @ [CHR 0x00]) \<or> t = [] \<and> data (gateway_rcol g) = None)"

lemma collects_collected: "collects t g \<Longrightarrow> collected g = Inr t"
  by (auto simp: collects_def collected_def Let_def)

lemma append_chunk_collects:
  "collects t g \<Longrightarrow> append_chunk (c @ [CHR 0x00]) (length c) g =
     Inr (g\<lparr>gateway_rcol := \<lparr>data = Some ((t @ c) @ [CHR 0x00]), resp_size = length (t @ c)\<rparr>\<rparr>)"
  by (auto simp: collects_def append_chunk_def memcpy_def Let_def)

lemma c_str_terminated [simp]: "CHR 0x00 \<notin> set c \<Longrightarrow> c_str (c @ [CHR 0x00]) = c"
  unfolding c_str_def by (subst takeWhile_append2) auto

lemma plain_chunk_call:
  assumes "plain_chunk c"
  obtains v where "parse c = Inr v"
    "run_callbacks (chunk_call c # calls) g =
      (case receive_payload (touch ''op'' v) (c @ [CHR 0x00]) (length c) g of
         Inl e \<Rightarrow> liftR (Inl e) | Inr g' \<Rightarrow> run_callbacks calls g')"
proof -
  from assms obtain v op where v: "parse c = Inr v" "val_int (member ''op'' v) = Some op"
    "op \<noteq> 7" "op \<noteq> 9" "CHR 0x00 \<notin> set c"
    by (auto simp: plain_chunk_def split: sum.splits option.splits)
  have "say_hello (Ws_client_callback LWS_CALLBACK_CLIENT_RECEIVE) (Some g) (Some (c @ [CHR 0x00])) (length c) =
      bindR (receive_payload (touch ''op'' v) (c @ [CHR 0x00]) (length c) g) (\<lambda>g. Inr ([], 0, Some g))"
    using v by (simp add: say_hello_def client_receive_def deref_def opcode_def all_opcodes_def)
  then have "run_callbacks (chunk_call c # calls) g =
      (case receive_payload (touch ''op'' v) (c @ [CHR 0x00]) (length c) g of
         Inl e \<Rightarrow> liftR (Inl e) | Inr g' \<Rightarrow> run_callbacks calls g')"
    by (simp add: chunk_call_def deref_def bindIO_def split: sum.split prod.split)
  with v(1) show thesis using that by blast
qed

lemma full_chunks_run:
  assumes "\<forall>c \<in> set chunks. length c = 4096 \<and> plain_chunk c" "chunks \<noteq> []" "collects t g"
  shows "run_callbacks (List.map chunk_call chunks @ calls) g = run_callbacks calls
     (g\<lparr>gateway_rcol := \<lparr>data = Some ((t @ concat chunks) @ [CHR 0x00]), resp_size = length (t @ concat chunks)\<rparr>,
        new_chunk := True\<rparr>)"
  using assms
proof (induction chunks arbitrary: t g)
  case (Cons c chunks)
  let ?g = "g\<lparr>gateway_rcol := \<lparr>data = Some ((t @ c) @ [CHR 0x00]), resp_size = length (t @ c)\<rparr>,
        new_chunk := True\<rparr>"
  from Cons.prems have c: "length c = 4096" "plain_chunk c" by simp_all
  obtain v where "run_callbacks (chunk_call c # List.map chunk_call chunks @ calls) g =
      (case receive_payload (touch ''op'' v) (c @ [CHR 0x00]) (length c) g of
         Inl e \<Rightarrow> liftR (Inl e) | Inr g' \<Rightarrow> run_callbacks (List.map chunk_call chunks @ calls) g')"
    by (rule plain_chunk_call [OF c(2)])
  moreover have "receive_payload (touch ''op'' v) (c @ [CHR 0x00]) (length c) g = Inr ?g"
    using append_chunk_collects [OF Cons.prems(3), of c] c(1) by (simp add: receive_payload_def)
  ultimately have step: "run_callbacks (List.map chunk_call (c # chunks) @ calls) g =
      run_callbacks (List.map chunk_call chunks @ calls) ?g" by simp
  show ?case
  proof (cases "chunks = []")
    case True
    with step show ?thesis by simp
  next
    case False
    have "collects (t @ c) ?g" by (simp add: collects_def)
    with Cons.IH [OF _ False this] Cons.prems(1) show ?thesis unfolding step by simp
  qed
qed simp

lemma last_chunk_run:
  assumes "plain_chunk c" "length c \<noteq> 4096" "new_chunk g" "collects t g" "parse (t @ c) = Inr v"
  shows "run_callbacks [chunk_call c] g = ([], Inr ((free_chunks (g\<lparr>received_message := v\<rparr>))
     \<lparr>new_chunk := False, new_payload := True\<rparr>))"
proof -
  obtain w where "run_callbacks [chunk_call c] g =
      (case receive_payload (touch ''op'' w) (c @ [CHR 0x00]) (length c) g of
         Inl e \<Rightarrow> liftR (Inl e) | Inr g' \<Rightarrow> run_callbacks [] g')"
    by (rule plain_chunk_call [OF assms(1)])
  then show ?thesis
    using assms append_chunk_collects [OF assms(4), of c]
    by (simp add: receive_payload_def collected_def Let_def returnIO_def free_chunks_def)
qed

section \<open>A run\<close>

definition sample_config :: json_value where
  "sample_config = jv_object [(''bot_token'', jv_string ''abc'')]"

definition sample_files :: disk where
  "sample_files fname = (if fname = ''config/config.json'' then Some (repr sample_config) else None)"

definition sample_env :: environment where
  "sample_env = \<lparr>net = (\<lambda>_. []), files = sample_files,
     now = \<lparr>tm_sec = 0, tm_min = 0, tm_hour = 0, tm_mday = 0, tm_mon = 0, tm_year = 0\<rparr>,
     picks = (\<lambda>_ _. 0), zip_picks = (\<lambda>_. 0)\<rparr>"

definition sample_hello :: json_value where
  "sample_hello = jv_object
     [(''op'', jv_int 10), (''d'', jv_object [(''heartbeat_interval'', jv_int 41250)])]"

lemma denotes_sample:
  "denotes sample_config (Obj [(''bot_token'', Str ''abc'')])"
  "denotes sample_hello (Obj [(''op'', Num 10), (''d'', Obj [(''heartbeat_interval'', Num 41250)])])"
proof -
  have "denotes (jv_string ''abc'') (Str ''abc'')" by (rule denotes_string) (simp_all add: jv_defs)
  then show "denotes sample_config (Obj [(''bot_token'', Str ''abc'')])"
    unfolding sample_config_def by (intro denotes_object) (simp_all add: jv_defs)
  have i: "denotes (jv_int i) (Num i)" for i by (rule denotes_int) (simp_all add: jv_defs)
  have "denotes (jv_object [(''heartbeat_interval'', jv_int 41250)]) (Obj [(''heartbeat_interval'', Num 41250)])"
    using i by (intro denotes_object) (simp_all add: jv_object_def)
  with i show "denotes sample_hello
      (Obj [(''op'', Num 10), (''d'', Obj [(''heartbeat_interval'', Num 41250)])])"
    unfolding sample_hello_def by (intro denotes_object) (simp_all add: jv_object_def)
qed

lemmas char_simps = is_bracket_def printable_char_def schar_def uchar_def

lemma sample_chars: "list_all (\<lambda>c. \<not> is_bracket c \<and> printable_char c) ''bot_tokenabcdopheartbeat_interval''"
  by code_simp

lemma parse_sample_config:
  "parse (repr sample_config) = Inr (build (Obj [(''bot_token'', Str ''abc'')]))"
  by (rule parse_repr [OF denotes_sample(1)]) (simp_all add: sample_chars [simplified])

lemma parse_sample_hello:
  "parse (repr sample_hello) =
     Inr (build (Obj [(''op'', Num 10), (''d'', Obj [(''heartbeat_interval'', Num 41250)])]))"
  by (rule parse_repr [OF denotes_sample(2)]) (simp_all add: sample_chars [simplified] int64_def)

lemma sample_config_document:
  "config_document sample_files =
     Inr (JV 3 (Some 0) None None [] [] [(''bot_token'', JV 1 (Some 0) None None ''abc'' [] [])])"
  using parse_sample_config
  by (simp add: config_document_def read_json_def read_file_def sample_files_def)

lemmas repr_eval = repr.simps quote_def escape_char_def show_field_def show_bool_def schar_def uchar_def
  show_int_def show_nat_def show_base.simps digit_char_def

lemma sample_plain: "plain_chunk (repr sample_hello)"
proof -
  have "CHR 0x00 \<notin> set (repr sample_hello)"
    by (simp add: sample_hello_def jv_defs repr_eval)
  then show ?thesis
    by (simp add: plain_chunk_def parse_sample_hello member_def int32_def)
qed

lemma c_str_length: "length (c_str s) \<le> length s"
  by (simp add: c_str_def length_takeWhile_le)

lemma sample_fits:
  "length (repr (identify_template ''abc'')) \<le> 983" "length (repr (resume_template ''abc'' 0 [])) \<le> 983"
  by (simp add: identify_template_def jv_defs set_val_int_def repr_eval)
    (simp add: resume_template_def jv_defs repr_eval)

text \<open>One round: the server's hello arrives, and its handler runs.\<close>

definition ready :: "process \<Rightarrow> bool" where
  "ready p \<longleftrightarrow> loop_phase p = Serving \<and> interface (instance_of p) \<and> \<not> new_chunk (instance_of p) \<and>
     event_order (instance_of p) = 0 \<and> sessid (instance_of p) = []"

definition hello_message :: json_value where
  "hello_message = build (Obj [(''op'', Num 10), (''d'', Obj [(''heartbeat_interval'', Num 41250)])])"

lemma sample_received:
  assumes "\<not> new_chunk g"
  shows "run_callbacks [chunk_call (repr sample_hello)] g =
     ([], Inr (g\<lparr>received_message := touch ''op'' hello_message, new_payload := True\<rparr>))"
proof -
  obtain v where v: "parse (repr sample_hello) = Inr v"
    "run_callbacks [chunk_call (repr sample_hello)] g =
      (case receive_payload (touch ''op'' v) (repr sample_hello @ [CHR 0x00]) (length (repr sample_hello)) g of
         Inl e \<Rightarrow> liftR (Inl e) | Inr g' \<Rightarrow> run_callbacks [] g')"
    by (rule plain_chunk_call [OF sample_plain])
  have "length (repr sample_hello) \<noteq> 4096"
    by (simp add: sample_hello_def jv_defs repr_eval)
  with assms v show ?thesis
    by (simp add: receive_payload_def parse_sample_hello hello_message_def returnIO_def)
qed

lemma touch_hello: "touch ''op'' hello_message = hello_message"
  by (simp add: touch_def hello_message_def set_val_object_def obj_index_def Let_def)

lemma sample_handled:
  assumes "event_order g = 0" "sessid g = []"
  shows "\<exists>t. determine_what_to_do sample_env (touch ''op'' hello_message) g =
     ([Received 10, LwsWrite (interface g) (hello_opcode g) t, StartHeartbeats],
      Inr ((introduced sample_files 41250 g)\<lparr>can_reconnect := True, sending_heartbeats := True\<rparr>))"
proof -
  let ?g = "introduced sample_files 41250 g"
  have tok: "bot_token (http_handler ?g) = ''abc''"
    by (simp add: introduced_def sample_config_document member_def text_of_def)
  have "length (repr (hello_template ?g)) \<le> 983"
    using assms sample_fits unfolding hello_template_def tok by (simp add: introduced_def)
  then have "length (c_str (repr (hello_template ?g))) \<le> 983"
    using c_str_length le_trans by blast
  moreover have "config_document (files sample_env) =
      Inr (JV 3 (Some 0) None None [] [] [(''bot_token'', JV 1 (Some 0) None None ''abc'' [] [])])"
    by (simp add: sample_env_def sample_config_document)
  moreover have "val_int (member ''op'' (touch ''op'' hello_message)) = Some 10"
    "val_int (member ''heartbeat_interval'' (member ''d'' (touch ''op'' hello_message))) = Some 41250"
    unfolding touch_hello by (simp_all add: hello_message_def member_def int32_def)
  moreover have "files sample_env = sample_files" by (simp add: sample_env_def)
  ultimately show ?thesis using hello_dispatch [of sample_env _ "touch ''op'' hello_message" 41250 g]
    by (simp add: Let_def)
qed

lemma hello_round:
  assumes "gw_reachable sample_env g0 p" "ready p"
  shows "\<exists>p' t. gw_reachable sample_env g0 p' \<and> ready p' \<and> can_reconnect (instance_of p') \<and>
     history p' = history p @ [Received 10, LwsWrite True (hello_opcode (instance_of p)) t, StartHeartbeats]"
proof -
  let ?p1 = "service_step [chunk_call (repr sample_hello)] p"
  let ?i = "length (threads p)"
  let ?p2 = "thread_step sample_env ?i ?p1"
  note r = assms(2)[unfolded ready_def]
  have p1: "?p1 = p\<lparr>threads := threads p @ [Handler (touch ''op'' hello_message)],
      instance_of := (instance_of p)\<lparr>received_message := touch ''op'' hello_message, new_payload := False\<rparr>,
      history := history p\<rparr>"
    using r by (simp add: service_step_def finish_step_def sample_received Let_def)
  have reach1: "gw_reachable sample_env g0 ?p1"
    using r by (intro gw_reachable.step [OF assms(1)] gw_step.service) simp_all
  have "?i < length (threads ?p1)" "running ?p1"
    unfolding p1 using r by (simp_all add: running_def)
  then have reach2: "gw_reachable sample_env g0 ?p2"
    by (intro gw_reachable.step [OF reach1] gw_step.thread)
  obtain t where t: "determine_what_to_do sample_env (touch ''op'' hello_message) (instance_of ?p1) =
     ([Received 10, LwsWrite True (hello_opcode (instance_of p)) t, StartHeartbeats],
      Inr ((introduced sample_files 41250 (instance_of ?p1))\<lparr>can_reconnect := True, sending_heartbeats := True\<rparr>))"
    using sample_handled [of "instance_of ?p1"] r unfolding p1 by (auto simp: hello_opcode_def)
  have "history ?p2 = history p @ [Received 10, LwsWrite True (hello_opcode (instance_of p)) t, StartHeartbeats]"
    "instance_of ?p2 = (introduced sample_files 41250 (instance_of ?p1))\<lparr>can_reconnect := True, sending_heartbeats := True\<rparr>"
    "loop_phase ?p2 = loop_phase p"
    using t unfolding p1 by (simp_all add: thread_step_def run_thread_def finish_step_def Let_def)
  then have "ready ?p2 \<and> can_reconnect (instance_of ?p2) \<and>
      history ?p2 = history p @ [Received 10, LwsWrite True (hello_opcode (instance_of p)) t, StartHeartbeats]"
    using r unfolding p1 by (simp add: ready_def introduced_def)
  with reach2 show ?thesis by blast
qed

text \<open>Two rounds with a lost connection between them.\<close>

lemma two_rounds:
  "\<exists>p t t' again. gw_reachable sample_env booted p \<and> alive p \<and>
     history p = [LwsConnect (cc_info booted), Received 10, LwsWrite True 2 t, StartHeartbeats,
       LwsDestroy, LwsConnect again, Received 10, LwsWrite True 6 t', StartHeartbeats]"
proof -
  have "gw_reachable sample_env booted (connect_step True (started booted))"
    by (intro gw_reachable.step [OF gw_reachable.start] gw_step.connect) (simp add: started_def)
  moreover have "ready (connect_step True (started booted))"
    by (simp add: ready_def connect_step_def started_def booted_def)
  ultimately obtain p t where p: "gw_reachable sample_env booted p" "ready p"
    "can_reconnect (instance_of p)" "history p = [LwsConnect (cc_info booted), Received 10,
       LwsWrite True 2 t, StartHeartbeats]"
    using hello_round [of booted "connect_step True (started booted)"]
    by (auto simp: connect_step_def started_def booted_def hello_opcode_def)
  let ?p1 = "service_step [(Ws_client_callback LWS_CALLBACK_CLIENT_CLOSED, None, 0)] p"
  let ?p2 = "leave_step True ?p1" and ?p3 = "connect_step True (leave_step True ?p1)"
  have p1: "?p1 = p\<lparr>instance_of := (instance_of p)\<lparr>interface := False, new_payload := False\<rparr>,
      threads := threads p @ optional (new_payload (instance_of p)) (Handler (received_message (instance_of p)))\<rparr>"
    using p(2) by (simp add: service_step_def finish_step_def Let_def say_hello_def deref_def bindIO_def
        returnIO_def ready_def)
  have "gw_reachable sample_env booted ?p1"
    using p(2) by (intro gw_reachable.step [OF p(1)] gw_step.service) (simp_all add: ready_def)
  then have "gw_reachable sample_env booted ?p2"
    by (rule gw_reachable.step, intro gw_step.leave)
      (use p(2) in \<open>simp_all add: p1 ready_def\<close>)
  then have "gw_reachable sample_env booted ?p3"
    by (rule gw_reachable.step, intro gw_step.connect) (use p(3) in \<open>simp add: p1 leave_step_def Let_def\<close>)
  moreover have "ready ?p3" "can_reconnect (instance_of ?p3)"
    "history ?p3 = history p @ [LwsDestroy, LwsConnect (cc_info (instance_of ?p2))]"
    using p(2,3) by (simp_all add: p1 connect_step_def leave_step_def reconnect_init_def make_context_def
        connection_to_def ready_def Let_def)
  ultimately show ?thesis
    using hello_round [of booted ?p3] p(4) by (auto simp: hello_opcode_def alive_def ready_def)
qed

text \<open>Chunks that stand for no document.\<close>

lemma strip_plain: "s \<noteq> [] \<Longrightarrow> \<forall>c \<in> set s. \<not> is_ws c \<Longrightarrow> strip s = s"
proof -
  assume s: "s \<noteq> []" "\<forall>c \<in> set s. \<not> is_ws c"
  then have "strip_begin s = 0" by (cases s) auto
  moreover have "dropWhile is_ws (rev s) = rev s"
    using s by (simp add: dropWhile_eq_self_iff hd_rev)
  ultimately show ?thesis using s by (simp add: strip_def strip_end_def Let_def)
qed

lemma parse_letters: "0 < n \<Longrightarrow> parse (replicate n CHR ''a'') = Inr jv_default"
proof -
  assume n: "0 < n"
  then have strip: "strip (replicate n CHR ''a'') = replicate n CHR ''a''"
    by (intro strip_plain) (auto simp: is_ws_def)
  obtain m where m: "replicate n CHR ''a'' = CHR ''a'' # replicate m CHR ''a''"
    using n by (cases n) auto
  have "scan_number (CHR ''a'' # replicate m CHR ''a'') = None"
    by (simp add: scan_number_def scan_int_def is_digit_def Let_def)
  then show ?thesis
    using strip unfolding m by (subst parse.simps) (simp add: first_char_def)
qed

lemma plain_letters: "0 < n \<Longrightarrow> plain_chunk (replicate n CHR ''a'')"
  by (simp add: plain_chunk_def parse_letters) (simp add: member_def jv_defs)

lemma letters_chunks:
  assumes "0 < n"
  shows "\<forall>c \<in> set [replicate n CHR ''a'']. length c = n \<and> plain_chunk c"
    and "plain_chunk ''a''" and "length ''a'' \<noteq> 4096"
    and "parse (concat [replicate n CHR ''a''] @ ''a'') = Inr jv_default"
    and "parse (concat [replicate n CHR ''a'']) = Inr jv_default"
  using plain_letters [OF assms] parse_letters [OF assms] plain_letters [of 1] parse_letters [of "Suc n"]
  by (simp_all add: replicate_append_same)

section \<open>Properties\<close>

text \<open>C4: A frame that resumes a session is never the first the gateway sends: in every history of
  the connection loop and its threads, whatever their order, an identifying frame was sent before,
  or the server announced an invalid session and left it to the client to resume.\<close>

theorem resume_needs_a_session:
  assumes "fresh g" "gw_reachable env g p" "history p = us @ LwsWrite b 6 t # vs"
  shows "(\<exists>b' t'. LwsWrite b' 2 t' \<in> set us) \<or> Received 9 \<in> set us"
proof -
  have "process_inv p"
    using gateway_process.holds_in_reachable [OF gw_reachable_steps [OF assms(2)]] assms(1) by blast
  then obtain c where "watch \<lparr>opened = False, hellos = 0, loops = 0\<rparr> (us @ LwsWrite b 6 t # vs) = Some c"
    unfolding process_inv_def assms(3) by blast
  then obtain d where "watch \<lparr>opened = False, hellos = 0, loops = 0\<rparr> us = Some d" "opened d"
    by (auto simp: watch_append bind_eq_Some_conv split: if_splits)
  then show ?thesis using watch_opened by fastforce
qed

theorem resume_needs_a_session_witness:
  "\<exists>p us b t vs. gw_reachable sample_env booted p \<and> history p = us @ LwsWrite b 6 t # vs \<and>
     ((\<exists>b' t'. LwsWrite b' 2 t' \<in> set us) \<or> Received 9 \<in> set us)"
proof -
  obtain p t t' again where p: "gw_reachable sample_env booted p"
    "history p = [LwsConnect (cc_info booted), Received 10, LwsWrite True 2 t, StartHeartbeats,
       LwsDestroy, LwsConnect again, Received 10] @ LwsWrite True 6 t' # [StartHeartbeats]"
    using two_rounds by auto
  from resume_needs_a_session [OF booted_fresh p] p show ?thesis by blast
qed

text \<open>C13: While the process runs, as many heartbeat loops run beside the connection as handshake
  frames were ever sent: none ends when its connection does, so every reconnection adds one that
  also sends.  Heartbeats are only enabled when there is such a loop, and the collected chunks
  always end in a NUL right behind their recorded size.\<close>

theorem heartbeat_loops_accumulate:
  assumes "fresh g" "gw_reachable env g p" "alive p"
  shows "heartbeat_loops p = length (List.filter handshake (history p)) \<and>
    (sending_heartbeats (instance_of p) \<longrightarrow> 0 < heartbeat_loops p) \<and>
    collector_ok (gateway_rcol (instance_of p))"
proof -
  have "process_inv p"
    using gateway_process.holds_in_reachable [OF gw_reachable_steps [OF assms(2)]] assms(1) by blast
  with assms(3) obtain c where
    c: "watch \<lparr>opened = False, hellos = 0, loops = 0\<rparr> (history p) = Some c"
      "gateway_inv c (instance_of p)" "loops c = heartbeat_loops p"
    unfolding process_inv_def by blast
  from watch_hellos [OF c(1)] c(2,3) show ?thesis by (simp add: gateway_inv_def)
qed

theorem heartbeat_loops_accumulate_witness:
  "\<exists>p. gw_reachable sample_env booted p \<and> heartbeat_loops p = 2"
proof -
  obtain p t t' again where p: "gw_reachable sample_env booted p" "alive p"
    "history p = [LwsConnect (cc_info booted), Received 10, LwsWrite True 2 t, StartHeartbeats,
       LwsDestroy, LwsConnect again, Received 10, LwsWrite True 6 t', StartHeartbeats]"
    using two_rounds by auto
  from heartbeat_loops_accumulate [OF booted_fresh p(1,2)] have "heartbeat_loops p = 2"
    by (simp add: p(3) handshake_def)
  with p(1) show ?thesis by blast
qed

text \<open>C14: The answer to the server's hello, on every branch: with a session it resumes, without one
  it identifies, with the token of the configuration file; a frame of more than 983 bytes
  overflows the array it is copied into.  The hello enables heartbeats and later reconnections.\<close>

theorem hello_handshake:
  assumes "config_document (files env) = Inr cfg"
    and "val_int (member ''op'' json_msg) = Some 10"
    and "val_int (member ''heartbeat_interval'' (member ''d'' json_msg)) = Some interval"
  shows "determine_what_to_do env json_msg g =
     (let g1 = introduced (files env) interval g; text = c_str (repr (hello_template g1))
      in if length text \<le> 983
         then ([Received 10, LwsWrite (interface g) (hello_opcode g) text, StartHeartbeats],
               Inr (g1\<lparr>can_reconnect := True, sending_heartbeats := True\<rparr>))
         else ([Received 10], Inl Undefined_behaviour))"
  by (rule hello_dispatch [OF assms])

theorem hello_handshake_witness:
  "\<exists>t. determine_what_to_do sample_env hello_message booted =
     ([Received 10, LwsWrite False 2 t, StartHeartbeats],
      Inr ((introduced sample_files 41250 booted)\<lparr>can_reconnect := True, sending_heartbeats := True\<rparr>))"
proof -
  have f: "files sample_env = sample_files" by (simp add: sample_env_def)
  have "bot_token (http_handler (introduced sample_files 41250 booted)) = ''abc''"
    by (simp add: introduced_def sample_config_document member_def text_of_def)
  then have "length (c_str (repr (hello_template (introduced sample_files 41250 booted)))) \<le> 983"
    using le_trans [OF c_str_length sample_fits(1)]
    by (simp add: hello_template_def) (simp add: introduced_def booted_def)
  moreover have "interface booted = False" "hello_opcode booted = 2"
    by (simp_all add: booted_def hello_opcode_def)
  ultimately show ?thesis
    using hello_handshake [of sample_env _ hello_message 41250 booted] sample_config_document
    unfolding f by (simp add: hello_message_def member_def int32_def Let_def)
qed

text \<open>C16: A message that the library delivers in chunks, when nothing was collected before: however many
  full chunks of 4096 bytes come before a last one of another length, the message that is handed over
  is the parse of all their bytes in order, and afterwards nothing is collected, so that the next message
  in chunks starts the same way.  When there are full chunks only, the callback keeps waiting, and it
  is the timeout that hands over the parse of all bytes.  No chunk may hold a NUL byte, and each must
  pass the parser without an exception and with an opcode other than 7 and 9, because the callback
  parses every chunk by itself first.\<close>

theorem chunks_reassembled:
  assumes "\<forall>c \<in> set chunks. length c = 4096 \<and> plain_chunk c" "chunks \<noteq> []"
    and "plain_chunk c" "length c \<noteq> 4096"
    and "collects [] g" "\<not> new_payload g"
    and "parse (concat chunks @ c) = Inr v" "parse (concat chunks) = Inr w"
  shows "run_callbacks (List.map chunk_call chunks @ [chunk_call c]) g = ([], Inr
       (g\<lparr>gateway_rcol := \<lparr>data = Some [CHR 0x00], resp_size = 0\<rparr>, received_message := v,
          new_chunk := False, new_payload := True\<rparr>)) \<and>
    (\<exists>g'. run_callbacks (List.map chunk_call chunks) g = ([], Inr g') \<and> new_chunk g' \<and> \<not> new_payload g' \<and>
       chunk_timeout env g' = determine_what_to_do env w
         (g\<lparr>gateway_rcol := \<lparr>data = Some [CHR 0x00], resp_size = 0\<rparr>, new_chunk := False\<rparr>))"
proof -
  let ?g = "g\<lparr>gateway_rcol := \<lparr>data = Some (concat chunks @ [CHR 0x00]), resp_size = length (concat chunks)\<rparr>,
      new_chunk := True\<rparr>"
  have run: "run_callbacks (List.map chunk_call chunks @ calls) g = run_callbacks calls ?g" for calls
    using full_chunks_run [OF assms(1,2,5)] by simp
  have last: "run_callbacks [chunk_call c] ?g = ([], Inr ((free_chunks (?g\<lparr>received_message := v\<rparr>))
     \<lparr>new_chunk := False, new_payload := True\<rparr>))"
    by (rule last_chunk_run [OF assms(3,4), of _ "concat chunks"]) (simp_all add: collects_def assms(7))
  have full: "run_callbacks (List.map chunk_call chunks) g = ([], Inr ?g)"
    using run [of "[]"] by (simp add: returnIO_def)
  have late: "chunk_timeout env ?g = determine_what_to_do env w (free_chunks (g\<lparr>new_chunk := False\<rparr>))"
    using assms(6,8) by (simp add: chunk_timeout_def collected_def Let_def free_chunks_def)
  have freed: "free_chunks (g\<lparr>new_chunk := False\<rparr>) =
      g\<lparr>gateway_rcol := \<lparr>data = Some [CHR 0x00], resp_size = 0\<rparr>, new_chunk := False\<rparr>"
    by (simp add: free_chunks_def)
  show ?thesis using assms(6) last full late [unfolded freed] by (simp add: run free_chunks_def)
qed

theorem chunks_reassembled_witness:
  "run_callbacks (List.map chunk_call [replicate 4096 CHR ''a''] @ [chunk_call ''a'']) booted = ([], Inr
       (booted\<lparr>gateway_rcol := \<lparr>data = Some [CHR 0x00], resp_size = 0\<rparr>, received_message := jv_default,
          new_chunk := False, new_payload := True\<rparr>))"
proof (rule conjunct1 [OF chunks_reassembled])
  have n: "0 < (4096 :: nat)" by simp
  show "\<forall>c \<in> set [replicate 4096 CHR ''a'']. length c = 4096 \<and> plain_chunk c"
    by (rule letters_chunks(1) [OF n])
  show "plain_chunk ''a''" by (rule letters_chunks(2) [OF n])
  show "length ''a'' \<noteq> 4096" by (rule letters_chunks(3) [OF n])
  show "parse (concat [replicate 4096 CHR ''a''] @ ''a'') = Inr jv_default"
    by (rule letters_chunks(4) [OF n])
  show "parse (concat [replicate 4096 CHR ''a'']) = Inr jv_default"
    by (rule letters_chunks(5) [OF n])
  show "collects [] booted" "\<not> new_payload booted" by (simp_all add: booted_def collects_def no_response_def)
qed (rule list.distinct)

section \<open>Heartbeats\<close>

lemma show_nat_length: "n < 10 ^ Suc k \<Longrightarrow> length (show_nat n) \<le> Suc k"
proof (induction k arbitrary: n)
  case 0
  then show ?case by (simp add: show_nat_rec [of n])
next
  case (Suc k)
  then have "n div 10 < 10 ^ Suc k" by (simp add: less_mult_imp_div_less)
  with Suc.IH show ?case by (simp add: show_nat_rec [of n])
qed

lemma show_int_frame: "int32 i \<Longrightarrow> length (show_int i) \<le> 11 \<and> CHR 0x00 \<notin> set (show_int i)"
proof -
  assume "int32 i"
  then have "nat i < 10 ^ Suc 9" "nat (- i) < 10 ^ Suc 9" by (auto simp: int32_def)
  then have "length (show_nat (nat i)) \<le> 10" "length (show_nat (nat (- i))) \<le> 10"
    using show_nat_length [of _ 9] by simp_all
  moreover have "CHR 0x00 \<notin> set (show_nat n)" for n
    using show_nat_digits [of "CHR 0x00" n] by (auto simp: is_digit_def)
  ultimately show ?thesis by (simp add: show_int_def)
qed

text \<open>The text of a heartbeat is a document of the grammar.\<close>

lemma heartbeat_core: "core (Obj [(''op'', Num 1), (''d'', Num (event_order g))]) (heartbeat_text g)"
proof -
  have l: "literal s (CHR 0x22 # s @ [CHR 0x22])" if "\<forall>c \<in> set s. c \<notin> {CHR 0x22, CHR 0x5C, CHR 0x0A}" for s
  proof -
    from that have "body s s"
    proof (induction s)
      case Nil
      then show ?case by (simp add: body_Nil)
    next
      case (Cons c s)
      then show ?case using body_Cons [of c "[c]" s s] by (simp add: encodes_def)
    qed
    then show ?thesis by (simp add: literal_def)
  qed
  have one: "show_int 1 = ''1''" by (simp add: show_int_def show_nat_rec digit_char_def)
  have "core (Num 1) ''1''" using core_show_int [of 1] by (simp add: one)
  then have "members [(''op'', Num 1), (''d'', Num (event_order g))]
     ([] @ (CHR 0x22 # ''op'' @ [CHR 0x22]) @ [] @ CHR '':'' # [] @ ''1'' @ [] @ CHR '','' #
      ([] @ (CHR 0x22 # ''d'' @ [CHR 0x22]) @ [] @ CHR '':'' # [] @ show_int (event_order g) @ []))"
    by (intro members_Cons members_One l core_show_int) simp_all
  then have "core (Obj [(''op'', Num 1), (''d'', Num (event_order g))])
     (CHR ''{'' # ([] @ (CHR 0x22 # ''op'' @ [CHR 0x22]) @ [] @ CHR '':'' # [] @ ''1'' @ [] @ CHR '','' #
      ([] @ (CHR 0x22 # ''d'' @ [CHR 0x22]) @ [] @ CHR '':'' # [] @ show_int (event_order g) @ [])) @ ''}'')"
    by (rule core_Obj)
  then show ?thesis by (simp add: heartbeat_text_def)
qed

lemma heartbeat_run:
  assumes "int32 (event_order g)"
  shows "send_heartbeat g = ([LwsWrite (interface g) 1 (heartbeat_text g)], Inr ())"
    and "parse (heartbeat_text g) = Inr (build (Obj [(''op'', Num 1), (''d'', Num (event_order g))]))"
proof -
  from show_int_frame [OF assms] have "CHR 0x00 \<notin> set (heartbeat_text g)" "length (heartbeat_text g) \<le> 24"
    by (simp_all add: heartbeat_text_def)
  then have "frame_buffer 100 (heartbeat_text g) = Inr (heartbeat_text g)"
    by (simp add: frame_buffer_def c_str_id)
  then show "send_heartbeat g = ([LwsWrite (interface g) 1 (heartbeat_text g)], Inr ())"
    by (simp add: send_heartbeat_def opcode_def all_opcodes_def) (simp add: emit_def)
  have "clean (Obj [(''op'', Num 1), (''d'', Num (event_order g))])"
    using assms by (auto simp: is_bracket_def int32_def int64_def)
  then show "parse (heartbeat_text g) = Inr (build (Obj [(''op'', Num 1), (''d'', Num (event_order g))]))"
    using parse_document(1) [OF heartbeat_core [of g], of "[]" "[]"] by simp
qed

text \<open>C20: The event that opens a session: its handler remembers the address without its scheme and the
  session for resuming, and while heartbeats are enabled the next turn of a heartbeat loop sends a
  frame that reads as the document of opcode 1 with the number of that event; its text always
  fits the local array.\<close>

theorem heartbeat_carries_last_event:
  assumes "val_int (member ''op'' json_msg) = Some 0" "text_of ''t'' json_msg = ''READY''"
    and "val_int (member ''s'' json_msg) = Some n" "int32 n"
    and "6 \<le> length (text_of ''resume_gateway_url'' (member ''d'' json_msg))"
    and "interface g" "sending_heartbeats g"
  shows "\<exists>g' frame. determine_what_to_do env json_msg g = ([Received 0], Inr g') \<and>
    reconnect_url g' = drop 6 (text_of ''resume_gateway_url'' (member ''d'' json_msg)) \<and>
    sessid g' = text_of ''session_id'' (member ''d'' json_msg) \<and>
    heartbeat_turn g' = ([LwsWrite True 1 frame], Inr ()) \<and>
    parse frame = Inr (build (Obj [(''op'', Num 1), (''d'', Num n)]))"
proof -
  let ?url = "text_of ''resume_gateway_url'' (member ''d'' json_msg)"
  let ?g = "g\<lparr>reconnect_url := drop 6 ?url, sessid := text_of ''session_id'' (member ''d'' json_msg),
    event_order := n\<rparr>"
  have "determine_what_to_do env json_msg g = ([Received 0], Inr ?g)"
    using assms(1-3,5)
    by (simp add: determine_what_to_do_def dispatch_event_def received_opcode_def all_opcodes_def substr_def
        Let_def) (simp add: returnIO_def)
  moreover have "heartbeat_turn ?g = ([LwsWrite True 1 (heartbeat_text ?g)], Inr ())"
    using heartbeat_run(1) [of ?g] assms(4,6,7) by (simp add: heartbeat_turn_def)
  ultimately show ?thesis
    using heartbeat_run(2) [of ?g] assms(4) by (intro exI [of _ ?g] exI [of _ "heartbeat_text ?g"]) simp
qed

definition sample_ready :: json_value where
  "sample_ready = jv_object [(''op'', jv_int 0), (''t'', jv_string ''READY''), (''s'', jv_int 7),
     (''d'', jv_object [(''resume_gateway_url'', jv_string ''wss://a.b''), (''session_id'', jv_string ''q'')])]"

theorem heartbeat_carries_last_event_witness:
  "\<exists>g' frame. determine_what_to_do sample_env sample_ready
      (booted\<lparr>interface := True, sending_heartbeats := True\<rparr>) = ([Received 0], Inr g') \<and>
    reconnect_url g' = ''a.b'' \<and> sessid g' = ''q'' \<and>
    heartbeat_turn g' = ([LwsWrite True 1 frame], Inr ()) \<and>
    parse frame = Inr (build (Obj [(''op'', Num 1), (''d'', Num 7)]))"
  using heartbeat_carries_last_event [of sample_ready 7 "booted\<lparr>interface := True, sending_heartbeats := True\<rparr>"
      sample_env]
  by (simp add: sample_ready_def member_def text_of_def jv_defs int32_def)
end
