(* ===== verification/GatewayEnds.thy ===== *)
theory GatewayEnds
  imports GatewayCorrect
begin

text \<open>
  How a connection of the gateway ends: what is left of a session when the loop takes a lost connection
  up again, and that after the server has rejected the token the loop does not connect again, whatever
  the threads still do; a process that has ended takes no further step.
\<close>

section \<open>What the callbacks keep\<close>

text \<open>A relation between instances that every callback respects is respected by all of them.\<close>

lemma run_callbacks_related:
  assumes "\<And>g. R g g" "\<And>f g h. R f g \<Longrightarrow> R g h \<Longrightarrow> R f h"
    and "\<And>reason message n g acts code that. (reason, message, n) \<in> set calls \<Longrightarrow>
      say_hello reason (Some g) message n = Inr (acts, code, that) \<Longrightarrow> \<exists>h. that = Some h \<and> R g h"
  shows "snd (run_callbacks calls g) = Inr g' \<Longrightarrow> R g g'"
  using assms(3)
proof (induction calls g rule: run_callbacks.induct)
  case (2 reason message n calls g)
  from 2 obtain acts code that where r: "say_hello reason (Some g) message n = Inr (acts, code, that)"
    by (cases "say_hello reason (Some g) message n") (auto simp: liftR_def)
  then obtain h where h: "that = Some h" "R g h" using "2.prems"(2) by (meson list.set_intros(1))
  have "snd (run_callbacks calls h) = Inr g'"
    using "2.prems"(1) by (simp add: r h(1) deref_def effect_simps)
  then have "R h g'"
    by (rule "2.IH" [OF r refl refl]) (rule "2.prems"(2), rule list.set_intros(2))
  with h(2) show ?case by (rule assms(2))
qed (simp add: returnIO_def assms(1))

section \<open>A session that is taken up again\<close>

text \<open>The number of the last event and the name of the session.\<close>

definition session :: "gateway \<Rightarrow> int \<times> string" where
  "session g = (event_order g, sessid g)"

lemma session_simps [simp]:
  "session (g\<lparr>new_payload := b\<rparr>) = session g" "session (g\<lparr>new_chunk := b\<rparr>) = session g"
  "session (g\<lparr>gateway_rcol := r\<rparr>) = session g" "session (g\<lparr>interface := b\<rparr>) = session g"
  "session (g\<lparr>can_reconnect := b\<rparr>) = session g" "session (g\<lparr>received_message := v\<rparr>) = session g"
  "session (g\<lparr>sending_heartbeats := b\<rparr>) = session g" "session (g\<lparr>heartbeat_interval := i\<rparr>) = session g"
  "session (g\<lparr>http_handler := a\<rparr>) = session g" "session (free_chunks g) = session g"
  by (simp_all add: session_def free_chunks_def)

















text \<open>An event whose handler still waits when the loop leaves does set the number, after the reset.\<close>

lemma waiting_event_sets_the_number:
  assumes "threads p ! i = Handler json_msg" "val_int (member ''op'' json_msg) = Some 0"
    and "text_of ''t'' json_msg \<noteq> ''READY''" "text_of ''t'' json_msg \<noteq> ''INTERACTION_CREATE''"
    and "val_int (member ''s'' json_msg) = Some n"
  shows "event_order (instance_of (thread_step env i p)) = n"
  using assms
  by (simp add: thread_step_def run_thread_def determine_what_to_do_def received_opcode_def all_opcodes_def
      dispatch_event_def finish_step_def effect_simps Let_def)



section \<open>A rejected token\<close>

text \<open>A thread that cannot answer a server's hello.\<close>

fun no_hello :: "thread_kind \<Rightarrow> bool" where
  "no_hello (Handler json_msg) = (val_int (member ''op'' json_msg) \<noteq> Some 10)"
| "no_hello _ = True"

definition connections :: "gw_action list \<Rightarrow> nat" where
  "connections acts = length (List.filter (\<lambda>a. case a of LwsConnect _ \<Rightarrow> True | _ \<Rightarrow> False) acts)"

lemma connections_simps [simp]:
  "connections [] = 0" "connections (as @ bs) = connections as + connections bs"
  "connections (a # as) = (case a of LwsConnect _ \<Rightarrow> 1 | _ \<Rightarrow> 0) + connections as"
  "connections (List.map Rest rs) = 0"
  by (simp_all add: connections_def o_def split: gw_action.split)

text \<open>An effect that neither connects nor starts heartbeats and keeps what decides about the end.\<close>

definition lets_end :: "gateway \<Rightarrow> (gw_action, gateway) effect \<Rightarrow> bool" where
  "lets_end g m \<longleftrightarrow> connections (fst m) = 0 \<and> heartbeat_starts (fst m) = 0 \<and>
     (\<forall>g'. snd m = Inr g' \<longrightarrow> can_reconnect g' = can_reconnect g \<and> interface g' = interface g \<and>
        new_chunk g' = new_chunk g \<and> new_payload g' = new_payload g)"

lemma lets_end_dispatch: "lets_end g (dispatch_event env json_msg g)"
  by (auto simp: lets_end_def dispatch_event_def bindIO_def liftR_def returnIO_def relabel_def Let_def
      heartbeat_starts_def bindR_eq_Inr o_def split: prod.splits sum.splits if_splits)

lemma lets_end_prefix:
  "connections acts = 0 \<Longrightarrow> heartbeat_starts acts = 0 \<Longrightarrow> lets_end g m \<Longrightarrow> lets_end g (bindIO (acts, Inr x) (\<lambda>_. m))"
  by (auto simp: lets_end_def bindIO_def heartbeat_starts_def split: prod.split)

lemma lets_end_return: "lets_end g (returnIO g)"
  by (simp add: lets_end_def returnIO_def heartbeat_starts_def)

lemma lets_end_heartbeat: "lets_end g (bindIO (send_heartbeat g) (\<lambda>_. returnIO g))"
  by (auto simp: lets_end_def send_heartbeat_def bindIO_def liftR_def returnIO_def emit_def heartbeat_starts_def
      split: sum.splits)

lemma lets_end_turn: "lets_end g (bindIO (heartbeat_turn g) (\<lambda>_. returnIO g))"
  using lets_end_heartbeat [of g] lets_end_return [of g] by (simp add: heartbeat_turn_def)

lemma lets_end_determine:
  assumes "val_int (member ''op'' json_msg) \<noteq> Some 10"
  shows "lets_end g (determine_what_to_do env json_msg g)"
proof (cases "val_int (member ''op'' json_msg)")
  case None
  then show ?thesis
    by (simp add: determine_what_to_do_def lets_end_def heartbeat_starts_def bindIO_def liftR_def)
next
  case (Some op)
  let ?m = "case received_opcode op of Some GW_DISPATCH \<Rightarrow> dispatch_event env json_msg g
    | Some GW_HRTBTSND \<Rightarrow> bindIO (send_heartbeat g) (\<lambda>_. returnIO g)
    | Some GW_SAYHELLO \<Rightarrow> hello (files env) json_msg g | _ \<Rightarrow> returnIO g"
  have "received_opcode op \<noteq> Some GW_SAYHELLO"
    using assms Some by (simp add: received_opcode_iff opcode_def all_opcodes_def)
  then have "lets_end g ?m"
    by (simp add: lets_end_return lets_end_dispatch lets_end_heartbeat split: option.split opcodes.split)
  then have "lets_end g (bindIO ([Received op], Inr ()) (\<lambda>_. ?m))"
    by (intro lets_end_prefix) (simp_all add: heartbeat_starts_def)
  then show ?thesis by (simp add: determine_what_to_do_def Some emit_def)
qed

lemma lets_end_thread:
  "no_hello t \<Longrightarrow> \<not> new_chunk g \<Longrightarrow> lets_end g (run_thread env t g)"
  by (cases t) (simp_all add: run_thread_def chunk_timeout_def lets_end_return lets_end_determine lets_end_turn)

text \<open>
  A process that can only end: its session may not be taken up again, and no thread or message is
  left that could send a handshake; \<open>n\<close> counts the connections it has made.
\<close>

definition dismissed :: "nat \<Rightarrow> process \<Rightarrow> bool" where
  "dismissed n p \<longleftrightarrow> connections (history p) = n \<and>
     (case loop_phase p of
        Connecting \<Rightarrow> False
      | Serving \<Rightarrow> \<not> can_reconnect (instance_of p) \<and> \<not> new_payload (instance_of p) \<and>
          \<not> new_chunk (instance_of p) \<and> list_all no_hello (threads p)
      | Finished \<Rightarrow> True
      | Crashed e \<Rightarrow> True)"

text \<open>Callbacks of the library that deliver no message.\<close>

definition no_message :: "service_call list \<Rightarrow> bool" where
  "no_message calls \<longleftrightarrow> (\<forall>(reason, message, n) \<in> set calls. reason \<noteq> Ws_client_callback LWS_CALLBACK_CLIENT_RECEIVE)"

definition winds_down :: "gateway \<Rightarrow> gateway \<Rightarrow> bool" where
  "winds_down g h \<longleftrightarrow> (can_reconnect h \<longrightarrow> can_reconnect g) \<and> new_chunk h = new_chunk g \<and> new_payload h = new_payload g"

lemma quiet_callback:
  assumes "say_hello reason (Some g) message n = Inr (acts, code, that)"
    and "reason \<noteq> Ws_client_callback LWS_CALLBACK_CLIENT_RECEIVE"
  shows "acts = [] \<and> (\<exists>h. that = Some h \<and> winds_down g h)"
  using assms
  by (auto simp: say_hello_def deref_def Let_def bindR_eq_Inr winds_down_def
      split: lws_callback_reasons.splits ws_client_callbacks.splits ws_server_callbacks.splits option.splits
        if_splits)

lemma quiet_callbacks:
  assumes "no_message calls"
  shows "fst (run_callbacks calls g) = []"
    and "snd (run_callbacks calls g) = Inr g' \<Longrightarrow> winds_down g g'"
proof -
  show "fst (run_callbacks calls g) = []"
    using assms
  proof (induction calls g rule: run_callbacks.induct)
    case (2 reason message n calls g)
    then have q: "reason \<noteq> Ws_client_callback LWS_CALLBACK_CLIENT_RECEIVE" "no_message calls"
      by (auto simp: no_message_def)
    show ?case
    proof (cases "say_hello reason (Some g) message n")
      case (Inr r)
      then obtain acts code h where r: "say_hello reason (Some g) message n = Inr (acts, code, Some h)" "acts = []"
        using quiet_callback [OF _ q(1)] by (cases r) blast
      then show ?thesis using "2.IH" [OF r(1) refl refl q(2)] by (simp add: deref_def effect_simps)
    qed (simp add: liftR_def)
  qed (simp add: returnIO_def)
  show "snd (run_callbacks calls g) = Inr g' \<Longrightarrow> winds_down g g'"
    by (rule run_callbacks_related [where R = winds_down])
      (use assms quiet_callback in \<open>auto simp: winds_down_def no_message_def\<close>)
qed

text \<open>The close code 4004, the first two bytes of the message, as the library delivers it.\<close>

definition rejection :: "string \<Rightarrow> service_call" where
  "rejection reason = (Ws_server_callback LWS_CALLBACK_WS_PEER_INITIATED_CLOSE,
     Some (CHR 0x0F # CHR 0xA4 # reason), length reason + 2)"

lemma rejection_call:
  "run_callbacks (rejection reason # calls) g = run_callbacks calls (g\<lparr>can_reconnect := False\<rparr>)"
  by (cases "run_callbacks calls (g\<lparr>can_reconnect := False\<rparr>)")
    (simp add: rejection_def say_hello_def vec_at_def uchar_def deref_def effect_simps)

lemma service_dismissed:
  assumes "loop_phase p = Serving" "connections (history p) = n" "list_all no_hello (threads p)"
    and "fst (run_callbacks calls (instance_of p)) = []"
    and "\<And>g. snd (run_callbacks calls (instance_of p)) = Inr g \<Longrightarrow>
      \<not> can_reconnect g \<and> \<not> new_chunk g \<and> \<not> new_payload g"
  shows "dismissed n (service_step calls p)"
  using assms
  by (cases "snd (run_callbacks calls (instance_of p))")
    (simp_all add: service_step_def finish_step_def Let_def dismissed_def optional_def)

lemma rejected_dismissed:
  assumes "loop_phase p = Serving" "\<not> new_chunk (instance_of p)" "\<not> new_payload (instance_of p)"
    and "list_all no_hello (threads p)" "no_message calls"
  shows "dismissed (connections (history p)) (service_step (rejection reason # calls) p)"
  using assms quiet_callbacks [OF assms(5), of "(instance_of p)\<lparr>can_reconnect := False\<rparr>"]
  by (intro service_dismissed) (auto simp: rejection_call winds_down_def)

lemma quiet_dismissed:
  assumes "dismissed n p" "loop_phase p = Serving" "no_message calls"
  shows "dismissed n (service_step calls p)"
  using assms(1,2) quiet_callbacks [OF assms(3), of "instance_of p"]
  by (intro service_dismissed) (auto simp: dismissed_def winds_down_def)

lemma dismissed_thread:
  assumes "dismissed n p" "running p" "i < length (threads p)"
  shows "dismissed n (thread_step env i p)"
proof -
  let ?t = "threads p ! i" and ?g = "instance_of p"
  have p: "loop_phase p = Serving" "\<not> can_reconnect ?g" "\<not> new_chunk ?g" "\<not> new_payload ?g"
    "list_all no_hello (threads p)" "connections (history p) = n"
    using assms(1,2) by (auto simp: dismissed_def running_def)
  then have "lets_end ?g (run_thread env ?t ?g)"
    using assms(3) by (intro lets_end_thread) (simp_all add: list_all_length)
  moreover have "list_all no_hello (take i (threads p) @ drop (Suc i) (threads p))"
    using p(5) by (auto simp: list_all_iff dest: in_set_takeD in_set_dropD)
  ultimately show ?thesis
    using p by (auto simp: thread_step_def Let_def finish_step_def lets_end_def dismissed_def split: sum.split)
qed

text \<open>Choices of the loop and the threads in which the library delivers no more messages.\<close>

fun quiet_choice :: "choice \<Rightarrow> bool" where
  "quiet_choice (Service calls) = no_message calls"
| "quiet_choice _ = True"

lemma dismissed_choice:
  "dismissed n p \<Longrightarrow> quiet_choice c \<Longrightarrow> perform env c p = Some q \<Longrightarrow> dismissed n q"
proof (cases c)
  case (Connect reached)
  assume "dismissed n p" "perform env c p = Some q"
  with Connect show ?thesis by (auto simp: perform_def dismissed_def split: if_splits)
next
  case (Leave ok)
  assume "dismissed n p" "perform env c p = Some q"
  with Leave show ?thesis by (auto simp: perform_def dismissed_def leave_step_def Let_def split: if_splits)
qed (auto simp: perform_def quiet_dismissed dismissed_thread split: if_splits)

interpretation dismissed_process: safety "\<lambda>p q. \<exists>c. quiet_choice c \<and> perform env c p = Some q" p
    "\<lambda>q. dismissed n p \<longrightarrow> dismissed n q" for env p n
  by unfold_locales (auto intro: dismissed_choice)

lemma quiet_run_steps:
  "list_all quiet_choice cs \<Longrightarrow> run_choices env cs p = Some q \<Longrightarrow>
     (\<lambda>p q. \<exists>c. quiet_choice c \<and> perform env c p = Some q)\<^sup>*\<^sup>* p q"
  by (induction env cs p rule: run_choices.induct)
    (auto split: option.splits intro: converse_rtranclp_into_rtranclp)

lemma finished_stops: "loop_phase q = Finished \<or> loop_phase q = Crashed e \<Longrightarrow> \<not> gw_step env q r"
  by (auto elim!: gw_stepE simp: running_def)

text \<open>The end, once the library has reported that the connection is closed.\<close>

definition closed_call :: service_call where
  "closed_call = (Ws_client_callback LWS_CALLBACK_CLIENT_CLOSED, None, 0)"

lemma closed_run: "run_callbacks [closed_call] g = ([], Inr (g\<lparr>interface := False\<rparr>))"
  by (simp add: closed_call_def say_hello_def deref_def effect_simps)

text \<open>A hello whose handler still waits sets the flag again, and the loop reconnects.\<close>

lemma waiting_hello_reconnects:
  assumes "loop_phase p = Serving" "threads p ! i = Handler json_msg" "val_int (member ''op'' json_msg) = Some 10"
    and "config_document (files env) = Inr cfg"
    and "val_int (member ''heartbeat_interval'' (member ''d'' json_msg)) = Some interval"
    and "length (c_str (repr (hello_template (introduced (files env) interval (instance_of p))))) \<le> 983"
  shows "loop_phase (leave_step ok (thread_step env i p)) = Connecting"
  using hello_dispatch [OF assms(4,3,5), of "instance_of p"] assms(1,2,6)
  by (simp add: thread_step_def run_thread_def finish_step_def leave_step_def Let_def)

text \<open>C12: A rejected token ends the client.  In a turn in which the server closes the connection with
  the code 4004, when no chunk is being collected, no message waits to be handled and no handler of a
  hello is still to run, and when the library delivers no message behind the close: in everything the
  loop and the threads can do afterwards, in whatever later turn the library reports the connection as
  closed, the bot never connects again.  Whenever it is still serving, the report and the next turn of
  the loop end the process; a process that has ended takes no step, so its heartbeat loops end with
  it.  The conditions matter: a hello whose handler is still to run allows reconnecting again
  (\<open>waiting_hello_reconnects\<close>).\<close>

theorem rejected_token_ends_the_client:
  assumes "loop_phase p = Serving" "\<not> new_chunk (instance_of p)" "\<not> new_payload (instance_of p)"
    and "list_all no_hello (threads p)" "no_message calls"
    and "list_all quiet_choice cs" "run_choices env cs (service_step (rejection reason # calls) p) = Some q"
  shows "connections (history q) = connections (history p) \<and>
    (if loop_phase q = Serving
     then loop_phase (leave_step ok (service_step [closed_call] q)) = Finished \<and>
       (\<not> interface (instance_of q) \<longrightarrow> gw_step env q (leave_step ok q) \<and> loop_phase (leave_step ok q) = Finished)
     else (loop_phase q = Finished \<or> (\<exists>e. loop_phase q = Crashed e)) \<and> (\<nexists>r. gw_step env q r))"
proof -
  have d: "dismissed (connections (history p)) q"
    using dismissed_process.holds_in_reachable [OF quiet_run_steps [OF assms(6,7)]] rejected_dismissed [OF assms(1-5)]
    by blast
  show ?thesis
  proof (cases "loop_phase q = Serving")
    case True
    with d have "loop_phase (leave_step ok q) = Finished"
      "loop_phase (leave_step ok (service_step [closed_call] q)) = Finished"
      by (auto simp: dismissed_def leave_step_def service_step_def finish_step_def closed_run Let_def)
    with True d show ?thesis using gw_step.leave [OF True] by (simp add: dismissed_def)
  next
    case False
    with d show ?thesis
      using finished_stops [of q _ env] by (cases "loop_phase q") (auto simp: dismissed_def)
  qed
qed

theorem rejected_token_ends_the_client_witness:
  "\<exists>q. run_choices sample_env [Run 0, Service [closed_call]] (service_step [rejection []]
      ((started (booted\<lparr>interface := True\<rparr>))\<lparr>loop_phase := Serving, threads := [Heartbeat_loop]\<rparr>)) = Some q \<and>
    connections (history q) = 0 \<and> loop_phase (leave_step True q) = Finished"
proof -
  let ?p = "(started (booted\<lparr>interface := True\<rparr>))\<lparr>loop_phase := Serving, threads := [Heartbeat_loop]\<rparr>"
  have b: "run_callbacks [rejection []] g = ([], Inr (g\<lparr>can_reconnect := False\<rparr>))" for g
    by (simp add: rejection_call returnIO_def)
  let ?q = "service_step [closed_call] (thread_step sample_env 0 (service_step [rejection []] ?p))"
  have q: "run_choices sample_env [Run 0, Service [closed_call]] (service_step [rejection []] ?p) = Some ?q"
    "loop_phase ?q = Serving" "\<not> interface (instance_of ?q)"
    by (simp_all add: perform_def service_step_def b finish_step_def Let_def running_def thread_step_def
        run_thread_def heartbeat_turn_def effect_simps booted_def started_def closed_run)
  have "no_message [closed_call]" by (simp add: no_message_def closed_call_def)
  then show ?thesis
    using rejected_token_ends_the_client [OF _ _ _ _ _ _ q(1), of True] q
    by (intro exI [of _ ?q]) (simp add: booted_def started_def no_message_def)
qed

end
