(* ===== verification/Interleavings.thy ===== *)
theory Interleavings
  imports GatewayEnds
begin

text \<open>
  The gateway's threads beside its loop (gateway.cpp): how a message that arrives in one turn of the
  loop or in several reaches a handler, that a handler commutes with the callbacks of the library, and
  what the order decides: the number that is remembered, and whether a message stays whole.
\<close>

section \<open>Messages that are delivered\<close>

text \<open>What a handler of the gateway sees of a message that was delivered.\<close>

definition same_members :: "json_value \<Rightarrow> json_value \<Rightarrow> bool" where
  "same_members v w \<longleftrightarrow> (\<forall>k. member k v = member k w)"

lemma touch_same_members: "same_members (touch k v) v"
proof -
  have "obj_get jv_default k' (obj_put k (obj_get jv_default k kvs) kvs) = obj_get jv_default k' kvs" for k' kvs
    by (simp add: json_obj.get_put)
  then show ?thesis by (simp add: same_members_def touch_def member_def obj_index_def Let_def)
qed

text \<open>A connection on which nothing is being collected, and a message on it in its chunks.\<close>

definition idle_connection :: "process \<Rightarrow> bool" where
  "idle_connection p \<longleftrightarrow> loop_phase p = Serving \<and> interface (instance_of p) \<and>
     \<not> new_chunk (instance_of p) \<and> \<not> new_payload (instance_of p) \<and> collects [] (instance_of p)"

definition in_chunks :: "string list \<Rightarrow> string \<Rightarrow> bool" where
  "in_chunks chunks c \<longleftrightarrow> (\<forall>d \<in> set chunks. length d = 4096 \<and> plain_chunk d) \<and>
     plain_chunk c \<and> length c \<noteq> 4096"

lemma message_delivered:
  assumes "idle_connection p" "in_chunks chunks c" "parse (concat chunks @ c) = Inr v"
  shows "\<exists>w. same_members w v \<and> (let p1 = service_step (List.map chunk_call chunks @ [chunk_call c]) p
    in idle_connection p1 \<and> threads p1 = threads p @ [Handler w] \<and> history p1 = history p \<and>
       http_handler (instance_of p1) = http_handler (instance_of p))"
proof (cases "chunks = []")
  case True
  note p = assms(1) [unfolded idle_connection_def] and c = assms(2) [unfolded in_chunks_def]
  obtain w where "parse c = Inr w" "run_callbacks [chunk_call c] (instance_of p) =
      (case receive_payload (touch ''op'' w) (c @ [CHR 0x00]) (length c) (instance_of p) of
         Inl e \<Rightarrow> liftR (Inl e) | Inr g' \<Rightarrow> run_callbacks [] g')"
    by (rule plain_chunk_call) (use c in blast)
  then have "run_callbacks [chunk_call c] (instance_of p) =
      ([], Inr ((instance_of p)\<lparr>received_message := touch ''op'' v, new_payload := True\<rparr>))"
    using p c assms(3) True by (simp add: receive_payload_def returnIO_def)
  then show ?thesis
    using p True touch_same_members [of "''op''" v]
    by (intro exI [of _ "touch ''op'' v"])
      (simp add: service_step_def finish_step_def idle_connection_def optional_def Let_def collects_def)
next
  case False
  note p = assms(1) [unfolded idle_connection_def] and c = assms(2) [unfolded in_chunks_def]
  let ?g = "(instance_of p)\<lparr>gateway_rcol := \<lparr>data = Some (concat chunks @ [CHR 0x00]),
      resp_size = length (concat chunks)\<rparr>, new_chunk := True\<rparr>"
  have "run_callbacks (List.map chunk_call chunks @ [chunk_call c]) (instance_of p) = run_callbacks [chunk_call c] ?g"
    using full_chunks_run [of chunks "[]" "instance_of p"] p c False by simp
  also have "run_callbacks [chunk_call c] ?g = ([], Inr ((free_chunks (?g\<lparr>received_message := v\<rparr>))
     \<lparr>new_chunk := False, new_payload := True\<rparr>))"
    using c assms(3) by (intro last_chunk_run [of _ _ "concat chunks"]) (simp_all add: collects_def)
  finally show ?thesis
    using p by (intro exI [of _ v])
      (simp add: same_members_def service_step_def finish_step_def idle_connection_def optional_def Let_def
        free_chunks_def collects_def)
qed

section \<open>Events and their handlers\<close>

text \<open>
  A dispatched event other than the one that opens a session, and what its handler does: it answers
  an interaction with what the HTTP handler says and then remembers the number of the event.  Of the
  state it reads the HTTP handler and writes that number only.
\<close>

definition is_event :: "json_value \<Rightarrow> bool" where
  "is_event m \<longleftrightarrow> val_int (member ''op'' m) = Some 0 \<and> text_of ''t'' m \<noteq> ''READY''"

definition event_requests :: "environment \<Rightarrow> restapi \<Rightarrow> json_value \<Rightarrow> unit io" where
  "event_requests env api m =
     (if text_of ''t'' m = ''INTERACTION_CREATE'' then respond_interaction env api (member ''d'' m)
      else returnIO ())"

lemma dispatch_opcode: "received_opcode 0 = Some GW_DISPATCH"
  by (simp add: received_opcode_iff opcode_def all_opcodes_def)

lemma handle_event:
  assumes "is_event m"
  shows "determine_what_to_do env m g =
    (case event_requests env (http_handler g) m of (acts, r) \<Rightarrow>
       (Received 0 # List.map Rest acts,
        (case r of Inl e \<Rightarrow> Inl e | Inr _ \<Rightarrow>
           (case val_int (member ''s'' m) of
              None \<Rightarrow> Inl Undefined_behaviour | Some s \<Rightarrow> Inr (g\<lparr>event_order := s\<rparr>)))))"
  using assms
  by (auto simp: is_event_def determine_what_to_do_def dispatch_event_def event_requests_def relabel_def
      dispatch_opcode emit_def effect_simps read_field_def split: prod.splits sum.splits option.splits)

lemma same_members_event:
  assumes "same_members w v"
  shows "is_event w \<longleftrightarrow> is_event v" "event_requests env api w = event_requests env api v"
    "val_int (member ''s'' w) = val_int (member ''s'' v)"
  using assms by (simp_all add: same_members_def is_event_def event_requests_def text_of_def)

text \<open>A handler that returns.\<close>

definition handles :: "environment \<Rightarrow> restapi \<Rightarrow> json_value \<Rightarrow> action list \<Rightarrow> int \<Rightarrow> bool" where
  "handles env api m acts s \<longleftrightarrow> is_event m \<and> event_requests env api m = (acts, Inr ()) \<and>
     val_int (member ''s'' m) = Some s"

lemma handles_run:
  "handles env (http_handler g) m acts s \<Longrightarrow>
     determine_what_to_do env m g = (Received 0 # List.map Rest acts, Inr (g\<lparr>event_order := s\<rparr>))"
  by (simp add: handles_def handle_event)

lemma heartbeat_starts_event: "heartbeat_starts (Received 0 # List.map Rest acts) = 0"
  by (simp add: heartbeat_starts_def o_def)

lemma handler_step:
  assumes "i < length (threads p)" "threads p ! i = Handler m"
    and "handles env (http_handler (instance_of p)) m acts s"
  shows "thread_step env i p = p\<lparr>instance_of := (instance_of p)\<lparr>event_order := s\<rparr>,
     threads := take i (threads p) @ drop (Suc i) (threads p),
     history := history p @ Received 0 # List.map Rest acts\<rparr>"
  using handles_run [OF assms(3)]
  by (simp add: thread_step_def run_thread_def assms(2) finish_step_def Let_def heartbeat_starts_event)

section \<open>The callbacks do not read the number of the event\<close>

definition with_event :: "int \<Rightarrow> gateway result \<Rightarrow> gateway result" where
  "with_event s r = (case r of Inl e \<Rightarrow> Inl e | Inr g \<Rightarrow> Inr (g\<lparr>event_order := s\<rparr>))"

lemma receive_payload_frame:
  "receive_payload v mem len (g\<lparr>event_order := s\<rparr>) = with_event s (receive_payload v mem len g)"
  by (auto simp: receive_payload_def append_chunk_def collected_def free_chunks_def with_event_def Let_def bindR_def
      split: sum.splits option.splits)

lemma say_hello_frame:
  "say_hello reason (Some (g\<lparr>event_order := s\<rparr>)) message len =
     (case say_hello reason (Some g) message len of
        Inl e \<Rightarrow> Inl e
      | Inr (acts, code, that) \<Rightarrow> Inr (acts, code, map_option (\<lambda>g. g\<lparr>event_order := s\<rparr>) that))"
  by (auto simp: say_hello_def client_receive_def deref_def Let_def bindR_def receive_payload_frame with_event_def
      split: lws_callback_reasons.splits ws_client_callbacks.splits ws_server_callbacks.splits sum.splits option.splits)

lemma receive_payload_handler:
  "receive_payload v mem len g = Inr g' \<Longrightarrow> http_handler g' = http_handler g"
  by (auto simp: receive_payload_def append_chunk_def free_chunks_def Let_def bindR_eq_Inr split: if_splits)

lemma say_hello_handler:
  "say_hello reason (Some g) message len = Inr (acts, code, that) \<Longrightarrow>
     \<exists>g'. that = Some g' \<and> http_handler g' = http_handler g"
  by (auto simp: say_hello_def client_receive_def deref_def Let_def bindR_eq_Inr dest!: receive_payload_handler
      split: lws_callback_reasons.splits ws_client_callbacks.splits ws_server_callbacks.splits option.splits
        if_splits)

lemma run_callbacks_frame:
  "run_callbacks calls (g\<lparr>event_order := s\<rparr>) =
     (fst (run_callbacks calls g), with_event s (snd (run_callbacks calls g)))"
proof (induction calls g rule: run_callbacks.induct)
  case (2 reason message len calls g)
  show ?case
  proof (cases "say_hello reason (Some g) message len")
    case (Inr r)
    then obtain acts code g' where r: "say_hello reason (Some g) message len = Inr (acts, code, Some g')"
      using say_hello_handler by (cases r) blast
    from 2 [OF r refl refl] r show ?thesis
      by (simp add: say_hello_frame deref_def effect_simps)
  qed (simp add: say_hello_frame liftR_def with_event_def)
qed (simp add: returnIO_def with_event_def)

lemma run_callbacks_handler:
  "run_callbacks calls g = (acts, Inr g') \<Longrightarrow> http_handler g' = http_handler g"
proof (induction calls g arbitrary: acts g' rule: run_callbacks.induct)
  case (2 reason message len calls g)
  show ?case
  proof (cases "say_hello reason (Some g) message len")
    case (Inr r)
    then obtain bs code h where r: "say_hello reason (Some g) message len = Inr (bs, code, Some h)"
      "http_handler h = http_handler g"
      using say_hello_handler by (cases r) blast
    with 2 show ?thesis
      by (cases "run_callbacks calls h") (auto simp: deref_def effect_simps)
  qed (use 2 in \<open>simp add: liftR_def\<close>)
qed (simp add: returnIO_def)

section \<open>Handlers and the loop\<close>

lemma delete_from_append:
  "i < length ts \<Longrightarrow> take i (ts @ us) @ drop (Suc i) (ts @ us) = (take i ts @ drop (Suc i) ts) @ us"
  by simp

lemma service_step_returns:
  assumes "run_callbacks calls (instance_of p) = (acts, Inr g)"
  shows "service_step calls p = p\<lparr>history := history p @ acts, instance_of := g\<lparr>new_payload := False\<rparr>,
     threads := threads p @ optional (new_chunk g) Chunk_timeout @
       optional (new_payload g) (Handler (received_message g))\<rparr>"
  using assms by (simp add: service_step_def finish_step_def Let_def)

lemma two_positions:
  assumes "i < j" "j < length xs"
  obtains us vs ws where "xs = us @ xs ! i # vs @ xs ! j # ws" "i = length us" "j = Suc (length us + length vs)"
proof
  have "drop (Suc i) xs = take (j - Suc i) (drop (Suc i) xs) @ drop j xs"
    using assms by (metis Suc_leI append_take_drop_id drop_drop le_add_diff_inverse2)
  then show "xs = take i xs @ xs ! i # take (j - Suc i) (drop (Suc i) xs) @ xs ! j # drop (Suc j) xs"
    using assms by (metis Cons_nth_drop_Suc id_take_nth_drop less_trans)
qed (use assms in simp_all)

text \<open>C18: A handler may run at any moment beside the loop: for an event other than the one that opens a
  session, whatever the callbacks of the library do meanwhile, the handler before them and the handler
  behind them are both steps of the program and end in the same state with the same threads, after the
  same requests of the handler and the same actions of the callbacks; only their order differs.  Taking
  the body of such a handler as one step therefore loses no outcome of its interleavings with the
  loop.\<close>

theorem handler_commutes_with_the_loop:
  assumes "loop_phase p = Serving" "interface (instance_of p)"
    and "i < length (threads p)" "threads p ! i = Handler m"
    and "handles env (http_handler (instance_of p)) m acts s"
    and "run_callbacks calls (instance_of p) = (cbs, Inr g)"
  shows "\<exists>a b. gw_step env p (service_step calls p) \<and> gw_step env (service_step calls p) a \<and>
    gw_step env p (thread_step env i p) \<and> gw_step env (thread_step env i p) b \<and>
    a = thread_step env i (service_step calls p) \<and> b = service_step calls (thread_step env i p) \<and>
    a\<lparr>history := []\<rparr> = b\<lparr>history := []\<rparr> \<and> event_order (instance_of a) = s \<and> loop_phase a = Serving \<and>
    history a = history p @ cbs @ Received 0 # List.map Rest acts \<and>
    history b = history p @ (Received 0 # List.map Rest acts) @ cbs"
proof -
  let ?q = "service_step calls p" and ?r = "thread_step env i p"
  note q = service_step_returns [OF assms(6)] and r = handler_step [OF assms(3-5)]
  have "run_callbacks calls (instance_of ?r) = (cbs, Inr (g\<lparr>event_order := s\<rparr>))"
    using assms(6) by (simp add: r run_callbacks_frame with_event_def)
  note b = service_step_returns [OF this]
  have "http_handler (instance_of ?q) = http_handler (instance_of p)"
    using run_callbacks_handler [OF assms(6)] by (simp add: q)
  then have "handles env (http_handler (instance_of ?q)) m acts s" using assms(5) by simp
  moreover have "i < length (threads ?q)" "threads ?q ! i = Handler m"
    using assms(3,4) by (simp_all add: q nth_append)
  ultimately have a: "thread_step env i ?q = ?q\<lparr>instance_of := (instance_of ?q)\<lparr>event_order := s\<rparr>,
     threads := take i (threads ?q) @ drop (Suc i) (threads ?q),
     history := history ?q @ Received 0 # List.map Rest acts\<rparr>"
    by (intro handler_step)
  have "gw_step env p ?q" "gw_step env p ?r"
    using assms(1-3) by (auto intro: gw_step.service gw_step.thread simp: running_def)
  moreover have "gw_step env ?q (thread_step env i ?q)"
    using assms(1,3) by (intro gw_step.thread) (simp_all add: q running_def)
  moreover have "gw_step env ?r (service_step calls ?r)"
    using assms(1,2) by (intro gw_step.service) (simp_all add: r)
  ultimately show ?thesis
    using assms(1,3) by (intro exI conjI) (assumption | simp add: a b | simp add: q r)+
qed

lemma handler_step_at:
  assumes "threads p = us @ Handler m # ws" "i = length us"
    and "handles env (http_handler (instance_of p)) m acts s"
  shows "thread_step env i p = p\<lparr>instance_of := (instance_of p)\<lparr>event_order := s\<rparr>, threads := us @ ws,
     history := history p @ Received 0 # List.map Rest acts\<rparr>"
  using handler_step [of i p m env acts s] assms by simp

text \<open>C19: Handlers may overtake each other: of two events whose handlers are both waiting, either may
  finish first, each order is a run of the program, and the number that is remembered afterwards, which
  heartbeats carry and a resumption asks for, is that of the handler that happened to run last and not
  that of the last event.\<close>

theorem handlers_overtake:
  assumes "running p" "i < j" "j < length (threads p)"
    and "threads p ! i = Handler m" "threads p ! j = Handler n"
    and "handles env (http_handler (instance_of p)) m acts s"
    and "handles env (http_handler (instance_of p)) n bcts t"
  shows "\<exists>a b. (gw_step env)\<^sup>*\<^sup>* p a \<and> (gw_step env)\<^sup>*\<^sup>* p b \<and>
    a = thread_step env (j - 1) (thread_step env i p) \<and> b = thread_step env i (thread_step env j p) \<and>
    threads a = threads b \<and> event_order (instance_of a) = t \<and> event_order (instance_of b) = s \<and>
    instance_of b = (instance_of a)\<lparr>event_order := s\<rparr> \<and>
    history a = history p @ (Received 0 # List.map Rest acts) @ Received 0 # List.map Rest bcts \<and>
    history b = history p @ (Received 0 # List.map Rest bcts) @ Received 0 # List.map Rest acts"
proof -
  obtain us vs ws where t: "threads p = us @ Handler m # vs @ Handler n # ws" "i = length us"
    "j = Suc (length us + length vs)"
    using two_positions [OF assms(2,3)] assms(4,5) by metis
  let ?q = "thread_step env i p" and ?r = "thread_step env j p"
  note q = handler_step_at [OF t(1,2) assms(6)]
  have "threads p = (us @ Handler m # vs) @ Handler n # ws" "j = length (us @ Handler m # vs)"
    using t by simp_all
  note r = handler_step_at [OF this assms(7)]
  have "threads ?q = (us @ vs) @ Handler n # ws" "j - 1 = length (us @ vs)"
    "handles env (http_handler (instance_of ?q)) n bcts t"
    using t(3) assms(7) by (simp_all add: q)
  note a = handler_step_at [OF this]
  have "threads ?r = us @ Handler m # vs @ ws" "handles env (http_handler (instance_of ?r)) m acts s"
    using assms(6) by (simp_all add: r)
  note b = handler_step_at [OF this(1) t(2) this(2)]
  have "running ?q" "running ?r" using assms(1) by (simp_all add: q r running_def)
  moreover have "j - 1 < length (threads ?q)" "i < length (threads ?r)"
    unfolding q r using t(2,3) by simp_all
  moreover have "i < length (threads p)" using assms(2,3) by simp
  ultimately have "gw_step env p ?q" "gw_step env p ?r" "gw_step env ?q (thread_step env (j - 1) ?q)"
    "gw_step env ?r (thread_step env i ?r)"
    using assms(1,3) by (simp_all add: gw_step.thread del: One_nat_def)
  then have "(gw_step env)\<^sup>*\<^sup>* p (thread_step env (j - 1) ?q)" "(gw_step env)\<^sup>*\<^sup>* p (thread_step env i ?r)"
    using rtranclp.rtrancl_into_rtrancl [OF r_into_rtranclp] by metis+
  moreover have "threads (thread_step env (j - 1) ?q) = us @ vs @ ws"
    "instance_of (thread_step env (j - 1) ?q) = (instance_of p)\<lparr>event_order := t\<rparr>"
    "history (thread_step env (j - 1) ?q) = history p @ (Received 0 # List.map Rest acts) @ Received 0 # List.map Rest bcts"
    unfolding a unfolding q by simp_all
  moreover have "threads (thread_step env i ?r) = us @ vs @ ws"
    "instance_of (thread_step env i ?r) = (instance_of p)\<lparr>event_order := s\<rparr>"
    "history (thread_step env i ?r) = history p @ (Received 0 # List.map Rest bcts) @ Received 0 # List.map Rest acts"
    unfolding b unfolding r by simp_all
  ultimately show ?thesis
    by (intro exI [of _ "thread_step env (j - 1) ?q"] exI [of _ "thread_step env i ?r"]) simp
qed

section \<open>Chunks that arrive over several turns of the loop\<close>

text \<open>A connection that collects: what has arrived, and one timeout thread for each turn.\<close>

definition collecting :: "process \<Rightarrow> nat \<Rightarrow> string \<Rightarrow> process" where
  "collecting p n sofar = p\<lparr>instance_of := (instance_of p)
       \<lparr>gateway_rcol := \<lparr>data = Some (sofar @ [CHR 0x00]), resp_size = length sofar\<rparr>, new_chunk := True\<rparr>,
     threads := threads p @ replicate n Chunk_timeout\<rparr>"

definition full_chunks :: "string list \<Rightarrow> bool" where
  "full_chunks chunks \<longleftrightarrow> chunks \<noteq> [] \<and> (\<forall>d \<in> set chunks. length d = 4096 \<and> plain_chunk d)"

lemma chunks_callbacks:
  assumes "full_chunks chunks" "collects sofar g"
  shows "run_callbacks (List.map chunk_call chunks) g = ([], Inr
     (g\<lparr>gateway_rcol := \<lparr>data = Some ((sofar @ concat chunks) @ [CHR 0x00]), resp_size = length (sofar @ concat chunks)\<rparr>,
        new_chunk := True\<rparr>))"
  using full_chunks_run [of chunks sofar g "[]"] assms by (simp add: full_chunks_def returnIO_def)

lemma first_turn:
  assumes "idle_connection p" "full_chunks chunks"
  shows "service_step (List.map chunk_call chunks) p = collecting p 1 (concat chunks)"
  using assms(1) service_step_returns [OF chunks_callbacks [OF assms(2), of "[]" "instance_of p"]]
  by (simp add: idle_connection_def collecting_def optional_def)

lemma next_turn:
  assumes "idle_connection p" "full_chunks chunks"
  shows "service_step (List.map chunk_call chunks) (collecting p n sofar) =
     collecting p (Suc n) (sofar @ concat chunks)"
proof -
  have "collects sofar (instance_of (collecting p n sofar))" by (simp add: collects_def collecting_def)
  from service_step_returns [OF chunks_callbacks [OF assms(2) this]] assms(1) show ?thesis
    by (simp add: idle_connection_def collecting_def optional_def replicate_append_same [symmetric])
qed

definition turns :: "string list list \<Rightarrow> process \<Rightarrow> process" where
  "turns groups p = fold service_step (List.map (List.map chunk_call) groups) p"

lemma turns_collect:
  assumes "idle_connection p" "\<forall>cs \<in> set groups. full_chunks cs" "groups \<noteq> []"
  shows "turns groups p = collecting p (length groups) (concat (concat groups))"
proof -
  have more: "turns groups (collecting p n sofar) = collecting p (n + length groups) (sofar @ concat (concat groups))"
    if "\<forall>cs \<in> set groups. full_chunks cs" for groups n sofar
    using that assms(1)
    by (induction groups arbitrary: n sofar) (simp_all add: turns_def next_turn)
  from assms(2,3) obtain cs groups' where g: "groups = cs # groups'" "full_chunks cs"
    "\<forall>cs \<in> set groups'. full_chunks cs" by (cases groups) auto
  with more [OF g(3), of 1 "concat cs"] first_turn [OF assms(1) g(2)] show ?thesis
    by (simp add: turns_def)
qed

lemma turns_steps:
  assumes "idle_connection p" "\<forall>cs \<in> set groups. full_chunks cs"
  shows "(gw_step env)\<^sup>*\<^sup>* p (turns groups p)"
  using assms(2)
proof (induction groups rule: rev_induct)
  case (snoc cs groups)
  have "loop_phase (turns groups p) = Serving \<and> interface (instance_of (turns groups p))"
    using turns_collect [OF assms(1), of groups] snoc.prems assms(1)
    by (cases "groups = []") (simp_all add: turns_def collecting_def idle_connection_def)
  then have "gw_step env (turns groups p) (turns (groups @ [cs]) p)"
    by (simp add: turns_def gw_step.service)
  with snoc show ?case by (auto intro: rtranclp.rtrancl_into_rtrancl)
qed (simp add: turns_def)

lemma last_turn:
  assumes "idle_connection p" "plain_chunk c" "length c \<noteq> 4096" "parse (sofar @ c) = Inr v"
  shows "service_step [chunk_call c] (collecting p n sofar) =
     p\<lparr>instance_of := free_chunks ((instance_of p)\<lparr>received_message := v\<rparr>),
       threads := threads p @ replicate n Chunk_timeout @ [Handler v]\<rparr>"
proof -
  let ?g = "instance_of (collecting p n sofar)"
  have "run_callbacks [chunk_call c] ?g = ([], Inr ((free_chunks (?g\<lparr>received_message := v\<rparr>))
     \<lparr>new_chunk := False, new_payload := True\<rparr>))"
    using assms(2-4) by (intro last_chunk_run) (simp_all add: collects_def collecting_def)
  from service_step_returns [OF this] assms(1) show ?thesis
    by (simp add: idle_connection_def collecting_def optional_def free_chunks_def)
qed

lemma late_timeout:
  assumes "threads p = us @ Chunk_timeout # ws" "i = length us" "\<not> new_chunk (instance_of p)"
  shows "thread_step env i p = p\<lparr>threads := us @ ws\<rparr>"
  using assms
  by (simp add: thread_step_def run_thread_def chunk_timeout_def finish_step_def returnIO_def heartbeat_starts_def Let_def)

lemma early_timeout:
  assumes "idle_connection p" "parse sofar = Inr w" "handles env (http_handler (instance_of p)) w acts s"
  shows "thread_step env (length (threads p)) (collecting p (Suc n) sofar) =
     p\<lparr>instance_of := (free_chunks (instance_of p))\<lparr>event_order := s\<rparr>,
       threads := threads p @ replicate n Chunk_timeout,
       history := history p @ Received 0 # List.map Rest acts\<rparr>"
proof -
  let ?g = "instance_of (collecting p (Suc n) sofar)"
  have "chunk_timeout env ?g = determine_what_to_do env w (free_chunks (?g\<lparr>new_chunk := False\<rparr>))"
    using assms(1,2) by (simp add: chunk_timeout_def collected_def Let_def idle_connection_def collecting_def)
  also have "\<dots> = (Received 0 # List.map Rest acts,
      Inr ((free_chunks (?g\<lparr>new_chunk := False\<rparr>))\<lparr>event_order := s\<rparr>))"
    using assms(3) by (intro handles_run) (simp add: free_chunks_def collecting_def)
  finally show ?thesis
    using assms(1)
    by (simp add: thread_step_def run_thread_def collecting_def finish_step_def heartbeat_starts_event Let_def
        idle_connection_def free_chunks_def)
qed

lemma late_timeouts:
  assumes "threads p = us @ replicate (Suc n) Chunk_timeout @ ws" "k \<le> n" "\<not> new_chunk (instance_of p)"
  shows "thread_step env (length us + k) p = p\<lparr>threads := us @ replicate n Chunk_timeout @ ws\<rparr>"
proof -
  have parts: "replicate (m + l) Chunk_timeout @ xs = replicate m Chunk_timeout @ replicate l Chunk_timeout @ xs" for m l xs
    by (simp add: replicate_add)
  have "threads p = (us @ replicate k Chunk_timeout) @ Chunk_timeout # (replicate (n - k) Chunk_timeout @ ws)"
    using assms(1,2) parts [of k "Suc (n - k)" ws] by simp
  from late_timeout [OF this, of "length us + k"] assms(2,3) parts [of k "n - k" ws] show ?thesis by simp
qed

text \<open>C17: A message whose chunks of 4096 bytes arrive over several turns of the loop is put together in time or
  torn.  When its last chunk comes before the five milliseconds of any turn are over, one handler is
  started for the parse of all bytes, and the timeouts that are still waiting do nothing.  When the
  timeout of the first turn is faster, the parse of what has arrived so far is handled as if it were the
  message, with all its requests, and the last chunk is then handled as a message of its own; both are
  runs of the program.\<close>

theorem chunks_in_time_or_torn:
  assumes "gw_reachable env g0 p" "idle_connection p"
    and "groups \<noteq> []" "\<forall>cs \<in> set groups. full_chunks cs" "plain_chunk c" "length c \<noteq> 4096"
    and "parse (concat (concat groups) @ c) = Inr whole" "parse (concat (concat groups)) = Inr part"
    and "handles env (http_handler (instance_of p)) part acts s" "parse c = Inr rest"
  shows "\<exists>in_time torn. gw_reachable env g0 in_time \<and> gw_reachable env g0 torn \<and>
    in_time = service_step [chunk_call c] (turns groups p) \<and>
    torn = service_step [chunk_call c] (thread_step env (length (threads p)) (turns groups p)) \<and>
    idle_connection in_time \<and> history in_time = history p \<and>
    threads in_time = threads p @ replicate (length groups) Chunk_timeout @ [Handler whole] \<and>
    (\<forall>k < length groups. thread_step env (length (threads p) + k) in_time =
       in_time\<lparr>threads := threads p @ replicate (length groups - 1) Chunk_timeout @ [Handler whole]\<rparr>) \<and>
    idle_connection torn \<and> history torn = history p @ Received 0 # List.map Rest acts \<and>
    (\<exists>m. same_members m rest \<and>
       threads torn = threads p @ replicate (length groups - 1) Chunk_timeout @ [Handler m])"
proof -
  let ?t = "turns groups p" and ?n = "length groups" and ?i = "length (threads p)"
  let ?a = "service_step [chunk_call c] ?t" and ?b = "thread_step env ?i ?t"
  note t = turns_collect [OF assms(2,4,3)]
  note p = assms(2) [unfolded idle_connection_def]
  have a: "?a = p\<lparr>instance_of := free_chunks ((instance_of p)\<lparr>received_message := whole\<rparr>),
      threads := threads p @ replicate ?n Chunk_timeout @ [Handler whole]\<rparr>"
    unfolding t by (rule last_turn [OF assms(2,5,6,7)])
  obtain n where n: "?n = Suc n" using assms(3) by (cases groups) auto
  have b: "?b = p\<lparr>instance_of := (free_chunks (instance_of p))\<lparr>event_order := s\<rparr>,
      threads := threads p @ replicate n Chunk_timeout, history := history p @ Received 0 # List.map Rest acts\<rparr>"
    unfolding t n by (rule early_timeout [OF assms(2,8,9)])
  have idle: "idle_connection ?a" "idle_connection ?b"
    unfolding a b using p by (simp_all add: idle_connection_def free_chunks_def collects_def)
  have reach: "gw_reachable env g0 ?t"
    using turns_steps [OF assms(2,4), of env] assms(1) by (induction rule: rtranclp_induct) (auto intro: gw_reachable.step)
  have step_a: "gw_reachable env g0 ?a"
    using gw_reachable.step [OF reach] gw_step.service [of ?t env] p by (simp add: t collecting_def)
  have "gw_step env ?t ?b"
    using p by (intro gw_step.thread) (simp_all add: t n collecting_def running_def)
  then have step_b: "gw_reachable env g0 ?b" using gw_reachable.step [OF reach] by blast
  then have step_c: "gw_reachable env g0 (service_step [chunk_call c] ?b)"
    using idle(2) by (auto intro: gw_reachable.step gw_step.service simp: idle_connection_def)
  have late: "thread_step env (?i + k) ?a = ?a\<lparr>threads := threads p @ replicate n Chunk_timeout @ [Handler whole]\<rparr>"
    if "k < ?n" for k
    using that n idle(1) by (intro late_timeouts) (simp_all add: a idle_connection_def free_chunks_def)
  obtain m where "same_members m rest" "idle_connection (service_step [chunk_call c] ?b)"
    "threads (service_step [chunk_call c] ?b) = threads ?b @ [Handler m]"
    "history (service_step [chunk_call c] ?b) = history ?b"
    using message_delivered [OF idle(2), of "[]" c rest] assms(5,6,10) by (auto simp: in_chunks_def Let_def)
  moreover have "threads ?b = threads p @ replicate n Chunk_timeout"
    "history ?b = history p @ Received 0 # List.map Rest acts" by (simp_all add: b)
  moreover have "threads ?a = threads p @ replicate ?n Chunk_timeout @ [Handler whole]" "history ?a = history p"
    by (simp_all add: a)
  ultimately show ?thesis
    using step_a step_c idle(1) late n
    by (intro exI [of _ ?a] exI [of _ "service_step [chunk_call c] ?b"]) simp
qed

section \<open>Runs of the program\<close>

definition ping_event :: "int \<Rightarrow> json_value" where
  "ping_event n = jv_object [(''op'', jv_int 0), (''t'', jv_string ''INTERACTION_CREATE''), (''s'', jv_int n),
     (''d'', jv_object [(''type'', jv_int 1), (''id'', jv_string ''5''), (''token'', jv_string ''x'')])]"

definition ping_answer :: "restapi \<Rightarrow> action" where
  "ping_answer api = HttpPost ''https://discord.com/api/v10/interactions/5/x/callback''
     [user_agent, json_content, auth_header (bot_token api)] (repr (jv_object []))"

lemma ping_reads:
  "val_int (member ''op'' (ping_event n)) = Some 0" "text_of ''t'' (ping_event n) = ''INTERACTION_CREATE''"
  "val_int (member ''s'' (ping_event n)) = Some n" "val_int (member ''type'' (member ''d'' (ping_event n))) = Some 1"
  "text_of ''id'' (member ''d'' (ping_event n)) = ''5''" "text_of ''token'' (member ''d'' (ping_event n)) = ''x''"
  by (simp_all add: ping_event_def text_of_def member_def jv_defs)

lemma ping_handled: "handles env api (ping_event n) [ping_answer api] n"
proof -
  have "get_repr (jv_object []) = Inr (repr (jv_object []))" by (rule sound_get_repr) (simp add: obj_keys_simps)
  moreover have "c_str ''https://discord.com/api/v10/interactions/5/x/callback'' =
      ''https://discord.com/api/v10/interactions/5/x/callback''" by (simp add: c_str_def)
  ultimately show ?thesis
    by (simp add: handles_def is_event_def event_requests_def ping_reads respond_interaction_def post_json_def
        emit_def effect_simps ping_answer_def)
qed

definition pinged :: process where
  "pinged = (connect_step True (started booted))\<lparr>threads := [Handler (ping_event 1), Handler (ping_event 2)]\<rparr>"

lemma pinged_state: "loop_phase pinged = Serving" "interface (instance_of pinged)" "running pinged"
  "threads pinged = [Handler (ping_event 1), Handler (ping_event 2)]"
  by (simp_all add: pinged_def connect_step_def started_def booted_def running_def Let_def)

theorem handler_commutes_with_the_loop_witness:
  "\<exists>a b. gw_step sample_env (service_step [(Ws_client_callback LWS_CALLBACK_CLIENT_CLOSED, None, 0)] pinged) a \<and>
     gw_step sample_env (thread_step sample_env 1 pinged) b \<and> a\<lparr>history := []\<rparr> = b\<lparr>history := []\<rparr> \<and>
     event_order (instance_of a) = 2 \<and> threads a = [Handler (ping_event 1)]"
proof -
  have "1 < length (threads pinged)" "threads pinged ! 1 = Handler (ping_event 2)"
    by (simp_all add: pinged_state)
  moreover have "run_callbacks [(Ws_client_callback LWS_CALLBACK_CLIENT_CLOSED, None, 0)] (instance_of pinged) =
      ([], Inr ((instance_of pinged)\<lparr>interface := False\<rparr>))"
    by (simp add: say_hello_def deref_def effect_simps)
  ultimately obtain a b where
    h: "gw_step sample_env (service_step [(Ws_client_callback LWS_CALLBACK_CLIENT_CLOSED, None, 0)] pinged) a"
    "gw_step sample_env (thread_step sample_env 1 pinged) b" "a\<lparr>history := []\<rparr> = b\<lparr>history := []\<rparr>"
    "b = service_step [(Ws_client_callback LWS_CALLBACK_CLIENT_CLOSED, None, 0)] (thread_step sample_env 1 pinged)"
    "event_order (instance_of a) = 2"
    using handler_commutes_with_the_loop [OF pinged_state(1,2) _ _ ping_handled] by blast
  moreover have "threads b = [Handler (ping_event 1)]"
    using handler_step_at [of pinged "[Handler (ping_event 1)]" "ping_event 2" "[]" 1, OF _ _ ping_handled] h(4)
    by (simp add: pinged_state service_step_def finish_step_def say_hello_def deref_def effect_simps optional_def)
      (simp add: pinged_def connect_step_def started_def booted_def Let_def)
  moreover have "threads a = threads b" using arg_cong [OF h(3), of threads] by simp
  ultimately show ?thesis by auto
qed

theorem handlers_overtake_witness:
  "\<exists>a b. (gw_step sample_env)\<^sup>*\<^sup>* pinged a \<and> (gw_step sample_env)\<^sup>*\<^sup>* pinged b \<and>
     threads a = [] \<and> threads b = [] \<and> event_order (instance_of a) = 2 \<and> event_order (instance_of b) = 1"
proof -
  have "(0 :: nat) < 1" "1 < length (threads pinged)" "threads pinged ! 0 = Handler (ping_event 1)"
    "threads pinged ! 1 = Handler (ping_event 2)" by (simp_all add: pinged_state)
  then obtain a b where h: "(gw_step sample_env)\<^sup>*\<^sup>* pinged a" "(gw_step sample_env)\<^sup>*\<^sup>* pinged b"
    "a = thread_step sample_env (1 - 1) (thread_step sample_env 0 pinged)" "threads a = threads b"
    "event_order (instance_of a) = 2" "event_order (instance_of b) = 1"
    using handlers_overtake [OF pinged_state(3) _ _ _ _ ping_handled ping_handled] by blast
  have "thread_step sample_env 0 pinged = pinged\<lparr>instance_of := (instance_of pinged)\<lparr>event_order := 1\<rparr>,
      threads := [Handler (ping_event 2)], history := history pinged @ [Received 0,
        Rest (ping_answer (http_handler (instance_of pinged)))]\<rparr>"
    using handler_step_at [of pinged "[]" "ping_event 1" "[Handler (ping_event 2)]" 0, OF _ _ ping_handled]
    by (simp add: pinged_state)
  then have "threads a = []"
    using h(3) handler_step_at [of "thread_step sample_env 0 pinged" "[]" "ping_event 2" "[]" 0, OF _ _ ping_handled]
    by simp
  with h show ?thesis by auto
qed

theorem chunks_in_time_or_torn_witness:
  "\<exists>torn. gw_reachable sample_env booted torn \<and> length (threads torn) = 1 \<and> idle_connection torn \<and>
     history torn = [LwsConnect (cc_info booted), Received 0]"
proof -
  let ?p = "connect_step True (started booted)" and ?d = "replicate 4096 CHR ''a''"
  have n: "0 < (4096 :: nat)" by simp
  note l = letters_chunks [OF n]
  have reach: "gw_reachable sample_env booted ?p"
    by (rule gw_reachable.step [OF gw_reachable.start]) (simp add: gw_step.connect started_def)
  have idle: "idle_connection ?p"
    by (simp add: idle_connection_def connect_step_def started_def booted_def Let_def collects_def no_response_def)
  have full: "\<forall>cs \<in> set [[?d]]. full_chunks cs" using l(1) by (simp add: full_chunks_def)
  have whole: "parse (concat (concat [[?d]]) @ ''a'') = Inr jv_default" using l(4) by simp
  have part: "parse (concat (concat [[?d]])) = Inr jv_default" using l(5) by simp
  have event: "handles sample_env (http_handler (instance_of ?p)) jv_default [] 0"
    by (simp add: handles_def is_event_def event_requests_def text_of_def member_def jv_default_def returnIO_def)
  have c: "parse ''a'' = Inr jv_default"
    using parse_letters [of 1] by simp
  have "[[?d]] \<noteq> []" by simp
  from chunks_in_time_or_torn [OF reach idle this full l(2,3) whole part event c]
  show ?thesis by (auto simp: connect_step_def started_def booted_def Let_def)
qed

end
