(* ===== verification/FirstRun.thy ===== *)
theory FirstRun
  imports GatewayCorrect
begin

text \<open>
  The first start of the program and its \<open>main\<close>: the class \<open>firstrun\<close> of
  pilepoxyl/pilepoxyl.h, its functions in pilepoxyl/firstrun.cpp, and runpp.cpp.  What is printed
  is left out; the disk is passed along, the requests are actions.
\<close>

section \<open>The operations\<close>

record firstrun =
  fr_bot_token :: string
  fr_bot_id :: string
  fr_gwconnurl :: string

definition new_firstrun :: firstrun where
  "new_firstrun = \<lparr>fr_bot_token = [], fr_bot_id = [], fr_gwconnurl = []\<rparr>"

text \<open>\<open>std::cin >> s\<close>: the first word of the input.\<close>

definition read_word :: "string \<Rightarrow> string" where
  "read_word input = takeWhile (\<lambda>c. \<not> is_space c) (dropWhile is_space input)"

definition set_btk :: "string \<Rightarrow> firstrun \<Rightarrow> firstrun" where
  "set_btk input fr = fr\<lparr>fr_bot_token := read_word input\<rparr>"

text \<open>The header is printed into a block of 150 bytes.\<close>

definition checked_header :: "string \<Rightarrow> string result" where
  "checked_header token =
     (let text = ''Authorization: Bot '' @ c_str token
      in if length text + 1 \<le> 150 then Inr text else Inl Undefined_behaviour)"

text \<open>The answer to the request is collected and dropped.\<close>

definition install_one_command :: "disk \<Rightarrow> firstrun \<Rightarrow> string \<Rightarrow> unit io" where
  "install_one_command d fr command_name =
     bindIO (liftR (read_file d (''commands/'' @ command_name @ ''.json'') False file_empty)) (\<lambda>comf.
     bindIO (liftR (checked_header (fr_bot_token fr))) (\<lambda>auth.
       emit (HttpPost (c_str (''https://discord.com/api/v10/applications/'' @ fr_bot_id fr @ ''/commands''))
         [user_agent, json_content, auth] (text_contents comf))))"

definition me_url :: string where
  "me_url = ''https://discord.com/api/v10/users/@me''"

definition fetch_id :: "network \<Rightarrow> firstrun \<Rightarrow> firstrun io" where
  "fetch_id nw fr =
     bindIO (liftR (checked_header (fr_bot_token fr))) (\<lambda>_.
     bindIO (emit (HttpGet me_url)) (\<lambda>_.
       case data (transfer (nw me_url) no_response) of
         None \<Rightarrow> liftR (Inl Logic_error)
       | Some block \<Rightarrow>
           bindIO (liftR (parse (c_str block))) (\<lambda>jdata.
             returnIO (fr\<lparr>fr_bot_id := text_of ''id'' jdata\<rparr>))))"

definition available :: "string list" where
  "available = [''obfuscator'', ''manifest'', ''item'', ''entity'', ''help'']"

fun for_each :: "('b \<Rightarrow> unit io) \<Rightarrow> 'b list \<Rightarrow> unit io" where
  "for_each f [] = returnIO ()"
| "for_each f (x # xs) = bindIO (f x) (\<lambda>_. for_each f xs)"

definition install_commands :: "disk \<Rightarrow> firstrun \<Rightarrow> unit io" where
  "install_commands d fr = for_each (install_one_command d fr) available"

definition export_json :: "(string \<Rightarrow> bool) \<Rightarrow> firstrun \<Rightarrow> disk \<Rightarrow> disk result" where
  "export_json can_open fr d =
     bindR (seqR
       [assign [Key ''bot_token''] (jv_string (fr_bot_token fr)),
        assign [Key ''gateway_url''] (jv_cstring ''gateway.discord.gg'')] (jv_object [])) (\<lambda>cf.
     bindR (get_repr cf) (\<lambda>text.
       Inr (write_file can_open (file_text ''config/config.json'' text) d)))"

section \<open>main\<close>

text \<open>
  The part behind the file \<open>FIRSTRUN\<close>: the disk afterwards, and whether the program goes on,
  which it does not when the token names no bot.
\<close>

definition first_run :: "(string \<Rightarrow> bool) \<Rightarrow> network \<Rightarrow> string \<Rightarrow> disk \<Rightarrow> (disk \<times> bool) io" where
  "first_run can_open nw input d =
     bindIO (fetch_id nw (set_btk input new_firstrun)) (\<lambda>cfgw.
       if fr_bot_id cfgw = [] then returnIO (d, False)
       else
         bindIO (install_commands d cfgw) (\<lambda>_.
         bindIO (liftR (export_json can_open cfgw d)) (\<lambda>d'.
         bindIO (emit (RemoveFile ''FIRSTRUN'')) (\<lambda>_.
           returnIO (d'(''FIRSTRUN'' := None), True)))))"

text \<open>
  The disk afterwards, with the exit code when the program ends before the connection loop, else with
  the gateway that enters \<open>connect_and_receive_events\<close>.
\<close>

definition main ::
  "(string \<Rightarrow> bool) \<Rightarrow> bool \<Rightarrow> network \<Rightarrow> string \<Rightarrow> gateway \<Rightarrow> disk \<Rightarrow> (disk \<times> (int + gateway)) io"
where
  "main can_open context_ok nw input c d =
     bindIO (if d ''FIRSTRUN'' = None then returnIO (d, True) else first_run can_open nw input d) (\<lambda>(d', goes_on).
       if \<not> goes_on then returnIO (d', Inl 1)
       else
         bindIO (liftR (read_file d' ''config/config.json'' False file_empty)) (\<lambda>cfg.
         bindIO (liftR (read_file d' ''config/notifmsg.json'' False file_empty)) (\<lambda>ntf.
         bindIO (liftR (initialize context_ok (text_contents cfg) (text_contents ntf) c)) (\<lambda>(code, g).
           returnIO (d', Inr g)))))"

section \<open>What the operations do\<close>

lemma for_each_emits:
  "(\<And>x. x \<in> set xs \<Longrightarrow> f x = ([a x], Inr ())) \<Longrightarrow> for_each f xs = (List.map a xs, Inr ())"
  by (induction xs) (simp_all add: returnIO_def bindIO_def)

definition install_request :: "disk \<Rightarrow> string \<Rightarrow> string \<Rightarrow> string \<Rightarrow> action" where
  "install_request d token bot_id command_name = HttpPost
     (c_str (''https://discord.com/api/v10/applications/'' @ bot_id @ ''/commands''))
     [user_agent, json_content, ''Authorization: Bot '' @ c_str token]
     (case d (''commands/'' @ command_name @ ''.json'') of None \<Rightarrow> [] | Some t \<Rightarrow> t)"

lemma checked_header_fits: "length token \<le> 130 \<Longrightarrow> checked_header token = Inr (''Authorization: Bot '' @ c_str token)"
  using c_str_length [of token] by (simp add: checked_header_def Let_def)

lemma install_commands_run:
  "length (fr_bot_token fr) \<le> 130 \<Longrightarrow> install_commands d fr =
     (List.map (install_request d (fr_bot_token fr) (fr_bot_id fr)) available, Inr ())"
  unfolding install_commands_def
  by (rule for_each_emits)
    (simp add: install_one_command_def read_file_def checked_header_fits install_request_def emit_def)

definition config_template :: "string \<Rightarrow> json_value" where
  "config_template token = jv_object [(''bot_token'', jv_string token), (''gateway_url'', jv_string ''gateway.discord.gg'')]"

definition config_json :: "string \<Rightarrow> json" where
  "config_json token = Obj [(''bot_token'', Str token), (''gateway_url'', Str ''gateway.discord.gg'')]"

lemma denotes_config: "denotes (config_template token) (config_json token)"
proof -
  have "denotes (jv_string s) (Str s)" for s by (rule denotes_string) (simp_all add: jv_defs)
  then show ?thesis
    unfolding config_template_def config_json_def by (intro denotes_object) (simp_all add: jv_object_def)
qed

lemma export_json_run:
  "export_json can_open fr d =
     Inr (write_file can_open (file_text ''config/config.json'' (repr (config_template (fr_bot_token fr)))) d)"
proof -
  have "seqR [assign [Key ''bot_token''] (jv_string (fr_bot_token fr)),
        assign [Key ''gateway_url''] (jv_cstring ''gateway.discord.gg'')] (jv_object [])
      = Inr (config_template (fr_bot_token fr))"
    by (simp add: assign_def obj_updR_eq jv_cstring_eq config_template_def)
  then show ?thesis
    unfolding export_json_def by (simp add: get_repr_denotes [OF denotes_config])
qed

text \<open>A token that survives the configuration file.\<close>

definition plain_token :: "string \<Rightarrow> bool" where
  "plain_token token \<longleftrightarrow> (\<forall>c \<in> set token. printable_char c \<and> \<not> is_bracket c) \<and> length token \<le> 130"

lemma parse_config: "plain_token token \<Longrightarrow> parse (repr (config_template token)) = Inr (build (config_json token))"
  by (rule parse_repr [OF denotes_config])
    (simp_all add: config_json_def plain_token_def char_simps)

section \<open>Properties\<close>

text \<open>C11: A first start with a good token, from the prompt to the connection: the program asks for
  the bot's identity, installs the five commands in order with the contents of their files, removes
  the marker, and starts the gateway from the configuration it has just written, which holds the
  token and the gateway address; the handshake will read the same token, and the next start does
  not ask again.\<close>

theorem first_start:
  assumes "d ''FIRSTRUN'' \<noteq> None" "plain_token (read_word input)"
    and "data (transfer (nw me_url) no_response) = Some block" "parse (c_str block) = Inr me"
    and "text_of ''id'' me = bot_id" "bot_id \<noteq> []"
    and "can_open ''config/config.json''"
    and "d ''config/notifmsg.json'' = Some messages" "parse messages = Inr ntf"
  shows "\<exists>d' g. main can_open True nw input c d =
      (HttpGet me_url # List.map (install_request d (read_word input) bot_id) available @
         [RemoveFile ''FIRSTRUN''], Inr (d', Inr g)) \<and>
    d' ''FIRSTRUN'' = None \<and>
    config g ''bot_token'' = Some (read_word input) \<and> ci_address (cc_info g) = Some ''gateway.discord.gg'' \<and>
    (\<exists>cfg. config_document d' = Inr cfg \<and> text_of ''bot_token'' cfg = read_word input)"
proof -
  let ?tok = "read_word input" and ?text = "repr (config_template (read_word input))"
  let ?d = "(write_file can_open (file_text ''config/config.json'' ?text) d)(''FIRSTRUN'' := None)"
  have len: "length ?tok \<le> 130" using assms(2) by (simp add: plain_token_def)
  have "first_run can_open nw input d =
      (HttpGet me_url # List.map (install_request d ?tok bot_id) available @ [RemoveFile ''FIRSTRUN''],
       Inr (?d, True))"
    using assms(3-6) len
    by (simp add: first_run_def fetch_id_def set_btk_def new_firstrun_def checked_header_fits
        install_commands_run export_json_run)
      (simp add: bindIO_def returnIO_def emit_def liftR_def install_commands_run export_json_run)
  moreover have cfg: "?d ''config/config.json'' = Some ?text" and ntf: "?d ''config/notifmsg.json'' = Some messages"
    using assms(7,8) by (simp_all add: write_file_def file_defs)
  moreover obtain g where g: "initialize True ?text messages c = Inr (0, g)"
    "config g ''bot_token'' = Some ?tok" "ci_address (cc_info g) = Some ''gateway.discord.gg''"
    using assms(9) parse_config [OF assms(2)]
    by (simp add: initialize_def make_context_def connection_to_def Let_def read_strings_def config_json_def map_put_def map_get_def c_str_def)
  moreover have "config_document ?d = Inr (build (config_json ?tok))"
    using parse_config [OF assms(2)] cfg by (simp add: config_document_def read_json_def read_file_def)
  moreover have "text_of ''bot_token'' (build (config_json ?tok)) = ?tok"
    by (simp add: text_of_def member_def config_json_def)
  moreover obtain marker where "d ''FIRSTRUN'' = Some marker" using assms(1) by blast
  ultimately show ?thesis
    by (intro exI [of _ ?d] exI [of _ g])
      (simp add: main_def bindIO_def read_file_def liftR_def returnIO_def)
qed

definition sample_disk0 :: disk where
  "sample_disk0 = [''FIRSTRUN'' \<mapsto> [], ''config/notifmsg.json'' \<mapsto> repr sample_config]"

lemma sample_id: "transfer [repr sample_config] no_response
    = \<lparr>data = Some (repr sample_config @ [CHR 0x00]), resp_size = length (repr sample_config)\<rparr>"
  by (simp add: transfer_def write_callback_def no_response_def Let_def)

definition sample_me :: json_value where
  "sample_me = jv_object [(''id'', jv_string ''42'')]"

lemma parse_sample_me: "parse (repr sample_me) = Inr (build (Obj [(''id'', Str ''42'')]))"
proof -
  have "denotes (jv_string ''42'') (Str ''42'')" by (rule denotes_string) (simp_all add: jv_defs)
  then have "denotes sample_me (Obj [(''id'', Str ''42'')])"
    unfolding sample_me_def by (intro denotes_object) (simp_all add: jv_object_def)
  then show ?thesis by (rule parse_repr) (simp_all add: char_simps)
qed

lemma sample_answer:
  "data (transfer [repr sample_me] no_response) = Some (repr sample_me @ [CHR 0x00])"
  "c_str (repr sample_me @ [CHR 0x00]) = repr sample_me"
  by (simp_all add: transfer_def write_callback_def no_response_def Let_def)
    (rule c_str_terminated, simp add: sample_me_def jv_defs repr_eval)

theorem first_start_witness:
  "\<exists>d' g. main (\<lambda>_. True) True (\<lambda>_. [repr sample_me]) '' abc def'' booted sample_disk0 =
      (HttpGet me_url # List.map (install_request sample_disk0 ''abc'' ''42'') available @
         [RemoveFile ''FIRSTRUN''], Inr (d', Inr g)) \<and>
    d' ''FIRSTRUN'' = None \<and>
    config g ''bot_token'' = Some ''abc'' \<and> ci_address (cc_info g) = Some ''gateway.discord.gg'' \<and>
    (\<exists>cfg. config_document d' = Inr cfg \<and> text_of ''bot_token'' cfg = ''abc'')"
proof -
  have w: "read_word '' abc def'' = ''abc''"
    by (simp add: read_word_def is_space_def uchar_def)
  show ?thesis
    using first_start [where d = sample_disk0 and input = "'' abc def''" and nw = "\<lambda>_. [repr sample_me]"
        and block = "repr sample_me @ [CHR 0x00]" and me = "build (Obj [(''id'', Str ''42'')])"
        and bot_id = "''42''" and can_open = "\<lambda>_. True" and c = booted
        and messages = "repr sample_config" and ntf = "build (Obj [(''bot_token'', Str ''abc'')])",
        unfolded w] parse_sample_me parse_sample_config sample_answer
    by (simp add: sample_disk0_def plain_token_def char_simps text_of_def member_def)
qed

text \<open>C33: A first start whose token names no bot (the service's answer has no \<open>id\<close>): the program
  ends with code 1 after the one request; no command is installed, no file removed, and the disk is the
  same as before, so that no configuration is written and the next start asks again.  A token of more than 130 characters overflows the header before any request.\<close>

theorem first_start_refused:
  assumes "d ''FIRSTRUN'' \<noteq> None"
    and "data (transfer (nw me_url) no_response) = Some block" "parse (c_str block) = Inr me"
    and "text_of ''id'' me = []"
  shows "main can_open ok nw input c d =
    (if length (c_str (read_word input)) \<le> 130 then ([HttpGet me_url], Inr (d, Inl 1))
     else ([], Inl Undefined_behaviour))"
proof -
  obtain marker where "d ''FIRSTRUN'' = Some marker" using assms(1) by blast
  with assms(2-4) show ?thesis
    by (simp add: main_def first_run_def fetch_id_def set_btk_def new_firstrun_def checked_header_def Let_def)
      (simp add: bindIO_def returnIO_def emit_def)
qed

theorem first_start_refused_witness:
  "main (\<lambda>_. True) True (\<lambda>_. [repr sample_config]) ''x'' booted sample_disk0
     = ([HttpGet me_url], Inr (sample_disk0, Inl 1))"
proof -
  have c: "c_str (repr sample_config @ [CHR 0x00]) = repr sample_config"
    by (rule c_str_terminated) (simp add: sample_config_def jv_defs repr_eval)
  have "data (transfer [repr sample_config] no_response) = Some (repr sample_config @ [CHR 0x00])"
    by (simp add: sample_id)
  moreover have "c_str (read_word ''x'') = ''x''"
    by (simp add: read_word_def is_space_def uchar_def c_str_def)
  ultimately show ?thesis
    using first_start_refused [where d = sample_disk0 and nw = "\<lambda>_. [repr sample_config]" and input = "''x''"
        and me = "build (Obj [(''bot_token'', Str ''abc'')])" and can_open = "\<lambda>_. True" and ok = True and c = booted
        and block = "repr sample_config @ [CHR 0x00]"] parse_sample_config c
    by (simp add: sample_disk0_def text_of_def member_def jv_defs)
qed
end
