(* ===== verification/ConversionTest.thy ===== *)
theory ConversionTest
  imports Readback
begin

text \<open>
  The program tests/all_in_one_test.cpp: one run of every generator on fixed arguments, printed to the
  console.  The picks and the time of the \<open>k\<close>-th use of the random engine and of the clock, and
  the disk, are parameters; what reaches the console and the zip library is the list of actions.
\<close>

section \<open>Console and literals\<close>

datatype test_action = Print string | Pack string "zip_call list"

type_synonym 'a test_io = "(test_action, 'a) effect"

definition print_line :: "string \<Rightarrow> unit test_io" where
  "print_line s = emit (Print (s @ [CHR 0x0A]))"

record surroundings =
  disk_of :: disk
  clock_of :: "nat \<Rightarrow> tm_zip"
  pack_draws :: "nat \<Rightarrow> nat \<Rightarrow> nat \<Rightarrow> nat"
  name_draws :: "nat \<Rightarrow> nat \<Rightarrow> nat"

text \<open>A literal of type \<open>double\<close> with \<open>k\<close> digits behind the point.\<close>

definition double_literal :: "bool \<Rightarrow> nat \<Rightarrow> nat \<Rightarrow> double" where
  "double_literal neg m k =
     (case nearest_double neg m (10 ^ k) of Inr x \<Rightarrow> x | Inl _ \<Rightarrow> Double neg 0 0)"

text \<open>Packing a tree announces the archive by the text in front of its name.\<close>

definition pack_and_print :: "surroundings \<Rightarrow> nat \<Rightarrow> string \<Rightarrow> string \<Rightarrow> pack_file \<Rightarrow> unit test_io" where
  "pack_and_print w k shown extension f =
     (case make_zip (clock_of w k) (name_draws w k) extension f of (archive, calls, _) \<Rightarrow>
        bindIO (emit (Print shown)) (\<lambda>_. bindIO (emit (Pack archive calls)) (\<lambda>_. print_line archive)))"

section \<open>The tests\<close>

definition texture_path :: string where
  "texture_path = ''resources/'' @ [CHR 0xC4, CHR 0x98] @ ''.png''"

definition test_entity :: "surroundings \<Rightarrow> pack_file result" where
  "test_entity w =
     bindR (read_file (disk_of w) texture_path True file_empty) (\<lambda>entity_tf.
     bindR (read_file (disk_of w) ''resources/model.json'' False file_empty) (\<lambda>entity_mf.
       make_entity \<lparr>e_identifier = ''ss:aa'', textureFile = entity_tf, modelFile = entity_mf,
         isSpawnable = True, isSummonable = True, isExperimental = False, spawnEggOverlay = ''#7b3d3d'',
         spawnEggBase = ''#ffa8a8'', material = ''entity_alphatest'', select = ''both''\<rparr> (pack_draws w 0)))"

definition test_tree :: pack_file where
  "test_tree = file_dir ''think''
     [file_dir ''ssss''
        [file_text ''a'' ''moi'',
         file_dir ''fldr'' [file_text ''sh'' ''iet'', file_text ''muzyka'' ''aasasas''],
         file_text ''b'' (''m'' @ [CHR 0xC3, CHR 0xB3] @ ''c'')],
      file_text ''must'' ''fffff'']"

text \<open>The icon of the second item is read from an absolute path.\<close>

definition icon_path :: string where
  "icon_path = ''/mnt/ltinh/m'' @ [CHR 0xC5, CHR 0x82] @ ''o'' @ [CHR 0xC5, CHR 0x9B] @ ''p'' @
     [CHR 0xC4, CHR 0x85] @ ''c.png''"

text \<open>The literal \<open>""\<close> in the place of \<open>blockPlacerDes\<close> is a pointer that is converted to \<open>true\<close>.\<close>

definition test_item1 :: item_args where
  "test_item1 = \<lparr>
  formatVersion = ''1.17.0'', i_identifier = ''test:test1'', category = ''Equipment'',
    isExp = False, icon = ''textures/items/test1'', displayName = ''Test #1'',
    maxStackSize = 0, useAnimCheckbox = True, useAnim = ''eat'', foil = False,
    useDuration = double_literal False 3 0, stackedData = False, handEquipped = True,
    destroyInC = True, ccategoryCheckbox = True, ccategory = ''itemGroup.name.crop'',
    foodCheckbox = False, foodNutr = double_literal True 1 0, foodSatu = ''low'',
    foodCanA = False, foodConvert = [], isexplod = False, allowOffHand = True,
    wearableCheckbox = True, wearableSlot = ''slot.armor.head'', armorProtection = 12,
    cooldownCheckbox = False, cooldownCategory = [],
    cooldownDuration = double_literal True 1 0, damage = 3, blockPlacerCheckbox = False,
    blockPlacerBlock = [], blockPlacerDes = True, entityPlacerCheckbox = True,
    entityPlacerEntity = ''d'',
    entityPlacerUseon = [jv_string ''a'', jv_string ''b'', jv_string ''c''],
    entityPlacerDison = [jv_string ''d'', jv_string ''e'', jv_string ''f''],
    enchantableCheckbox = False, enchantableSlot = ''none'', enchantableValue = - 1,
    shooterCheckbox = True, shooterMaxDraw = double_literal False 2 0, shooterCharge = True,
    shooterScale = False, shooterAmmoCheckbox = True, shooterAmmoInven = False,
    shooterAmmoItem = ''sss'', shooterAmmoHand = False, shooterAmmoCreative = True,
    fertilizer = - 1, ignPerms = True, miningSpeed = - 1, liquidClipped = True,
    shouldDespawn = True, mirroredArt = True, projectileCheckbox = False,
    projectileEntity = [], projectilePower = double_literal True 1 0, dyeCheckbox = True,
    dyePowder = ''magenta'', throwableCheckbox = False, throwableSwing = False,
    throwableDraw = double_literal True 1 0, throwablePower = False,
    knockbackResis = double_literal False 5 1, fuel = double_literal True 1 0,
    recordCheckbox = True,
    recordSound = ''s'' @ [CHR 0xC5, CHR 0x82] @ ''ucha'' @ [CHR 0xC4, CHR 0x87],
    recordDuration = 1, recordSignal = 4, itemIcon = file_text [] [], enable_itematlas = False\<rparr>"

definition test_item2 :: "pack_file \<Rightarrow> item_args" where
  "test_item2 tf = \<lparr>
  formatVersion = ''1.16.100'', i_identifier = ''test:test2'', category = ''Items'',
    isExp = True, icon = ''textures/items/test2'', displayName = ''Test #2'',
    maxStackSize = 16, useAnimCheckbox = False, useAnim = ''none'', foil = True,
    useDuration = double_literal False 0 0, stackedData = True, handEquipped = False,
    destroyInC = False, ccategoryCheckbox = False, ccategory = ''none'', foodCheckbox = True,
    foodNutr = double_literal False 243 2, foodSatu = ''normal'', foodCanA = False,
    foodConvert = ''eater'', isexplod = True, allowOffHand = False, wearableCheckbox = False,
    wearableSlot = [], armorProtection = - 1, cooldownCheckbox = True,
    cooldownCategory = ''sab'', cooldownDuration = double_literal False 33 1, damage = - 1,
    blockPlacerCheckbox = True, blockPlacerBlock = ''arb'', blockPlacerDes = True,
    entityPlacerCheckbox = False, entityPlacerEntity = [], entityPlacerUseon = [],
    entityPlacerDison = [], enchantableCheckbox = True, enchantableSlot = ''armor_legs'',
    enchantableValue = - 2, shooterCheckbox = False, shooterMaxDraw = double_literal False 0 0,
    shooterCharge = False, shooterScale = False, shooterAmmoCheckbox = False,
    shooterAmmoInven = False, shooterAmmoItem = [], shooterAmmoHand = False,
    shooterAmmoCreative = False, fertilizer = 2, ignPerms = False, miningSpeed = 3,
    liquidClipped = False, shouldDespawn = False, mirroredArt = False,
    projectileCheckbox = True, projectileEntity = ''dd'',
    projectilePower = double_literal False 53 1, dyeCheckbox = False, dyePowder = [],
    throwableCheckbox = True, throwableSwing = True, throwableDraw = double_literal False 2 0,
    throwablePower = True, knockbackResis = double_literal True 1 0,
    fuel = double_literal False 34 1, recordCheckbox = False, recordSound = [],
    recordDuration = - 1, recordSignal = - 1, itemIcon = tf, enable_itematlas = True\<rparr>"

definition items_test :: "surroundings \<Rightarrow> unit test_io" where
  "items_test w =
     bindIO (liftR (read_file (disk_of w) icon_path True file_empty)) (\<lambda>tf.
     bindIO (liftR (writeItem test_item1 (pack_draws w 1))) (\<lambda>item1.
     bindIO (print_line (tree_repr 0 item1)) (\<lambda>_.
     bindIO (liftR (writeItem (test_item2 tf) (pack_draws w 2))) (\<lambda>item_b.
     bindIO (emit (Print (''Representation for the Item Generator test:'' @ [CHR 0x0A]))) (\<lambda>_.
     bindIO (print_line (tree_repr 0 item_b)) (\<lambda>_.
       pack_and_print w 1 ''Zip filename for the Item Generator test: '' ''.mcaddon'' item_b))))))"

definition json_test :: "unit test_io" where
  "json_test =
     (let float_representation_n = jv_object
            (obj_put ''test2'' (jv_string ''car'') (obj_put ''test'' (jv_double (double_literal False 1144 2)) []));
          make_json_o = obj_put ''b'' (jv_llint 999999999999999999)
            (obj_put ''c'' (jv_int 3) [(''a'', jv_int 1), (''c'', jv_int 2)]);
          make_json_v = jv_list [jv_object make_json_o, jv_bool False, jv_double (double_literal False 8547 2)]
      in bindIO (liftR (get_repr float_representation_n)) (\<lambda>s.
         bindIO (print_line s) (\<lambda>_.
         bindIO (liftR (get_repr make_json_v)) (\<lambda>t. print_line t))))"

definition test_manifest :: nondependent where
  "test_manifest = \<lparr>pack_type = ''data'', pack_name = ''abv'', pack_description = ''sontdfdfdf'',
     pack_version = map jv_int [1, 17, 0], pack_use_metadata = True,
     pack_authors = map jv_string [''aa'', ''bb'', ''cc''], pack_author_url = ''http://localhost'',
     pack_use_gametest = True, pack_gametest_entry_file = ''modules/Main.js''\<rparr>"

definition test_manifests :: dependent where
  "test_manifests = \<lparr>bp_name = ''abv'', bp_description = ''d'' @ [CHR 0xF0, CHR 0x9F, CHR 0xA4, CHR 0xA9] @ ''ixneuf'',
     bp_version = map jv_int [1, 17, 0], bp_use_scripts = True, bp_use_metadata = True,
     bp_authors = map jv_string [''aiw'', ''aed'', ''ddd''], bp_author_url = ''http://localhost'',
     rp_name = ''rpbv'', rp_description = ''dikneuph'', rp_version = map jv_int [1, 17, 0],
     rp_use_metadata = True, rp_authors = map jv_string [''rpw'', ''ddd'', ''wwddd''],
     rp_author_url = ''http://192.168.32.1'', rp_use_ui = True, bp_use_gametest = True,
     bp_gametest_entry_file = ''modules/Main.js''\<rparr>"

definition manifest_test :: "surroundings \<Rightarrow> unit test_io" where
  "manifest_test w =
     bindIO (emit (Print (''Non-dependent:'' @ [CHR 0x0A]))) (\<lambda>_.
     bindIO (liftR (generate_nondependent test_manifest (pack_draws w 3))) (\<lambda>s.
     bindIO (print_line s) (\<lambda>_.
     bindIO (liftR (generate_dependent test_manifests (pack_draws w 4))) (\<lambda>manifest_r.
     bindIO (emit (Print (''Dependent: '' @ [CHR 0x0A]))) (\<lambda>_.
     bindIO (liftR (vec_at manifest_r 0)) (\<lambda>bp. bindIO (print_line bp) (\<lambda>_.
     bindIO (liftR (vec_at manifest_r 1)) (\<lambda>rp. print_line rp))))))))"

definition obfuscator_test :: "surroundings \<Rightarrow> unit test_io" where
  "obfuscator_test w =
     bindIO (liftR (read_file (disk_of w) ''resources/obfuscator_test.json'' False file_empty)) (\<lambda>f.
     let obfuscator_s = text_contents f
     in bindIO (emit (Print (''Result:'' @ [CHR 0x0A]))) (\<lambda>_.
        bindIO (liftR (obfuscateMain obfuscator_s False)) (\<lambda>s.
        bindIO (emit (Print s)) (\<lambda>_.
        bindIO (emit (Print ([CHR 0x0A] @ ''Result (minified): ''))) (\<lambda>_.
        bindIO (liftR (obfuscateMain obfuscator_s True)) (\<lambda>t. print_line t))))))"

text \<open>\<open>main\<close>; its result is the exit code.\<close>

definition conversion_test :: "surroundings \<Rightarrow> int test_io" where
  "conversion_test w =
     bindIO (liftR (test_entity w)) (\<lambda>entity_b.
     bindIO (print_line (tree_repr 0 entity_b)) (\<lambda>_.
     bindIO (pack_and_print w 0 ''Zip filename for the Entity Generator test: '' ''.zip'' entity_b) (\<lambda>_.
     bindIO (print_line (tree_repr 0 test_tree)) (\<lambda>_.
     bindIO (items_test w) (\<lambda>_.
     bindIO json_test (\<lambda>_.
     bindIO (manifest_test w) (\<lambda>_.
     bindIO (obfuscator_test w) (\<lambda>_.
     bindIO (print_line (generate_uuid (name_draws w 2))) (\<lambda>_. returnIO 0)))))))))"

section \<open>The literals of the JSON test\<close>

lemmas literal_simps = double_literal_def nearest_double_def double_exponent_def scaled_def
  bit_length.simps round_quot_def Let_def

lemmas digits_simps = show_double_def d_num_def d_den_def six_digits_def floor_log10_def round_quot_def
  Let_def show_g_def show_nat_rec with_fraction_def strip_zeros_def digit_char_def

lemma literal_11_44: "show_double (double_literal False 1144 2) = ''11.44''"
proof -
  have "double_literal False 1144 2 = Double False 0x16E147AE147AE1 (- 49)"
    by (simp add: literal_simps)
  then show ?thesis by (simp add: digits_simps)
qed

lemma literal_85_47: "show_double (double_literal False 8547 2) = ''85.47''"
proof -
  have "double_literal False 8547 2 = Double False 0x155E147AE147AE (- 46)"
    by (simp add: literal_simps)
  then show ?thesis by (simp add: digits_simps)
qed

text \<open>A printed text by its lines, each with its number of tabs.\<close>

definition lines_of :: "(nat \<times> string) list \<Rightarrow> string" where
  "lines_of ls = concat (map (\<lambda>(n, l). replicate n (CHR 0x09) @ l @ [CHR 0x0A]) ls)"

lemma replicate_2: "replicate 2 x = [x, x]"
  by (simp add: numeral_2_eq_2)

lemma number_texts: "show_int 1 = ''1''" "show_int 3 = ''3''"
  "show_int 999999999999999999 = ''999999999999999999''"
  by (simp_all add: show_int_def show_nat_rec digit_char_def)

lemma json_texts:
  "repr (jv_object [(''test'', jv_double (double_literal False 1144 2)), (''test2'', jv_string ''car'')]) =
     lines_of [(0, ''{''), (1, [CHR 0x22] @ ''test'' @ [CHR 0x22] @ '': 11.44,''),
       (1, [CHR 0x22] @ ''test2'' @ [CHR 0x22] @ '': '' @ [CHR 0x22] @ ''car'' @ [CHR 0x22])] @ ''}''"
  "repr (jv_list [jv_object [(''a'', jv_int 1), (''c'', jv_int 3), (''b'', jv_llint 999999999999999999)],
      jv_bool False, jv_double (double_literal False 8547 2)]) =
     lines_of [(0, ''[''), (1, ''{''), (2, [CHR 0x22] @ ''a'' @ [CHR 0x22] @ '': 1,''),
         (2, [CHR 0x22] @ ''c'' @ [CHR 0x22] @ '': 3,''),
         (2, [CHR 0x22] @ ''b'' @ [CHR 0x22] @ '': 999999999999999999''), (1, ''},''), (1, ''false,''),
         (1, ''85.47'')] @ '']''"
  by (simp_all only: jv_defs repr.simps [of "JV _ _ _ _ _ _ _"] json_value.sel literal_11_44 literal_85_47 number_texts
       list.map prod.sel show_field_def option.case) code_simp+

lemma json_readable:
  "readable (jv_object [(''test'', jv_double (double_literal False 1144 2)), (''test2'', jv_string ''car'')])"
  "readable (jv_list [jv_object [(''a'', jv_int 1), (''c'', jv_int 3), (''b'', jv_llint 999999999999999999)],
      jv_bool False, jv_double (double_literal False 8547 2)])"
  by (simp_all add: readable.simps [of "JV _ _ _ _ _ _ _"] jv_defs)

lemma json_test_run:
  "json_test =
     ([Print (lines_of [(0, ''{''), (1, [CHR 0x22] @ ''test'' @ [CHR 0x22] @ '': 11.44,''),
         (1, [CHR 0x22] @ ''test2'' @ [CHR 0x22] @ '': '' @ [CHR 0x22] @ ''car'' @ [CHR 0x22]), (0, ''}'')]),
       Print (lines_of [(0, ''[''), (1, ''{''), (2, [CHR 0x22] @ ''a'' @ [CHR 0x22] @ '': 1,''),
         (2, [CHR 0x22] @ ''c'' @ [CHR 0x22] @ '': 3,''),
         (2, [CHR 0x22] @ ''b'' @ [CHR 0x22] @ '': 999999999999999999''), (1, ''},''), (1, ''false,''),
         (1, ''85.47''), (0, '']'')])], Inr ())"
  by (simp add: json_test_def Let_def get_repr_def json_readable json_texts print_line_def effect_simps emit_def lines_of_def replicate_2)

section \<open>The runs of the other tests\<close>

text \<open>What the archive of a tree is announced with.\<close>

definition packed :: "surroundings \<Rightarrow> nat \<Rightarrow> string \<Rightarrow> string \<Rightarrow> pack_file \<Rightarrow> test_action list" where
  "packed w k shown extension f =
     (case make_zip (clock_of w k) (name_draws w k) extension f of (archive, calls, _) \<Rightarrow>
        [Print shown, Pack archive calls, Print (archive @ [CHR 0x0A])])"

lemma pack_and_print_run: "pack_and_print w k shown extension f = (packed w k shown extension f, Inr ())"
  by (simp add: pack_and_print_def packed_def print_line_def emit_def effect_simps split: prod.split)

definition tree_text :: string where
  "tree_text = lines_of [(0, ''think''), (0, ''|-ssss''), (0, ''| |-a''), (0, ''| |-fldr''), (0, ''| | |-sh''),
     (0, ''| | |-muzyka''), (0, ''| |-b''), (0, ''|-must'')]"

lemma tree_repr_test_tree: "tree_repr 0 test_tree = tree_text"
  by (simp add: test_tree_def tree_text_def lines_of_def tree_repr.simps file_defs numeral_2_eq_2)

definition item_files :: "surroundings \<Rightarrow> string \<Rightarrow> pack_file \<times> pack_file" where
  "item_files w bytes =
     (let second = test_item2 (File 0 bytes [] [] (truncate_slashes icon_path))
      in (file_dir (item_filename test_item1) (item_tree test_item1 (pack_draws w 1)),
          file_dir (item_filename second) (item_tree second (pack_draws w 2))))"

lemma writeItem_tests:
  "writeItem test_item1 u = Inr (file_dir (item_filename test_item1) (item_tree test_item1 u))"
  "writeItem (test_item2 tf) u = Inr (file_dir (item_filename (test_item2 tf)) (item_tree (test_item2 tf) u))"
  by (simp_all add: writeItem_run test_item1_def test_item2_def)

lemma items_test_run:
  "items_test w =
     (case disk_of w icon_path of
        None \<Rightarrow> ([], Inl Length_error)
      | Some bytes \<Rightarrow> (case item_files w bytes of (item1, item2) \<Rightarrow>
          ([Print (tree_repr 0 item1 @ [CHR 0x0A]),
            Print (''Representation for the Item Generator test:'' @ [CHR 0x0A]),
            Print (tree_repr 0 item2 @ [CHR 0x0A])] @
           packed w 1 ''Zip filename for the Item Generator test: '' ''.mcaddon'' item2, Inr ())))"
  by (simp add: items_test_def read_file_def item_files_def Let_def writeItem_tests file_empty_def pack_and_print_run print_line_def emit_def effect_simps split: option.split)

definition printed_manifests :: "surroundings \<Rightarrow> string \<times> string \<times> string" where
  "printed_manifests w =
     (repr (nondependent_template test_manifest (pack_draws w 3)),
      repr (behaviorpack_template test_manifests (pack_draws w 4)),
      repr (resourcepack_template test_manifests (pack_draws w 4)))"

lemma manifest_templates_sound:
  "sound (nondependent_template test_manifest u)" "sound (behaviorpack_template test_manifests u)"
  "sound (resourcepack_template test_manifests u)"
  by (simp_all add: nondependent_template_def header_template_def metadata_template_def engine_template_def
      module_template_def dependency_template_def nd_modules_template_def nd_script_template_def obj_keys_simps
      behaviorpack_template_def resourcepack_template_def dep_header_template_def link_template_def
      test_manifest_def test_manifests_def)

lemma manifest_test_run:
  "manifest_test w =
     (case printed_manifests w of (independent, bp, rp) \<Rightarrow>
        ([Print (''Non-dependent:'' @ [CHR 0x0A]), Print (independent @ [CHR 0x0A]),
          Print (''Dependent: '' @ [CHR 0x0A]), Print (bp @ [CHR 0x0A]), Print (rp @ [CHR 0x0A])], Inr ()))"
proof -
  have v: "version_ok (pack_version test_manifest)" "version_ok (bp_version test_manifests)"
    "version_ok (rp_version test_manifests)"
    by (simp_all add: test_manifest_def test_manifests_def version_ok_def jv_defs)
  have d: "nondependent_doc test_manifest u = Inr (nondependent_template test_manifest u)" for u
    by (rule nondependent_doc_eq) (simp_all add: test_manifest_def jv_defs)
  show ?thesis
    using sound_get_repr [OF manifest_templates_sound(1)] sound_get_repr [OF manifest_templates_sound(2)]
      sound_get_repr [OF manifest_templates_sound(3)]
    by (simp add: manifest_test_def printed_manifests_def generate_nondependent_def d v
        generate_dependent_def dependent_docs_eq vec_at_def print_line_def emit_def effect_simps)
qed

section \<open>Properties\<close>

text \<open>The part of the run in front of the items.\<close>

definition entity_part :: "surroundings \<Rightarrow> pack_file \<Rightarrow> test_action list" where
  "entity_part w b =
     [Print (tree_repr 0 b @ [CHR 0x0A])] @
     packed w 0 ''Zip filename for the Entity Generator test: '' ''.zip'' b @ [Print (tree_text @ [CHR 0x0A])]"

text \<open>A disk with the files of the entity test, and one that has the icon, too.\<close>

definition sample_disk :: disk where
  "sample_disk = [texture_path \<mapsto> ''x'', ''resources/model.json'' \<mapsto> ''{}'']"

definition sample_surroundings :: "disk \<Rightarrow> surroundings" where
  "sample_surroundings d = \<lparr>disk_of = d,
     clock_of = (\<lambda>_. \<lparr>tm_sec = 0, tm_min = 0, tm_hour = 12, tm_mday = 1, tm_mon = 0, tm_year = 2023\<rparr>),
     pack_draws = (\<lambda>_ _ _. 0), name_draws = (\<lambda>_ _. 10)\<rparr>"

lemma sample_entity: "\<exists>b. test_entity (sample_surroundings (sample_disk(icon_path := i))) = Inr b"
proof -
  have n: "texture_path \<noteq> icon_path" "''resources/model.json'' \<noteq> icon_path" "texture_path \<noteq> ''resources/model.json''"
    by (simp_all add: texture_path_def icon_path_def)
  have g: "getGeo ''{}'' = Inr []" "verifyIdentifier ''ss:aa''" by code_simp+
  show ?thesis
    using n by (simp add: test_entity_def sample_surroundings_def sample_disk_def read_file_def file_empty_def
        make_entity_run pack_geometry_def g)
qed

lemma conversion_test_without_icon:
  assumes "test_entity w = Inr b" "disk_of w icon_path = None"
  shows "conversion_test w = (entity_part w b, Inl Length_error)"
  using assms by (simp add: conversion_test_def entity_part_def items_test_run pack_and_print_run print_line_def
      emit_def effect_simps tree_repr_test_tree)

text \<open>C40: The test program, where the entity's files are found and the obfuscator accepts the text of
  \<open>resources/obfuscator_test.json\<close>.  It needs a file of its author's machine: where the absolute path
  of the icon names no file, it ends with the uncaught \<open>std::length_error\<close> of \<open>read_file\<close>
  behind the entity test and the file test.  With the icon it runs to its end with the exit code 0 and
  prints, in this order: the entity's tree and archive, the tree of the file test, the trees of both
  items and the archive of the second, the two JSON texts with exactly these lines, the three manifests
  from their templates, the obfuscated text in both modes and an identifier.\<close>

theorem conversion_test_output:
  assumes "test_entity w = Inr b" "printed_manifests w = (independent, bp, rp)"
    and "text = (case disk_of w ''resources/obfuscator_test.json'' of None \<Rightarrow> [] | Some t \<Rightarrow> t)"
    and "obfuscateMain text False = Inr escaped" "obfuscateMain text True = Inr minified"
  shows "conversion_test w = (case disk_of w icon_path of
    None \<Rightarrow> (entity_part w b, Inl Length_error)
  | Some bytes \<Rightarrow> (case item_files w bytes of (item1, item2) \<Rightarrow>
    (entity_part w b @
     [Print (tree_repr 0 item1 @ [CHR 0x0A]), Print (''Representation for the Item Generator test:'' @ [CHR 0x0A]),
      Print (tree_repr 0 item2 @ [CHR 0x0A])] @
     packed w 1 ''Zip filename for the Item Generator test: '' ''.mcaddon'' item2 @
     [Print (lines_of [(0, ''{''), (1, [CHR 0x22] @ ''test'' @ [CHR 0x22] @ '': 11.44,''),
         (1, [CHR 0x22] @ ''test2'' @ [CHR 0x22] @ '': '' @ [CHR 0x22] @ ''car'' @ [CHR 0x22]), (0, ''}'')]),
      Print (lines_of [(0, ''[''), (1, ''{''), (2, [CHR 0x22] @ ''a'' @ [CHR 0x22] @ '': 1,''),
         (2, [CHR 0x22] @ ''c'' @ [CHR 0x22] @ '': 3,''),
         (2, [CHR 0x22] @ ''b'' @ [CHR 0x22] @ '': 999999999999999999''), (1, ''},''), (1, ''false,''),
         (1, ''85.47''), (0, '']'')]),
      Print (''Non-dependent:'' @ [CHR 0x0A]), Print (independent @ [CHR 0x0A]),
      Print (''Dependent: '' @ [CHR 0x0A]), Print (bp @ [CHR 0x0A]), Print (rp @ [CHR 0x0A]),
      Print (''Result:'' @ [CHR 0x0A]), Print escaped, Print ([CHR 0x0A] @ ''Result (minified): ''),
      Print (minified @ [CHR 0x0A]), Print (generate_uuid (name_draws w 2) @ [CHR 0x0A])], Inr 0)))"
proof (cases "disk_of w icon_path")
  case None
  with assms(1) show ?thesis by (simp add: conversion_test_without_icon)
next
  case (Some bytes)
  obtain item1 item2 where i: "item_files w bytes = (item1, item2)" by (cases "item_files w bytes")
  have o: "obfuscator_test w = ([Print (''Result:'' @ [CHR 0x0A]), Print escaped,
      Print ([CHR 0x0A] @ ''Result (minified): ''), Print (minified @ [CHR 0x0A])], Inr ())"
    using assms(3-5) by (simp add: obfuscator_test_def read_file_def print_line_def emit_def effect_simps Let_def)
  show ?thesis
    by (simp add: conversion_test_def assms(1,2) Some i o items_test_run json_test_run manifest_test_run
        entity_part_def pack_and_print_run tree_repr_test_tree print_line_def emit_def effect_simps)
qed

theorem conversion_test_output_witness:
  "snd (conversion_test (sample_surroundings (sample_disk(icon_path := Some ''y'')))) = Inr 0 \<and>
   snd (conversion_test (sample_surroundings (sample_disk(icon_path := None)))) = Inl Length_error"
proof -
  have run: "snd (conversion_test w) = (if i = None then Inl Length_error else Inr 0)"
    if w: "w = sample_surroundings (sample_disk(icon_path := i))" for i w
  proof -
    obtain b where b: "test_entity w = Inr b" unfolding w using sample_entity by auto
    obtain independent bp rp where m: "printed_manifests w = (independent, bp, rp)"
      by (cases "printed_manifests w") auto
    have t: "[] = (case disk_of w ''resources/obfuscator_test.json'' of None \<Rightarrow> [] | Some t \<Rightarrow> t)"
      unfolding w by (simp add: sample_surroundings_def sample_disk_def texture_path_def icon_path_def)
    have "obfuscateMain [] False = Inr []" "obfuscateMain [] True = Inr []" by code_simp+
    from conversion_test_output [OF b m t this] show ?thesis
      by (simp add: w sample_surroundings_def split: option.splits prod.splits)
  qed
  show ?thesis by (simp add: run)
qed

end
