(* ===== verification/Spec2Isabelle.thy ===== *)
theory Spec2Isabelle
  imports Commands Interleavings FirstRun ConversionTest
begin

text \<open>
  PilePoxyl is a Discord application that generates add-ons for Minecraft Bedrock Edition.  Its
  \<open>main\<close> (runpp.cpp) asks for a bot token on the first start (pilepoxyl/firstrun.cpp), connects
  to Discord's gateway over a WebSocket (pilepoxyl/gateway.cpp), and answers the interactions it
  receives by HTTP requests (pilepoxyl/httpapi.cpp); the answers are made by the generators of
  generate_libs/, which build JSON documents (make_json.cpp) and file trees that are packed into
  archives (file_management.cpp).  This development is a shallow embedding of these files with the
  theorems that make them correct, and those that delimit where they are not.

  \<^bold>\<open>The theories, in the order of their imports.\<close>

  \<^item> \<open>Prelude\<close>: the result type, an exception or undefined behaviour on the left (\<open>cpp_error\<close>)
    and a value on the right; sequences of fallible steps (\<open>seqR\<close>, \<open>whenR\<close>); reads of strings
    and vectors; the ranges of \<open>int\<close> and \<open>long long\<close>; decimal numbers.
  \<^item> \<open>Doubles\<close>: finite binary64 numbers as sign, mantissa and exponent, with the conversions of the
    standard library the program calls (\<open>std::stod\<close>, \<open>std::stoll\<close>, a stream's six digits).
  \<^item> \<open>JsonValue\<close>: the classes \<open>json_object\<close> and \<open>json_value\<close> of make_json.h with their
    constructors, \<open>get_repr\<close>, \<open>lick\<close> and \<open>ding\<close>.  A member that a constructor leaves
    uninitialised is \<open>None\<close>, and reading it is undefined behaviour.
  \<^item> \<open>JsonPath\<close>: a chain \<open>v.val_object["k"].val_list[i]\<close> as a list of links, assignment and
    \<open>push_back\<close> at its end, and the facts about writing and reading along two such chains.
  \<^item> \<open>JsonParse\<close>: \<open>strip\<close>, \<open>hex_to_int\<close>, \<open>unescapify\<close> and \<open>parse\<close>; the two loops over
    the members and the elements hand their pieces to the recursive calls.
  \<^item> \<open>JsonNumber\<close>, \<open>JsonGrammar\<close>, \<open>JsonScan\<close>, \<open>JsonCorrect\<close>, \<open>JsonProperties\<close>: the
    language of the number expression, the JSON grammar as an inductive relation between documents
    and texts, what the loops do on a text of the grammar, and that \<open>parse\<close> computes the value
    of the document and inverts \<open>get_repr\<close>.
  \<^item> \<open>Obfuscator\<close>: obfuscator.cpp on bytes, against UTF-8 and UTF-16 and against the grammar.
  \<^item> \<open>Files\<close>: uuid_generator.cpp and file_management.cpp; an archive is the sequence of the calls
    to the zip library that write it.
  \<^item> \<open>Manifest\<close>, \<open>Entity\<close>, \<open>Item\<close>: the generators, statement by statement, each with the
    document or file tree it is meant to produce as a template, and the refinement to it.
  \<^item> \<open>Http\<close>, \<open>Interaction\<close>: the class \<open>restapi\<close>: transfers as a list of requests, the help
    messages, and \<open>respond_interaction\<close> with all its commands.  A part of a form is the list of
    the calls that describe it; \<open>remote_name\<close> is the name under which the receiver sees it, as the
    library documents these calls.
  \<^item> \<open>Lws\<close>: the numbers, codes and records of libwebsockets' headers that the gateway is
    written against.
  \<^item> \<open>Gateway\<close>, \<open>GatewayCorrect\<close>: the class \<open>gateway\<close> as a state, its functions as functions on
    it, and the connection loop with the threads it starts as a step relation \<open>gw_step\<close> with
    reachable states \<open>gw_reachable\<close>; then the handshake, the monitor of the sent frames, the
    invariant of the process and the collection of chunks.
  \<^item> \<open>GatewayEnds\<close>: what the next connection takes over from one that was lost, and what remains of
    a run after the server has rejected the token.
  \<^item> \<open>Interleavings\<close>: messages over one or several turns of the loop, handlers beside the
    callbacks and beside each other, and timeouts before and behind the last chunk.
  \<^item> \<open>FirstRun\<close>: firstrun.cpp and runpp.cpp, up to the connection loop.
  \<^item> \<open>Readback\<close>: which documents survive being printed, sent as a file and parsed again, and the
    generated manifest as one of them.
  \<^item> \<open>Commands\<close>: the commands of \<open>respond_interaction\<close> from their options to their requests
    (httpapi.cpp): both manifest commands, the entity generator, the obfuscator and the three steps
    of the item generator, which hand their options on in uploaded files.
  \<^item> \<open>ConversionTest\<close>: tests/all_in_one_test.cpp, one run of every generator on fixed arguments.
  \<^item> This theory: an interaction from the bytes on the wire to its answer.

  \<^bold>\<open>Interfaces.\<close>  Three contracts are locales.  \<open>keyed_store\<close> (JsonValue) is what the program
  relies on in a container with string keys: it is interpreted on the vector of pairs behind
  \<open>json_object\<close> (\<open>json_obj\<close>) and on \<open>std::map\<close> (\<open>std_map\<close>).  \<open>text_scanner\<close> and its
  extension \<open>value_scanner\<close> (JsonScan) say how a scanning loop treats a document in front of it;
  they are interpreted on the name part and the value part of the member loop and on the element
  loop.  \<open>safety\<close> (GatewayCorrect) packages initial states, steps and an invariant; it is
  interpreted on the gateway process from its start (\<open>gateway_process\<close>), from the moment the loop
  leaves a lost connection (\<open>resumed_process\<close>) and from the moment the token is rejected
  (\<open>dismissed_process\<close>).  The opcodes are an instance of the class \<open>enum\<close>.

  \<^bold>\<open>Effects.\<close>  Functions with effects return the list of what they did and their result.  The
  network (what the chunks of an answer are), the files on the disk, what can be opened for
  writing, the time and the random digits are parameters.  For the gateway, what
  \<open>lws_service\<close> delivers is chosen by the step.  A thread's body is one step: interleavings
  between the bodies of threads and turns of the loop are covered, races inside of a body are
  not.  For the handlers of events this loses no outcome of the loop beside them
  (\<open>handler_commutes_with_the_loop\<close>): they write a single member that no callback reads.  The
  endless heartbeat loop is one turn per step.  \<open>first_run\<close> and \<open>main\<close> return the disk as they
  leave it, also when the program ends early.

  \<^bold>\<open>Recursion and bounds.\<close>  There is no fuel: \<open>parse\<close> and the loops of the obfuscator terminate
  by the length of the text, the functions on trees and values by their size.  Characters are
  bytes, \<open>char\<close> is signed where the source compares it, arithmetic that could leave \<open>int\<close> or
  \<open>long long\<close> is an error of \<open>std::stoi\<close> or \<open>std::stoll\<close> at the point where the number is read.

  \<^bold>\<open>What the properties show.\<close>  Every interaction is answered exactly once, with one named
  exception, also when it arrives in chunks on the wire; each generator command fetches, writes,
  sends and deletes exactly what its options ask for, though the receiver sees an archive under the
  name of the temporary file; the first start ends in a connection with the
  token it was given; a resuming frame needs a session, and a lost session is taken up again;
  heartbeats carry the last event and their loops accumulate; a rejected token ends the client, which
  never connects again unless a hello is still to be handled; chunks are put together in order, and over several turns in time or torn
  by a timeout; handlers commute with the loop and may overtake each other; \<open>parse\<close> is correct
  on the part of the JSON grammar that \<open>core\<close> and \<open>clean\<close> describe, total and sound on all texts, and inverts
  \<open>get_repr\<close>; the generators produce exactly their templates for all arguments; \<open>minify\<close> keeps
  the document; archives, identifiers and page names have the stated form; the test
  program prints what the templates say, or ends early where its author's file is missing.  The properties about
  deviations state precisely what the code does where it is not what it means to do.

  \<^bold>\<open>The part of JSON that is read correctly.\<close>  Excluded from \<open>core\<close> are white space between the
  brackets of an empty array, which \<open>parse\<close> reads as an array of one element, and escapes \<open>\uXXXX\<close>,
  which it does not decode; from \<open>clean\<close> are brackets inside of strings, commas inside of strings in
  arrays, empty objects, repeated names, and numbers outside of the ranges of \<open>long long\<close> and
  \<open>double\<close>.  A \<open>double\<close> is printed with six digits and read back as the same number only when
  these determine it (\<open>six_digits_suffice\<close>).

  \<^bold>\<open>Simplifications.\<close>  The library is taken to call back with the gateway as user data, so that the
  null pointer \<open>say_hello\<close> would fail on does not occur in \<open>run_callbacks\<close>.  A write records whether
  the connection it is given is set (the flag of \<open>LwsWrite\<close>); what the library does without one is
  not modelled.

  \<^bold>\<open>Not modelled.\<close>  Console output and log lines of the bot; the insides of curl, libwebsockets and the zip
  library, and everything else that is vendored; the function
  \<open>fetch_gw_addr\<close>, which is declared but not defined.
\<close>

section \<open>From the wire to the answer\<close>

lemma handler_of_interaction:
  assumes "same_members w v" "val_int (member ''op'' v) = Some 0"
    and "text_of ''t'' v = ''INTERACTION_CREATE''" "val_int (member ''s'' v) = Some s"
    and "respond_interaction env (http_handler g) (member ''d'' v) = (acts, r)"
  shows "determine_what_to_do env w g = (Received 0 # List.map Rest acts,
     (case r of Inl e \<Rightarrow> Inl e | Inr _ \<Rightarrow> Inr (g\<lparr>event_order := s\<rparr>)))"
proof -
  have "is_event w"
    unfolding same_members_event(1) [OF assms(1)] using assms(2,3) by (simp add: is_event_def)
  then show ?thesis
    using assms(3-5) unfolding handle_event [OF \<open>is_event w\<close>] same_members_event(2,3) [OF assms(1)]
    by (simp add: event_requests_def split: sum.split)
qed

text \<open>C1: From the wire to the answer: an interaction that the server sends on an idle connection, in full
  chunks of 4096 bytes, none or more, and a last one of another length, is handled in two steps of the
  program: the callback puts its text together and a handler starts, and the handler performs exactly
  the requests of \<open>respond_interaction\<close> on its data.  When that returns, the interaction has been
  answered once at its own callback address, except that a \<open>manifest\<close> command without a known
  subcommand is not answered at all; the connection is idle again, no thread remains, and the number of
  the event is remembered; an exception ends the program.  No chunk may hold a NUL byte, and each must
  pass the parser by itself without an exception and with an opcode other than 7 and 9
  (\<open>plain_chunk\<close>); a last chunk of 4096 bytes waits for the timeout (\<open>chunks_reassembled\<close>).\<close>

theorem interaction_from_wire_to_answer:
  assumes "gw_reachable env g0 p" "idle_connection p" "in_chunks chunks c"
    and "parse (concat chunks @ c) = Inr v" "val_int (member ''op'' v) = Some 0"
    and "text_of ''t'' v = ''INTERACTION_CREATE''" "val_int (member ''s'' v) = Some s"
    and "respond_interaction env (http_handler (instance_of p)) (member ''d'' v) = (acts, r)"
  shows "\<exists>p1 p2. p1 = service_step (List.map chunk_call chunks @ [chunk_call c]) p \<and>
    p2 = thread_step env (length (threads p)) p1 \<and> gw_reachable env g0 p2 \<and>
    history p2 = history p @ Received 0 # List.map Rest acts \<and>
    (case r of
       Inl e \<Rightarrow> loop_phase p2 = Crashed e
     | Inr _ \<Rightarrow> idle_connection p2 \<and> threads p2 = threads p \<and> event_order (instance_of p2) = s \<and>
         (if val_int (member ''type'' (member ''d'' v)) = Some 2 \<and> silent_command (member ''d'' v) then acts = []
          else delivery (callback_link (member ''d'' v)) acts \<or>
            (\<exists>g h text. list_all is_get g \<and>
               acts = g @ [HttpPost (c_str (callback_link (member ''d'' v))) h text])))"
proof -
  let ?p1 = "service_step (List.map chunk_call chunks @ [chunk_call c]) p" and ?n = "length (threads p)"
  let ?p2 = "thread_step env ?n ?p1"
  obtain w where w: "same_members w v" and p1: "idle_connection ?p1" "threads ?p1 = threads p @ [Handler w]"
    "history ?p1 = history p" "http_handler (instance_of ?p1) = http_handler (instance_of p)"
    using message_delivered [OF assms(2-4)] by (auto simp: Let_def)
  have run: "run_thread env (threads ?p1 ! ?n) (instance_of ?p1) = (Received 0 # List.map Rest acts,
      (case r of Inl e \<Rightarrow> Inl e | Inr _ \<Rightarrow> Inr ((instance_of ?p1)\<lparr>event_order := s\<rparr>)))"
    using handler_of_interaction [OF w assms(5-7), of env "instance_of ?p1" acts r] assms(8) p1(4)
    by (simp add: run_thread_def p1(2))
  have "gw_step env p ?p1"
    using assms(2) by (intro gw_step.service) (simp_all add: idle_connection_def)
  moreover have "gw_step env ?p1 ?p2"
    using p1(1,2) by (intro gw_step.thread) (simp_all add: idle_connection_def running_def)
  ultimately have "gw_reachable env g0 ?p2" using assms(1) by (blast intro: gw_reachable.step)
  moreover have "heartbeat_starts (Received 0 # List.map Rest acts) = 0"
    by (simp add: heartbeat_starts_def o_def)
  ultimately show ?thesis
    using run p1 respond_interaction_answers
      [where env = env and api = "http_handler (instance_of p)" and payload = "member ''d'' v"] assms(8)
    by (cases r) (simp_all add: thread_step_def finish_step_def Let_def idle_connection_def collects_def)
qed

text \<open>A ping that arrives on a connection that has just been opened.\<close>

lemma ping_text:
  "parse (repr (ping_event 7)) = Inr (received (ping_event 7))" "CHR 0x00 \<notin> set (repr (ping_event 7))"
  "length (repr (ping_event 7)) \<noteq> 4096"
proof -
  have "plain_text ''op''" "plain_text ''t''" "plain_text ''s''" "plain_text ''d''" "plain_text ''type''"
    "plain_text ''id''" "plain_text ''token''" "plain_text ''5''" "plain_text ''x''"
    "plain_text ''INTERACTION_CREATE''"
    unfolding plain_text_def by code_simp+
  then have "portable (ping_event 7)"
    by (simp add: ping_event_def portable_object obj_keys_simps portable_def readback_jv int32_def)
  then show "parse (repr (ping_event 7)) = Inr (received (ping_event 7))" by (rule portable_text(3))
  show "CHR 0x00 \<notin> set (repr (ping_event 7))" "length (repr (ping_event 7)) \<noteq> 4096"
    by (simp_all add: ping_event_def jv_defs repr_eval)
qed

theorem interaction_from_wire_to_answer_witness:
  "\<exists>p2. gw_reachable sample_env booted p2 \<and> event_order (instance_of p2) = 7 \<and>
     (\<exists>h text. history p2 = [LwsConnect (cc_info booted), Received 0,
        Rest (HttpPost ''https://discord.com/api/v10/interactions/5/x/callback'' h text)])"
proof -
  let ?p = "connect_step True (started booted)" and ?v = "received (ping_event 7)"
  have reach: "gw_reachable sample_env booted ?p"
    by (rule gw_reachable.step [OF gw_reachable.start]) (simp add: gw_step.connect started_def)
  have idle: "idle_connection ?p"
    by (simp add: idle_connection_def connect_step_def started_def booted_def Let_def collects_def no_response_def)
  have d: "member ''d'' ?v = received (jv_object [(''type'', jv_int 1), (''id'', jv_string ''5''),
      (''token'', jv_string ''x'')])" "val_int (member ''op'' ?v) = Some 0"
    "text_of ''t'' ?v = ''INTERACTION_CREATE''" "val_int (member ''s'' ?v) = Some 7"
    by (simp_all add: ping_event_def received_def member_def text_of_def int32_def)
  have chunks: "in_chunks [] (repr (ping_event 7))"
    using ping_text d(2) by (simp add: in_chunks_def plain_chunk_def)
  have "val_int (member ''type'' (member ''d'' ?v)) = Some 1" "text_of ''id'' (member ''d'' ?v) = ''5''"
    "text_of ''token'' (member ''d'' ?v) = ''x''"
    unfolding d(1) by (simp_all add: received_def member_def text_of_def int32_def)
  moreover have "get_repr (jv_object []) = Inr (repr (jv_object []))"
    by (rule sound_get_repr) (simp add: obj_keys_simps)
  moreover have "c_str ''https://discord.com/api/v10/interactions/5/x/callback'' =
      ''https://discord.com/api/v10/interactions/5/x/callback''" by (simp add: c_str_def)
  ultimately obtain h doc where r: "respond_interaction sample_env (http_handler (instance_of ?p)) (member ''d'' ?v) =
      ([HttpPost ''https://discord.com/api/v10/interactions/5/x/callback'' h doc], Inr ())"
    by (simp add: respond_interaction_def post_json_def emit_def effect_simps)
  have parsed: "parse (concat [] @ repr (ping_event 7)) = Inr ?v" using ping_text(1) by simp
  from interaction_from_wire_to_answer [OF reach idle chunks parsed d(2-4) r] show ?thesis
    by (auto simp: connect_step_def started_def booted_def Let_def)
qed

end
